(* ===== verification/Prelude.thy ===== *)
theory Prelude
  imports Main "HOL-Library.Word" "HOL-Library.Finite_Map" "HOL-Library.List_Lexorder"
    "HOL-Library.Char_ord"
begin

text \<open>
  Shared vocabulary of the development: machine integers with Rust's saturating operations, the
  result type, hash maps, and the slices of the Rust standard library's string interface the crate
  uses (\<open>split_once\<close>, \<open>strip_prefix\<close>, \<open>split\<close>). A Rust \<open>String\<close> is the list of its UTF-8
  bytes, one \<^typ>\<open>char\<close> per byte, so \<^const>\<open>length\<close> is \<open>str::len\<close>.

  Collections: \<open>sat_arith\<close> holds the readings of the saturating word operations as \<^typ>\<open>nat\<close>
  arithmetic, \<open>hm_simps\<close> the laws of the hash map, \<open>str_simps\<close> those of the string slices.
\<close>

named_theorems sat_arith
named_theorems hm_simps
named_theorems str_simps

section \<open>Machine integers\<close>

type_synonym u8 = "8 word"
type_synonym u16 = "16 word"
type_synonym u32 = "32 word"
type_synonym u64 = "64 word"
type_synonym u128 = "128 word"

text \<open>\<open>T::MAX\<close>, and the saturating operations of the unsigned types.\<close>

definition umax :: "'a::len word" where
  "umax = - 1"

definition saturating_sub :: "'a::len word \<Rightarrow> 'a word \<Rightarrow> 'a word" where
  "saturating_sub a b = (if a < b then 0 else a - b)"

definition saturating_add :: "'a::len word \<Rightarrow> 'a word \<Rightarrow> 'a word" where
  "saturating_add a b = (if unat a + unat b < 2 ^ LENGTH('a) then a + b else umax)"

definition saturating_mul :: "'a::len word \<Rightarrow> 'a word \<Rightarrow> 'a word" where
  "saturating_mul a b = (if unat a * unat b < 2 ^ LENGTH('a) then a * b else umax)"

lemma unat_saturating_sub [sat_arith]: "unat (saturating_sub a b) = unat a - unat b"
  by (auto simp: saturating_sub_def word_less_nat_alt unat_sub word_le_nat_alt)

lemma unat_saturating_add [sat_arith]:
  "unat a + unat b < 2 ^ LENGTH('a) \<Longrightarrow> unat (saturating_add a (b :: 'a::len word)) = unat a + unat b"
  by (simp add: saturating_add_def unat_word_ariths)

lemma unat_saturating_mul [sat_arith]:
  "unat a * unat b < 2 ^ LENGTH('a) \<Longrightarrow> unat (saturating_mul a (b :: 'a::len word)) = unat a * unat b"
  by (simp add: saturating_mul_def unat_word_ariths)

lemma unat_u64_bound: "unat (x :: u64) \<le> 2 ^ 64 - 1"
  using unsigned_less [of x, where ?'a = nat] by simp

lemma unat_widen_u128 [sat_arith]: "unat (ucast (x :: u64) :: u128) = unat x"
proof -
  have "unat x < 2 ^ 128"
    using unat_u64_bound [of x] by simp
  then show ?thesis
    by (simp add: unsigned_ucast_eq take_bit_nat_eq_self)
qed

lemma unat_narrow_u64 [sat_arith]:
  "unat (x :: u128) < 2 ^ 64 \<Longrightarrow> unat (ucast x :: u64) = unat x"
  by (simp add: unsigned_ucast_eq take_bit_nat_eq_self)

lemma unat_min [sat_arith]: "unat (min a b) = min (unat a) (unat (b :: 'a::len word))"
  by (simp add: min_def word_le_nat_alt)

section \<open>Results\<close>

text \<open>\<open>Result<T, E>\<close> is \<open>'e + 't\<close>: \<open>Inl\<close> is \<open>Err\<close>, \<open>Inr\<close> is \<open>Ok\<close>.\<close>

type_synonym ('t, 'e) result = "'e + 't"

definition is_ok :: "('t, 'e) result \<Rightarrow> bool" where
  "is_ok r = (case r of Inl _ \<Rightarrow> False | Inr _ \<Rightarrow> True)"

definition ok_or :: "'t option \<Rightarrow> 'e \<Rightarrow> ('t, 'e) result" where
  "ok_or x e = (case x of None \<Rightarrow> Inl e | Some t \<Rightarrow> Inr t)"

lemma is_ok_simps [simp]: "is_ok (Inr t)" "\<not> is_ok (Inl e)"
  by (simp_all add: is_ok_def)

lemma is_ok_iff: "is_ok r \<longleftrightarrow> (\<exists>t. r = Inr t)"
  by (auto simp: is_ok_def split: sum.splits)

lemma ok_or_simps [simp]: "ok_or None e = Inl e" "ok_or (Some t) e = Inr t"
  by (simp_all add: ok_or_def)

lemma ok_or_eq_Inr [simp]: "ok_or x e = Inr t \<longleftrightarrow> x = Some t"
  by (cases x) simp_all

lemma ok_or_eq_Inl [simp]: "ok_or x e = Inl e' \<longleftrightarrow> x = None \<and> e' = e"
  by (cases x) auto

text \<open>A chain of tests that returns a value with a given image, one test at a time.\<close>

lemma if_chain: "(c \<Longrightarrow> f a = s) \<Longrightarrow> f b = s \<Longrightarrow> f (if c then a else b) = s"
  by simp

section \<open>Hash maps\<close>

text \<open>
  \<open>std::collections::HashMap\<close> is a finite map. Its iteration order is unspecified: code that
  iterates takes an enumeration \<open>ord\<close> of the keys, about which only \<open>key_order\<close> is assumed.
\<close>

type_synonym ('k, 'v) hashmap = "('k, 'v) fmap"

definition key_order :: "(('k, 'v) hashmap \<Rightarrow> 'k list) \<Rightarrow> bool" where
  "key_order ord \<longleftrightarrow> (\<forall>m. distinct (ord m) \<and> set (ord m) = fset (fmdom m))"

text \<open>One such enumeration, to show that the assumption can hold.\<close>

definition sorted_keys :: "('k::linorder, 'v) hashmap \<Rightarrow> 'k list" where
  "sorted_keys m = sorted_list_of_fset (fmdom m)"

text \<open>\<open>m.entry(k).or_insert_with(|| d)\<close>: the map afterwards, and the entry's value.\<close>

definition entry_or_insert :: "'k \<Rightarrow> 'v \<Rightarrow> ('k, 'v) hashmap \<Rightarrow> ('k, 'v) hashmap \<times> 'v" where
  "entry_or_insert k d m =
     (case fmlookup m k of Some v \<Rightarrow> (m, v) | None \<Rightarrow> (fmupd k d m, d))"

lemma key_order_sorted_keys: "key_order sorted_keys"
  by (simp add: key_order_def sorted_keys_def sorted_list_of_fset.rep_eq)

lemma key_order_set [hm_simps]: "key_order ord \<Longrightarrow> set (ord m) = fset (fmdom m)"
  by (simp add: key_order_def)

lemma key_order_distinct [hm_simps]: "key_order ord \<Longrightarrow> distinct (ord m)"
  by (simp add: key_order_def)

lemma entry_or_insert_value [hm_simps]:
  "snd (entry_or_insert k d m) = (case fmlookup m k of Some v \<Rightarrow> v | None \<Rightarrow> d)"
  by (simp add: entry_or_insert_def split: option.splits)

lemma entry_or_insert_lookup [hm_simps]:
  "fmlookup (fst (entry_or_insert k d m)) k' =
     (if k' = k then Some (case fmlookup m k of Some v \<Rightarrow> v | None \<Rightarrow> d) else fmlookup m k')"
  by (auto simp: entry_or_insert_def split: option.splits)

section \<open>String slices\<close>

text \<open>\<open>s.split_once(c)\<close>: around the first occurrence of the delimiter.\<close>

fun split_once :: "char \<Rightarrow> string \<Rightarrow> (string \<times> string) option" where
  "split_once c [] = None"
| "split_once c (x # xs) =
     (if x = c then Some ([], xs)
      else map_option (\<lambda>(a, b). (x # a, b)) (split_once c xs))"

text \<open>\<open>s.split(c)\<close>: one piece more than there are delimiters.\<close>

fun split_on :: "char \<Rightarrow> string \<Rightarrow> string list" where
  "split_on c [] = [[]]"
| "split_on c (x # xs) =
     (if x = c then [] # split_on c xs
      else (case split_on c xs of [] \<Rightarrow> [[x]] | p # ps \<Rightarrow> (x # p) # ps))"

fun strip_prefix :: "string \<Rightarrow> string \<Rightarrow> string option" where
  "strip_prefix [] s = Some s"
| "strip_prefix (p # ps) [] = None"
| "strip_prefix (p # ps) (x # xs) = (if x = p then strip_prefix ps xs else None)"

lemma split_once_append [str_simps]:
  "c \<notin> set a \<Longrightarrow> split_once c (a @ c # b) = Some (a, b)"
  by (induction a) auto

lemma split_once_none [str_simps]: "split_once c s = None \<longleftrightarrow> c \<notin> set s"
  by (induction s) auto

lemma split_once_Some:
  "split_once c s = Some (a, b) \<longleftrightarrow> s = a @ c # b \<and> c \<notin> set a"
proof (induction s arbitrary: a)
  case Nil
  then show ?case by simp
next
  case (Cons x xs)
  then show ?case by (cases a) auto
qed

lemma strip_prefix_append [str_simps]: "strip_prefix p (p @ s) = Some s"
  by (induction p) simp_all

lemma strip_prefix_Some: "strip_prefix p s = Some r \<longleftrightarrow> s = p @ r"
  by (induction p s rule: strip_prefix.induct) auto

lemma split_on_nonempty [simp]: "split_on c s \<noteq> []"
  by (cases s) (auto split: list.splits)

lemma split_on_no_sep [str_simps]: "c \<notin> set s \<Longrightarrow> split_on c s = [s]"
  by (induction s) auto

lemma split_on_append [str_simps]:
  "c \<notin> set a \<Longrightarrow> split_on c (a @ c # b) = a # split_on c b"
  by (induction a) auto

section \<open>Runs\<close>

text \<open>
  A store is driven by inputs one at a time. What every single input keeps, every run keeps; what
  every input can only move up in an order, every run only moves up.
\<close>

locale input_store =
  fixes step :: "'i \<Rightarrow> 's \<Rightarrow> 's"
    and inv :: "'s \<Rightarrow> bool"
  assumes step_inv: "inv s \<Longrightarrow> inv (step i s)"
begin

lemma run_inv: "inv s \<Longrightarrow> inv (fold step is s)"
  by (induction "is" arbitrary: s) (simp_all add: step_inv)

lemma run_keeps:
  assumes "\<And>i s. inv s \<Longrightarrow> f (step i s) = f s" "inv s"
  shows "f (fold step is s) = f s"
  using assms(2) by (induction "is" arbitrary: s) (simp_all add: assms(1) step_inv)

end

end
