(* ===== verification/Limit.thy ===== *)
theory Limit
  imports Prelude
begin

text \<open>
  \<^verbatim>\<open>src/limit.rs\<close>: the refill rule and the bucket it governs, at the widths the code uses (\<open>u64\<close>
  fields, the refill computed in \<open>u128\<close>). A bucket operation that mutates returns the bucket
  afterwards next to its result. The interface a client of the bucket relies on is the locale
  \<open>token_bucket\<close>, interpreted here on \<open>withdraw\<close>; its one client theorem bounds what any sequence
  of withdrawals can take.
\<close>

section \<open>Rules\<close>

record RateLimitRule =
  amount :: u64
  per_secs :: u64
  max_capacity :: u64

definition one :: u64 where
  "one = 1"

definition u64_max :: u64 where
  "u64_max = umax"

definition default_rule :: RateLimitRule where
  "default_rule = \<lparr>amount = 0, per_secs = 1, max_capacity = umax\<rparr>"

definition rule_is_valid :: "RateLimitRule \<Rightarrow> bool" where
  "rule_is_valid rule \<longleftrightarrow> per_secs rule > 0"

section \<open>Buckets\<close>

record Bucket =
  balance :: u64
  since :: u64

definition full :: "RateLimitRule \<Rightarrow> u64 \<Rightarrow> Bucket" where
  "full rule now = \<lparr>balance = max_capacity rule, since = now\<rparr>"

text \<open>\<open>saturating_div\<close> of unsigned operands is plain division; its divisor is not zero here, because
  an invalid rule has returned already.\<close>

definition balance_at :: "Bucket \<Rightarrow> u64 \<Rightarrow> RateLimitRule \<Rightarrow> u64" where
  "balance_at b now rule =
     (if \<not> rule_is_valid rule then 0
      else
        let elapsed = (ucast (saturating_sub now (since b)) :: u128);
            added = saturating_mul (ucast (amount rule)) elapsed div ucast (per_secs rule);
            filled = saturating_add (ucast (balance b)) added
        in ucast (min filled (ucast (max_capacity rule))))"

definition can_withdraw :: "Bucket \<Rightarrow> u64 \<Rightarrow> u64 \<Rightarrow> RateLimitRule \<Rightarrow> bool" where
  "can_withdraw b cost now rule \<longleftrightarrow> balance_at b now rule \<ge> cost"

definition withdraw :: "Bucket \<Rightarrow> u64 \<Rightarrow> u64 \<Rightarrow> RateLimitRule \<Rightarrow> Bucket \<times> bool" where
  "withdraw b cost now rule =
     (let available = balance_at b now rule
      in if available < cost then (b, False)
         else (b\<lparr>balance := available - cost, since := now\<rparr>, True))"

section \<open>The refill as plain arithmetic\<close>

lemma u128_refill_bound:
  assumes "a \<le> 2 ^ 64 - 1" "e \<le> 2 ^ 64 - 1"
  shows "a * e < (2 ^ 128 :: nat)"
proof -
  have "a * e \<le> (2 ^ 64 - 1) * (2 ^ 64 - 1)"
    using assms by (rule mult_le_mono)
  then show ?thesis by simp
qed

lemma unat_refill_product:
  "unat (saturating_mul (ucast (a :: u64)) (ucast (e :: u64)) :: u128) = unat a * unat e"
  using u128_refill_bound [OF unat_u64_bound unat_u64_bound, of a e]
  by (simp add: sat_arith)

lemma refill_sum_fits: "unat (b :: u64) + unat (a :: u64) * unat (e :: u64) div p < 2 ^ 128"
proof -
  have "unat a * unat e div p \<le> unat a * unat e" by simp
  also have "\<dots> \<le> (2 ^ 64 - 1) * (2 ^ 64 - 1)"
    using unat_u64_bound unat_u64_bound by (rule mult_le_mono)
  finally show ?thesis
    using unat_u64_bound [of b] by simp
qed

lemma rule_valid_nat: "rule_is_valid rule \<longleftrightarrow> unat (per_secs rule) > 0"
  by (simp add: rule_is_valid_def word_less_nat_alt)

lemma unat_balance_at:
  "unat (balance_at b now rule) =
     (if unat (per_secs rule) = 0 then 0
      else min (unat (balance b) +
                  unat (amount rule) * (unat now - unat (since b)) div unat (per_secs rule))
               (unat (max_capacity rule)))"
proof (cases "unat (per_secs rule) = 0")
  case True
  then show ?thesis by (simp add: balance_at_def rule_valid_nat)
next
  case False
  let ?added = "saturating_mul (ucast (amount rule)) (ucast (saturating_sub now (since b))) div
    ucast (per_secs rule) :: u128"
  have added: "unat ?added =
      unat (amount rule) * (unat now - unat (since b)) div unat (per_secs rule)"
    by (simp add: unat_div unat_refill_product sat_arith)
  have "unat (balance b) + unat ?added < 2 ^ 128"
    using refill_sum_fits [of "balance b" "amount rule" "saturating_sub now (since b)"]
    by (simp add: added sat_arith)
  then have filled: "unat (saturating_add (ucast (balance b)) ?added) =
      unat (balance b) + unat ?added"
    by (simp add: sat_arith)
  have "min (unat (saturating_add (ucast (balance b)) ?added)) (unat (max_capacity rule)) < 2 ^ 64"
    using unat_u64_bound [of "max_capacity rule"] by (simp add: min_def)
  then show ?thesis
    using False by (simp add: balance_at_def rule_valid_nat Let_def filled added sat_arith)
qed

lemma balance_at_le_capacity: "unat (balance_at b now rule) \<le> unat (max_capacity rule)"
  by (simp add: unat_balance_at)

lemma balance_at_le_refill:
  "unat (balance_at b now rule) \<le> unat (balance b) +
     unat (amount rule) * (unat now - unat (since b)) div unat (per_secs rule)"
  by (simp add: unat_balance_at)

lemma balance_at_full:
  "rule_is_valid rule \<Longrightarrow> balance_at (full rule t) now rule = max_capacity rule"
  by (rule word_unat_eq_iff [THEN iffD2]) (simp add: unat_balance_at rule_valid_nat full_def)

lemma balance_at_mono:
  assumes "t \<le> t'"
  shows "balance_at b t rule \<le> balance_at b t' rule"
proof -
  have "unat (amount rule) * (unat t - unat (since b)) div unat (per_secs rule)
      \<le> unat (amount rule) * (unat t' - unat (since b)) div unat (per_secs rule)"
    using assms by (intro div_le_mono mult_le_mono) (simp_all add: word_le_nat_alt)
  then show ?thesis
    by (auto simp: word_le_nat_alt unat_balance_at min_def)
qed

section \<open>Withdrawing\<close>

lemma withdraw_cases:
  obtains (refused) "balance_at b now rule < cost" "withdraw b cost now rule = (b, False)"
  | (taken) "cost \<le> balance_at b now rule"
      "withdraw b cost now rule = (\<lparr>balance = balance_at b now rule - cost, since = now\<rparr>, True)"
  by (cases "balance_at b now rule < cost") (simp_all add: withdraw_def Let_def not_less)

lemma snd_withdraw: "snd (withdraw b cost now rule) = can_withdraw b cost now rule"
  by (cases rule: withdraw_cases [of b now rule cost]) (auto simp: can_withdraw_def)

lemma balance_at_after_withdraw:
  assumes "can_withdraw b cost now rule"
  shows "balance_at (fst (withdraw b cost now rule)) now rule = balance_at b now rule - cost"
proof (cases "unat (per_secs rule) = 0")
  case True
  then have "balance_at b now rule = 0" for b
    by (simp add: balance_at_def rule_valid_nat)
  with assms show ?thesis
    by (simp add: can_withdraw_def)
next
  case False
  from assms have le: "cost \<le> balance_at b now rule"
    by (simp add: can_withdraw_def)
  then have "unat (balance_at b now rule - cost) \<le> unat (max_capacity rule)"
    using balance_at_le_capacity [of b now rule] by (simp add: unat_sub word_le_nat_alt)
  with False le show ?thesis
    by (intro word_unat_eq_iff [THEN iffD2])
      (simp add: withdraw_def Let_def not_less [symmetric]
        unat_balance_at [of "b\<lparr>balance := _, since := _\<rparr>"])
qed

section \<open>The interface: what a sequence of withdrawals can take\<close>

text \<open>A client drains a bucket: withdrawals attempted in order, each a cost and a time. The total
  counts the ones that were granted.\<close>

fun drain :: "('b \<Rightarrow> u64 \<Rightarrow> u64 \<Rightarrow> 'b \<times> bool) \<Rightarrow> 'b \<Rightarrow> (u64 \<times> u64) list \<Rightarrow> 'b \<times> nat" where
  "drain draw b [] = (b, 0)"
| "drain draw b ((cost, now) # rest) =
     (let (b', granted) = draw b cost now;
          (b'', got) = drain draw b' rest
      in (b'', (if granted then unat cost else 0) + got))"

text \<open>The clock of a run never goes back.\<close>

fun clock_from :: "nat \<Rightarrow> (u64 \<times> u64) list \<Rightarrow> bool" where
  "clock_from t [] = True"
| "clock_from t ((_, now) # rest) = (t \<le> unat now \<and> clock_from (unat now) rest)"

fun last_time :: "nat \<Rightarrow> (u64 \<times> u64) list \<Rightarrow> nat" where
  "last_time t [] = t"
| "last_time t ((_, now) # rest) = last_time (unat now) rest"

lemma clock_from_last_time: "clock_from t ops \<Longrightarrow> t \<le> last_time t ops"
  by (induction t ops rule: clock_from.induct) auto

locale token_bucket =
  fixes draw :: "'b \<Rightarrow> u64 \<Rightarrow> u64 \<Rightarrow> 'b \<times> bool"
    and level :: "'b \<Rightarrow> nat"
    and stamp :: "'b \<Rightarrow> nat"
    and refill :: "nat \<Rightarrow> nat"
  assumes refill_add: "refill x + refill y \<le> refill (x + y)"
    and refused_keeps: "draw b cost now = (b', False) \<Longrightarrow> b' = b"
    and taken_level: "draw b cost now = (b', True) \<Longrightarrow> stamp b \<le> unat now \<Longrightarrow>
      level b' + unat cost \<le> level b + refill (unat now - stamp b)"
    and taken_stamp: "draw b cost now = (b', True) \<Longrightarrow> stamp b' = unat now"
begin

lemma drain_bound_from:
  "stamp b \<le> t \<Longrightarrow> clock_from t ops \<Longrightarrow> drain draw b ops = (b', got) \<Longrightarrow>
     level b' + got \<le> level b + refill (last_time t ops - stamp b)"
proof (induction ops arbitrary: b b' t got)
  case Nil
  then show ?case by simp
next
  case (Cons op rest)
  obtain cost now where op: "op = (cost, now)" by (cases op)
  obtain b1 granted where b1: "draw b cost now = (b1, granted)" by (cases "draw b cost now")
  obtain b2 got1 where b2: "drain draw b1 rest = (b2, got1)" by (cases "drain draw b1 rest")
  with Cons.prems(3) op b1
  have rest: "drain draw b1 rest = (b', got1)" and got: "got = (if granted then unat cost else 0) + got1"
    by simp_all
  from Cons.prems(2) op have now: "t \<le> unat now" "clock_from (unat now) rest" by auto
  show ?case
  proof (cases granted)
    case True
    with b1 have stamp: "stamp b1 = unat now" by (auto intro: taken_stamp)
    from True b1 Cons.prems(1) now(1)
    have taken: "level b1 + unat cost \<le> level b + refill (unat now - stamp b)"
      by (auto intro: taken_level)
    from Cons.IH [OF _ now(2) rest] stamp
    have "level b' + got1 \<le> level b1 + refill (last_time (unat now) rest - unat now)" by simp
    with taken got True
    have "level b' + got \<le> level b +
        (refill (unat now - stamp b) + refill (last_time (unat now) rest - unat now))" by simp
    also have "\<dots> \<le> level b + refill ((unat now - stamp b) + (last_time (unat now) rest - unat now))"
      by (rule add_left_mono) (rule refill_add)
    also have "(unat now - stamp b) + (last_time (unat now) rest - unat now) =
        last_time (unat now) rest - stamp b"
      using clock_from_last_time [OF now(2)] Cons.prems(1) now(1) by simp
    finally show ?thesis using op by simp
  next
    case False
    with b1 have same: "b1 = b" by (auto intro: refused_keeps)
    from Cons.prems(1) now(1) have "stamp b \<le> unat now" by simp
    from Cons.IH [OF this now(2)] rest same got False op show ?thesis by simp
  qed
qed

lemma drain_bound:
  assumes "clock_from (stamp b) ops"
  shows "snd (drain draw b ops) \<le> level b + refill (last_time (stamp b) ops - stamp b)"
  using drain_bound_from [OF order_refl assms, of "fst (drain draw b ops)" "snd (drain draw b ops)"]
  by simp

end

lemma div_add_le: "(a :: nat) div d + b div d \<le> (a + b) div d"
proof (cases "d = 0")
  case False
  have "a div d * d + b div d * d \<le> a + b"
    by (intro add_le_mono div_times_less_eq_dividend)
  then have "(a div d + b div d) * d \<le> a + b"
    by (simp add: algebra_simps)
  with False show ?thesis
    by (simp add: less_eq_div_iff_mult_less_eq)
qed simp

interpretation bucket: token_bucket
  "\<lambda>b cost now. withdraw b cost now rule"
  "\<lambda>b. unat (balance b)"
  "\<lambda>b. unat (since b)"
  "\<lambda>t. unat (amount rule) * t div unat (per_secs rule)"
  for rule
proof unfold_locales
  show "unat (amount rule) * a div unat (per_secs rule) + unat (amount rule) * b div unat (per_secs rule)
      \<le> unat (amount rule) * (a + b) div unat (per_secs rule)" for a b
    by (simp add: distrib_left div_add_le)
next
  show "withdraw b cost now rule = (b', False) \<Longrightarrow> b' = b" for b cost now b'
    by (cases rule: withdraw_cases [of b now rule cost]) auto
next
  fix b cost now b'
  assume "withdraw b cost now rule = (b', True)"
  then have "cost \<le> balance_at b now rule" "balance b' = balance_at b now rule - cost"
    by (cases rule: withdraw_cases [of b now rule cost]; auto)+
  then have "unat (balance b') + unat cost = unat (balance_at b now rule)"
    by (simp add: unat_sub word_le_nat_alt)
  then show "unat (balance b') + unat cost \<le> unat (balance b) +
      unat (amount rule) * (unat now - unat (since b)) div unat (per_secs rule)"
    using balance_at_le_refill [of b now rule] by simp
next
  show "withdraw b cost now rule = (b', True) \<Longrightarrow> unat (since b') = unat now" for b cost now b'
    by (cases rule: withdraw_cases [of b now rule cost]) auto
qed

section \<open>Properties\<close>

text \<open>C25: the bucket's balance is exactly \<open>min(balance + amount * elapsed / per_secs, max_capacity)\<close>
  over the natural numbers: no \<open>u128\<close> step saturates and the final cast to \<open>u64\<close> drops nothing. A
  clock that reads earlier than \<open>since\<close> counts as no time elapsed, and an invalid rule leaves nothing
  to spend.\<close>

theorem balance_at_exact:
  "int (unat (balance_at b now rule)) =
     (if per_secs rule = 0 then 0
      else min (uint (balance b) +
                  uint (amount rule) * max 0 (uint now - uint (since b)) div uint (per_secs rule))
               (uint (max_capacity rule)))"
proof -
  have "per_secs rule = 0 \<longleftrightarrow> unat (per_secs rule) = 0"
    by (simp add: word_unat_eq_iff)
  moreover have "int (unat now - unat (since b)) = max 0 (uint now - uint (since b))"
    unfolding uint_nat by linarith
  ultimately show ?thesis
    by (simp add: unat_balance_at zdiv_int of_nat_min)
qed

text \<open>A withdrawal is granted exactly when the bucket holds the cost now; a granted one takes
  exactly the cost and moves \<open>since\<close> to now, so the balance read at the same instant afterwards is the
  old one less the cost; a refused one changes nothing.\<close>

lemma withdraw_correct:
  "snd (withdraw b cost now rule) = can_withdraw b cost now rule \<and>
   (if can_withdraw b cost now rule
    then since (fst (withdraw b cost now rule)) = now \<and>
      balance_at (fst (withdraw b cost now rule)) now rule = balance_at b now rule - cost
    else fst (withdraw b cost now rule) = b)"
proof (cases "can_withdraw b cost now rule")
  case True
  then have "since (fst (withdraw b cost now rule)) = now"
    by (cases rule: withdraw_cases [of b now rule cost]) (auto simp: can_withdraw_def)
  with True show ?thesis
    by (simp add: snd_withdraw balance_at_after_withdraw)
next
  case False
  then show ?thesis
    by (cases rule: withdraw_cases [of b now rule cost]) (auto simp: can_withdraw_def)
qed

text \<open>While the clock does not go back, whatever sequence of withdrawals is attempted on a bucket
  that starts full, the total granted stays within the capacity plus what the rule adds over the whole
  interval: no interval is credited twice, and truncating each refill never adds up to more.\<close>

lemma bucket_spend_bound:
  assumes "clock_from (unat t0) ops"
  shows "snd (drain (\<lambda>b cost now. withdraw b cost now rule) (full rule t0) ops) \<le>
    unat (max_capacity rule) +
      unat (amount rule) * (last_time (unat t0) ops - unat t0) div unat (per_secs rule)"
  using bucket.drain_bound [of "full rule t0" ops rule] assms by (simp add: full_def)

text \<open>A refilling bucket never starves a caller: any cost the ceiling allows is available once the
  refill since the last withdrawal covers it.\<close>

lemma bucket_refills:
  assumes "rule_is_valid rule" "cost \<le> max_capacity rule"
    and "unat cost * unat (per_secs rule) \<le> unat (amount rule) * (unat now - unat (since b))"
  shows "can_withdraw b cost now rule"
proof -
  have "unat cost \<le> unat (amount rule) * (unat now - unat (since b)) div unat (per_secs rule)"
    using assms(1,3) by (simp add: rule_valid_nat less_eq_div_iff_mult_less_eq)
  then show ?thesis
    using assms(1,2) by (simp add: can_withdraw_def word_le_nat_alt unat_balance_at rule_valid_nat)
qed

text \<open>A wall clock that steps back and recovers credits the interval again: with \<open>since\<close> at 1000, a
  withdrawal at 900 moves it back to 900, and the full hundred seconds are paid out once more at 1000.
  One token and the refill of a single instant should cover 1; 101 are granted.\<close>

lemma clock_step_back_recredits:
  "snd (drain (\<lambda>b cost now. withdraw b cost now \<lparr>amount = 1, per_secs = 1, max_capacity = 100\<rparr>)
     \<lparr>balance = 1, since = 1000\<rparr> [(1, 900), (100, 1000)]) = 101"
  by (simp add: withdraw_def balance_at_def rule_is_valid_def saturating_sub_def saturating_mul_def
    saturating_add_def Let_def word_less_nat_alt min_def word_le_nat_alt)

end
