(* ===== verification/Json.thy ===== *)
theory Json
  imports Prelude "HOL-Library.Monad_Syntax" "HOL-Library.AList" "HOL-Library.Log_Nat"
begin

text \<open>
  \<open>serde_json::Value\<close> and the behaviour of \<open>serde\<close>'s derived implementations the crate relies on,
  read off \<^verbatim>\<open>vendor/serde_json/src/value/de.rs\<close> and \<^verbatim>\<open>vendor/serde_derive/src/de\<close>. Decoding is a
  partial function (\<^const>\<open>None\<close> is any \<open>serde_json::Error\<close>; its wording is not modelled), encoding a
  total one. An object is the list of its entries: the text of an event may repeat a key, which the
  derived struct visitors refuse and the map visitors resolve to the last occurrence. The order of
  entries carries no meaning anywhere in the crate.

  This is the level of trees. The map from a JSON text to its tree and back is a parameter of the definitions that
  use it, and \<open>JsonText\<close> models it.
\<close>

named_theorems codec_simps

section \<open>Values\<close>

text \<open>\<open>serde_json::Number\<close>: a \<open>u64\<close>, a negative \<open>i64\<close> or an \<open>f64\<close>, the last two by their bits.\<close>

datatype json_number = PosInt u64 | NegInt "64 word" | Float "64 word"

datatype Value =
    JNull
  | JBool bool
  | JNum json_number
  | JStr string
  | JArr "Value list"
  | JObj "(string \<times> Value) list"

text \<open>Collecting entries into a \<open>serde_json::Map\<close>: a repeated key keeps its last value.\<close>

definition obj_of :: "(string \<times> Value) list \<Rightarrow> (string \<times> Value) list" where
  "obj_of kvs = foldl (\<lambda>m (k, v). AList.update k v m) [] kvs"

fun norm_value :: "Value \<Rightarrow> Value" where
  "norm_value (JArr vs) = JArr (map norm_value vs)"
| "norm_value (JObj kvs) = JObj (obj_of (map (\<lambda>(k, v). (k, norm_value v)) kvs))"
| "norm_value v = v"

text \<open>What every \<open>Value\<close> satisfies: no object repeats a key.\<close>

fun value_wf :: "Value \<Rightarrow> bool" where
  "value_wf (JArr vs) = list_all value_wf vs"
| "value_wf (JObj kvs) = (distinct (map fst kvs) \<and> list_all (\<lambda>(k, v). value_wf v) kvs)"
| "value_wf v = True"

lemma obj_of_snoc: "obj_of (kvs @ [(k, v)]) = AList.update k v (obj_of kvs)"
  by (simp add: obj_of_def)

lemma distinct_obj_of [simp]: "distinct (map fst (obj_of kvs))"
  by (induction kvs rule: rev_induct)
    (auto simp: obj_of_snoc distinct_update, simp add: obj_of_def)

lemma map_of_obj_of: "map_of (obj_of kvs) = map_of (rev kvs)"
  by (induction kvs rule: rev_induct)
    (auto simp: obj_of_snoc update_conv, simp add: obj_of_def)

lemma update_fresh: "k \<notin> set (map fst m) \<Longrightarrow> AList.update k v m = m @ [(k, v)]"
  by (induction m) auto

lemma obj_of_distinct: "distinct (map fst kvs) \<Longrightarrow> obj_of kvs = kvs"
proof (induction kvs rule: rev_induct)
  case Nil
  then show ?case by (simp add: obj_of_def)
next
  case (snoc kv kvs)
  obtain k v where "kv = (k, v)" by (cases kv)
  with snoc show ?case by (simp add: obj_of_snoc update_fresh)
qed

lemma set_alist_update: "set (AList.update k v m) \<subseteq> insert (k, v) (set m)"
  by (induction m) auto

lemma set_obj_of: "set (obj_of kvs) \<subseteq> set kvs"
proof (induction kvs rule: rev_induct)
  case Nil
  then show ?case by (simp add: obj_of_def)
next
  case (snoc kv kvs)
  obtain k v where "kv = (k, v)" by (cases kv)
  then show ?case
    using snoc set_alist_update [of k v "obj_of kvs"] by (auto simp: obj_of_snoc)
qed

lemma value_wf_norm_value: "value_wf (norm_value v)"
proof (induction v)
  case (JObj kvs)
  have "(k, v) \<in> set (obj_of (map (\<lambda>(k, v). (k, norm_value v)) kvs)) \<Longrightarrow> value_wf v" for k v
    using subsetD [OF set_obj_of] JObj by fastforce
  then show ?case by (auto simp: list_all_iff)
qed (auto simp: list_all_iff)

lemma norm_value_wf: "value_wf v \<Longrightarrow> norm_value v = v"
proof (induction v)
  case (JObj kvs)
  then have "map (\<lambda>(k, v). (k, norm_value v)) kvs = kvs"
    by (intro map_idI) (auto simp: list_all_iff)
  with JObj.prems show ?case by (simp add: obj_of_distinct)
qed (auto simp: list_all_iff intro: map_idI)

section \<open>Scalars and containers\<close>

definition de_string :: "Value \<Rightarrow> string option" where
  "de_string v = (case v of JStr s \<Rightarrow> Some s | _ \<Rightarrow> None)"

definition de_bool :: "Value \<Rightarrow> bool option" where
  "de_bool v = (case v of JBool b \<Rightarrow> Some b | _ \<Rightarrow> None)"

definition de_u64 :: "Value \<Rightarrow> u64 option" where
  "de_u64 v = (case v of JNum (PosInt n) \<Rightarrow> Some n | _ \<Rightarrow> None)"

definition de_u32 :: "Value \<Rightarrow> u32 option" where
  "de_u32 v =
     (case v of JNum (PosInt n) \<Rightarrow> if unat n < 2 ^ 32 then Some (ucast n) else None | _ \<Rightarrow> None)"

definition de_value :: "Value \<Rightarrow> Value option" where
  "de_value v = Some (norm_value v)"

definition de_vec :: "(Value \<Rightarrow> 'a option) \<Rightarrow> Value \<Rightarrow> 'a list option" where
  "de_vec d v = (case v of JArr vs \<Rightarrow> those (map d vs) | _ \<Rightarrow> None)"

text \<open>A \<open>HashMap<String, T>\<close>; entries are inserted in order, so the last of a repeated key stays.\<close>

definition de_hashmap :: "(Value \<Rightarrow> 'a option) \<Rightarrow> Value \<Rightarrow> (string, 'a) hashmap option" where
  "de_hashmap d v =
     (case v of
        JObj kvs \<Rightarrow>
          map_option (\<lambda>es. fmap_of_list (rev es))
            (those (map (\<lambda>(k, x). map_option (Pair k) (d x)) kvs))
      | _ \<Rightarrow> None)"

definition en_u64 :: "u64 \<Rightarrow> Value" where
  "en_u64 n = JNum (PosInt n)"

definition en_u32 :: "u32 \<Rightarrow> Value" where
  "en_u32 n = JNum (PosInt (ucast n))"

text \<open>
  An \<open>f64\<close> by its bits. Reading an integer converts it, rounding to nearest with ties to even; writing
  one that is not finite gives \<open>null\<close>.
\<close>

type_synonym f64 = "64 word"

definition f64_of_nat :: "nat \<Rightarrow> f64" where
  "f64_of_nat n =
     (if n = 0 then 0
      else
        let e = floorlog 2 n - 1;
            q = (if e \<le> 52 then n * 2 ^ (52 - e) else n div 2 ^ (e - 52));
            r = (if e \<le> 52 then 0 else n mod 2 ^ (e - 52));
            half = (if e \<le> 52 then 1 else 2 ^ (e - 53));
            m = (if r > half \<or> (r = half \<and> odd q) then q + 1 else q)
        in of_nat ((e + 1023) * 2 ^ 52 + (m - 2 ^ 52)))"

definition f64_finite :: "f64 \<Rightarrow> bool" where
  "f64_finite b \<longleftrightarrow> (unat b div 2 ^ 52) mod 2048 \<noteq> 2047"

definition de_f64 :: "Value \<Rightarrow> f64 option" where
  "de_f64 v =
     (case v of
        JNum (Float b) \<Rightarrow> Some b
      | JNum (PosInt n) \<Rightarrow> Some (f64_of_nat (unat n))
      | JNum (NegInt n) \<Rightarrow> Some (f64_of_nat (nat (- sint n)) + 2 ^ 63)
      | _ \<Rightarrow> None)"

definition en_f64 :: "f64 \<Rightarrow> Value" where
  "en_f64 b = (if f64_finite b then JNum (Float b) else JNull)"

text \<open>A \<open>BTreeMap<String, T>\<close> is written in key order.\<close>

definition en_btree :: "('a \<Rightarrow> Value) \<Rightarrow> (string, 'a) fmap \<Rightarrow> Value" where
  "en_btree e m = JObj (map (\<lambda>k. (k, e (the (fmlookup m k)))) (sorted_keys m))"

definition en_vec :: "('a \<Rightarrow> Value) \<Rightarrow> 'a list \<Rightarrow> Value" where
  "en_vec e xs = JArr (map e xs)"

section \<open>Structs\<close>

text \<open>
  A derived struct visitor reads an object or, field by field, an array. Its fields are listed in
  declaration order, each with whether it carries \<open>#[serde(default)]\<close>: in an array, only such a field
  may be missing from the end. Unknown keys of an object are ignored; a repeated known key is an error.
\<close>

type_synonym fields = "(string \<times> bool) list"
type_synonym entries = "(string \<times> Value) list"

definition struct_entries :: "fields \<Rightarrow> Value \<Rightarrow> entries option" where
  "struct_entries fs v =
     (case v of
        JObj kvs \<Rightarrow>
          let known = filter (\<lambda>(k, _). k \<in> set (map fst fs)) kvs
          in if distinct (map fst known) then Some known else None
      | JArr vs \<Rightarrow>
          if length vs \<le> length fs \<and> list_all snd (drop (length vs) fs)
          then Some (zip (map fst fs) vs) else None
      | _ \<Rightarrow> None)"

text \<open>With a \<open>#[serde(flatten)]\<close> map, only objects are read and the remaining entries are collected.\<close>

definition flat_entries :: "string list \<Rightarrow> Value \<Rightarrow> (entries \<times> entries) option" where
  "flat_entries names v =
     (case v of
        JObj kvs \<Rightarrow>
          let known = filter (\<lambda>(k, _). k \<in> set names) kvs;
              rest = filter (\<lambda>(k, _). k \<notin> set names) kvs
          in if distinct (map fst known)
             then Some (known, obj_of (map (\<lambda>(k, x). (k, norm_value x)) rest)) else None
      | _ \<Rightarrow> None)"

text \<open>A field: required; an \<open>Option\<close>, where both a missing key and \<open>null\<close> are \<open>None\<close>; or one with
  a default.\<close>

definition req :: "(Value \<Rightarrow> 'a option) \<Rightarrow> string \<Rightarrow> entries \<Rightarrow> 'a option" where
  "req d k es = (case map_of es k of None \<Rightarrow> None | Some v \<Rightarrow> d v)"

definition opt :: "(Value \<Rightarrow> 'a option) \<Rightarrow> string \<Rightarrow> entries \<Rightarrow> 'a option option" where
  "opt d k es =
     (case map_of es k of
        None \<Rightarrow> Some None
      | Some JNull \<Rightarrow> Some None
      | Some v \<Rightarrow> map_option Some (d v))"

definition dflt :: "(Value \<Rightarrow> 'a option) \<Rightarrow> 'a \<Rightarrow> string \<Rightarrow> entries \<Rightarrow> 'a option" where
  "dflt d x k es = (case map_of es k of None \<Rightarrow> Some x | Some v \<Rightarrow> d v)"

text \<open>A derived serializer writes each field, leaving out the ones \<open>skip_serializing_if\<close> drops.\<close>

definition en_fields :: "(string \<times> Value option) list \<Rightarrow> entries" where
  "en_fields fvs = List.map_filter (\<lambda>(k, ov). map_option (Pair k) ov) fvs"

section \<open>Enums spelt as strings\<close>

text \<open>
  A derived enum of unit variants reads its variant's name, or an object with that single key holding
  \<open>null\<close>. With an untagged \<open>Unknown(String)\<close> last, any other string is that variant.
\<close>

definition de_variant :: "(string \<Rightarrow> 'a option) \<Rightarrow> Value \<Rightarrow> 'a option" where
  "de_variant p v =
     (case v of JStr s \<Rightarrow> p s | JObj [(s, JNull)] \<Rightarrow> p s | _ \<Rightarrow> None)"

definition de_variant_or :: "(string \<Rightarrow> 'a option) \<Rightarrow> (string \<Rightarrow> 'a) \<Rightarrow> Value \<Rightarrow> 'a option" where
  "de_variant_or p unknown v =
     (case de_variant p v of
        Some x \<Rightarrow> Some x
      | None \<Rightarrow> (case v of JStr s \<Rightarrow> Some (unknown s) | _ \<Rightarrow> None))"

section \<open>Laws\<close>

text \<open>What survives a round trip: an optional untyped value that is not \<open>null\<close>, and flattened extras
  that do not shadow a field.\<close>

definition opt_value_wf :: "Value option \<Rightarrow> bool" where
  "opt_value_wf x = (case x of None \<Rightarrow> True | Some v \<Rightarrow> v \<noteq> JNull \<and> value_wf v)"

definition extra_wf :: "string list \<Rightarrow> entries \<Rightarrow> bool" where
  "extra_wf names es \<longleftrightarrow>
     distinct (map fst es) \<and> list_all (\<lambda>(k, v). k \<notin> set names \<and> value_wf v) es"

lemma scalar_round_trips [codec_simps]:
  "de_string (JStr s) = Some s"
  "de_bool (JBool b) = Some b"
  "de_u64 (en_u64 n) = Some n"
  by (simp_all add: de_string_def de_bool_def de_u64_def en_u64_def)

lemma de_en_u32 [codec_simps]: "de_u32 (en_u32 n) = Some n"
proof -
  have "unat (ucast n :: u64) = unat n"
    using unsigned_less [of n, where ?'a = nat]
    by (simp add: unsigned_ucast_eq unsigned_take_bit_eq take_bit_nat_eq_self)
  moreover have "unat n < 2 ^ 32"
    using unsigned_less [of n, where ?'a = nat] by simp
  ultimately show ?thesis
    by (simp add: de_u32_def en_u32_def word_unat_eq_iff unsigned_ucast_eq
      unsigned_take_bit_eq take_bit_nat_eq_self)
qed

lemma de_value_wf [codec_simps]: "value_wf v \<Longrightarrow> de_value v = Some v"
  by (simp add: de_value_def norm_value_wf)

lemma those_map_Some: "(\<And>x. x \<in> set xs \<Longrightarrow> f (g x) = Some x) \<Longrightarrow> those (map (f \<circ> g) xs) = Some xs"
  by (induction xs) auto

lemma de_en_vec [codec_simps]:
  "(\<And>x. x \<in> set xs \<Longrightarrow> d (e x) = Some x) \<Longrightarrow> de_vec d (en_vec e xs) = Some xs"
  using those_map_Some [of xs d e] by (simp add: de_vec_def en_vec_def comp_def)

lemma en_fields_simps:
  "en_fields [] = []"
  "en_fields ((k, None) # fvs) = en_fields fvs"
  "en_fields ((k, Some v) # fvs) = (k, v) # en_fields fvs"
  by (simp_all add: en_fields_def List.map_filter_def)

lemma keys_en_fields: "set (map fst (en_fields fvs)) \<subseteq> set (map fst fvs)"
proof (induction fvs)
  case (Cons f fvs)
  then show ?case by (cases f; cases "snd f") (auto simp: en_fields_simps)
qed (simp add: en_fields_simps)

lemma distinct_en_fields: "distinct (map fst fvs) \<Longrightarrow> distinct (map fst (en_fields fvs))"
proof (induction fvs)
  case (Cons f fvs)
  then show ?case
    using keys_en_fields [of fvs] by (cases f; cases "snd f") (auto simp: en_fields_simps)
qed (simp add: en_fields_simps)

lemma map_of_en_fields:
  "distinct (map fst fvs) \<Longrightarrow>
     map_of (en_fields fvs) k = (case map_of fvs k of None \<Rightarrow> None | Some ov \<Rightarrow> ov)"
proof (induction fvs)
  case (Cons f fvs)
  have "k \<notin> set (map fst fvs) \<Longrightarrow> map_of (en_fields fvs) k = None"
    using keys_en_fields [of fvs] by (auto simp: map_of_eq_None_iff)
  with Cons show ?case
    by (cases f; cases "snd f") (auto simp: en_fields_simps)
qed (simp add: en_fields_simps)

text \<open>An encoded struct is read back entry by entry.\<close>

lemma struct_entries_en_fields [codec_simps]:
  assumes "map fst fvs = map fst fs" "distinct (map fst fs)"
  shows "struct_entries fs (JObj (en_fields fvs)) = Some (en_fields fvs)"
proof -
  have "set (map fst (en_fields fvs)) \<subseteq> set (map fst fs)"
    using keys_en_fields [of fvs] assms(1) by simp
  then have "filter (\<lambda>(k, _). k \<in> set (map fst fs)) (en_fields fvs) = en_fields fvs"
    by (intro filter_True) (force simp: image_subset_iff)
  moreover have "distinct (map fst (en_fields fvs))"
    using assms by (intro distinct_en_fields) simp
  ultimately show ?thesis
    by (simp add: struct_entries_def)
qed

lemma req_en_fields [codec_simps]:
  "distinct (map fst fvs) \<Longrightarrow> map_of fvs k = Some (Some v) \<Longrightarrow> req d k (en_fields fvs) = d v"
  by (simp add: req_def map_of_en_fields)

lemma opt_en_fields [codec_simps]:
  "distinct (map fst fvs) \<Longrightarrow> map_of fvs k = Some (map_option e x) \<Longrightarrow>
     (\<And>y. x = Some y \<Longrightarrow> e y \<noteq> JNull \<and> d (e y) = Some y) \<Longrightarrow>
     opt d k (en_fields fvs) = Some x"
  by (cases x) (auto simp: opt_def map_of_en_fields split: Value.splits)

lemma opt_en_null [codec_simps]:
  "distinct (map fst fvs) \<Longrightarrow>
     map_of fvs k = Some (Some (case x of None \<Rightarrow> JNull | Some y \<Rightarrow> e y)) \<Longrightarrow>
     (\<And>y. x = Some y \<Longrightarrow> e y \<noteq> JNull \<and> d (e y) = Some y) \<Longrightarrow>
     opt d k (en_fields fvs) = Some x"
  by (cases x) (auto simp: opt_def map_of_en_fields split: Value.splits)

lemma dflt_en_fields [codec_simps]:
  "distinct (map fst fvs) \<Longrightarrow> map_of fvs k = Some (Some v) \<Longrightarrow> dflt d x k (en_fields fvs) = d v"
  by (simp add: dflt_def map_of_en_fields)

lemma encodings_not_null [codec_simps]:
  "en_u64 n \<noteq> JNull" "en_u32 m \<noteq> JNull" "en_vec e xs \<noteq> JNull"
  by (simp_all add: en_u64_def en_u32_def en_vec_def)

lemma struct_not_object: "struct_entries fs JNull = None" "struct_entries fs (JStr s) = None"
  "struct_entries fs (JBool b) = None" "struct_entries fs (JNum n) = None"
  by (simp_all add: struct_entries_def)

lemma opt_value_en_fields [codec_simps]:
  "distinct (map fst fvs) \<Longrightarrow> map_of fvs k = Some x \<Longrightarrow> opt_value_wf x \<Longrightarrow>
     opt de_value k (en_fields fvs) = Some x"
  by (cases x) (auto simp: opt_def map_of_en_fields opt_value_wf_def de_value_wf split: Value.splits)

lemma opt_en_some [codec_simps]:
  "distinct (map fst fvs) \<Longrightarrow> map_of fvs k = Some (Some v) \<Longrightarrow> v \<noteq> JNull \<Longrightarrow>
     opt d k (en_fields fvs) = map_option Some (d v)"
  by (auto simp: opt_def map_of_en_fields split: Value.splits)

lemma opt_en_none [codec_simps]:
  "distinct (map fst fvs) \<Longrightarrow> map_of fvs k = Some None \<Longrightarrow> opt d k (en_fields fvs) = Some None"
  by (simp add: opt_def map_of_en_fields)

lemma flat_entries_en_fields [codec_simps]:
  assumes "map fst fvs = names" "distinct names" "extra_wf names es"
  shows "flat_entries names (JObj (en_fields fvs @ es)) = Some (en_fields fvs, es)"
proof -
  have "set (map fst (en_fields fvs)) \<subseteq> set names"
    using keys_en_fields [of fvs] assms(1) by simp
  then have known: "filter (\<lambda>(k, _). k \<in> set names) (en_fields fvs) = en_fields fvs"
      "filter (\<lambda>(k, _). k \<notin> set names) (en_fields fvs) = []"
    by (auto intro!: filter_True filter_False simp: image_subset_iff)
  from assms(3) have extra: "filter (\<lambda>(k, _). k \<in> set names) es = []"
      "filter (\<lambda>(k, _). k \<notin> set names) es = es"
    by (auto intro!: filter_True filter_False simp: extra_wf_def list_all_iff)
  have "map (\<lambda>(k, x). (k, norm_value x)) es = es"
    using assms(3) by (intro map_idI) (auto simp: extra_wf_def list_all_iff norm_value_wf)
  moreover have "distinct (map fst (en_fields fvs))"
    using assms(1,2) by (intro distinct_en_fields) simp
  ultimately show ?thesis
    using assms(3) by (simp add: flat_entries_def known extra extra_wf_def obj_of_distinct)
qed

lemma de_en_f64: "f64_finite b \<Longrightarrow> de_f64 (en_f64 b) = Some b"
  by (simp add: de_f64_def en_f64_def)

lemma de_en_btree [codec_simps]:
  assumes "fmpred (\<lambda>_ x. d (e x) = Some x) m"
  shows "de_hashmap d (en_btree e m) = Some m"
proof -
  let ?es = "map (\<lambda>k. (k, the (fmlookup m k))) (sorted_keys m)"
  have keys: "set (sorted_keys m) = fset (fmdom m)" "distinct (sorted_keys m)"
    using key_order_sorted_keys by (auto simp: key_order_def)
  have "those (map (\<lambda>(k, x). map_option (Pair k) (d x)) (map (\<lambda>k. (k, e (the (fmlookup m k)))) ks)) =
      Some (map (\<lambda>k. (k, the (fmlookup m k))) ks)" if "set ks \<subseteq> fset (fmdom m)" for ks
    using that assms by (induction ks) (auto simp: fmpred_iff fmlookup_dom_iff)
  from this [of "sorted_keys m"] have "de_hashmap d (en_btree e m) = Some (fmap_of_list (rev ?es))"
    using keys by (simp add: de_hashmap_def en_btree_def comp_def)
  moreover have "fmap_of_list (rev ?es) = m"
  proof (rule fmap_ext)
    fix k
    have "map_of (rev ?es) = map_of ?es"
      using keys(2) by (subst map_of_inject_set) (simp_all add: rev_map comp_def)
    then have "map_of (rev ?es) k = map_of ?es k" by simp
    also have "\<dots> = fmlookup m k"
    proof (cases "k |\<in>| fmdom m")
      case True
      then show ?thesis
        using keys(1) by (auto simp: map_of_map_restrict fmlookup_dom_iff)
    next
      case False
      then show ?thesis
        using keys(1) by (simp add: map_of_map_restrict fmdom_notD)
    qed
    finally show "fmlookup (fmap_of_list (rev ?es)) k = fmlookup m k"
      by (simp add: fmlookup_of_list)
  qed
  ultimately show ?thesis by simp
qed

end
