(* ===== verification/Profile.thy ===== *)
theory Profile
  imports Limit Json
begin

text \<open>
  \<^verbatim>\<open>src/profile.rs\<close>: what a grant says a controller may do, the three permission maps and the quota,
  and how the profile is read from JSON (the derived \<open>Deserialize\<close> of \<open>RateLimitRule\<close>,
  \<open>MethodAccessRule\<close> and \<open>UsageProfile\<close>).
\<close>

section \<open>Data\<close>

definition OTHERS :: string where
  "OTHERS = ''OTHERS''"

record MethodAccessRule =
  rate :: "RateLimitRule option"

datatype Denied = Unauthorized | Restricted

type_synonym rules = "(string, MethodAccessRule) hashmap"

record UsageProfile =
  methods :: "rules option"
  control :: "rules option"
  notifications :: "rules option"
  quota :: "RateLimitRule option"

definition default_profile :: UsageProfile where
  "default_profile = \<lparr>methods = None, control = None, notifications = None, quota = None\<rparr>"

section \<open>Operations\<close>

definition lookup :: "rules option \<Rightarrow> string \<Rightarrow> (RateLimitRule option, Denied) result" where
  "lookup m name =
     (case m of
        None \<Rightarrow> Inl Restricted
      | Some m \<Rightarrow>
          (case (case fmlookup m name of Some r \<Rightarrow> Some r | None \<Rightarrow> fmlookup m OTHERS) of
             None \<Rightarrow> Inl Restricted
           | Some rule \<Rightarrow> Inr (rate rule)))"

definition rules_ok :: "rules option \<Rightarrow> bool" where
  "rules_ok m =
     (case m of
        None \<Rightarrow> True
      | Some m \<Rightarrow> fmpred (\<lambda>_ r. case rate r of None \<Rightarrow> True | Some q \<Rightarrow> rule_is_valid q) m)"

definition profile_is_valid :: "UsageProfile \<Rightarrow> bool" where
  "profile_is_valid p \<longleftrightarrow>
     rules_ok (methods p) \<and> rules_ok (control p) \<and> rules_ok (notifications p) \<and>
     (case quota p of None \<Rightarrow> True | Some q \<Rightarrow> rule_is_valid q)"

definition guard :: "UsageProfile \<Rightarrow> (unit, Denied) result" where
  "guard p = (if profile_is_valid p then Inr () else Inl Unauthorized)"

definition allows_wallet :: "UsageProfile \<Rightarrow> string \<Rightarrow> (RateLimitRule option, Denied) result" where
  "allows_wallet p m = (case guard p of Inl e \<Rightarrow> Inl e | Inr _ \<Rightarrow> lookup (methods p) m)"

definition allows_control :: "UsageProfile \<Rightarrow> string \<Rightarrow> (RateLimitRule option, Denied) result" where
  "allows_control p m = (case guard p of Inl e \<Rightarrow> Inl e | Inr _ \<Rightarrow> lookup (control p) m)"

definition allows_notification :: "UsageProfile \<Rightarrow> string \<Rightarrow> bool" where
  "allows_notification p ty \<longleftrightarrow> is_ok (guard p) \<and> is_ok (lookup (notifications p) ty)"

definition profile_is_empty :: "UsageProfile \<Rightarrow> bool" where
  "profile_is_empty p \<longleftrightarrow>
     (let none = (\<lambda>m. case m of None \<Rightarrow> True | Some m \<Rightarrow> m = fmempty)
      in none (methods p) \<and> none (control p) \<and> none (notifications p))"

section \<open>Reading a profile\<close>

definition de_RateLimitRule :: "Value \<Rightarrow> RateLimitRule option" where
  "de_RateLimitRule v = do {
     es \<leftarrow> struct_entries [(''amount'', True), (''per_secs'', True), (''max_capacity'', True)] v;
     a \<leftarrow> dflt de_u64 0 ''amount'' es;
     p \<leftarrow> dflt de_u64 one ''per_secs'' es;
     m \<leftarrow> dflt de_u64 u64_max ''max_capacity'' es;
     Some \<lparr>amount = a, per_secs = p, max_capacity = m\<rparr>
   }"

definition de_MethodAccessRule :: "Value \<Rightarrow> MethodAccessRule option" where
  "de_MethodAccessRule v = do {
     es \<leftarrow> struct_entries [(''rate'', True)] v;
     r \<leftarrow> opt de_RateLimitRule ''rate'' es;
     Some \<lparr>rate = r\<rparr>
   }"

definition de_UsageProfile :: "Value \<Rightarrow> UsageProfile option" where
  "de_UsageProfile v = do {
     es \<leftarrow> struct_entries
       [(''methods'', True), (''control'', True), (''notifications'', True), (''quota'', True)] v;
     m \<leftarrow> opt (de_hashmap de_MethodAccessRule) ''methods'' es;
     c \<leftarrow> opt (de_hashmap de_MethodAccessRule) ''control'' es;
     n \<leftarrow> opt (de_hashmap de_MethodAccessRule) ''notifications'' es;
     q \<leftarrow> opt de_RateLimitRule ''quota'' es;
     Some \<lparr>methods = m, control = c, notifications = n, quota = q\<rparr>
   }"

section \<open>What a profile permits\<close>

text \<open>The one relation behind all three maps: a name is permitted when it, or \<open>OTHERS\<close>, has an entry.\<close>

definition permits :: "rules option \<Rightarrow> string \<Rightarrow> bool" where
  "permits m name \<longleftrightarrow> (\<exists>r. m = Some r \<and> (name |\<in>| fmdom r \<or> OTHERS |\<in>| fmdom r))"

lemma lookup_ok_iff: "is_ok (lookup m name) \<longleftrightarrow> permits m name"
  by (auto simp: lookup_def permits_def fmlookup_dom_iff split: option.splits)

lemma lookup_cases:
  obtains (ok) r where "lookup m name = Inr r" "permits m name"
  | (restricted) "lookup m name = Inl Restricted" "\<not> permits m name"
proof (cases "is_ok (lookup m name)")
  case True
  then obtain r where "lookup m name = Inr r" by (auto simp: is_ok_iff)
  moreover from True have "permits m name" by (simp only: lookup_ok_iff)
  ultimately show ?thesis by (rule ok)
next
  case False
  then have "lookup m name = Inl Restricted"
    by (auto simp: lookup_def is_ok_def split: option.splits)
  moreover from False have "\<not> permits m name" by (simp add: lookup_ok_iff)
  ultimately show ?thesis by (rule restricted)
qed

lemma lookup_valid:
  "rules_ok m \<Longrightarrow> lookup m name = Inr (Some q) \<Longrightarrow> rule_is_valid q"
  by (force simp: lookup_def rules_ok_def fmpred_iff split: option.splits)

lemma guard_cases: "guard p = Inr () \<and> profile_is_valid p \<or> guard p = Inl Unauthorized \<and> \<not> profile_is_valid p"
  by (simp add: guard_def)

lemma allows_wallet_ok: "is_ok (allows_wallet p m) \<longleftrightarrow> profile_is_valid p \<and> permits (methods p) m"
  using guard_cases [of p] by (auto simp: allows_wallet_def lookup_ok_iff)

lemma allows_control_ok: "is_ok (allows_control p m) \<longleftrightarrow> profile_is_valid p \<and> permits (control p) m"
  using guard_cases [of p] by (auto simp: allows_control_def lookup_ok_iff)

lemma allows_notification_iff:
  "allows_notification p ty \<longleftrightarrow> profile_is_valid p \<and> permits (notifications p) ty"
  using guard_cases [of p] by (auto simp: allows_notification_def lookup_ok_iff)

lemma allows_wallet_rule_valid: "allows_wallet p m = Inr (Some q) \<Longrightarrow> rule_is_valid q"
  using guard_cases [of p]
  by (auto simp: allows_wallet_def profile_is_valid_def intro: lookup_valid)

lemma allows_control_rule_valid: "allows_control p m = Inr (Some q) \<Longrightarrow> rule_is_valid q"
  using guard_cases [of p]
  by (auto simp: allows_control_def profile_is_valid_def intro: lookup_valid)

lemma default_profile_valid [simp]: "profile_is_valid default_profile"
  by (simp add: profile_is_valid_def default_profile_def rules_ok_def)

lemma empty_permits_nothing:
  "profile_is_empty p \<Longrightarrow>
     \<not> permits (methods p) n \<and> \<not> permits (control p) n \<and> \<not> permits (notifications p) n"
  by (auto simp: profile_is_empty_def permits_def Let_def split: option.splits)

section \<open>Properties\<close>

text \<open>The three permission maps deny by default and independently. A wallet call, a control call
  and a notification are each allowed exactly when the whole profile is valid and that one map has an
  entry for the name or for \<open>OTHERS\<close>; a valid profile that lacks it answers \<open>Restricted\<close>, an invalid one
  \<open>Unauthorized\<close>, whatever else it grants.\<close>

lemma profile_permissions:
  "(is_ok (allows_wallet p n) \<longleftrightarrow> profile_is_valid p \<and> permits (methods p) n) \<and>
   (is_ok (allows_control p n) \<longleftrightarrow> profile_is_valid p \<and> permits (control p) n) \<and>
   (allows_notification p n \<longleftrightarrow> profile_is_valid p \<and> permits (notifications p) n) \<and>
   (allows_wallet p n = Inl Restricted \<longleftrightarrow> profile_is_valid p \<and> \<not> permits (methods p) n) \<and>
   (allows_control p n = Inl Restricted \<longleftrightarrow> profile_is_valid p \<and> \<not> permits (control p) n) \<and>
   (allows_wallet p n = Inl Unauthorized \<longleftrightarrow> \<not> profile_is_valid p) \<and>
   (allows_control p n = Inl Unauthorized \<longleftrightarrow> \<not> profile_is_valid p)"
proof -
  have "allows_wallet p n = Inl Restricted \<longleftrightarrow> profile_is_valid p \<and> \<not> permits (methods p) n"
    using guard_cases [of p]
    by (cases rule: lookup_cases [of "methods p" n]) (auto simp: allows_wallet_def)
  moreover have "allows_control p n = Inl Restricted \<longleftrightarrow> profile_is_valid p \<and> \<not> permits (control p) n"
    using guard_cases [of p]
    by (cases rule: lookup_cases [of "control p" n]) (auto simp: allows_control_def)
  moreover have "allows_wallet p n = Inl Unauthorized \<longleftrightarrow> \<not> profile_is_valid p"
    using guard_cases [of p]
    by (cases rule: lookup_cases [of "methods p" n]) (auto simp: allows_wallet_def)
  moreover have "allows_control p n = Inl Unauthorized \<longleftrightarrow> \<not> profile_is_valid p"
    using guard_cases [of p]
    by (cases rule: lookup_cases [of "control p" n]) (auto simp: allows_control_def)
  ultimately show ?thesis
    by (simp add: allows_wallet_ok allows_control_ok allows_notification_iff)
qed

end
