(* ===== verification/Nostr.thy ===== *)
theory Nostr
  imports Prelude
begin

text \<open>
  The part of the vendored \<open>nostr\<close> crate the program is written over: 32-byte keys and ids and their
  hex spelling (\<^verbatim>\<open>vendor/hex\<close>), tags, events, and the event builder. A 32-byte array is a
  \<^typ>\<open>256 word\<close>, most significant byte first, so two hex digits per byte are 64 digits of it.
  Signature verification happens in the relay client before an event reaches the crate and is not
  modelled: an \<open>Event\<close> here is one the client delivered.
\<close>

section \<open>Hex\<close>

type_synonym PublicKey = "256 word"
type_synonym EventId = "256 word"

definition hex_chars :: string where
  "hex_chars = ''0123456789abcdef''"

definition hex_digit :: "nat \<Rightarrow> char" where
  "hex_digit d = hex_chars ! d"

text \<open>\<open>hex::val\<close>: both cases are read.\<close>

definition hex_val :: "char \<Rightarrow> nat option" where
  "hex_val c =
     (let n = of_char c :: nat
      in if 65 \<le> n \<and> n \<le> 70 then Some (n - 65 + 10)
         else if 97 \<le> n \<and> n \<le> 102 then Some (n - 97 + 10)
         else if 48 \<le> n \<and> n \<le> 57 then Some (n - 48)
         else None)"

fun hex_encode :: "nat \<Rightarrow> nat \<Rightarrow> string" where
  "hex_encode 0 n = []"
| "hex_encode (Suc k) n = hex_encode k (n div 16) @ [hex_digit (n mod 16)]"

fun hex_decode :: "nat \<Rightarrow> string \<Rightarrow> nat option" where
  "hex_decode acc [] = Some acc"
| "hex_decode acc (c # cs) =
     (case hex_val c of None \<Rightarrow> None | Some d \<Rightarrow> hex_decode (16 * acc + d) cs)"

definition to_hex :: "256 word \<Rightarrow> string" where
  "to_hex w = hex_encode 64 (unat w)"

definition from_hex :: "string \<Rightarrow> 256 word option" where
  "from_hex s = (if length s = 64 then map_option of_nat (hex_decode 0 s) else None)"

lemma nat_less_16_cases:
  assumes "(d :: nat) < 16"
  shows "d \<in> {0, 1, 2, 3, 4, 5, 6, 7, 8, 9, 10, 11, 12, 13, 14, 15}"
  using assms unfolding insert_iff empty_iff by presburger

lemma hex_val_digit: "d < 16 \<Longrightarrow> hex_val (hex_digit d) = Some d"
  using nat_less_16_cases [of d]
  by (auto simp: hex_digit_def hex_chars_def hex_val_def Let_def nth_Cons')

lemma hex_digit_in_chars: "d < 16 \<Longrightarrow> hex_digit d \<in> set hex_chars"
  unfolding hex_digit_def by (rule nth_mem) (simp add: hex_chars_def)

lemma length_hex_encode [simp]: "length (hex_encode k n) = k"
  by (induction k arbitrary: n) simp_all

lemma set_hex_encode: "set (hex_encode k n) \<subseteq> set hex_chars"
  by (induction k arbitrary: n) (auto simp: hex_digit_in_chars)

lemma hex_decode_append:
  "hex_decode acc (xs @ ys) =
     (case hex_decode acc xs of None \<Rightarrow> None | Some a \<Rightarrow> hex_decode a ys)"
  by (induction acc xs rule: hex_decode.induct) (auto split: option.splits)

lemma hex_decode_encode: "n < 16 ^ k \<Longrightarrow> hex_decode acc (hex_encode k n) = Some (acc * 16 ^ k + n)"
proof (induction k arbitrary: n)
  case 0
  then show ?case by simp
next
  case (Suc k)
  then have "hex_decode acc (hex_encode k (n div 16)) = Some (acc * 16 ^ k + n div 16)"
    by (intro Suc.IH) (simp add: less_mult_imp_div_less mult.commute)
  then show ?case
    by (simp add: hex_decode_append hex_val_digit)
qed

lemma from_hex_to_hex [simp]: "from_hex (to_hex w) = Some w"
proof -
  have "unat w < 16 ^ 64"
    using unsigned_less [of w, where ?'a = nat] by simp
  then show ?thesis
    by (simp add: from_hex_def to_hex_def hex_decode_encode)
qed

lemma to_hex_inject [simp]: "to_hex a = to_hex b \<longleftrightarrow> a = b"
  by (metis from_hex_to_hex option.inject)

lemma length_to_hex [simp]: "length (to_hex w) = 64"
  by (simp add: to_hex_def)

lemma to_hex_nonempty [simp]: "to_hex w \<noteq> []"
  using length_to_hex [of w] by fastforce

lemma to_hex_chars: "c \<in> set (to_hex w) \<Longrightarrow> c \<in> set hex_chars"
  using set_hex_encode by (auto simp: to_hex_def)

lemma to_hex_no_colon [simp]: "CHR '':'' \<notin> set (to_hex w)"
  by (auto dest: to_hex_chars simp: hex_chars_def)

section \<open>Tags and events\<close>

type_synonym Tag = "string list"

record Event =
  ev_id :: EventId
  ev_pubkey :: PublicKey
  ev_created_at :: u64
  ev_kind :: u16
  ev_tags :: "Tag list"
  ev_content :: string

text \<open>\<open>tag.as_slice()\<close> compared at positions 0 and 1, as every tag test in the crate does.\<close>

definition slice_get :: "Tag \<Rightarrow> nat \<Rightarrow> string option" where
  "slice_get s i = (if i < length s then Some (s ! i) else None)"

definition tag_is :: "Tag \<Rightarrow> string \<Rightarrow> string \<Rightarrow> bool" where
  "tag_is t name v \<longleftrightarrow> slice_get t 0 = Some name \<and> slice_get t 1 = Some v"

text \<open>The first \<open>d\<close> tag that carries a value.\<close>

fun find_d :: "Tag list \<Rightarrow> string option" where
  "find_d [] = None"
| "find_d (t # ts) =
     (case (if slice_get t 0 = Some ''d'' then slice_get t 1 else None) of
        Some v \<Rightarrow> Some v
      | None \<Rightarrow> find_d ts)"

lemma tag_is_simps [simp]: "tag_is (a # b # c) name v \<longleftrightarrow> a = name \<and> b = v"
  "\<not> tag_is [a] name v" "\<not> tag_is [] name v"
  by (auto simp: tag_is_def slice_get_def)

definition tag_public_key :: "PublicKey \<Rightarrow> Tag" where
  "tag_public_key pk = [''p'', to_hex pk]"

definition tag_event :: "EventId \<Rightarrow> Tag" where
  "tag_event i = [''e'', to_hex i]"

definition tag_identifier :: "string \<Rightarrow> Tag" where
  "tag_identifier d = [''d'', d]"

text \<open>Decimal rendering of a kind, for coordinates.\<close>

fun dec_digits :: "nat \<Rightarrow> string" where
  "dec_digits n =
     (if n < 10 then [char_of (48 + n)] else dec_digits (n div 10) @ [char_of (48 + n mod 10)])"

declare dec_digits.simps [simp del]

definition coordinate :: "u16 \<Rightarrow> PublicKey \<Rightarrow> string \<Rightarrow> string" where
  "coordinate k pk ident = dec_digits (unat k) @ '':'' @ to_hex pk @ '':'' @ ident"

definition tag_coordinate :: "u16 \<Rightarrow> PublicKey \<Rightarrow> string \<Rightarrow> Tag" where
  "tag_coordinate k pk ident = [''a'', coordinate k pk ident]"

section \<open>The event builder\<close>

record EventBuilder =
  eb_kind :: u16
  eb_content :: string
  eb_tags :: "Tag list"

text \<open>\<open>EventBuilder::build\<close> with self-tagging off, the default: \<open>p\<close> tags naming the author are
  discarded.\<close>

definition built_tags :: "EventBuilder \<Rightarrow> PublicKey \<Rightarrow> Tag list" where
  "built_tags eb author = filter (\<lambda>t. \<not> tag_is t ''p'' (to_hex author)) (eb_tags eb)"

end
