(* ===== verification/Grant.thy ===== *)
theory Grant
  imports Profile Nostr
begin

text \<open>
  \<^verbatim>\<open>src/grant.rs\<close>: access grants, kind 30198, and the store a node service keeps of them.
  \<open>apply_grant\<close> is \<open>Grants::apply\<close> with its checks in order; the reading of a JSON text is the
  parameter \<open>parse\<close>. The abstract store is the history itself: \<open>newest\<close> of the admitted events for a
  controller, which the store refines.
\<close>

section \<open>Data\<close>

definition GRANT_KIND :: u16 where
  "GRANT_KIND = 30198"

record VerifiedGrant =
  vg_profile :: UsageProfile
  vg_created_at :: u64
  vg_owner :: PublicKey

datatype Rejected =
    NoOwnersConfigured
  | NotAnOwner
  | NotAddressedToThisNode
  | WrongTarget
  | Superseded
  | Unparseable
  | WrongKind

record Grants =
  g_node :: "PublicKey option"
  g_owners :: "PublicKey list"
  g_by_controller :: "(string, VerifiedGrant) hashmap"
  g_others :: "VerifiedGrant option"

definition grants_default :: Grants where
  "grants_default = \<lparr>g_node = None, g_owners = [], g_by_controller = fmempty, g_others = None\<rparr>"

definition grants_new :: "PublicKey \<Rightarrow> PublicKey list \<Rightarrow> Grants" where
  "grants_new node owners =
     \<lparr>g_node = Some node, g_owners = owners, g_by_controller = fmempty, g_others = None\<rparr>"

section \<open>Operations\<close>

definition get_raw :: "Grants \<Rightarrow> string \<Rightarrow> VerifiedGrant option" where
  "get_raw g controller =
     (if controller = OTHERS then g_others g else fmlookup (g_by_controller g) controller)"

definition target :: "string \<Rightarrow> Event \<Rightarrow> string option" where
  "target node_hex event =
     (case find_d (ev_tags event) of
        None \<Rightarrow> None
      | Some d \<Rightarrow>
          (case split_once CHR '':'' d of
             None \<Rightarrow> None
           | Some (node, controller) \<Rightarrow>
               if node \<noteq> node_hex \<or> controller = [] then None else Some controller))"

definition profile_of :: "(string \<Rightarrow> Value option) \<Rightarrow> Event \<Rightarrow> UsageProfile option" where
  "profile_of parse event = Option.bind (parse (ev_content event)) de_UsageProfile"

definition apply_grant ::
  "(string \<Rightarrow> Value option) \<Rightarrow> Event \<Rightarrow> Grants \<Rightarrow> (string, Rejected) result \<times> Grants" where
  "apply_grant parse event g =
     (case g_node g of
        None \<Rightarrow> (Inl NoOwnersConfigured, g)
      | Some node \<Rightarrow>
          if ev_kind event \<noteq> GRANT_KIND then (Inl WrongKind, g)
          else if g_owners g = [] then (Inl NoOwnersConfigured, g)
          else if ev_pubkey event \<notin> set (g_owners g) then (Inl NotAnOwner, g)
          else if \<not> list_ex (\<lambda>t. tag_is t ''p'' (to_hex node)) (ev_tags event)
            then (Inl NotAddressedToThisNode, g)
          else
            (case target (to_hex node) event of
               None \<Rightarrow> (Inl WrongTarget, g)
             | Some controller \<Rightarrow>
                 if (case get_raw g controller of
                       Some existing \<Rightarrow> ev_created_at event < vg_created_at existing
                     | None \<Rightarrow> False)
                 then (Inl Superseded, g)
                 else
                   let profile = (case profile_of parse event of
                         Some p \<Rightarrow> p | None \<Rightarrow> default_profile);
                       parsed_ok = (profile_of parse event \<noteq> None);
                       verified = \<lparr>vg_profile = profile, vg_created_at = ev_created_at event,
                         vg_owner = ev_pubkey event\<rparr>;
                       g' = (if controller = OTHERS then g\<lparr>g_others := Some verified\<rparr>
                         else g\<lparr>g_by_controller := fmupd controller verified (g_by_controller g)\<rparr>)
                   in (if parsed_ok then Inr controller else Inl Unparseable, g')))"

definition resolve :: "Grants \<Rightarrow> PublicKey \<Rightarrow> (VerifiedGrant, Denied) result" where
  "resolve g controller =
     ok_or (case fmlookup (g_by_controller g) (to_hex controller) of
              Some vg \<Rightarrow> Some vg | None \<Rightarrow> g_others g)
       Unauthorized"

definition grants_len :: "Grants \<Rightarrow> nat" where
  "grants_len g = fcard (fmdom (g_by_controller g))"

definition grants_is_empty :: "Grants \<Rightarrow> bool" where
  "grants_is_empty g \<longleftrightarrow> g_by_controller g = fmempty"

definition has_others :: "Grants \<Rightarrow> bool" where
  "has_others g \<longleftrightarrow> g_others g \<noteq> None"

section \<open>What one event does\<close>

text \<open>An event is admitted for a controller when every check of \<open>apply_grant\<close> but the one on age
  holds, and the grant it carries is \<open>verified_of\<close>; content that does not parse carries the empty
  profile.\<close>

definition admitted :: "PublicKey \<Rightarrow> PublicKey list \<Rightarrow> string \<Rightarrow> Event \<Rightarrow> bool" where
  "admitted node owners c event \<longleftrightarrow>
     ev_kind event = GRANT_KIND \<and> ev_pubkey event \<in> set owners \<and>
     list_ex (\<lambda>t. tag_is t ''p'' (to_hex node)) (ev_tags event) \<and>
     target (to_hex node) event = Some c"

definition verified_of :: "(string \<Rightarrow> Value option) \<Rightarrow> Event \<Rightarrow> VerifiedGrant" where
  "verified_of parse event =
     \<lparr>vg_profile = (case profile_of parse event of Some p \<Rightarrow> p | None \<Rightarrow> default_profile),
      vg_created_at = ev_created_at event, vg_owner = ev_pubkey event\<rparr>"

definition older_than :: "Event \<Rightarrow> VerifiedGrant option \<Rightarrow> bool" where
  "older_than event ex =
     (case ex of Some vg \<Rightarrow> ev_created_at event < vg_created_at vg | None \<Rightarrow> False)"

lemma to_hex_not_OTHERS [simp]: "to_hex pk \<noteq> OTHERS"
proof
  assume "to_hex pk = OTHERS"
  then have "length (to_hex pk) = length OTHERS" by simp
  then show False by (simp add: OTHERS_def)
qed

lemma apply_grant_frame [simp]:
  "g_node (snd (apply_grant parse event g)) = g_node g"
  "g_owners (snd (apply_grant parse event g)) = g_owners g"
  by (simp_all add: apply_grant_def Let_def split: option.splits)

lemma get_raw_apply:
  assumes "g_node g = Some node"
  shows "get_raw (snd (apply_grant parse event g)) c =
    (if admitted node (g_owners g) c event \<and> \<not> older_than event (get_raw g c)
     then Some (verified_of parse event) else get_raw g c)"
proof (cases "\<exists>c'. admitted node (g_owners g) c' event")
  case False
  then have "snd (apply_grant parse event g) = g"
    using assms by (auto simp: apply_grant_def admitted_def split: option.splits)
  with False show ?thesis by simp
next
  case True
  then obtain c' where c': "admitted node (g_owners g) c' event" by blast
  then have iff: "admitted node (g_owners g) c event \<longleftrightarrow> c = c'"
    by (auto simp: admitted_def)
  from c' have "g_owners g \<noteq> []" by (auto simp: admitted_def)
  with c' assms have step: "snd (apply_grant parse event g) =
      (if older_than event (get_raw g c') then g
       else if c' = OTHERS then g\<lparr>g_others := Some (verified_of parse event)\<rparr>
       else g\<lparr>g_by_controller := fmupd c' (verified_of parse event) (g_by_controller g)\<rparr>)"
    by (simp add: apply_grant_def admitted_def older_than_def verified_of_def Let_def
        split: option.splits)
  show ?thesis
    unfolding step iff by (auto simp: get_raw_def)
qed

lemma resolve_get_raw:
  "resolve g pk = ok_or (case get_raw g (to_hex pk) of Some vg \<Rightarrow> Some vg | None \<Rightarrow> get_raw g OTHERS)
     Unauthorized"
  by (simp add: resolve_def get_raw_def split: option.split)

lemma resolve_cong:
  "get_raw g (to_hex pk) = get_raw g' (to_hex pk) \<Longrightarrow> get_raw g OTHERS = get_raw g' OTHERS \<Longrightarrow>
     resolve g pk = resolve g' pk"
  by (simp add: resolve_get_raw split: option.split)

section \<open>What a run of events does\<close>

definition apply_grants :: "(string \<Rightarrow> Value option) \<Rightarrow> Event list \<Rightarrow> Grants \<Rightarrow> Grants" where
  "apply_grants parse = fold (\<lambda>event g. snd (apply_grant parse event g))"

definition newest :: "Event list \<Rightarrow> Event option" where
  "newest es = fold (\<lambda>e acc. case acc of
       Some x \<Rightarrow> if ev_created_at e < ev_created_at x then Some x else Some e
     | None \<Rightarrow> Some e) es None"

lemma newest_Nil [simp]: "newest [] = None"
  by (simp add: newest_def)

lemma newest_snoc:
  "newest (es @ [e]) = (case newest es of
       Some x \<Rightarrow> if ev_created_at e < ev_created_at x then Some x else Some e
     | None \<Rightarrow> Some e)"
  by (simp add: newest_def)

lemma newest_None_iff [simp]: "newest es = None \<longleftrightarrow> es = []"
  by (induction es rule: rev_induct) (auto simp: newest_snoc split: option.splits)

lemma newest_SomeD:
  "newest es = Some e \<Longrightarrow> e \<in> set es \<and> (\<forall>x \<in> set es. ev_created_at x \<le> ev_created_at e)"
proof (induction es arbitrary: e rule: rev_induct)
  case (snoc y es)
  show ?case
  proof (cases "newest es")
    case None
    with snoc.prems show ?thesis
      using newest_None_iff [of es] by (simp add: newest_snoc)
  next
    case (Some x)
    with snoc.IH have x: "x \<in> set es" "\<And>z. z \<in> set es \<Longrightarrow> ev_created_at z \<le> ev_created_at x" by auto
    show ?thesis
    proof (cases "ev_created_at y < ev_created_at x")
      case True
      with Some snoc.prems have "e = x" by (simp add: newest_snoc)
      with x True show ?thesis by auto
    next
      case False
      with Some snoc.prems have "e = y" by (simp add: newest_snoc)
      with x(2) False show ?thesis by (auto simp: not_less intro: order_trans)
    qed
  qed
qed simp

lemma newest_unique:
  assumes "set es = set es'" "inj_on ev_created_at (set es)"
  shows "newest es = newest es'"
proof (cases "newest es")
  case None
  with assms(1) show ?thesis by (simp add: eq_commute [of None])
next
  case (Some e)
  with assms(1) obtain e' where e': "newest es' = Some e'"
    by (metis newest_None_iff not_None_eq set_empty)
  from newest_SomeD [OF Some] newest_SomeD [OF e'] assms(1)
  have "ev_created_at e = ev_created_at e'" "e \<in> set es" "e' \<in> set es"
    by (auto intro: antisym)
  with assms(2) Some e' show ?thesis by (auto dest: inj_onD)
qed

interpretation grant_store: input_store
  "\<lambda>event g. snd (apply_grant parse event g)"
  "\<lambda>g. g_node g = node \<and> g_owners g = owners" for parse node owners
  by unfold_locales simp

lemma apply_grants_frame:
  "g_node (apply_grants parse es (grants_new node owners)) = Some node"
  "g_owners (apply_grants parse es (grants_new node owners)) = owners"
  using grant_store.run_inv [of "grants_new node owners" "Some node" owners parse es]
  by (simp_all add: apply_grants_def grants_new_def)

lemma apply_grants_newest:
  "get_raw (apply_grants parse es (grants_new node owners)) c =
     map_option (verified_of parse) (newest (filter (admitted node owners c) es))"
proof (induction es rule: rev_induct)
  case Nil
  then show ?case by (simp add: apply_grants_def grants_new_def get_raw_def)
next
  case (snoc e es)
  let ?g = "apply_grants parse es (grants_new node owners)"
  have "get_raw (apply_grants parse (es @ [e]) (grants_new node owners)) c =
      get_raw (snd (apply_grant parse e ?g)) c"
    by (simp add: apply_grants_def)
  then show ?case
    using snoc
    by (auto simp: get_raw_apply [OF apply_grants_frame(1)] apply_grants_frame newest_snoc
        older_than_def verified_of_def split: option.splits)
qed

lemma resolve_source:
  assumes "resolve (apply_grants parse es (grants_new node owners)) pk = Inr vg"
  shows "\<exists>e \<in> set es. (admitted node owners (to_hex pk) e \<or> admitted node owners OTHERS e) \<and>
    vg = verified_of parse e"
proof -
  have src: "\<exists>e \<in> set es. admitted node owners c e \<and> vg = verified_of parse e"
    if "map_option (verified_of parse) (newest (filter (admitted node owners c) es)) = Some vg" for c
    using that newest_SomeD by fastforce
  have "\<exists>c \<in> {to_hex pk, OTHERS}.
      map_option (verified_of parse) (newest (filter (admitted node owners c) es)) = Some vg"
    using assms by (auto simp: resolve_get_raw apply_grants_newest split: option.splits)
  with src show ?thesis by blast
qed

section \<open>Properties\<close>

text \<open>A grant event as an owner writes it, for the concrete instances below.\<close>

definition grant_event :: "PublicKey \<Rightarrow> PublicKey \<Rightarrow> string \<Rightarrow> u64 \<Rightarrow> string \<Rightarrow> Event" where
  "grant_event node owner controller t content =
     \<lparr>ev_id = 0, ev_pubkey = owner, ev_created_at = t, ev_kind = GRANT_KIND,
      ev_tags = [tag_public_key node, tag_identifier (to_hex node @ CHR '':'' # controller)],
      ev_content = content\<rparr>"

lemma admitted_grant_event [simp]:
  "admitted node owners c (grant_event node owner controller t content) \<longleftrightarrow>
     owner \<in> set owners \<and> controller \<noteq> [] \<and> c = controller"
  by (auto simp: admitted_def grant_event_def tag_public_key_def tag_identifier_def target_def
      slice_get_def str_simps)

text \<open>C7: the store refines its history. After any sequence of events, in any order and with any
  forgeries among them, what applies to a controller is the newest admitted event naming it, else the
  newest admitted event for \<open>OTHERS\<close>, else nothing.\<close>

theorem grants_refine_history:
  "resolve (apply_grants parse es (grants_new node owners)) pk =
     ok_or (case newest (filter (admitted node owners (to_hex pk)) es) of
              Some e \<Rightarrow> Some (verified_of parse e)
            | None \<Rightarrow> map_option (verified_of parse) (newest (filter (admitted node owners OTHERS) es)))
       Unauthorized"
  by (simp add: resolve_get_raw apply_grants_newest split: option.split)

text \<open>C33: the order in which a relay delivers grants does not matter. Two deliveries of the same events
  leave the same grant in force for every controller, provided no two admitted events for one controller
  carry the same timestamp.\<close>

theorem grants_order_irrelevant:
  assumes "set es = set es'"
    and "\<And>c. inj_on ev_created_at {e \<in> set es. admitted node owners c e}"
  shows "resolve (apply_grants parse es (grants_new node owners)) pk =
    resolve (apply_grants parse es' (grants_new node owners)) pk"
proof -
  have "newest (filter (admitted node owners c) es) = newest (filter (admitted node owners c) es')" for c
    using assms by (intro newest_unique) (simp_all add: Collect_conj_eq)
  then show ?thesis
    by (intro resolve_cong) (simp_all add: apply_grants_newest)
qed

theorem grants_order_irrelevant_witness:
  "resolve (apply_grants (\<lambda>_. Some (JObj [])) [grant_event 1 2 (to_hex 3) 10 [], grant_event 1 2 (to_hex 3) 20 []]
     (grants_new 1 [2])) 3 =
   resolve (apply_grants (\<lambda>_. Some (JObj [])) [grant_event 1 2 (to_hex 3) 20 [], grant_event 1 2 (to_hex 3) 10 []]
     (grants_new 1 [2])) 3"
  by (rule grants_order_irrelevant) (auto simp: inj_on_def grant_event_def)

text \<open>Every grant that is ever in force has a source. It is the content of an event of kind 30198
  that was delivered, signed by a configured owner, tagged to this node, whose \<open>d\<close> tag names this node
  and this controller or \<open>OTHERS\<close>.\<close>

lemma grant_provenance:
  assumes "resolve (apply_grants parse es (grants_new node owners)) pk = Inr vg"
  shows "\<exists>e \<in> set es. (admitted node owners (to_hex pk) e \<or> admitted node owners OTHERS e) \<and>
    vg = verified_of parse e \<and> vg_owner vg \<in> set owners"
  using resolve_source [OF assms] by (auto simp: verified_of_def admitted_def)

text \<open>Missing configuration fails closed. With no owners every event is refused, nothing is stored
  and every controller stays unauthorized.\<close>

lemma no_owners_no_grants:
  "resolve (apply_grants parse es (grants_new node [])) pk = Inl Unauthorized \<and>
   \<not> is_ok (fst (apply_grant parse e (apply_grants parse es (grants_new node [])))) \<and>
   snd (apply_grant parse e (apply_grants parse es (grants_new node []))) =
     apply_grants parse es (grants_new node [])"
proof -
  have none: "\<not> admitted node [] c e" for c e
    by (simp add: admitted_def)
  show ?thesis
    by (simp add: resolve_get_raw apply_grants_newest none apply_grant_def apply_grants_frame)
qed

text \<open>C34: which events are accepted, and what a refusal leaves. \<open>Ok(c)\<close> is returned exactly for an event
  admitted for \<open>c\<close>, no older than the grant it replaces, whose content parses; content that does not parse
  still replaces it, by the profile that grants nothing; every other refusal changes nothing.\<close>

theorem apply_grant_outcome:
  assumes "g_node g = Some node"
  shows "(fst (apply_grant parse e g) = Inr c \<longleftrightarrow>
      admitted node (g_owners g) c e \<and> \<not> older_than e (get_raw g c) \<and> profile_of parse e \<noteq> None) \<and>
    (fst (apply_grant parse e g) = Inl Unparseable \<longrightarrow>
      (\<exists>c. admitted node (g_owners g) c e \<and>
        map_option vg_profile (get_raw (snd (apply_grant parse e g)) c) = Some default_profile)) \<and>
    (\<forall>r. fst (apply_grant parse e g) = Inl r \<and> r \<noteq> Unparseable \<longrightarrow> snd (apply_grant parse e g) = g)"
proof -
  have "fst (apply_grant parse e g) = Inr c \<longleftrightarrow>
      admitted node (g_owners g) c e \<and> \<not> older_than e (get_raw g c) \<and> profile_of parse e \<noteq> None"
    using assms by (auto simp: apply_grant_def admitted_def older_than_def Let_def split: option.splits)
  moreover have "\<exists>c. admitted node (g_owners g) c e \<and>
      map_option vg_profile (get_raw (snd (apply_grant parse e g)) c) = Some default_profile"
    if "fst (apply_grant parse e g) = Inl Unparseable"
  proof -
    from that assms obtain c where "admitted node (g_owners g) c e" "\<not> older_than e (get_raw g c)"
        "profile_of parse e = None"
      by (auto simp: apply_grant_def admitted_def older_than_def Let_def split: option.splits if_splits)
    then show ?thesis
      by (intro exI [of _ c]) (simp add: get_raw_apply [OF assms] verified_of_def)
  qed
  moreover have "snd (apply_grant parse e g) = g"
    if "fst (apply_grant parse e g) = Inl r" "r \<noteq> Unparseable" for r
    using that by (auto simp: apply_grant_def Let_def split: option.splits if_splits)
  ultimately show ?thesis by blast
qed

theorem apply_grant_outcome_witness:
  "fst (apply_grant (\<lambda>_. Some (JObj [])) (grant_event 1 2 (to_hex 3) 10 []) (grants_new 1 [2])) = Inr (to_hex 3)"
  using apply_grant_outcome [of "grants_new 1 [2]" 1 "\<lambda>_. Some (JObj [])" "grant_event 1 2 (to_hex 3) 10 []"
    "to_hex 3"]
  by (simp add: grants_new_def older_than_def get_raw_def profile_of_def de_UsageProfile_def
      struct_entries_def opt_def)

text \<open>Revocation is immediate and touches nobody else. Once an admitted event that is not older
  carries an empty profile, or content that does not parse, for a controller, that controller may make no
  wallet call, no control call and receive no notification, whatever \<open>OTHERS\<close> grants; the grant in
  force for every other controller is unchanged.\<close>

lemma revocation_immediate:
  assumes "g_node g = Some node" "admitted node (g_owners g) (to_hex pk) e"
    and "\<not> older_than e (get_raw g (to_hex pk))"
    and "profile_is_empty (vg_profile (verified_of parse e))"
  shows "(\<exists>vg. resolve (snd (apply_grant parse e g)) pk = Inr vg \<and>
      (\<forall>n. \<not> is_ok (allows_wallet (vg_profile vg) n) \<and> \<not> is_ok (allows_control (vg_profile vg) n) \<and>
        \<not> allows_notification (vg_profile vg) n)) \<and>
    (\<forall>pk'. pk' \<noteq> pk \<longrightarrow> resolve (snd (apply_grant parse e g)) pk' = resolve g pk')"
proof -
  have raw: "get_raw (snd (apply_grant parse e g)) c =
      (if c = to_hex pk then Some (verified_of parse e) else get_raw g c)" for c
    using assms(2,3) by (auto simp: get_raw_apply [OF assms(1)] admitted_def)
  then have "resolve (snd (apply_grant parse e g)) pk = Inr (verified_of parse e)"
    by (simp add: resolve_get_raw)
  moreover have "resolve (snd (apply_grant parse e g)) pk' = resolve g pk'" if "pk' \<noteq> pk" for pk'
    using that by (intro resolve_cong) (simp_all add: raw to_hex_not_OTHERS [symmetric])
  ultimately show ?thesis
    using empty_permits_nothing [OF assms(4)]
    by (simp add: allows_wallet_ok allows_control_ok allows_notification_iff)
qed

text \<open>The controller half of a \<open>d\<close> tag is not checked to be a public key. A grant naming any other
  string, an upper-case spelling of a key for one, is accepted with \<open>Ok\<close> and then applies to nobody.\<close>

lemma malformed_controller_inert:
  assumes "g_node g = Some node" "admitted node (g_owners g) c e" "\<not> older_than e (get_raw g c)"
    and "profile_of parse e \<noteq> None" "c \<noteq> OTHERS" "c \<notin> range to_hex"
  shows "fst (apply_grant parse e g) = Inr c \<and>
    (\<forall>pk. resolve (snd (apply_grant parse e g)) pk = resolve g pk)"
proof -
  have "get_raw (snd (apply_grant parse e g)) c' = (if c' = c then Some (verified_of parse e) else get_raw g c')" for c'
    using assms(2,3) by (auto simp: get_raw_apply [OF assms(1)] admitted_def)
  then have "resolve (snd (apply_grant parse e g)) pk = resolve g pk" for pk
    using assms(5,6) by (intro resolve_cong) auto
  moreover have "fst (apply_grant parse e g) = Inr c"
    using assms(1-4)
    by (auto simp: apply_grant_def admitted_def older_than_def Let_def split: option.splits)
  ultimately show ?thesis by blast
qed

end
