(* ===== verification/Subscription.thy ===== *)
theory Subscription
  imports Grant
begin

text \<open>
  \<^verbatim>\<open>src/subscription.rs\<close>: subscriptions, kind 30199, and delivery as the intersection of what a
  controller wants and what its grant permits. \<open>apply_sub\<close> is \<open>Subscriptions::apply\<close>; the node's
  NIP-44 decryption is the parameter \<open>decrypt\<close>, the reading of a JSON text the parameter \<open>parse\<close>, and
  the hash map's iteration order the parameter \<open>ord\<close> of \<open>recipients\<close>.
\<close>

section \<open>Data\<close>

definition SUBSCRIPTION_KIND :: u16 where
  "SUBSCRIPTION_KIND = 30199"

datatype SubRejected =
    SubWrongTarget
  | SubNotAddressedToThisNode
  | SubUnparseable
  | SubUndecryptable
  | SubNoGrant
  | SubSuperseded
  | SubWrongKind

record Wanted =
  w_types :: "string list"
  w_created_at :: u64

record Subscriptions =
  s_node :: "PublicKey option"
  s_by_controller :: "(string, Wanted) hashmap"

definition subs_default :: Subscriptions where
  "subs_default = \<lparr>s_node = None, s_by_controller = fmempty\<rparr>"

definition subs_new :: "PublicKey \<Rightarrow> Subscriptions" where
  "subs_new node = \<lparr>s_node = Some node, s_by_controller = fmempty\<rparr>"

section \<open>Operations\<close>

definition apply_sub ::
  "(PublicKey \<Rightarrow> string \<Rightarrow> string option) \<Rightarrow> (string \<Rightarrow> Value option) \<Rightarrow>
   Event \<Rightarrow> Grants \<Rightarrow> Subscriptions \<Rightarrow> (nat, SubRejected) result \<times> Subscriptions" where
  "apply_sub decrypt parse event grants s =
     (case s_node s of
        None \<Rightarrow> (Inl SubWrongTarget, s)
      | Some node \<Rightarrow>
          if ev_kind event \<noteq> SUBSCRIPTION_KIND then (Inl SubWrongKind, s)
          else
            (case find_d (ev_tags event) of
               None \<Rightarrow> (Inl SubWrongTarget, s)
             | Some d \<Rightarrow>
                 if d \<noteq> to_hex node then (Inl SubWrongTarget, s)
                 else if \<not> list_ex (\<lambda>t. tag_is t ''p'' (to_hex node)) (ev_tags event)
                   then (Inl SubNotAddressedToThisNode, s)
                 else if \<not> is_ok (resolve grants (ev_pubkey event)) then (Inl SubNoGrant, s)
                 else
                   (case decrypt (ev_pubkey event) (ev_content event) of
                      None \<Rightarrow> (Inl SubUndecryptable, s)
                    | Some plaintext \<Rightarrow>
                        (case Option.bind (parse plaintext) (de_vec de_string) of
                           None \<Rightarrow> (Inl SubUnparseable, s)
                         | Some types \<Rightarrow>
                             let created_at = ev_created_at event;
                                 controller = to_hex (ev_pubkey event)
                             in if (case fmlookup (s_by_controller s) controller of
                                      Some existing \<Rightarrow> created_at < w_created_at existing
                                    | None \<Rightarrow> False)
                                then (Inl SubSuperseded, s)
                                else
                                  (Inr (length types),
                                   s\<lparr>s_by_controller :=
                                     (if length types = 0
                                      then fmdrop controller (s_by_controller s)
                                      else fmupd controller
                                        \<lparr>w_types = types, w_created_at = created_at\<rparr>
                                        (s_by_controller s))\<rparr>)))))"

definition should_receive :: "Subscriptions \<Rightarrow> PublicKey \<Rightarrow> string \<Rightarrow> Grants \<Rightarrow> bool" where
  "should_receive s controller ty grants =
     (case fmlookup (s_by_controller s) (to_hex controller) of
        None \<Rightarrow> False
      | Some wanted \<Rightarrow>
          if \<not> list_ex (\<lambda>t. t = ty) (w_types wanted) then False
          else (case resolve grants controller of
                  Inr g \<Rightarrow> allows_notification (vg_profile g) ty
                | Inl _ \<Rightarrow> False))"

definition recipients ::
  "((string, Wanted) hashmap \<Rightarrow> string list) \<Rightarrow> Subscriptions \<Rightarrow> string \<Rightarrow> Grants \<Rightarrow> PublicKey list" where
  "recipients ord s ty grants =
     filter (\<lambda>pk. should_receive s pk ty grants) (List.map_filter from_hex (ord (s_by_controller s)))"

definition subs_len :: "Subscriptions \<Rightarrow> nat" where
  "subs_len s = fcard (fmdom (s_by_controller s))"

definition subs_is_empty :: "Subscriptions \<Rightarrow> bool" where
  "subs_is_empty s \<longleftrightarrow> s_by_controller s = fmempty"

section \<open>What one event does\<close>

definition sub_admitted :: "PublicKey \<Rightarrow> Grants \<Rightarrow> Event \<Rightarrow> bool" where
  "sub_admitted node grants event \<longleftrightarrow>
     ev_kind event = SUBSCRIPTION_KIND \<and> find_d (ev_tags event) = Some (to_hex node) \<and>
     list_ex (\<lambda>t. tag_is t ''p'' (to_hex node)) (ev_tags event) \<and>
     is_ok (resolve grants (ev_pubkey event))"

definition types_of ::
  "(PublicKey \<Rightarrow> string \<Rightarrow> string option) \<Rightarrow> (string \<Rightarrow> Value option) \<Rightarrow> Event \<Rightarrow> string list option" where
  "types_of decrypt parse event =
     Option.bind (decrypt (ev_pubkey event) (ev_content event))
       (\<lambda>plain. Option.bind (parse plain) (de_vec de_string))"

definition stale :: "Event \<Rightarrow> Subscriptions \<Rightarrow> bool" where
  "stale event s =
     (case fmlookup (s_by_controller s) (to_hex (ev_pubkey event)) of
        Some w \<Rightarrow> ev_created_at event < w_created_at w | None \<Rightarrow> False)"

definition subscribe_with :: "Event \<Rightarrow> string list \<Rightarrow> Subscriptions \<Rightarrow> Subscriptions" where
  "subscribe_with event types s =
     s\<lparr>s_by_controller :=
       (if types = [] then fmdrop (to_hex (ev_pubkey event)) (s_by_controller s)
        else fmupd (to_hex (ev_pubkey event))
          \<lparr>w_types = types, w_created_at = ev_created_at event\<rparr> (s_by_controller s))\<rparr>"

lemma apply_sub_ok_iff:
  assumes "s_node s = Some node"
  shows "apply_sub decrypt parse event grants s = (Inr n, s') \<longleftrightarrow>
    sub_admitted node grants event \<and> \<not> stale event s \<and>
    (\<exists>types. types_of decrypt parse event = Some types \<and> n = length types \<and>
      s' = subscribe_with event types s)"
  using assms
  by (auto simp: apply_sub_def sub_admitted_def types_of_def stale_def subscribe_with_def Let_def
      bind_eq_Some_conv split: option.splits if_splits)

lemma apply_sub_err: "fst (apply_sub decrypt parse event grants s) = Inl r \<Longrightarrow>
    snd (apply_sub decrypt parse event grants s) = s"
  by (auto simp: apply_sub_def Let_def split: option.splits if_splits)

lemma apply_sub_cases:
  assumes "s_node s = Some node"
  obtains (refused) r where "apply_sub decrypt parse event grants s = (Inl r, s)"
  | (applied) types where
      "apply_sub decrypt parse event grants s = (Inr (length types), subscribe_with event types s)"
      "sub_admitted node grants event" "\<not> stale event s" "types_of decrypt parse event = Some types"
proof (cases "apply_sub decrypt parse event grants s")
  case (Pair r s')
  show ?thesis
  proof (cases r)
    case (Inl e)
    with Pair apply_sub_err [of decrypt parse event grants s e] show ?thesis
      by (intro refused [of e]) simp
  next
    case (Inr n)
    with Pair apply_sub_ok_iff [OF assms, of decrypt parse event grants n s'] show ?thesis
      by (auto intro: applied)
  qed
qed

text \<open>Only spellings of public keys ever become keys of the registry.\<close>

definition subs_wf :: "Subscriptions \<Rightarrow> bool" where
  "subs_wf s \<longleftrightarrow> fset (fmdom (s_by_controller s)) \<subseteq> range to_hex"

lemma subs_wf_subscribe: "subs_wf s \<Longrightarrow> subs_wf (subscribe_with event types s)"
  by (auto simp: subs_wf_def subscribe_with_def)

lemma apply_sub_node [simp]: "s_node (snd (apply_sub decrypt parse event grants s)) = s_node s"
  by (simp add: apply_sub_def Let_def split: option.splits)

lemma apply_sub_wf: "subs_wf s \<Longrightarrow> subs_wf (snd (apply_sub decrypt parse event grants s))"
proof (cases "s_node s")
  case None
  then show "subs_wf s \<Longrightarrow> ?thesis" by (simp add: apply_sub_def)
next
  case (Some node)
  then show "subs_wf s \<Longrightarrow> ?thesis"
    by (cases rule: apply_sub_cases [of s node decrypt parse event grants])
      (simp_all add: subs_wf_subscribe)
qed

text \<open>The registry as a store driven by events, each with the grants in force when it arrives.\<close>

interpretation sub_store: input_store
  "\<lambda>(event, grants) s. snd (apply_sub decrypt parse event grants s)"
  "\<lambda>s. subs_wf s \<and> s_node s = node" for decrypt parse node
  by unfold_locales (auto simp: apply_sub_wf)

definition apply_subs ::
  "(PublicKey \<Rightarrow> string \<Rightarrow> string option) \<Rightarrow> (string \<Rightarrow> Value option) \<Rightarrow>
   (Event \<times> Grants) list \<Rightarrow> Subscriptions \<Rightarrow> Subscriptions" where
  "apply_subs decrypt parse = fold (\<lambda>(event, grants) s. snd (apply_sub decrypt parse event grants s))"

lemma apply_subs_wf: "subs_wf (apply_subs decrypt parse es (subs_new node))"
  using sub_store.run_inv [of "subs_new node" "Some node" decrypt parse es]
  by (simp add: apply_subs_def subs_wf_def subs_new_def)

section \<open>Delivery\<close>

lemma should_receive_iff:
  "should_receive s pk ty grants \<longleftrightarrow>
     (\<exists>w vg. fmlookup (s_by_controller s) (to_hex pk) = Some w \<and> ty \<in> set (w_types w) \<and>
       resolve grants pk = Inr vg \<and> allows_notification (vg_profile vg) ty)"
  by (auto simp: should_receive_def list_ex_iff split: option.splits sum.splits)

lemma map_filter_from_hex:
  "set ks \<subseteq> range to_hex \<Longrightarrow> set (List.map_filter from_hex ks) = {pk. to_hex pk \<in> set ks}"
  "set ks \<subseteq> range to_hex \<Longrightarrow> distinct ks \<Longrightarrow> distinct (List.map_filter from_hex ks)"
proof (induction ks)
  case (Cons k ks)
  {
    case 1
    then obtain pk where "k = to_hex pk" by auto
    with 1 Cons.IH(1) show ?case by (auto simp: List.map_filter_def)
  next
    case 2
    then obtain pk where "k = to_hex pk" by auto
    with 2 Cons.IH show ?case by (auto simp: List.map_filter_def)
  }
qed (simp_all add: List.map_filter_def)

lemma recipients_set:
  assumes "key_order ord" "subs_wf s"
  shows "set (recipients ord s ty grants) = {pk. should_receive s pk ty grants}"
    and "distinct (recipients ord s ty grants)"
proof -
  have keys: "set (ord (s_by_controller s)) \<subseteq> range to_hex"
    using assms by (simp add: hm_simps subs_wf_def)
  have "to_hex pk \<in> set (ord (s_by_controller s))" if "should_receive s pk ty grants" for pk
    using that assms(1) by (auto simp: hm_simps should_receive_iff fmdomI)
  with map_filter_from_hex(1) [OF keys] show "set (recipients ord s ty grants) = {pk. should_receive s pk ty grants}"
    by (auto simp: recipients_def)
  show "distinct (recipients ord s ty grants)"
    using map_filter_from_hex(2) [OF keys] assms(1) by (simp add: recipients_def hm_simps)
qed

section \<open>Properties\<close>

text \<open>A subscription event as a client writes it.\<close>

definition sub_event :: "PublicKey \<Rightarrow> PublicKey \<Rightarrow> u64 \<Rightarrow> string \<Rightarrow> Event" where
  "sub_event node author t content =
     \<lparr>ev_id = 0, ev_pubkey = author, ev_created_at = t, ev_kind = SUBSCRIPTION_KIND,
      ev_tags = [tag_identifier (to_hex node), tag_public_key node], ev_content = content\<rparr>"

lemma sub_admitted_sub_event [simp]:
  "sub_admitted node grants (sub_event node author t content) \<longleftrightarrow> is_ok (resolve grants author)"
  by (simp add: sub_admitted_def sub_event_def tag_identifier_def tag_public_key_def slice_get_def)

lemma sub_event_simps [simp]:
  "ev_pubkey (sub_event node author t content) = author"
  "ev_created_at (sub_event node author t content) = t"
  "ev_content (sub_event node author t content) = content"
  by (simp_all add: sub_event_def)

text \<open>A grant permitting every notification type, and a store in which one controller holds it.\<close>

definition notify_grant :: "PublicKey \<Rightarrow> VerifiedGrant" where
  "notify_grant owner =
     \<lparr>vg_profile = default_profile\<lparr>notifications := Some (fmupd OTHERS \<lparr>rate = None\<rparr> fmempty)\<rparr>,
      vg_created_at = 0, vg_owner = owner\<rparr>"

definition notify_grants :: "PublicKey \<Rightarrow> Grants" where
  "notify_grants pk = (grants_new 1 [2])\<lparr>g_by_controller := fmupd (to_hex pk) (notify_grant 2) fmempty\<rparr>"

lemma resolve_notify_grants [simp]: "resolve (notify_grants pk) pk = Inr (notify_grant 2)"
  by (simp add: resolve_def notify_grants_def)

lemma notify_grant_simps [simp]:
  "profile_is_valid (vg_profile (notify_grant owner))"
  "permits (notifications (vg_profile (notify_grant owner))) ty"
  "vg_created_at (notify_grant owner) = 0"
  by (simp_all add: notify_grant_def profile_is_valid_def default_profile_def rules_ok_def permits_def
      fmpred_iff)

text \<open>C30: delivery is the intersection. In every registry the service can reach, whatever order the hash
  map is walked in, the recipients of a notification type are exactly the controllers that hold a
  subscription naming it and whose grant in force is valid and permits it, each listed once.\<close>

theorem delivery_is_intersection:
  assumes "key_order ord" "s = apply_subs decrypt parse es (subs_new node)"
  shows "distinct (recipients ord s ty grants) \<and>
    set (recipients ord s ty grants) =
      {pk. \<exists>w vg. fmlookup (s_by_controller s) (to_hex pk) = Some w \<and> ty \<in> set (w_types w) \<and>
        resolve grants pk = Inr vg \<and> profile_is_valid (vg_profile vg) \<and>
        permits (notifications (vg_profile vg)) ty}"
proof -
  have "subs_wf s" unfolding assms(2) by (rule apply_subs_wf)
  from recipients_set [OF assms(1) this] show ?thesis
    by (simp add: should_receive_iff allows_notification_iff)
qed

theorem delivery_is_intersection_witness:
  "3 \<in> set (recipients sorted_keys
      (apply_subs (\<lambda>_ c. Some c) (\<lambda>_. Some (JArr [JStr ''channel_opened'']))
        [(sub_event 1 3 5 [], notify_grants 3)] (subs_new 1))
      ''channel_opened'' (notify_grants 3))"
  using delivery_is_intersection [OF key_order_sorted_keys refl, of "\<lambda>_ c. Some c"
      "\<lambda>_. Some (JArr [JStr ''channel_opened''])" "[(sub_event 1 3 5 [], notify_grants 3)]" 1
      "''channel_opened''" "notify_grants 3"]
  by (simp add: apply_subs_def apply_sub_def sub_event_def tag_identifier_def tag_public_key_def
      slice_get_def subs_new_def de_vec_def de_string_def)

text \<open>An unsolicited event costs nothing. For an author with no grant in force the outcome is decided
  before decryption: neither the signer nor the JSON reader is consulted, the registry is unchanged and
  the event refused.\<close>

lemma no_grant_no_decryption:
  assumes "resolve grants (ev_pubkey event) = Inl d"
  shows "apply_sub decrypt parse event grants s = apply_sub decrypt' parse' event grants s \<and>
    snd (apply_sub decrypt parse event grants s) = s \<and>
    \<not> is_ok (fst (apply_sub decrypt parse event grants s))"
  using assms by (simp add: apply_sub_def split: option.splits)

text \<open>A grant that is narrowed ends delivery at once. After a revoking grant event the controller
  receives no notification of any type, with the subscription registry untouched.\<close>

lemma narrowing_stops_delivery:
  assumes "key_order ord" "s = apply_subs decrypt parse es (subs_new node)"
    and "g_node g = Some node" "admitted node (g_owners g) (to_hex pk) e"
    and "\<not> older_than e (get_raw g (to_hex pk))"
    and "\<not> permits (notifications (vg_profile (verified_of parse e))) ty"
  shows "\<not> should_receive s pk ty (snd (apply_grant parse e g)) \<and>
    pk \<notin> set (recipients ord s ty (snd (apply_grant parse e g)))"
proof -
  have "get_raw (snd (apply_grant parse e g)) (to_hex pk) = Some (verified_of parse e)"
    using assms(4,5) by (simp add: get_raw_apply [OF assms(3)])
  then have "\<not> should_receive s pk ty (snd (apply_grant parse e g))"
    using assms(6) by (simp add: should_receive_iff resolve_get_raw allows_notification_iff)
  moreover have "subs_wf s" unfolding assms(2) by (rule apply_subs_wf)
  ultimately show ?thesis
    by (simp add: recipients_set(1) [OF assms(1)])
qed

text \<open>Unsubscribing forgets when it happened. After an empty subscription the registry has no
  timestamp left to compare with, so an older event from the same controller, replayed by any relay, is
  accepted and subscribes the controller again.\<close>

lemma unsubscribe_then_replay:
  assumes "s_node s = Some node" "\<not> stale off s"
    and "sub_admitted node grants off" "types_of decrypt parse off = Some []"
    and "sub_admitted node grants on" "types_of decrypt parse on = Some types" "types \<noteq> []"
    and "ev_pubkey on = ev_pubkey off" "ev_created_at on < ev_created_at off"
  shows "fst (apply_sub decrypt parse on grants (snd (apply_sub decrypt parse off grants s))) =
      Inr (length types) \<and>
    fmlookup (s_by_controller (snd (apply_sub decrypt parse on grants
        (snd (apply_sub decrypt parse off grants s))))) (to_hex (ev_pubkey off)) =
      Some \<lparr>w_types = types, w_created_at = ev_created_at on\<rparr>"
proof -
  have off: "apply_sub decrypt parse off grants s = (Inr 0, subscribe_with off [] s)"
    using assms(2-4) by (simp add: apply_sub_ok_iff [OF assms(1)])
  have node: "s_node (subscribe_with off [] s) = Some node"
    using assms(1) by (simp add: subscribe_with_def)
  have "\<not> stale on (subscribe_with off [] s)"
    using assms(8) by (simp add: stale_def subscribe_with_def)
  then have "apply_sub decrypt parse on grants (subscribe_with off [] s) =
      (Inr (length types), subscribe_with on types (subscribe_with off [] s))"
    using assms(5,6) by (simp add: apply_sub_ok_iff [OF node])
  with off assms(7,8) show ?thesis
    by (simp add: subscribe_with_def)
qed

text \<open>The registry is not bounded by what the owner wrote. While an \<open>OTHERS\<close> grant is in force every
  key holds a grant, so a stranger can fill the registry with one entry per key it makes up.\<close>

lemma others_registry_unbounded:
  assumes "has_others g" "distinct pks" "types \<noteq> []"
    and "\<And>pk. types_of decrypt parse (sub_event node pk 0 content) = Some types"
  shows "subs_len (apply_subs decrypt parse (map (\<lambda>pk. (sub_event node pk 0 content, g)) pks) (subs_new node)) =
    length pks"
proof -
  let ?run = "\<lambda>pks. apply_subs decrypt parse (map (\<lambda>pk. (sub_event node pk 0 content, g)) pks) (subs_new node)"
  have all: "is_ok (resolve g pk)" for pk
    using assms(1) by (auto simp: has_others_def resolve_def is_ok_iff split: option.splits)
  have node: "s_node (?run pks) = Some node" for pks
    using sub_store.run_inv [of "subs_new node" "Some node" decrypt parse]
    by (simp add: apply_subs_def subs_wf_def subs_new_def)
  have "fmdom (s_by_controller (?run pks)) = fset_of_list (map to_hex pks)" if "distinct pks" for pks
    using that
  proof (induction pks rule: rev_induct)
    case Nil
    then show ?case by (simp add: apply_subs_def subs_new_def)
  next
    case (snoc pk pks)
    have "to_hex pk |\<notin>| fmdom (s_by_controller (?run pks))"
      using snoc by (auto simp: fset_of_list_elem)
    then have "\<not> stale (sub_event node pk 0 content) (?run pks)"
      by (simp add: stale_def fmdom_notD)
    then have "apply_sub decrypt parse (sub_event node pk 0 content) g (?run pks) =
        (Inr (length types), subscribe_with (sub_event node pk 0 content) types (?run pks))"
      using all by (simp add: apply_sub_ok_iff [OF node] assms(4))
    then have "?run (pks @ [pk]) = subscribe_with (sub_event node pk 0 content) types (?run pks)"
      by (simp add: apply_subs_def)
    then show ?case
      using snoc assms(3) by (simp add: subscribe_with_def fset_of_list_append)
  qed
  with assms(2) have "fmdom (s_by_controller (?run pks)) = fset_of_list (map to_hex pks)" by blast
  moreover have "card (to_hex ` set pks) = length pks"
    using assms(2) by (simp add: card_image inj_on_def distinct_card)
  ultimately show ?thesis
    by (simp add: subs_len_def fcard.rep_eq fset_of_list.rep_eq)
qed

end
