(* ===== verification/NncWire.thy ===== *)
theory NncWire
  imports Nostr Json
begin

text \<open>
  The names NIP-XX puts on the wire and the envelopes around them: \<^verbatim>\<open>src/nnc/method.rs\<close>,
  \<^verbatim>\<open>src/nnc/error.rs\<close> and the first half of \<^verbatim>\<open>src/nnc/mod.rs\<close>. Four enums of the crate share one
  shape, a closed list of names and an \<open>Unknown(String)\<close> for the rest; the locale \<open>wire_name\<close> is that
  shape, interpreted for each.
\<close>

section \<open>Enums that never fail to parse\<close>

locale wire_name =
  fixes as_str :: "'m \<Rightarrow> string"
    and from_str :: "string \<Rightarrow> 'm"
    and all_known :: "'m list"
    and unknown :: "string \<Rightarrow> 'm"
  assumes as_str_from_str: "as_str (from_str s) = s"
    and from_str_as_str: "m \<in> set all_known \<Longrightarrow> from_str (as_str m) = m"
    and as_str_unknown: "as_str (unknown s) = s"
    and exhaustive: "m \<in> set all_known \<or> (\<exists>s. m = unknown s)"
    and unknown_not_known: "unknown s \<notin> set all_known"
begin

lemma from_str_inject: "from_str s = from_str s' \<longleftrightarrow> s = s'"
  by (metis as_str_from_str)

lemma from_str_unknown_iff: "from_str s = unknown s \<longleftrightarrow> s \<notin> as_str ` set all_known"
proof
  assume "from_str s = unknown s"
  then show "s \<notin> as_str ` set all_known"
    using from_str_as_str unknown_not_known by (metis imageE)
next
  assume "s \<notin> as_str ` set all_known"
  then have "from_str s \<notin> set all_known"
    by (metis as_str_from_str imageI)
  then show "from_str s = unknown s"
    using exhaustive [of "from_str s"] as_str_from_str as_str_unknown by metis
qed

lemma from_str_as_str_iff:
  "from_str (as_str m) = m \<longleftrightarrow> m \<in> set all_known \<or> (\<exists>s. m = unknown s \<and> s \<notin> as_str ` set all_known)"
  using exhaustive [of m] from_str_as_str [of m] from_str_unknown_iff as_str_unknown by metis

text \<open>Serialization is \<open>as_str\<close>, deserialization a string through \<open>from_str\<close>: every parsed name
  survives.\<close>

lemma parsed_name_round_trip: "map_option from_str (de_string (JStr (as_str (from_str s)))) = Some (from_str s)"
  by (simp add: codec_simps as_str_from_str)

end

section \<open>Methods\<close>

datatype Method =
    ListChannels
  | OpenChannel
  | CloseChannel
  | ListPeers
  | ConnectPeer
  | DisconnectPeer
  | GetChannelFees
  | SetChannelFees
  | GetForwardingHistory
  | GetPendingHtlcs
  | QueryRoutes
  | ListNetworkNodes
  | GetNetworkStats
  | GetNetworkNode
  | GetNetworkChannel
  | SignMessage
  | UnknownMethod string

definition method_ALL :: "Method list" where
  "method_ALL = [ListChannels, OpenChannel, CloseChannel, ListPeers, ConnectPeer, DisconnectPeer,
     GetChannelFees, SetChannelFees, GetForwardingHistory, GetPendingHtlcs,
     QueryRoutes, ListNetworkNodes, GetNetworkStats, GetNetworkNode,
     GetNetworkChannel, SignMessage]"

fun method_as_str :: "Method \<Rightarrow> string" where
  "method_as_str ListChannels = ''list_channels''"
| "method_as_str OpenChannel = ''open_channel''"
| "method_as_str CloseChannel = ''close_channel''"
| "method_as_str ListPeers = ''list_peers''"
| "method_as_str ConnectPeer = ''connect_peer''"
| "method_as_str DisconnectPeer = ''disconnect_peer''"
| "method_as_str GetChannelFees = ''get_channel_fees''"
| "method_as_str SetChannelFees = ''set_channel_fees''"
| "method_as_str GetForwardingHistory = ''get_forwarding_history''"
| "method_as_str GetPendingHtlcs = ''get_pending_htlcs''"
| "method_as_str QueryRoutes = ''query_routes''"
| "method_as_str ListNetworkNodes = ''list_network_nodes''"
| "method_as_str GetNetworkStats = ''get_network_stats''"
| "method_as_str GetNetworkNode = ''get_network_node''"
| "method_as_str GetNetworkChannel = ''get_network_channel''"
| "method_as_str SignMessage = ''sign_message''"
| "method_as_str (UnknownMethod s) = s"

definition method_from_str :: "string \<Rightarrow> Method" where
  "method_from_str s =
     (if s = ''list_channels'' then ListChannels
      else if s = ''open_channel'' then OpenChannel
      else if s = ''close_channel'' then CloseChannel
      else if s = ''list_peers'' then ListPeers
      else if s = ''connect_peer'' then ConnectPeer
      else if s = ''disconnect_peer'' then DisconnectPeer
      else if s = ''get_channel_fees'' then GetChannelFees
      else if s = ''set_channel_fees'' then SetChannelFees
      else if s = ''get_forwarding_history'' then GetForwardingHistory
      else if s = ''get_pending_htlcs'' then GetPendingHtlcs
      else if s = ''query_routes'' then QueryRoutes
      else if s = ''list_network_nodes'' then ListNetworkNodes
      else if s = ''get_network_stats'' then GetNetworkStats
      else if s = ''get_network_node'' then GetNetworkNode
      else if s = ''get_network_channel'' then GetNetworkChannel
      else if s = ''sign_message'' then SignMessage
      else UnknownMethod s)"

fun is_asynchronous :: "Method \<Rightarrow> bool" where
  "is_asynchronous OpenChannel = True"
| "is_asynchronous CloseChannel = True"
| "is_asynchronous _ = False"

lemma method_as_str_from_str: "method_as_str (method_from_str s) = s"
  unfolding method_from_str_def by (intro if_chain [where f = method_as_str]) simp_all

interpretation control_method: wire_name method_as_str method_from_str method_ALL UnknownMethod
proof unfold_locales
  show "method_as_str (method_from_str s) = s" for s
    by (rule method_as_str_from_str)
  have "list_all (\<lambda>m. method_from_str (method_as_str m) = m) method_ALL"
    by code_simp
  then show "m \<in> set method_ALL \<Longrightarrow> method_from_str (method_as_str m) = m" for m
    by (simp add: list_all_iff)
  show "m \<in> set method_ALL \<or> (\<exists>s. m = UnknownMethod s)" for m
    by (cases m) (auto simp: method_ALL_def)
qed (auto simp: method_ALL_def)

section \<open>Notification types\<close>

datatype NotificationType =
    ChannelOpened
  | ChannelClosed
  | UnknownNotification string

definition notification_ALL :: "NotificationType list" where
  "notification_ALL = [ChannelOpened, ChannelClosed]"

fun notification_as_str :: "NotificationType \<Rightarrow> string" where
  "notification_as_str ChannelOpened = ''channel_opened''"
| "notification_as_str ChannelClosed = ''channel_closed''"
| "notification_as_str (UnknownNotification s) = s"

definition notification_from_str :: "string \<Rightarrow> NotificationType" where
  "notification_from_str s =
     (if s = ''channel_opened'' then ChannelOpened
      else if s = ''channel_closed'' then ChannelClosed
      else UnknownNotification s)"

interpretation notification: wire_name notification_as_str notification_from_str notification_ALL
  UnknownNotification
proof unfold_locales
  show "notification_as_str (notification_from_str s) = s" for s
    unfolding notification_from_str_def by (intro if_chain [where f = notification_as_str]) simp_all
  have "list_all (\<lambda>m. notification_from_str (notification_as_str m) = m) notification_ALL"
    by code_simp
  then show "m \<in> set notification_ALL \<Longrightarrow> notification_from_str (notification_as_str m) = m" for m
    by (simp add: list_all_iff)
  show "m \<in> set notification_ALL \<or> (\<exists>s. m = UnknownNotification s)" for m
    by (cases m) (auto simp: notification_ALL_def)
qed (auto simp: notification_ALL_def)

text \<open>\<open>Method::notification\<close>: what an asynchronous method's outcome arrives as.\<close>

fun method_notification :: "Method \<Rightarrow> NotificationType option" where
  "method_notification OpenChannel = Some ChannelOpened"
| "method_notification CloseChannel = Some ChannelClosed"
| "method_notification _ = None"

section \<open>Errors\<close>

datatype ErrorCode =
    EC_RateLimited
  | EC_NotImplemented
  | EC_Restricted
  | EC_Unauthorized
  | EC_QuotaExceeded
  | EC_NotFound
  | EC_MultipleMatches
  | EC_UnsupportedPaymentType
  | EC_UnsupportedPaymentInstruction
  | EC_FeeLimitExceeded
  | EC_ChannelFailed
  | EC_ConnectionFailed
  | EC_InsufficientBalance
  | EC_PaymentFailed
  | EC_UnsupportedEncryption
  | EC_BadRequest
  | EC_UnsupportedNetwork
  | EC_Internal
  | EC_Other
  | EC_Unknown string

fun error_code_display :: "ErrorCode \<Rightarrow> string" where
  "error_code_display EC_RateLimited = ''RATE_LIMITED''"
| "error_code_display EC_NotImplemented = ''NOT_IMPLEMENTED''"
| "error_code_display EC_Restricted = ''RESTRICTED''"
| "error_code_display EC_Unauthorized = ''UNAUTHORIZED''"
| "error_code_display EC_QuotaExceeded = ''QUOTA_EXCEEDED''"
| "error_code_display EC_NotFound = ''NOT_FOUND''"
| "error_code_display EC_MultipleMatches = ''MULTIPLE_MATCHES''"
| "error_code_display EC_UnsupportedPaymentType = ''UNSUPPORTED_PAYMENT_TYPE''"
| "error_code_display EC_UnsupportedPaymentInstruction = ''UNSUPPORTED_PAYMENT_INSTRUCTION''"
| "error_code_display EC_FeeLimitExceeded = ''FEE_LIMIT_EXCEEDED''"
| "error_code_display EC_ChannelFailed = ''CHANNEL_FAILED''"
| "error_code_display EC_ConnectionFailed = ''CONNECTION_FAILED''"
| "error_code_display EC_InsufficientBalance = ''INSUFFICIENT_BALANCE''"
| "error_code_display EC_PaymentFailed = ''PAYMENT_FAILED''"
| "error_code_display EC_UnsupportedEncryption = ''UNSUPPORTED_ENCRYPTION''"
| "error_code_display EC_BadRequest = ''BAD_REQUEST''"
| "error_code_display EC_UnsupportedNetwork = ''UNSUPPORTED_NETWORK''"
| "error_code_display EC_Internal = ''INTERNAL''"
| "error_code_display EC_Other = ''OTHER''"
| "error_code_display (EC_Unknown s) = s"

fun en_ErrorCode :: "ErrorCode \<Rightarrow> Value" where
  "en_ErrorCode EC_RateLimited = JStr ''RATE_LIMITED''"
| "en_ErrorCode EC_NotImplemented = JStr ''NOT_IMPLEMENTED''"
| "en_ErrorCode EC_Restricted = JStr ''RESTRICTED''"
| "en_ErrorCode EC_Unauthorized = JStr ''UNAUTHORIZED''"
| "en_ErrorCode EC_QuotaExceeded = JStr ''QUOTA_EXCEEDED''"
| "en_ErrorCode EC_NotFound = JStr ''NOT_FOUND''"
| "en_ErrorCode EC_MultipleMatches = JStr ''MULTIPLE_MATCHES''"
| "en_ErrorCode EC_UnsupportedPaymentType = JStr ''UNSUPPORTED_PAYMENT_TYPE''"
| "en_ErrorCode EC_UnsupportedPaymentInstruction = JStr ''UNSUPPORTED_PAYMENT_INSTRUCTION''"
| "en_ErrorCode EC_FeeLimitExceeded = JStr ''FEE_LIMIT_EXCEEDED''"
| "en_ErrorCode EC_ChannelFailed = JStr ''CHANNEL_FAILED''"
| "en_ErrorCode EC_ConnectionFailed = JStr ''CONNECTION_FAILED''"
| "en_ErrorCode EC_InsufficientBalance = JStr ''INSUFFICIENT_BALANCE''"
| "en_ErrorCode EC_PaymentFailed = JStr ''PAYMENT_FAILED''"
| "en_ErrorCode EC_UnsupportedEncryption = JStr ''UNSUPPORTED_ENCRYPTION''"
| "en_ErrorCode EC_BadRequest = JStr ''BAD_REQUEST''"
| "en_ErrorCode EC_UnsupportedNetwork = JStr ''UNSUPPORTED_NETWORK''"
| "en_ErrorCode EC_Internal = JStr ''INTERNAL''"
| "en_ErrorCode EC_Other = JStr ''OTHER''"
| "en_ErrorCode (EC_Unknown s) = JStr s"

definition error_code_variant :: "string \<Rightarrow> ErrorCode option" where
  "error_code_variant s =
     (if s = ''RATE_LIMITED'' then Some EC_RateLimited
      else if s = ''NOT_IMPLEMENTED'' then Some EC_NotImplemented
      else if s = ''RESTRICTED'' then Some EC_Restricted
      else if s = ''UNAUTHORIZED'' then Some EC_Unauthorized
      else if s = ''QUOTA_EXCEEDED'' then Some EC_QuotaExceeded
      else if s = ''NOT_FOUND'' then Some EC_NotFound
      else if s = ''MULTIPLE_MATCHES'' then Some EC_MultipleMatches
      else if s = ''UNSUPPORTED_PAYMENT_TYPE'' then Some EC_UnsupportedPaymentType
      else if s = ''UNSUPPORTED_PAYMENT_INSTRUCTION'' then Some EC_UnsupportedPaymentInstruction
      else if s = ''FEE_LIMIT_EXCEEDED'' then Some EC_FeeLimitExceeded
      else if s = ''CHANNEL_FAILED'' then Some EC_ChannelFailed
      else if s = ''CONNECTION_FAILED'' then Some EC_ConnectionFailed
      else if s = ''INSUFFICIENT_BALANCE'' then Some EC_InsufficientBalance
      else if s = ''PAYMENT_FAILED'' then Some EC_PaymentFailed
      else if s = ''UNSUPPORTED_ENCRYPTION'' then Some EC_UnsupportedEncryption
      else if s = ''BAD_REQUEST'' then Some EC_BadRequest
      else if s = ''UNSUPPORTED_NETWORK'' then Some EC_UnsupportedNetwork
      else if s = ''INTERNAL'' then Some EC_Internal
      else if s = ''OTHER'' then Some EC_Other
      else None)"

definition de_ErrorCode :: "Value \<Rightarrow> ErrorCode option" where
  "de_ErrorCode v = de_variant_or error_code_variant EC_Unknown v"

text \<open>
  A message is its text, except that one formatted around a \<open>serde_json\<close> error keeps only the text in
  front of it: \<open>MsgSerde ''bad params''\<close> is \<open>format!("bad params: {e}")\<close>.
\<close>

datatype message = Msg string | MsgSerde string

record NncError =
  err_code :: ErrorCode
  err_message :: message

definition nnc_error :: "ErrorCode \<Rightarrow> string \<Rightarrow> NncError" where
  "nnc_error c m = \<lparr>err_code = c, err_message = Msg m\<rparr>"

definition serde_failure :: "ErrorCode \<Rightarrow> string \<Rightarrow> NncError" where
  "serde_failure c m = \<lparr>err_code = c, err_message = MsgSerde m\<rparr>"

definition not_implemented :: "string \<Rightarrow> NncError" where
  "not_implemented method = nnc_error EC_NotImplemented (method @ '' is not implemented'')"

text \<open>\<open>render\<close> turns a message into its text; on a plain text it is the identity.\<close>

definition en_NncError :: "(message \<Rightarrow> string) \<Rightarrow> NncError \<Rightarrow> Value" where
  "en_NncError render e =
     JObj (en_fields [(''code'', Some (en_ErrorCode (err_code e))),
                      (''message'', Some (JStr (render (err_message e))))])"

definition de_NncError :: "Value \<Rightarrow> NncError option" where
  "de_NncError v = do {
     es \<leftarrow> struct_entries [(''code'', False), (''message'', False)] v;
     c \<leftarrow> req de_ErrorCode ''code'' es;
     m \<leftarrow> req de_string ''message'' es;
     Some (nnc_error c m)
   }"

section \<open>Envelopes\<close>

record Request =
  rq_method :: Method
  rq_params :: Value

definition de_Request :: "Value \<Rightarrow> Request option" where
  "de_Request v = do {
     es \<leftarrow> struct_entries [(''method'', False), (''params'', True)] v;
     m \<leftarrow> req de_string ''method'' es;
     p \<leftarrow> dflt de_value JNull ''params'' es;
     Some \<lparr>rq_method = method_from_str m, rq_params = p\<rparr>
   }"

definition en_Request :: "Request \<Rightarrow> Value" where
  "en_Request r =
     JObj (en_fields [(''method'', Some (JStr (method_as_str (rq_method r)))),
                      (''params'', Some (rq_params r))])"

record Response =
  rs_result_type :: Method
  rs_result :: "Value option"
  rs_error :: "NncError option"

definition response_ok :: "Method \<Rightarrow> Value \<Rightarrow> Response" where
  "response_ok m v = \<lparr>rs_result_type = m, rs_result = Some v, rs_error = None\<rparr>"

definition response_err :: "Method \<Rightarrow> NncError \<Rightarrow> Response" where
  "response_err m e = \<lparr>rs_result_type = m, rs_result = None, rs_error = Some e\<rparr>"

definition is_acknowledgement :: "Response \<Rightarrow> bool" where
  "is_acknowledgement r \<longleftrightarrow> rs_error r = None \<and> is_asynchronous (rs_result_type r)"

datatype ResultError = Failed NncError | Empty | Malformed

definition result_as :: "(Value \<Rightarrow> 'r option) \<Rightarrow> Response \<Rightarrow> ('r, ResultError) result" where
  "result_as d r =
     (case (rs_result r, rs_error r) of
        (_, Some e) \<Rightarrow> Inl (Failed e)
      | (Some v, None) \<Rightarrow> ok_or (d v) Malformed
      | (None, None) \<Rightarrow> Inl Empty)"

definition en_Response :: "(message \<Rightarrow> string) \<Rightarrow> Response \<Rightarrow> Value" where
  "en_Response render r =
     JObj (en_fields [(''result_type'', Some (JStr (method_as_str (rs_result_type r)))),
                      (''result'', rs_result r),
                      (''error'', map_option (en_NncError render) (rs_error r))])"

definition de_Response :: "Value \<Rightarrow> Response option" where
  "de_Response v = do {
     es \<leftarrow> struct_entries [(''result_type'', False), (''result'', True), (''error'', True)] v;
     m \<leftarrow> req de_string ''result_type'' es;
     r \<leftarrow> opt de_value ''result'' es;
     e \<leftarrow> opt de_NncError ''error'' es;
     Some \<lparr>rs_result_type = method_from_str m, rs_result = r, rs_error = e\<rparr>
   }"

record Notification =
  nt_type :: NotificationType
  nt_payload :: Value

definition en_Notification :: "Notification \<Rightarrow> Value" where
  "en_Notification n =
     JObj (en_fields [(''notification_type'', Some (JStr (notification_as_str (nt_type n)))),
                      (''notification'', Some (nt_payload n))])"

definition de_Notification :: "Value \<Rightarrow> Notification option" where
  "de_Notification v = do {
     es \<leftarrow> struct_entries [(''notification_type'', False), (''notification'', False)] v;
     t \<leftarrow> req de_string ''notification_type'' es;
     p \<leftarrow> req de_value ''notification'' es;
     Some \<lparr>nt_type = notification_from_str t, nt_payload = p\<rparr>
   }"

section \<open>Laws of the envelopes\<close>

lemma en_ErrorCode_display: "en_ErrorCode c = JStr (error_code_display c)"
  by (cases c) simp_all

lemma de_en_ErrorCode_known:
  "(\<forall>s. c = EC_Unknown s \<longrightarrow> error_code_variant s = None) \<Longrightarrow> de_ErrorCode (en_ErrorCode c) = Some c"
  by (cases c) (simp_all add: de_ErrorCode_def de_variant_or_def de_variant_def error_code_variant_def)

lemma en_NncError_not_null [codec_simps]: "en_NncError render e \<noteq> JNull"
  by (simp add: en_NncError_def)

lemma de_en_NncError:
  assumes "\<forall>s. err_code e = EC_Unknown s \<longrightarrow> error_code_variant s = None"
  shows "de_NncError (en_NncError render e) = Some (nnc_error (err_code e) (render (err_message e)))"
  using assms
  by (simp add: de_NncError_def en_NncError_def codec_simps de_en_ErrorCode_known)

lemma de_en_Request:
  assumes "value_wf (rq_params r)"
  shows "de_Request (en_Request r) = Some (r\<lparr>rq_method := method_from_str (method_as_str (rq_method r))\<rparr>)"
  using assms
  by (simp add: de_Request_def en_Request_def codec_simps)

end
