(* ===== verification/NncMethods.thy ===== *)
theory NncMethods
  imports NncWire
begin

text \<open>
  The messages of the sixteen NIP-XX methods: the Lightning types of \<^verbatim>\<open>src/nnc/types.rs\<close> and the request
  and response structs of \<^verbatim>\<open>src/nnc/methods.rs\<close>. A struct is a record, its derived \<open>Deserialize\<close> is
  \<open>de_T\<close>, its derived \<open>Serialize\<close> is \<open>en_T\<close>; for each, reading what was written gives it back. Where a
  value could be written that reads back differently, \<open>wf_T\<close> says which values are not of that kind: an
  \<open>Unknown\<close> variant holding a known name, a \<open>Some(Value::Null)\<close>, extra entries that shadow a field.
\<close>

section \<open>Shared types (nnc/types.rs)\<close>

datatype ChannelState =
    CS_Active
  | CS_Inactive
  | CS_PendingOpen
  | CS_PendingClose
  | CS_ForceClosing
  | CS_Unknown string

definition channel_state_variant :: "string \<Rightarrow> ChannelState option" where
  "channel_state_variant s =
     (if s = ''active'' then Some CS_Active
      else if s = ''inactive'' then Some CS_Inactive
      else if s = ''pending_open'' then Some CS_PendingOpen
      else if s = ''pending_close'' then Some CS_PendingClose
      else if s = ''force_closing'' then Some CS_ForceClosing
      else None)"

definition de_ChannelState :: "Value \<Rightarrow> ChannelState option" where
  "de_ChannelState v = de_variant_or channel_state_variant CS_Unknown v"

fun en_ChannelState :: "ChannelState \<Rightarrow> Value" where
  "en_ChannelState CS_Active = JStr ''active''"
| "en_ChannelState CS_Inactive = JStr ''inactive''"
| "en_ChannelState CS_PendingOpen = JStr ''pending_open''"
| "en_ChannelState CS_PendingClose = JStr ''pending_close''"
| "en_ChannelState CS_ForceClosing = JStr ''force_closing''"
| "en_ChannelState (CS_Unknown s) = JStr s"

text \<open>The unknown variant holds only strings that name no known one.\<close>

definition wf_ChannelState :: "ChannelState \<Rightarrow> bool" where
  "wf_ChannelState x = (case x of CS_Unknown s \<Rightarrow> channel_state_variant s = None | _ \<Rightarrow> True)"

lemma de_en_ChannelState [codec_simps]: "wf_ChannelState x \<Longrightarrow> de_ChannelState (en_ChannelState x) = Some x"
  by (cases x) (simp_all add: wf_ChannelState_def de_ChannelState_def de_variant_or_def de_variant_def channel_state_variant_def)

lemma en_ChannelState_not_null [codec_simps]: "en_ChannelState x \<noteq> JNull"
  by (cases x) simp_all

datatype CloseType =
    CT_Cooperative
  | CT_ForceLocal
  | CT_ForceRemote
  | CT_Breach
  | CT_Unknown string

definition close_type_variant :: "string \<Rightarrow> CloseType option" where
  "close_type_variant s =
     (if s = ''cooperative'' then Some CT_Cooperative
      else if s = ''force_local'' then Some CT_ForceLocal
      else if s = ''force_remote'' then Some CT_ForceRemote
      else if s = ''breach'' then Some CT_Breach
      else None)"

definition de_CloseType :: "Value \<Rightarrow> CloseType option" where
  "de_CloseType v = de_variant_or close_type_variant CT_Unknown v"

fun en_CloseType :: "CloseType \<Rightarrow> Value" where
  "en_CloseType CT_Cooperative = JStr ''cooperative''"
| "en_CloseType CT_ForceLocal = JStr ''force_local''"
| "en_CloseType CT_ForceRemote = JStr ''force_remote''"
| "en_CloseType CT_Breach = JStr ''breach''"
| "en_CloseType (CT_Unknown s) = JStr s"

text \<open>The unknown variant holds only strings that name no known one.\<close>

definition wf_CloseType :: "CloseType \<Rightarrow> bool" where
  "wf_CloseType x = (case x of CT_Unknown s \<Rightarrow> close_type_variant s = None | _ \<Rightarrow> True)"

lemma de_en_CloseType [codec_simps]: "wf_CloseType x \<Longrightarrow> de_CloseType (en_CloseType x) = Some x"
  by (cases x) (simp_all add: wf_CloseType_def de_CloseType_def de_variant_or_def de_variant_def close_type_variant_def)

lemma en_CloseType_not_null [codec_simps]: "en_CloseType x \<noteq> JNull"
  by (cases x) simp_all

record Channel =
  channel_id :: string
  channel_short_channel_id :: "string option"
  channel_peer_pubkey :: string
  channel_state :: "ChannelState option"
  channel_is_private :: bool
  channel_capacity :: "u64 option"
  channel_local_balance :: "u64 option"
  channel_remote_balance :: "u64 option"
  channel_funding_txid :: "string option"
  channel_extra :: entries

definition de_Channel :: "Value \<Rightarrow> Channel option" where
  "de_Channel v = do {
     (es, x9) \<leftarrow> flat_entries [''id'', ''short_channel_id'', ''peer_pubkey'', ''state'', ''is_private'',
       ''capacity'', ''local_balance'', ''remote_balance'', ''funding_txid''] v;
     x0 \<leftarrow> req de_string ''id'' es;
     x1 \<leftarrow> opt de_string ''short_channel_id'' es;
     x2 \<leftarrow> req de_string ''peer_pubkey'' es;
     x3 \<leftarrow> opt de_ChannelState ''state'' es;
     x4 \<leftarrow> dflt de_bool False ''is_private'' es;
     x5 \<leftarrow> opt de_u64 ''capacity'' es;
     x6 \<leftarrow> opt de_u64 ''local_balance'' es;
     x7 \<leftarrow> opt de_u64 ''remote_balance'' es;
     x8 \<leftarrow> opt de_string ''funding_txid'' es;
     Some \<lparr>channel_id = x0, channel_short_channel_id = x1, channel_peer_pubkey = x2,
       channel_state = x3, channel_is_private = x4, channel_capacity = x5,
       channel_local_balance = x6, channel_remote_balance = x7, channel_funding_txid = x8,
       channel_extra = x9\<rparr>
   }"

definition en_Channel :: "Channel \<Rightarrow> Value" where
  "en_Channel r = JObj (en_fields [
       (''id'', Some (JStr (channel_id r))),
       (''short_channel_id'', map_option JStr (channel_short_channel_id r)),
       (''peer_pubkey'', Some (JStr (channel_peer_pubkey r))),
       (''state'', map_option en_ChannelState (channel_state r)),
       (''is_private'', Some (JBool (channel_is_private r))),
       (''capacity'', map_option en_u64 (channel_capacity r)),
       (''local_balance'', map_option en_u64 (channel_local_balance r)),
       (''remote_balance'', map_option en_u64 (channel_remote_balance r)),
       (''funding_txid'', map_option JStr (channel_funding_txid r))] @ channel_extra r)"

definition wf_Channel :: "Channel \<Rightarrow> bool" where
  "wf_Channel r \<longleftrightarrow> pred_option wf_ChannelState (channel_state r) \<and>
     extra_wf [''id'', ''short_channel_id'', ''peer_pubkey'', ''state'', ''is_private'',
       ''capacity'', ''local_balance'', ''remote_balance'', ''funding_txid''] (channel_extra r)"

lemma de_en_Channel [codec_simps]: "wf_Channel r \<Longrightarrow> de_Channel (en_Channel r) = Some r"
  by (cases "channel_state r") (simp_all add: de_Channel_def en_Channel_def wf_Channel_def codec_simps)

lemma en_Channel_not_null [codec_simps]: "en_Channel r \<noteq> JNull"
  by (simp add: en_Channel_def)

record Peer =
  peer_pubkey :: string
  peer_address :: "string option"
  peer_connected :: bool
  peer_alias :: "string option"
  peer_num_channels :: "u64 option"

definition de_Peer :: "Value \<Rightarrow> Peer option" where
  "de_Peer v = do {
     es \<leftarrow> struct_entries [(''pubkey'', False), (''address'', True), (''connected'', True), (''alias'', True),
       (''num_channels'', True)] v;
     x0 \<leftarrow> req de_string ''pubkey'' es;
     x1 \<leftarrow> opt de_string ''address'' es;
     x2 \<leftarrow> dflt de_bool False ''connected'' es;
     x3 \<leftarrow> opt de_string ''alias'' es;
     x4 \<leftarrow> opt de_u64 ''num_channels'' es;
     Some \<lparr>peer_pubkey = x0, peer_address = x1, peer_connected = x2, peer_alias = x3,
       peer_num_channels = x4\<rparr>
   }"

definition en_Peer :: "Peer \<Rightarrow> Value" where
  "en_Peer r = JObj (en_fields [
       (''pubkey'', Some (JStr (peer_pubkey r))),
       (''address'', map_option JStr (peer_address r)),
       (''connected'', Some (JBool (peer_connected r))),
       (''alias'', map_option JStr (peer_alias r)),
       (''num_channels'', map_option en_u64 (peer_num_channels r))])"

lemma de_en_Peer [codec_simps]: "de_Peer (en_Peer r) = Some r"
  by (simp add: de_Peer_def en_Peer_def codec_simps)

lemma en_Peer_not_null [codec_simps]: "en_Peer r \<noteq> JNull"
  by (simp add: en_Peer_def)

record ChannelFees =
  channel_fees_id :: string
  channel_fees_short_channel_id :: "string option"
  channel_fees_peer_pubkey :: "string option"
  channel_fees_base_fee :: u64
  channel_fees_fee_rate :: u64
  channel_fees_min_htlc :: "u64 option"
  channel_fees_max_htlc :: "u64 option"
  channel_fees_extra :: entries

definition de_ChannelFees :: "Value \<Rightarrow> ChannelFees option" where
  "de_ChannelFees v = do {
     (es, x7) \<leftarrow> flat_entries [''id'', ''short_channel_id'', ''peer_pubkey'', ''base_fee'', ''fee_rate'',
       ''min_htlc'', ''max_htlc''] v;
     x0 \<leftarrow> req de_string ''id'' es;
     x1 \<leftarrow> opt de_string ''short_channel_id'' es;
     x2 \<leftarrow> opt de_string ''peer_pubkey'' es;
     x3 \<leftarrow> req de_u64 ''base_fee'' es;
     x4 \<leftarrow> req de_u64 ''fee_rate'' es;
     x5 \<leftarrow> opt de_u64 ''min_htlc'' es;
     x6 \<leftarrow> opt de_u64 ''max_htlc'' es;
     Some \<lparr>channel_fees_id = x0, channel_fees_short_channel_id = x1,
       channel_fees_peer_pubkey = x2, channel_fees_base_fee = x3, channel_fees_fee_rate =
       x4, channel_fees_min_htlc = x5, channel_fees_max_htlc = x6, channel_fees_extra =
       x7\<rparr>
   }"

definition en_ChannelFees :: "ChannelFees \<Rightarrow> Value" where
  "en_ChannelFees r = JObj (en_fields [
       (''id'', Some (JStr (channel_fees_id r))),
       (''short_channel_id'', map_option JStr (channel_fees_short_channel_id r)),
       (''peer_pubkey'', map_option JStr (channel_fees_peer_pubkey r)),
       (''base_fee'', Some (en_u64 (channel_fees_base_fee r))),
       (''fee_rate'', Some (en_u64 (channel_fees_fee_rate r))),
       (''min_htlc'', map_option en_u64 (channel_fees_min_htlc r)),
       (''max_htlc'', map_option en_u64 (channel_fees_max_htlc r))] @ channel_fees_extra r)"

definition wf_ChannelFees :: "ChannelFees \<Rightarrow> bool" where
  "wf_ChannelFees r \<longleftrightarrow> extra_wf [''id'', ''short_channel_id'', ''peer_pubkey'', ''base_fee'', ''fee_rate'',
       ''min_htlc'', ''max_htlc''] (channel_fees_extra r)"

lemma de_en_ChannelFees [codec_simps]: "wf_ChannelFees r \<Longrightarrow> de_ChannelFees (en_ChannelFees r) = Some r"
  by (simp add: de_ChannelFees_def en_ChannelFees_def wf_ChannelFees_def codec_simps)

lemma en_ChannelFees_not_null [codec_simps]: "en_ChannelFees r \<noteq> JNull"
  by (simp add: en_ChannelFees_def)

record ForwardingEvent =
  forwarding_event_incoming_channel_id :: string
  forwarding_event_outgoing_channel_id :: string
  forwarding_event_incoming_amount :: u64
  forwarding_event_outgoing_amount :: u64
  forwarding_event_fee_earned :: u64
  forwarding_event_settled_at :: u64

definition de_ForwardingEvent :: "Value \<Rightarrow> ForwardingEvent option" where
  "de_ForwardingEvent v = do {
     es \<leftarrow> struct_entries [(''incoming_channel_id'', False), (''outgoing_channel_id'', False),
       (''incoming_amount'', False), (''outgoing_amount'', False), (''fee_earned'', False),
       (''settled_at'', False)] v;
     x0 \<leftarrow> req de_string ''incoming_channel_id'' es;
     x1 \<leftarrow> req de_string ''outgoing_channel_id'' es;
     x2 \<leftarrow> req de_u64 ''incoming_amount'' es;
     x3 \<leftarrow> req de_u64 ''outgoing_amount'' es;
     x4 \<leftarrow> req de_u64 ''fee_earned'' es;
     x5 \<leftarrow> req de_u64 ''settled_at'' es;
     Some \<lparr>forwarding_event_incoming_channel_id = x0,
       forwarding_event_outgoing_channel_id = x1, forwarding_event_incoming_amount = x2,
       forwarding_event_outgoing_amount = x3, forwarding_event_fee_earned = x4,
       forwarding_event_settled_at = x5\<rparr>
   }"

definition en_ForwardingEvent :: "ForwardingEvent \<Rightarrow> Value" where
  "en_ForwardingEvent r = JObj (en_fields [
       (''incoming_channel_id'', Some (JStr (forwarding_event_incoming_channel_id r))),
       (''outgoing_channel_id'', Some (JStr (forwarding_event_outgoing_channel_id r))),
       (''incoming_amount'', Some (en_u64 (forwarding_event_incoming_amount r))),
       (''outgoing_amount'', Some (en_u64 (forwarding_event_outgoing_amount r))),
       (''fee_earned'', Some (en_u64 (forwarding_event_fee_earned r))),
       (''settled_at'', Some (en_u64 (forwarding_event_settled_at r)))])"

lemma de_en_ForwardingEvent [codec_simps]: "de_ForwardingEvent (en_ForwardingEvent r) = Some r"
  by (simp add: de_ForwardingEvent_def en_ForwardingEvent_def codec_simps)

lemma en_ForwardingEvent_not_null [codec_simps]: "en_ForwardingEvent r \<noteq> JNull"
  by (simp add: en_ForwardingEvent_def)

record PendingHtlc =
  pending_htlc_channel_id :: string
  pending_htlc_direction :: string
  pending_htlc_amount :: u64
  pending_htlc_hash_lock :: string
  pending_htlc_expiry_height :: u64

definition de_PendingHtlc :: "Value \<Rightarrow> PendingHtlc option" where
  "de_PendingHtlc v = do {
     es \<leftarrow> struct_entries [(''channel_id'', False), (''direction'', False), (''amount'', False), (''hash_lock'',
       False), (''expiry_height'', False)] v;
     x0 \<leftarrow> req de_string ''channel_id'' es;
     x1 \<leftarrow> req de_string ''direction'' es;
     x2 \<leftarrow> req de_u64 ''amount'' es;
     x3 \<leftarrow> req de_string ''hash_lock'' es;
     x4 \<leftarrow> req de_u64 ''expiry_height'' es;
     Some \<lparr>pending_htlc_channel_id = x0, pending_htlc_direction = x1,
       pending_htlc_amount = x2, pending_htlc_hash_lock = x3, pending_htlc_expiry_height =
       x4\<rparr>
   }"

definition en_PendingHtlc :: "PendingHtlc \<Rightarrow> Value" where
  "en_PendingHtlc r = JObj (en_fields [
       (''channel_id'', Some (JStr (pending_htlc_channel_id r))),
       (''direction'', Some (JStr (pending_htlc_direction r))),
       (''amount'', Some (en_u64 (pending_htlc_amount r))),
       (''hash_lock'', Some (JStr (pending_htlc_hash_lock r))),
       (''expiry_height'', Some (en_u64 (pending_htlc_expiry_height r)))])"

lemma de_en_PendingHtlc [codec_simps]: "de_PendingHtlc (en_PendingHtlc r) = Some r"
  by (simp add: de_PendingHtlc_def en_PendingHtlc_def codec_simps)

lemma en_PendingHtlc_not_null [codec_simps]: "en_PendingHtlc r \<noteq> JNull"
  by (simp add: en_PendingHtlc_def)

record Hop =
  hop_pubkey :: string
  hop_short_channel_id :: "string option"
  hop_fee :: u64
  hop_extra :: entries

definition de_Hop :: "Value \<Rightarrow> Hop option" where
  "de_Hop v = do {
     (es, x3) \<leftarrow> flat_entries [''pubkey'', ''short_channel_id'', ''fee''] v;
     x0 \<leftarrow> req de_string ''pubkey'' es;
     x1 \<leftarrow> opt de_string ''short_channel_id'' es;
     x2 \<leftarrow> dflt de_u64 0 ''fee'' es;
     Some \<lparr>hop_pubkey = x0, hop_short_channel_id = x1, hop_fee = x2, hop_extra =
       x3\<rparr>
   }"

definition en_Hop :: "Hop \<Rightarrow> Value" where
  "en_Hop r = JObj (en_fields [
       (''pubkey'', Some (JStr (hop_pubkey r))),
       (''short_channel_id'', map_option JStr (hop_short_channel_id r)),
       (''fee'', Some (en_u64 (hop_fee r)))] @ hop_extra r)"

definition wf_Hop :: "Hop \<Rightarrow> bool" where
  "wf_Hop r \<longleftrightarrow> extra_wf [''pubkey'', ''short_channel_id'', ''fee''] (hop_extra r)"

lemma de_en_Hop [codec_simps]: "wf_Hop r \<Longrightarrow> de_Hop (en_Hop r) = Some r"
  by (simp add: de_Hop_def en_Hop_def wf_Hop_def codec_simps)

lemma en_Hop_not_null [codec_simps]: "en_Hop r \<noteq> JNull"
  by (simp add: en_Hop_def)

record Route =
  route_total_fee :: u64
  route_total_time_lock :: u64
  route_hops :: "Hop list"

definition de_Route :: "Value \<Rightarrow> Route option" where
  "de_Route v = do {
     es \<leftarrow> struct_entries [(''total_fee'', False), (''total_time_lock'', False), (''hops'', False)] v;
     x0 \<leftarrow> req de_u64 ''total_fee'' es;
     x1 \<leftarrow> req de_u64 ''total_time_lock'' es;
     x2 \<leftarrow> req (de_vec de_Hop) ''hops'' es;
     Some \<lparr>route_total_fee = x0, route_total_time_lock = x1, route_hops = x2\<rparr>
   }"

definition en_Route :: "Route \<Rightarrow> Value" where
  "en_Route r = JObj (en_fields [
       (''total_fee'', Some (en_u64 (route_total_fee r))),
       (''total_time_lock'', Some (en_u64 (route_total_time_lock r))),
       (''hops'', Some ((en_vec en_Hop) (route_hops r)))])"

definition wf_Route :: "Route \<Rightarrow> bool" where
  "wf_Route r \<longleftrightarrow> list_all wf_Hop (route_hops r)"

lemma de_en_Route [codec_simps]: "wf_Route r \<Longrightarrow> de_Route (en_Route r) = Some r"
  by (simp add: de_Route_def en_Route_def wf_Route_def codec_simps list_all_iff)

lemma en_Route_not_null [codec_simps]: "en_Route r \<noteq> JNull"
  by (simp add: en_Route_def)

record NetworkNode =
  network_node_pubkey :: string
  network_node_alias :: "string option"
  network_node_color :: "string option"
  network_node_num_channels :: "u64 option"
  network_node_total_capacity :: "u64 option"
  network_node_addresses :: "string list option"
  network_node_last_update :: "u64 option"
  network_node_extra :: entries

definition de_NetworkNode :: "Value \<Rightarrow> NetworkNode option" where
  "de_NetworkNode v = do {
     (es, x7) \<leftarrow> flat_entries [''pubkey'', ''alias'', ''color'', ''num_channels'', ''total_capacity'',
       ''addresses'', ''last_update''] v;
     x0 \<leftarrow> req de_string ''pubkey'' es;
     x1 \<leftarrow> opt de_string ''alias'' es;
     x2 \<leftarrow> opt de_string ''color'' es;
     x3 \<leftarrow> opt de_u64 ''num_channels'' es;
     x4 \<leftarrow> opt de_u64 ''total_capacity'' es;
     x5 \<leftarrow> opt (de_vec de_string) ''addresses'' es;
     x6 \<leftarrow> opt de_u64 ''last_update'' es;
     Some \<lparr>network_node_pubkey = x0, network_node_alias = x1, network_node_color = x2,
       network_node_num_channels = x3, network_node_total_capacity = x4,
       network_node_addresses = x5, network_node_last_update = x6, network_node_extra =
       x7\<rparr>
   }"

definition en_NetworkNode :: "NetworkNode \<Rightarrow> Value" where
  "en_NetworkNode r = JObj (en_fields [
       (''pubkey'', Some (JStr (network_node_pubkey r))),
       (''alias'', map_option JStr (network_node_alias r)),
       (''color'', map_option JStr (network_node_color r)),
       (''num_channels'', map_option en_u64 (network_node_num_channels r)),
       (''total_capacity'', map_option en_u64 (network_node_total_capacity r)),
       (''addresses'', map_option (en_vec JStr) (network_node_addresses r)),
       (''last_update'', map_option en_u64 (network_node_last_update r))] @ network_node_extra r)"

definition wf_NetworkNode :: "NetworkNode \<Rightarrow> bool" where
  "wf_NetworkNode r \<longleftrightarrow> extra_wf [''pubkey'', ''alias'', ''color'', ''num_channels'', ''total_capacity'',
       ''addresses'', ''last_update''] (network_node_extra r)"

lemma de_en_NetworkNode [codec_simps]: "wf_NetworkNode r \<Longrightarrow> de_NetworkNode (en_NetworkNode r) = Some r"
  by (simp add: de_NetworkNode_def en_NetworkNode_def wf_NetworkNode_def codec_simps)

lemma en_NetworkNode_not_null [codec_simps]: "en_NetworkNode r \<noteq> JNull"
  by (simp add: en_NetworkNode_def)

record ChannelPolicy =
  channel_policy_base_fee :: "u64 option"
  channel_policy_fee_rate :: "u64 option"
  channel_policy_min_htlc :: "u64 option"
  channel_policy_max_htlc :: "u64 option"
  channel_policy_time_lock_delta :: "u64 option"
  channel_policy_disabled :: bool
  channel_policy_last_update :: "u64 option"

definition de_ChannelPolicy :: "Value \<Rightarrow> ChannelPolicy option" where
  "de_ChannelPolicy v = do {
     es \<leftarrow> struct_entries [(''base_fee'', True), (''fee_rate'', True), (''min_htlc'', True), (''max_htlc'',
       True), (''time_lock_delta'', True), (''disabled'', True), (''last_update'', True)] v;
     x0 \<leftarrow> opt de_u64 ''base_fee'' es;
     x1 \<leftarrow> opt de_u64 ''fee_rate'' es;
     x2 \<leftarrow> opt de_u64 ''min_htlc'' es;
     x3 \<leftarrow> opt de_u64 ''max_htlc'' es;
     x4 \<leftarrow> opt de_u64 ''time_lock_delta'' es;
     x5 \<leftarrow> dflt de_bool False ''disabled'' es;
     x6 \<leftarrow> opt de_u64 ''last_update'' es;
     Some \<lparr>channel_policy_base_fee = x0, channel_policy_fee_rate = x1,
       channel_policy_min_htlc = x2, channel_policy_max_htlc = x3,
       channel_policy_time_lock_delta = x4, channel_policy_disabled = x5,
       channel_policy_last_update = x6\<rparr>
   }"

definition en_ChannelPolicy :: "ChannelPolicy \<Rightarrow> Value" where
  "en_ChannelPolicy r = JObj (en_fields [
       (''base_fee'', map_option en_u64 (channel_policy_base_fee r)),
       (''fee_rate'', map_option en_u64 (channel_policy_fee_rate r)),
       (''min_htlc'', map_option en_u64 (channel_policy_min_htlc r)),
       (''max_htlc'', map_option en_u64 (channel_policy_max_htlc r)),
       (''time_lock_delta'', map_option en_u64 (channel_policy_time_lock_delta r)),
       (''disabled'', Some (JBool (channel_policy_disabled r))),
       (''last_update'', map_option en_u64 (channel_policy_last_update r))])"

lemma de_en_ChannelPolicy [codec_simps]: "de_ChannelPolicy (en_ChannelPolicy r) = Some r"
  by (simp add: de_ChannelPolicy_def en_ChannelPolicy_def codec_simps)

lemma en_ChannelPolicy_not_null [codec_simps]: "en_ChannelPolicy r \<noteq> JNull"
  by (simp add: en_ChannelPolicy_def)

section \<open>Requests and responses (nnc/methods.rs)\<close>

datatype ListChannelsRequest = ListChannelsRequest

definition de_ListChannelsRequest :: "Value \<Rightarrow> ListChannelsRequest option" where
  "de_ListChannelsRequest v = map_option (\<lambda>_. ListChannelsRequest) (struct_entries [] v)"

definition en_ListChannelsRequest :: "ListChannelsRequest \<Rightarrow> Value" where
  "en_ListChannelsRequest r = JObj (en_fields [])"

lemma de_en_ListChannelsRequest [codec_simps]: "de_ListChannelsRequest (en_ListChannelsRequest r) = Some r"
  by (cases r) (simp add: de_ListChannelsRequest_def en_ListChannelsRequest_def codec_simps)

lemma en_ListChannelsRequest_not_null [codec_simps]: "en_ListChannelsRequest r \<noteq> JNull"
  by (simp add: en_ListChannelsRequest_def)

record ListChannelsResponse =
  list_channels_rs_channels :: "Channel list"

definition de_ListChannelsResponse :: "Value \<Rightarrow> ListChannelsResponse option" where
  "de_ListChannelsResponse v = do {
     es \<leftarrow> struct_entries [(''channels'', False)] v;
     x0 \<leftarrow> req (de_vec de_Channel) ''channels'' es;
     Some \<lparr>list_channels_rs_channels = x0\<rparr>
   }"

definition en_ListChannelsResponse :: "ListChannelsResponse \<Rightarrow> Value" where
  "en_ListChannelsResponse r = JObj (en_fields [
       (''channels'', Some ((en_vec en_Channel) (list_channels_rs_channels r)))])"

definition wf_ListChannelsResponse :: "ListChannelsResponse \<Rightarrow> bool" where
  "wf_ListChannelsResponse r \<longleftrightarrow> list_all wf_Channel (list_channels_rs_channels r)"

lemma de_en_ListChannelsResponse [codec_simps]: "wf_ListChannelsResponse r \<Longrightarrow> de_ListChannelsResponse (en_ListChannelsResponse r) = Some r"
  by (simp add: de_ListChannelsResponse_def en_ListChannelsResponse_def wf_ListChannelsResponse_def codec_simps list_all_iff)

lemma en_ListChannelsResponse_not_null [codec_simps]: "en_ListChannelsResponse r \<noteq> JNull"
  by (simp add: en_ListChannelsResponse_def)

record OpenChannelRequest =
  open_channel_rq_pubkey :: string
  open_channel_rq_amount_sats :: u64
  open_channel_rq_push_amount :: "u64 option"
  open_channel_rq_private :: "bool option"
  open_channel_rq_host :: "string option"
  open_channel_rq_close_address :: "string option"
  open_channel_rq_notify :: "bool option"

definition de_OpenChannelRequest :: "Value \<Rightarrow> OpenChannelRequest option" where
  "de_OpenChannelRequest v = do {
     es \<leftarrow> struct_entries [(''pubkey'', False), (''amount_sats'', False), (''push_amount'', True), (''private'',
       True), (''host'', True), (''close_address'', True), (''notify'', True)] v;
     x0 \<leftarrow> req de_string ''pubkey'' es;
     x1 \<leftarrow> req de_u64 ''amount_sats'' es;
     x2 \<leftarrow> opt de_u64 ''push_amount'' es;
     x3 \<leftarrow> opt de_bool ''private'' es;
     x4 \<leftarrow> opt de_string ''host'' es;
     x5 \<leftarrow> opt de_string ''close_address'' es;
     x6 \<leftarrow> opt de_bool ''notify'' es;
     Some \<lparr>open_channel_rq_pubkey = x0, open_channel_rq_amount_sats = x1,
       open_channel_rq_push_amount = x2, open_channel_rq_private = x3, open_channel_rq_host
       = x4, open_channel_rq_close_address = x5, open_channel_rq_notify = x6\<rparr>
   }"

definition en_OpenChannelRequest :: "OpenChannelRequest \<Rightarrow> Value" where
  "en_OpenChannelRequest r = JObj (en_fields [
       (''pubkey'', Some (JStr (open_channel_rq_pubkey r))),
       (''amount_sats'', Some (en_u64 (open_channel_rq_amount_sats r))),
       (''push_amount'', map_option en_u64 (open_channel_rq_push_amount r)),
       (''private'', map_option JBool (open_channel_rq_private r)),
       (''host'', map_option JStr (open_channel_rq_host r)),
       (''close_address'', map_option JStr (open_channel_rq_close_address r)),
       (''notify'', map_option JBool (open_channel_rq_notify r))])"

lemma de_en_OpenChannelRequest [codec_simps]: "de_OpenChannelRequest (en_OpenChannelRequest r) = Some r"
  by (simp add: de_OpenChannelRequest_def en_OpenChannelRequest_def codec_simps)

lemma en_OpenChannelRequest_not_null [codec_simps]: "en_OpenChannelRequest r \<noteq> JNull"
  by (simp add: en_OpenChannelRequest_def)

record CloseChannelRequest =
  close_channel_rq_id :: string
  close_channel_rq_force :: "bool option"
  close_channel_rq_close_address :: "string option"
  close_channel_rq_notify :: "bool option"

definition de_CloseChannelRequest :: "Value \<Rightarrow> CloseChannelRequest option" where
  "de_CloseChannelRequest v = do {
     es \<leftarrow> struct_entries [(''id'', False), (''force'', True), (''close_address'', True), (''notify'', True)] v;
     x0 \<leftarrow> req de_string ''id'' es;
     x1 \<leftarrow> opt de_bool ''force'' es;
     x2 \<leftarrow> opt de_string ''close_address'' es;
     x3 \<leftarrow> opt de_bool ''notify'' es;
     Some \<lparr>close_channel_rq_id = x0, close_channel_rq_force = x1,
       close_channel_rq_close_address = x2, close_channel_rq_notify = x3\<rparr>
   }"

definition en_CloseChannelRequest :: "CloseChannelRequest \<Rightarrow> Value" where
  "en_CloseChannelRequest r = JObj (en_fields [
       (''id'', Some (JStr (close_channel_rq_id r))),
       (''force'', map_option JBool (close_channel_rq_force r)),
       (''close_address'', map_option JStr (close_channel_rq_close_address r)),
       (''notify'', map_option JBool (close_channel_rq_notify r))])"

lemma de_en_CloseChannelRequest [codec_simps]: "de_CloseChannelRequest (en_CloseChannelRequest r) = Some r"
  by (simp add: de_CloseChannelRequest_def en_CloseChannelRequest_def codec_simps)

lemma en_CloseChannelRequest_not_null [codec_simps]: "en_CloseChannelRequest r \<noteq> JNull"
  by (simp add: en_CloseChannelRequest_def)

datatype OpenChannelResponse = OpenChannelResponse

definition de_OpenChannelResponse :: "Value \<Rightarrow> OpenChannelResponse option" where
  "de_OpenChannelResponse v = map_option (\<lambda>_. OpenChannelResponse) (struct_entries [] v)"

definition en_OpenChannelResponse :: "OpenChannelResponse \<Rightarrow> Value" where
  "en_OpenChannelResponse r = JObj (en_fields [])"

lemma de_en_OpenChannelResponse [codec_simps]: "de_OpenChannelResponse (en_OpenChannelResponse r) = Some r"
  by (cases r) (simp add: de_OpenChannelResponse_def en_OpenChannelResponse_def codec_simps)

lemma en_OpenChannelResponse_not_null [codec_simps]: "en_OpenChannelResponse r \<noteq> JNull"
  by (simp add: en_OpenChannelResponse_def)

datatype CloseChannelResponse = CloseChannelResponse

definition de_CloseChannelResponse :: "Value \<Rightarrow> CloseChannelResponse option" where
  "de_CloseChannelResponse v = map_option (\<lambda>_. CloseChannelResponse) (struct_entries [] v)"

definition en_CloseChannelResponse :: "CloseChannelResponse \<Rightarrow> Value" where
  "en_CloseChannelResponse r = JObj (en_fields [])"

lemma de_en_CloseChannelResponse [codec_simps]: "de_CloseChannelResponse (en_CloseChannelResponse r) = Some r"
  by (cases r) (simp add: de_CloseChannelResponse_def en_CloseChannelResponse_def codec_simps)

lemma en_CloseChannelResponse_not_null [codec_simps]: "en_CloseChannelResponse r \<noteq> JNull"
  by (simp add: en_CloseChannelResponse_def)

datatype ListPeersRequest = ListPeersRequest

definition de_ListPeersRequest :: "Value \<Rightarrow> ListPeersRequest option" where
  "de_ListPeersRequest v = map_option (\<lambda>_. ListPeersRequest) (struct_entries [] v)"

definition en_ListPeersRequest :: "ListPeersRequest \<Rightarrow> Value" where
  "en_ListPeersRequest r = JObj (en_fields [])"

lemma de_en_ListPeersRequest [codec_simps]: "de_ListPeersRequest (en_ListPeersRequest r) = Some r"
  by (cases r) (simp add: de_ListPeersRequest_def en_ListPeersRequest_def codec_simps)

lemma en_ListPeersRequest_not_null [codec_simps]: "en_ListPeersRequest r \<noteq> JNull"
  by (simp add: en_ListPeersRequest_def)

datatype ConnectPeerResponse = ConnectPeerResponse

definition de_ConnectPeerResponse :: "Value \<Rightarrow> ConnectPeerResponse option" where
  "de_ConnectPeerResponse v = map_option (\<lambda>_. ConnectPeerResponse) (struct_entries [] v)"

definition en_ConnectPeerResponse :: "ConnectPeerResponse \<Rightarrow> Value" where
  "en_ConnectPeerResponse r = JObj (en_fields [])"

lemma de_en_ConnectPeerResponse [codec_simps]: "de_ConnectPeerResponse (en_ConnectPeerResponse r) = Some r"
  by (cases r) (simp add: de_ConnectPeerResponse_def en_ConnectPeerResponse_def codec_simps)

lemma en_ConnectPeerResponse_not_null [codec_simps]: "en_ConnectPeerResponse r \<noteq> JNull"
  by (simp add: en_ConnectPeerResponse_def)

datatype DisconnectPeerResponse = DisconnectPeerResponse

definition de_DisconnectPeerResponse :: "Value \<Rightarrow> DisconnectPeerResponse option" where
  "de_DisconnectPeerResponse v = map_option (\<lambda>_. DisconnectPeerResponse) (struct_entries [] v)"

definition en_DisconnectPeerResponse :: "DisconnectPeerResponse \<Rightarrow> Value" where
  "en_DisconnectPeerResponse r = JObj (en_fields [])"

lemma de_en_DisconnectPeerResponse [codec_simps]: "de_DisconnectPeerResponse (en_DisconnectPeerResponse r) = Some r"
  by (cases r) (simp add: de_DisconnectPeerResponse_def en_DisconnectPeerResponse_def codec_simps)

lemma en_DisconnectPeerResponse_not_null [codec_simps]: "en_DisconnectPeerResponse r \<noteq> JNull"
  by (simp add: en_DisconnectPeerResponse_def)

record ListPeersResponse =
  list_peers_rs_peers :: "Peer list"

definition de_ListPeersResponse :: "Value \<Rightarrow> ListPeersResponse option" where
  "de_ListPeersResponse v = do {
     es \<leftarrow> struct_entries [(''peers'', False)] v;
     x0 \<leftarrow> req (de_vec de_Peer) ''peers'' es;
     Some \<lparr>list_peers_rs_peers = x0\<rparr>
   }"

definition en_ListPeersResponse :: "ListPeersResponse \<Rightarrow> Value" where
  "en_ListPeersResponse r = JObj (en_fields [
       (''peers'', Some ((en_vec en_Peer) (list_peers_rs_peers r)))])"

lemma de_en_ListPeersResponse [codec_simps]: "de_ListPeersResponse (en_ListPeersResponse r) = Some r"
  by (simp add: de_ListPeersResponse_def en_ListPeersResponse_def codec_simps)

lemma en_ListPeersResponse_not_null [codec_simps]: "en_ListPeersResponse r \<noteq> JNull"
  by (simp add: en_ListPeersResponse_def)

record ConnectPeerRequest =
  connect_peer_rq_pubkey :: string
  connect_peer_rq_host :: "string option"

definition de_ConnectPeerRequest :: "Value \<Rightarrow> ConnectPeerRequest option" where
  "de_ConnectPeerRequest v = do {
     es \<leftarrow> struct_entries [(''pubkey'', False), (''host'', True)] v;
     x0 \<leftarrow> req de_string ''pubkey'' es;
     x1 \<leftarrow> opt de_string ''host'' es;
     Some \<lparr>connect_peer_rq_pubkey = x0, connect_peer_rq_host = x1\<rparr>
   }"

definition en_ConnectPeerRequest :: "ConnectPeerRequest \<Rightarrow> Value" where
  "en_ConnectPeerRequest r = JObj (en_fields [
       (''pubkey'', Some (JStr (connect_peer_rq_pubkey r))),
       (''host'', map_option JStr (connect_peer_rq_host r))])"

lemma de_en_ConnectPeerRequest [codec_simps]: "de_ConnectPeerRequest (en_ConnectPeerRequest r) = Some r"
  by (simp add: de_ConnectPeerRequest_def en_ConnectPeerRequest_def codec_simps)

lemma en_ConnectPeerRequest_not_null [codec_simps]: "en_ConnectPeerRequest r \<noteq> JNull"
  by (simp add: en_ConnectPeerRequest_def)

record DisconnectPeerRequest =
  disconnect_peer_rq_pubkey :: string

definition de_DisconnectPeerRequest :: "Value \<Rightarrow> DisconnectPeerRequest option" where
  "de_DisconnectPeerRequest v = do {
     es \<leftarrow> struct_entries [(''pubkey'', False)] v;
     x0 \<leftarrow> req de_string ''pubkey'' es;
     Some \<lparr>disconnect_peer_rq_pubkey = x0\<rparr>
   }"

definition en_DisconnectPeerRequest :: "DisconnectPeerRequest \<Rightarrow> Value" where
  "en_DisconnectPeerRequest r = JObj (en_fields [
       (''pubkey'', Some (JStr (disconnect_peer_rq_pubkey r)))])"

lemma de_en_DisconnectPeerRequest [codec_simps]: "de_DisconnectPeerRequest (en_DisconnectPeerRequest r) = Some r"
  by (simp add: de_DisconnectPeerRequest_def en_DisconnectPeerRequest_def codec_simps)

lemma en_DisconnectPeerRequest_not_null [codec_simps]: "en_DisconnectPeerRequest r \<noteq> JNull"
  by (simp add: en_DisconnectPeerRequest_def)

record GetChannelFeesRequest =
  get_channel_fees_rq_id :: "string option"

definition de_GetChannelFeesRequest :: "Value \<Rightarrow> GetChannelFeesRequest option" where
  "de_GetChannelFeesRequest v = do {
     es \<leftarrow> struct_entries [(''id'', True)] v;
     x0 \<leftarrow> opt de_string ''id'' es;
     Some \<lparr>get_channel_fees_rq_id = x0\<rparr>
   }"

definition en_GetChannelFeesRequest :: "GetChannelFeesRequest \<Rightarrow> Value" where
  "en_GetChannelFeesRequest r = JObj (en_fields [
       (''id'', map_option JStr (get_channel_fees_rq_id r))])"

lemma de_en_GetChannelFeesRequest [codec_simps]: "de_GetChannelFeesRequest (en_GetChannelFeesRequest r) = Some r"
  by (simp add: de_GetChannelFeesRequest_def en_GetChannelFeesRequest_def codec_simps)

lemma en_GetChannelFeesRequest_not_null [codec_simps]: "en_GetChannelFeesRequest r \<noteq> JNull"
  by (simp add: en_GetChannelFeesRequest_def)

record GetChannelFeesResponse =
  get_channel_fees_rs_fees :: "ChannelFees list"

definition de_GetChannelFeesResponse :: "Value \<Rightarrow> GetChannelFeesResponse option" where
  "de_GetChannelFeesResponse v = do {
     es \<leftarrow> struct_entries [(''fees'', False)] v;
     x0 \<leftarrow> req (de_vec de_ChannelFees) ''fees'' es;
     Some \<lparr>get_channel_fees_rs_fees = x0\<rparr>
   }"

definition en_GetChannelFeesResponse :: "GetChannelFeesResponse \<Rightarrow> Value" where
  "en_GetChannelFeesResponse r = JObj (en_fields [
       (''fees'', Some ((en_vec en_ChannelFees) (get_channel_fees_rs_fees r)))])"

definition wf_GetChannelFeesResponse :: "GetChannelFeesResponse \<Rightarrow> bool" where
  "wf_GetChannelFeesResponse r \<longleftrightarrow> list_all wf_ChannelFees (get_channel_fees_rs_fees r)"

lemma de_en_GetChannelFeesResponse [codec_simps]: "wf_GetChannelFeesResponse r \<Longrightarrow> de_GetChannelFeesResponse (en_GetChannelFeesResponse r) = Some r"
  by (simp add: de_GetChannelFeesResponse_def en_GetChannelFeesResponse_def wf_GetChannelFeesResponse_def codec_simps list_all_iff)

lemma en_GetChannelFeesResponse_not_null [codec_simps]: "en_GetChannelFeesResponse r \<noteq> JNull"
  by (simp add: en_GetChannelFeesResponse_def)

record SetChannelFeesRequest =
  set_channel_fees_rq_id :: "string option"
  set_channel_fees_rq_base_fee :: "u64 option"
  set_channel_fees_rq_fee_rate :: "u64 option"
  set_channel_fees_rq_min_htlc :: "u64 option"
  set_channel_fees_rq_max_htlc :: "u64 option"

definition de_SetChannelFeesRequest :: "Value \<Rightarrow> SetChannelFeesRequest option" where
  "de_SetChannelFeesRequest v = do {
     es \<leftarrow> struct_entries [(''id'', True), (''base_fee'', True), (''fee_rate'', True), (''min_htlc'', True),
       (''max_htlc'', True)] v;
     x0 \<leftarrow> opt de_string ''id'' es;
     x1 \<leftarrow> opt de_u64 ''base_fee'' es;
     x2 \<leftarrow> opt de_u64 ''fee_rate'' es;
     x3 \<leftarrow> opt de_u64 ''min_htlc'' es;
     x4 \<leftarrow> opt de_u64 ''max_htlc'' es;
     Some \<lparr>set_channel_fees_rq_id = x0, set_channel_fees_rq_base_fee = x1,
       set_channel_fees_rq_fee_rate = x2, set_channel_fees_rq_min_htlc = x3,
       set_channel_fees_rq_max_htlc = x4\<rparr>
   }"

definition en_SetChannelFeesRequest :: "SetChannelFeesRequest \<Rightarrow> Value" where
  "en_SetChannelFeesRequest r = JObj (en_fields [
       (''id'', map_option JStr (set_channel_fees_rq_id r)),
       (''base_fee'', map_option en_u64 (set_channel_fees_rq_base_fee r)),
       (''fee_rate'', map_option en_u64 (set_channel_fees_rq_fee_rate r)),
       (''min_htlc'', map_option en_u64 (set_channel_fees_rq_min_htlc r)),
       (''max_htlc'', map_option en_u64 (set_channel_fees_rq_max_htlc r))])"

lemma de_en_SetChannelFeesRequest [codec_simps]: "de_SetChannelFeesRequest (en_SetChannelFeesRequest r) = Some r"
  by (simp add: de_SetChannelFeesRequest_def en_SetChannelFeesRequest_def codec_simps)

lemma en_SetChannelFeesRequest_not_null [codec_simps]: "en_SetChannelFeesRequest r \<noteq> JNull"
  by (simp add: en_SetChannelFeesRequest_def)

datatype SetChannelFeesResponse = SetChannelFeesResponse

definition de_SetChannelFeesResponse :: "Value \<Rightarrow> SetChannelFeesResponse option" where
  "de_SetChannelFeesResponse v = map_option (\<lambda>_. SetChannelFeesResponse) (struct_entries [] v)"

definition en_SetChannelFeesResponse :: "SetChannelFeesResponse \<Rightarrow> Value" where
  "en_SetChannelFeesResponse r = JObj (en_fields [])"

lemma de_en_SetChannelFeesResponse [codec_simps]: "de_SetChannelFeesResponse (en_SetChannelFeesResponse r) = Some r"
  by (cases r) (simp add: de_SetChannelFeesResponse_def en_SetChannelFeesResponse_def codec_simps)

lemma en_SetChannelFeesResponse_not_null [codec_simps]: "en_SetChannelFeesResponse r \<noteq> JNull"
  by (simp add: en_SetChannelFeesResponse_def)

datatype GetPendingHtlcsRequest = GetPendingHtlcsRequest

definition de_GetPendingHtlcsRequest :: "Value \<Rightarrow> GetPendingHtlcsRequest option" where
  "de_GetPendingHtlcsRequest v = map_option (\<lambda>_. GetPendingHtlcsRequest) (struct_entries [] v)"

definition en_GetPendingHtlcsRequest :: "GetPendingHtlcsRequest \<Rightarrow> Value" where
  "en_GetPendingHtlcsRequest r = JObj (en_fields [])"

lemma de_en_GetPendingHtlcsRequest [codec_simps]: "de_GetPendingHtlcsRequest (en_GetPendingHtlcsRequest r) = Some r"
  by (cases r) (simp add: de_GetPendingHtlcsRequest_def en_GetPendingHtlcsRequest_def codec_simps)

lemma en_GetPendingHtlcsRequest_not_null [codec_simps]: "en_GetPendingHtlcsRequest r \<noteq> JNull"
  by (simp add: en_GetPendingHtlcsRequest_def)

record GetForwardingHistoryRequest =
  get_forwarding_history_rq_from :: "u64 option"
  get_forwarding_history_rq_until :: "u64 option"
  get_forwarding_history_rq_limit :: "u64 option"
  get_forwarding_history_rq_offset :: "u64 option"

definition de_GetForwardingHistoryRequest :: "Value \<Rightarrow> GetForwardingHistoryRequest option" where
  "de_GetForwardingHistoryRequest v = do {
     es \<leftarrow> struct_entries [(''from'', True), (''until'', True), (''limit'', True), (''offset'', True)] v;
     x0 \<leftarrow> opt de_u64 ''from'' es;
     x1 \<leftarrow> opt de_u64 ''until'' es;
     x2 \<leftarrow> opt de_u64 ''limit'' es;
     x3 \<leftarrow> opt de_u64 ''offset'' es;
     Some \<lparr>get_forwarding_history_rq_from = x0, get_forwarding_history_rq_until = x1,
       get_forwarding_history_rq_limit = x2, get_forwarding_history_rq_offset = x3\<rparr>
   }"

definition en_GetForwardingHistoryRequest :: "GetForwardingHistoryRequest \<Rightarrow> Value" where
  "en_GetForwardingHistoryRequest r = JObj (en_fields [
       (''from'', map_option en_u64 (get_forwarding_history_rq_from r)),
       (''until'', map_option en_u64 (get_forwarding_history_rq_until r)),
       (''limit'', map_option en_u64 (get_forwarding_history_rq_limit r)),
       (''offset'', map_option en_u64 (get_forwarding_history_rq_offset r))])"

lemma de_en_GetForwardingHistoryRequest [codec_simps]: "de_GetForwardingHistoryRequest (en_GetForwardingHistoryRequest r) = Some r"
  by (simp add: de_GetForwardingHistoryRequest_def en_GetForwardingHistoryRequest_def codec_simps)

lemma en_GetForwardingHistoryRequest_not_null [codec_simps]: "en_GetForwardingHistoryRequest r \<noteq> JNull"
  by (simp add: en_GetForwardingHistoryRequest_def)

record GetForwardingHistoryResponse =
  get_forwarding_history_rs_forwards :: "ForwardingEvent list"

definition de_GetForwardingHistoryResponse :: "Value \<Rightarrow> GetForwardingHistoryResponse option" where
  "de_GetForwardingHistoryResponse v = do {
     es \<leftarrow> struct_entries [(''forwards'', False)] v;
     x0 \<leftarrow> req (de_vec de_ForwardingEvent) ''forwards'' es;
     Some \<lparr>get_forwarding_history_rs_forwards = x0\<rparr>
   }"

definition en_GetForwardingHistoryResponse :: "GetForwardingHistoryResponse \<Rightarrow> Value" where
  "en_GetForwardingHistoryResponse r = JObj (en_fields [
       (''forwards'', Some ((en_vec en_ForwardingEvent) (get_forwarding_history_rs_forwards r)))])"

lemma de_en_GetForwardingHistoryResponse [codec_simps]: "de_GetForwardingHistoryResponse (en_GetForwardingHistoryResponse r) = Some r"
  by (simp add: de_GetForwardingHistoryResponse_def en_GetForwardingHistoryResponse_def codec_simps)

lemma en_GetForwardingHistoryResponse_not_null [codec_simps]: "en_GetForwardingHistoryResponse r \<noteq> JNull"
  by (simp add: en_GetForwardingHistoryResponse_def)

record GetPendingHtlcsResponse =
  get_pending_htlcs_rs_htlcs :: "PendingHtlc list"

definition de_GetPendingHtlcsResponse :: "Value \<Rightarrow> GetPendingHtlcsResponse option" where
  "de_GetPendingHtlcsResponse v = do {
     es \<leftarrow> struct_entries [(''htlcs'', False)] v;
     x0 \<leftarrow> req (de_vec de_PendingHtlc) ''htlcs'' es;
     Some \<lparr>get_pending_htlcs_rs_htlcs = x0\<rparr>
   }"

definition en_GetPendingHtlcsResponse :: "GetPendingHtlcsResponse \<Rightarrow> Value" where
  "en_GetPendingHtlcsResponse r = JObj (en_fields [
       (''htlcs'', Some ((en_vec en_PendingHtlc) (get_pending_htlcs_rs_htlcs r)))])"

lemma de_en_GetPendingHtlcsResponse [codec_simps]: "de_GetPendingHtlcsResponse (en_GetPendingHtlcsResponse r) = Some r"
  by (simp add: de_GetPendingHtlcsResponse_def en_GetPendingHtlcsResponse_def codec_simps)

lemma en_GetPendingHtlcsResponse_not_null [codec_simps]: "en_GetPendingHtlcsResponse r \<noteq> JNull"
  by (simp add: en_GetPendingHtlcsResponse_def)

record QueryRoutesRequest =
  query_routes_rq_destination :: string
  query_routes_rq_amount :: u64
  query_routes_rq_max_routes :: "u64 option"

definition de_QueryRoutesRequest :: "Value \<Rightarrow> QueryRoutesRequest option" where
  "de_QueryRoutesRequest v = do {
     es \<leftarrow> struct_entries [(''destination'', False), (''amount'', False), (''max_routes'', True)] v;
     x0 \<leftarrow> req de_string ''destination'' es;
     x1 \<leftarrow> req de_u64 ''amount'' es;
     x2 \<leftarrow> opt de_u64 ''max_routes'' es;
     Some \<lparr>query_routes_rq_destination = x0, query_routes_rq_amount = x1,
       query_routes_rq_max_routes = x2\<rparr>
   }"

definition en_QueryRoutesRequest :: "QueryRoutesRequest \<Rightarrow> Value" where
  "en_QueryRoutesRequest r = JObj (en_fields [
       (''destination'', Some (JStr (query_routes_rq_destination r))),
       (''amount'', Some (en_u64 (query_routes_rq_amount r))),
       (''max_routes'', map_option en_u64 (query_routes_rq_max_routes r))])"

lemma de_en_QueryRoutesRequest [codec_simps]: "de_QueryRoutesRequest (en_QueryRoutesRequest r) = Some r"
  by (simp add: de_QueryRoutesRequest_def en_QueryRoutesRequest_def codec_simps)

lemma en_QueryRoutesRequest_not_null [codec_simps]: "en_QueryRoutesRequest r \<noteq> JNull"
  by (simp add: en_QueryRoutesRequest_def)

record QueryRoutesResponse =
  query_routes_rs_routes :: "Route list"

definition de_QueryRoutesResponse :: "Value \<Rightarrow> QueryRoutesResponse option" where
  "de_QueryRoutesResponse v = do {
     es \<leftarrow> struct_entries [(''routes'', False)] v;
     x0 \<leftarrow> req (de_vec de_Route) ''routes'' es;
     Some \<lparr>query_routes_rs_routes = x0\<rparr>
   }"

definition en_QueryRoutesResponse :: "QueryRoutesResponse \<Rightarrow> Value" where
  "en_QueryRoutesResponse r = JObj (en_fields [
       (''routes'', Some ((en_vec en_Route) (query_routes_rs_routes r)))])"

definition wf_QueryRoutesResponse :: "QueryRoutesResponse \<Rightarrow> bool" where
  "wf_QueryRoutesResponse r \<longleftrightarrow> list_all wf_Route (query_routes_rs_routes r)"

lemma de_en_QueryRoutesResponse [codec_simps]: "wf_QueryRoutesResponse r \<Longrightarrow> de_QueryRoutesResponse (en_QueryRoutesResponse r) = Some r"
  by (simp add: de_QueryRoutesResponse_def en_QueryRoutesResponse_def wf_QueryRoutesResponse_def codec_simps list_all_iff)

lemma en_QueryRoutesResponse_not_null [codec_simps]: "en_QueryRoutesResponse r \<noteq> JNull"
  by (simp add: en_QueryRoutesResponse_def)

record ListNetworkNodesRequest =
  list_network_nodes_rq_limit :: "u64 option"
  list_network_nodes_rq_offset :: "u64 option"

definition de_ListNetworkNodesRequest :: "Value \<Rightarrow> ListNetworkNodesRequest option" where
  "de_ListNetworkNodesRequest v = do {
     es \<leftarrow> struct_entries [(''limit'', True), (''offset'', True)] v;
     x0 \<leftarrow> opt de_u64 ''limit'' es;
     x1 \<leftarrow> opt de_u64 ''offset'' es;
     Some \<lparr>list_network_nodes_rq_limit = x0, list_network_nodes_rq_offset = x1\<rparr>
   }"

definition en_ListNetworkNodesRequest :: "ListNetworkNodesRequest \<Rightarrow> Value" where
  "en_ListNetworkNodesRequest r = JObj (en_fields [
       (''limit'', map_option en_u64 (list_network_nodes_rq_limit r)),
       (''offset'', map_option en_u64 (list_network_nodes_rq_offset r))])"

lemma de_en_ListNetworkNodesRequest [codec_simps]: "de_ListNetworkNodesRequest (en_ListNetworkNodesRequest r) = Some r"
  by (simp add: de_ListNetworkNodesRequest_def en_ListNetworkNodesRequest_def codec_simps)

lemma en_ListNetworkNodesRequest_not_null [codec_simps]: "en_ListNetworkNodesRequest r \<noteq> JNull"
  by (simp add: en_ListNetworkNodesRequest_def)

record ListNetworkNodesResponse =
  list_network_nodes_rs_nodes :: "NetworkNode list"

definition de_ListNetworkNodesResponse :: "Value \<Rightarrow> ListNetworkNodesResponse option" where
  "de_ListNetworkNodesResponse v = do {
     es \<leftarrow> struct_entries [(''nodes'', False)] v;
     x0 \<leftarrow> req (de_vec de_NetworkNode) ''nodes'' es;
     Some \<lparr>list_network_nodes_rs_nodes = x0\<rparr>
   }"

definition en_ListNetworkNodesResponse :: "ListNetworkNodesResponse \<Rightarrow> Value" where
  "en_ListNetworkNodesResponse r = JObj (en_fields [
       (''nodes'', Some ((en_vec en_NetworkNode) (list_network_nodes_rs_nodes r)))])"

definition wf_ListNetworkNodesResponse :: "ListNetworkNodesResponse \<Rightarrow> bool" where
  "wf_ListNetworkNodesResponse r \<longleftrightarrow> list_all wf_NetworkNode (list_network_nodes_rs_nodes r)"

lemma de_en_ListNetworkNodesResponse [codec_simps]: "wf_ListNetworkNodesResponse r \<Longrightarrow> de_ListNetworkNodesResponse (en_ListNetworkNodesResponse r) = Some r"
  by (simp add: de_ListNetworkNodesResponse_def en_ListNetworkNodesResponse_def wf_ListNetworkNodesResponse_def codec_simps list_all_iff)

lemma en_ListNetworkNodesResponse_not_null [codec_simps]: "en_ListNetworkNodesResponse r \<noteq> JNull"
  by (simp add: en_ListNetworkNodesResponse_def)

datatype GetNetworkStatsRequest = GetNetworkStatsRequest

definition de_GetNetworkStatsRequest :: "Value \<Rightarrow> GetNetworkStatsRequest option" where
  "de_GetNetworkStatsRequest v = map_option (\<lambda>_. GetNetworkStatsRequest) (struct_entries [] v)"

definition en_GetNetworkStatsRequest :: "GetNetworkStatsRequest \<Rightarrow> Value" where
  "en_GetNetworkStatsRequest r = JObj (en_fields [])"

lemma de_en_GetNetworkStatsRequest [codec_simps]: "de_GetNetworkStatsRequest (en_GetNetworkStatsRequest r) = Some r"
  by (cases r) (simp add: de_GetNetworkStatsRequest_def en_GetNetworkStatsRequest_def codec_simps)

lemma en_GetNetworkStatsRequest_not_null [codec_simps]: "en_GetNetworkStatsRequest r \<noteq> JNull"
  by (simp add: en_GetNetworkStatsRequest_def)

record GetNetworkStatsResponse =
  get_network_stats_rs_num_nodes :: u64
  get_network_stats_rs_num_channels :: u64
  get_network_stats_rs_total_capacity :: u64
  get_network_stats_rs_avg_channel_size :: "u64 option"
  get_network_stats_rs_max_channel_size :: "u64 option"

definition de_GetNetworkStatsResponse :: "Value \<Rightarrow> GetNetworkStatsResponse option" where
  "de_GetNetworkStatsResponse v = do {
     es \<leftarrow> struct_entries [(''num_nodes'', False), (''num_channels'', False), (''total_capacity'', False),
       (''avg_channel_size'', True), (''max_channel_size'', True)] v;
     x0 \<leftarrow> req de_u64 ''num_nodes'' es;
     x1 \<leftarrow> req de_u64 ''num_channels'' es;
     x2 \<leftarrow> req de_u64 ''total_capacity'' es;
     x3 \<leftarrow> opt de_u64 ''avg_channel_size'' es;
     x4 \<leftarrow> opt de_u64 ''max_channel_size'' es;
     Some \<lparr>get_network_stats_rs_num_nodes = x0, get_network_stats_rs_num_channels = x1,
       get_network_stats_rs_total_capacity = x2, get_network_stats_rs_avg_channel_size = x3,
       get_network_stats_rs_max_channel_size = x4\<rparr>
   }"

definition en_GetNetworkStatsResponse :: "GetNetworkStatsResponse \<Rightarrow> Value" where
  "en_GetNetworkStatsResponse r = JObj (en_fields [
       (''num_nodes'', Some (en_u64 (get_network_stats_rs_num_nodes r))),
       (''num_channels'', Some (en_u64 (get_network_stats_rs_num_channels r))),
       (''total_capacity'', Some (en_u64 (get_network_stats_rs_total_capacity r))),
       (''avg_channel_size'', map_option en_u64 (get_network_stats_rs_avg_channel_size r)),
       (''max_channel_size'', map_option en_u64 (get_network_stats_rs_max_channel_size r))])"

lemma de_en_GetNetworkStatsResponse [codec_simps]: "de_GetNetworkStatsResponse (en_GetNetworkStatsResponse r) = Some r"
  by (simp add: de_GetNetworkStatsResponse_def en_GetNetworkStatsResponse_def codec_simps)

lemma en_GetNetworkStatsResponse_not_null [codec_simps]: "en_GetNetworkStatsResponse r \<noteq> JNull"
  by (simp add: en_GetNetworkStatsResponse_def)

record GetNetworkNodeRequest =
  get_network_node_rq_pubkey :: string

definition de_GetNetworkNodeRequest :: "Value \<Rightarrow> GetNetworkNodeRequest option" where
  "de_GetNetworkNodeRequest v = do {
     es \<leftarrow> struct_entries [(''pubkey'', False)] v;
     x0 \<leftarrow> req de_string ''pubkey'' es;
     Some \<lparr>get_network_node_rq_pubkey = x0\<rparr>
   }"

definition en_GetNetworkNodeRequest :: "GetNetworkNodeRequest \<Rightarrow> Value" where
  "en_GetNetworkNodeRequest r = JObj (en_fields [
       (''pubkey'', Some (JStr (get_network_node_rq_pubkey r)))])"

lemma de_en_GetNetworkNodeRequest [codec_simps]: "de_GetNetworkNodeRequest (en_GetNetworkNodeRequest r) = Some r"
  by (simp add: de_GetNetworkNodeRequest_def en_GetNetworkNodeRequest_def codec_simps)

lemma en_GetNetworkNodeRequest_not_null [codec_simps]: "en_GetNetworkNodeRequest r \<noteq> JNull"
  by (simp add: en_GetNetworkNodeRequest_def)

type_synonym GetNetworkNodeResponse = NetworkNode

record GetNetworkChannelRequest =
  get_network_channel_rq_short_channel_id :: string

definition de_GetNetworkChannelRequest :: "Value \<Rightarrow> GetNetworkChannelRequest option" where
  "de_GetNetworkChannelRequest v = do {
     es \<leftarrow> struct_entries [(''short_channel_id'', False)] v;
     x0 \<leftarrow> req de_string ''short_channel_id'' es;
     Some \<lparr>get_network_channel_rq_short_channel_id = x0\<rparr>
   }"

definition en_GetNetworkChannelRequest :: "GetNetworkChannelRequest \<Rightarrow> Value" where
  "en_GetNetworkChannelRequest r = JObj (en_fields [
       (''short_channel_id'', Some (JStr (get_network_channel_rq_short_channel_id r)))])"

lemma de_en_GetNetworkChannelRequest [codec_simps]: "de_GetNetworkChannelRequest (en_GetNetworkChannelRequest r) = Some r"
  by (simp add: de_GetNetworkChannelRequest_def en_GetNetworkChannelRequest_def codec_simps)

lemma en_GetNetworkChannelRequest_not_null [codec_simps]: "en_GetNetworkChannelRequest r \<noteq> JNull"
  by (simp add: en_GetNetworkChannelRequest_def)

record GetNetworkChannelResponse =
  get_network_channel_rs_short_channel_id :: string
  get_network_channel_rs_capacity :: "u64 option"
  get_network_channel_rs_node1_pubkey :: string
  get_network_channel_rs_node2_pubkey :: string
  get_network_channel_rs_node1_policy :: "ChannelPolicy option"
  get_network_channel_rs_node2_policy :: "ChannelPolicy option"

definition de_GetNetworkChannelResponse :: "Value \<Rightarrow> GetNetworkChannelResponse option" where
  "de_GetNetworkChannelResponse v = do {
     es \<leftarrow> struct_entries [(''short_channel_id'', False), (''capacity'', True), (''node1_pubkey'', False),
       (''node2_pubkey'', False), (''node1_policy'', True), (''node2_policy'', True)] v;
     x0 \<leftarrow> req de_string ''short_channel_id'' es;
     x1 \<leftarrow> opt de_u64 ''capacity'' es;
     x2 \<leftarrow> req de_string ''node1_pubkey'' es;
     x3 \<leftarrow> req de_string ''node2_pubkey'' es;
     x4 \<leftarrow> opt de_ChannelPolicy ''node1_policy'' es;
     x5 \<leftarrow> opt de_ChannelPolicy ''node2_policy'' es;
     Some \<lparr>get_network_channel_rs_short_channel_id = x0, get_network_channel_rs_capacity
       = x1, get_network_channel_rs_node1_pubkey = x2, get_network_channel_rs_node2_pubkey =
       x3, get_network_channel_rs_node1_policy = x4, get_network_channel_rs_node2_policy =
       x5\<rparr>
   }"

definition en_GetNetworkChannelResponse :: "GetNetworkChannelResponse \<Rightarrow> Value" where
  "en_GetNetworkChannelResponse r = JObj (en_fields [
       (''short_channel_id'', Some (JStr (get_network_channel_rs_short_channel_id r))),
       (''capacity'', map_option en_u64 (get_network_channel_rs_capacity r)),
       (''node1_pubkey'', Some (JStr (get_network_channel_rs_node1_pubkey r))),
       (''node2_pubkey'', Some (JStr (get_network_channel_rs_node2_pubkey r))),
       (''node1_policy'', map_option en_ChannelPolicy (get_network_channel_rs_node1_policy r)),
       (''node2_policy'', map_option en_ChannelPolicy (get_network_channel_rs_node2_policy r))])"

lemma de_en_GetNetworkChannelResponse [codec_simps]: "de_GetNetworkChannelResponse (en_GetNetworkChannelResponse r) = Some r"
  by (simp add: de_GetNetworkChannelResponse_def en_GetNetworkChannelResponse_def codec_simps)

lemma en_GetNetworkChannelResponse_not_null [codec_simps]: "en_GetNetworkChannelResponse r \<noteq> JNull"
  by (simp add: en_GetNetworkChannelResponse_def)

record SignMessageRequest =
  sign_message_rq_message :: string

definition de_SignMessageRequest :: "Value \<Rightarrow> SignMessageRequest option" where
  "de_SignMessageRequest v = do {
     es \<leftarrow> struct_entries [(''message'', False)] v;
     x0 \<leftarrow> req de_string ''message'' es;
     Some \<lparr>sign_message_rq_message = x0\<rparr>
   }"

definition en_SignMessageRequest :: "SignMessageRequest \<Rightarrow> Value" where
  "en_SignMessageRequest r = JObj (en_fields [
       (''message'', Some (JStr (sign_message_rq_message r)))])"

lemma de_en_SignMessageRequest [codec_simps]: "de_SignMessageRequest (en_SignMessageRequest r) = Some r"
  by (simp add: de_SignMessageRequest_def en_SignMessageRequest_def codec_simps)

lemma en_SignMessageRequest_not_null [codec_simps]: "en_SignMessageRequest r \<noteq> JNull"
  by (simp add: en_SignMessageRequest_def)

text \<open>
  \<open>NodeId\<close>, a string checked by \<open>NodeId::parse\<close>; but \<open>#[serde(transparent)]\<close> reads any string, without
  that check.
\<close>

datatype NodeId = NodeId string

definition is_ascii_hexdigit :: "char \<Rightarrow> bool" where
  "is_ascii_hexdigit c \<longleftrightarrow> c \<in> set ''0123456789abcdefABCDEF''"

datatype InvalidNodeId = InvalidNodeId

definition NodeId_parse :: "string \<Rightarrow> (NodeId, InvalidNodeId) result" where
  "NodeId_parse s =
     (if length s = 66 \<and> (strip_prefix ''02'' s \<noteq> None \<or> strip_prefix ''03'' s \<noteq> None) \<and>
         list_all is_ascii_hexdigit s
      then Inr (NodeId s) else Inl InvalidNodeId)"

primrec NodeId_as_str :: "NodeId \<Rightarrow> string" where
  "NodeId_as_str (NodeId s) = s"

definition de_NodeId :: "Value \<Rightarrow> NodeId option" where
  "de_NodeId v = map_option NodeId (de_string v)"

definition en_NodeId :: "NodeId \<Rightarrow> Value" where
  "en_NodeId n = JStr (NodeId_as_str n)"

lemma de_en_NodeId [codec_simps]: "de_NodeId (en_NodeId n) = Some n"
  by (cases n) (simp add: de_NodeId_def en_NodeId_def codec_simps)

lemma en_NodeId_not_null [codec_simps]: "en_NodeId n \<noteq> JNull"
  by (simp add: en_NodeId_def)

record SignMessageResponse =
  sign_message_rs_message :: string
  sign_message_rs_signature :: string
  sign_message_rs_pubkey :: NodeId

definition de_SignMessageResponse :: "Value \<Rightarrow> SignMessageResponse option" where
  "de_SignMessageResponse v = do {
     es \<leftarrow> struct_entries [(''message'', False), (''signature'', False), (''pubkey'', False)] v;
     x0 \<leftarrow> req de_string ''message'' es;
     x1 \<leftarrow> req de_string ''signature'' es;
     x2 \<leftarrow> req de_NodeId ''pubkey'' es;
     Some \<lparr>sign_message_rs_message = x0, sign_message_rs_signature = x1,
       sign_message_rs_pubkey = x2\<rparr>
   }"

definition en_SignMessageResponse :: "SignMessageResponse \<Rightarrow> Value" where
  "en_SignMessageResponse r = JObj (en_fields [
       (''message'', Some (JStr (sign_message_rs_message r))),
       (''signature'', Some (JStr (sign_message_rs_signature r))),
       (''pubkey'', Some (en_NodeId (sign_message_rs_pubkey r)))])"

lemma de_en_SignMessageResponse [codec_simps]: "de_SignMessageResponse (en_SignMessageResponse r) = Some r"
  by (simp add: de_SignMessageResponse_def en_SignMessageResponse_def codec_simps)

lemma en_SignMessageResponse_not_null [codec_simps]: "en_SignMessageResponse r \<noteq> JNull"
  by (simp add: en_SignMessageResponse_def)

end
