(* ===== verification/NwcWire.thy ===== *)
theory NwcWire
  imports NncWire
begin

text \<open>
  The names NIP-47 puts on the wire: \<^verbatim>\<open>src/nwc/method.rs\<close> and \<^verbatim>\<open>src/nwc/mod.rs\<close>.
\<close>

section \<open>Methods\<close>

datatype WalletMethod =
    PayInvoice
  | MakeInvoice
  | LookupInvoice
  | GetBalance
  | GetInfo
  | PayOnchain
  | MakeHoldInvoice
  | SettleHoldInvoice
  | CancelHoldInvoice
  | QuotePayment
  | PayKeysend
  | ListTransactions
  | MakeNewAddress
  | LookupAddress
  | ListAddresses
  | EstimateOnchainFees
  | ListInvoices
  | Pay
  | Receive
  | MakeOffer
  | LookupPayment
  | PayOffer
  | ListOffers
  | DisableOffer
  | UnknownWalletMethod string

definition wallet_method_ALL :: "WalletMethod list" where
  "wallet_method_ALL = [PayInvoice, MakeInvoice, LookupInvoice, GetBalance, GetInfo, PayOnchain,
     MakeHoldInvoice, SettleHoldInvoice, CancelHoldInvoice, QuotePayment, PayKeysend,
     ListTransactions, MakeNewAddress, LookupAddress, ListAddresses,
     EstimateOnchainFees, ListInvoices, Pay, Receive, MakeOffer, LookupPayment,
     PayOffer, ListOffers, DisableOffer]"

fun wallet_method_as_str :: "WalletMethod \<Rightarrow> string" where
  "wallet_method_as_str PayInvoice = ''pay_invoice''"
| "wallet_method_as_str MakeInvoice = ''make_invoice''"
| "wallet_method_as_str LookupInvoice = ''lookup_invoice''"
| "wallet_method_as_str GetBalance = ''get_balance''"
| "wallet_method_as_str GetInfo = ''get_info''"
| "wallet_method_as_str PayOnchain = ''pay_onchain''"
| "wallet_method_as_str MakeHoldInvoice = ''make_hold_invoice''"
| "wallet_method_as_str SettleHoldInvoice = ''settle_hold_invoice''"
| "wallet_method_as_str CancelHoldInvoice = ''cancel_hold_invoice''"
| "wallet_method_as_str QuotePayment = ''quote_payment''"
| "wallet_method_as_str PayKeysend = ''pay_keysend''"
| "wallet_method_as_str ListTransactions = ''list_transactions''"
| "wallet_method_as_str MakeNewAddress = ''make_new_address''"
| "wallet_method_as_str LookupAddress = ''lookup_address''"
| "wallet_method_as_str ListAddresses = ''list_addresses''"
| "wallet_method_as_str EstimateOnchainFees = ''estimate_onchain_fees''"
| "wallet_method_as_str ListInvoices = ''list_invoices''"
| "wallet_method_as_str Pay = ''pay''"
| "wallet_method_as_str Receive = ''receive''"
| "wallet_method_as_str MakeOffer = ''make_offer''"
| "wallet_method_as_str LookupPayment = ''lookup_payment''"
| "wallet_method_as_str PayOffer = ''pay_offer''"
| "wallet_method_as_str ListOffers = ''list_offers''"
| "wallet_method_as_str DisableOffer = ''disable_offer''"
| "wallet_method_as_str (UnknownWalletMethod s) = s"

definition wallet_method_from_str :: "string \<Rightarrow> WalletMethod" where
  "wallet_method_from_str s =
     (if s = ''pay_invoice'' then PayInvoice
      else if s = ''make_invoice'' then MakeInvoice
      else if s = ''lookup_invoice'' then LookupInvoice
      else if s = ''get_balance'' then GetBalance
      else if s = ''get_info'' then GetInfo
      else if s = ''pay_onchain'' then PayOnchain
      else if s = ''make_hold_invoice'' then MakeHoldInvoice
      else if s = ''settle_hold_invoice'' then SettleHoldInvoice
      else if s = ''cancel_hold_invoice'' then CancelHoldInvoice
      else if s = ''quote_payment'' then QuotePayment
      else if s = ''pay_keysend'' then PayKeysend
      else if s = ''list_transactions'' then ListTransactions
      else if s = ''make_new_address'' then MakeNewAddress
      else if s = ''lookup_address'' then LookupAddress
      else if s = ''list_addresses'' then ListAddresses
      else if s = ''estimate_onchain_fees'' then EstimateOnchainFees
      else if s = ''list_invoices'' then ListInvoices
      else if s = ''pay'' then Pay
      else if s = ''receive'' then Receive
      else if s = ''make_offer'' then MakeOffer
      else if s = ''lookup_payment'' then LookupPayment
      else if s = ''pay_offer'' then PayOffer
      else if s = ''list_offers'' then ListOffers
      else if s = ''disable_offer'' then DisableOffer
      else UnknownWalletMethod s)"

definition wallet_method_CORE :: "WalletMethod list" where
  "wallet_method_CORE = [PayInvoice, MakeInvoice, LookupInvoice, GetBalance, GetInfo]"

definition is_core :: "WalletMethod \<Rightarrow> bool" where
  "is_core m \<longleftrightarrow> m \<in> set wallet_method_CORE"

interpretation wallet_method: wire_name wallet_method_as_str wallet_method_from_str wallet_method_ALL
  UnknownWalletMethod
proof unfold_locales
  show "wallet_method_as_str (wallet_method_from_str s) = s" for s
    unfolding wallet_method_from_str_def by (intro if_chain [where f = wallet_method_as_str]) simp_all
  have "list_all (\<lambda>m. wallet_method_from_str (wallet_method_as_str m) = m) wallet_method_ALL"
    by code_simp
  then show "m \<in> set wallet_method_ALL \<Longrightarrow> wallet_method_from_str (wallet_method_as_str m) = m" for m
    by (simp add: list_all_iff)
  show "m \<in> set wallet_method_ALL \<or> (\<exists>s. m = UnknownWalletMethod s)" for m
    by (cases m) (auto simp: wallet_method_ALL_def)
qed (auto simp: wallet_method_ALL_def)

section \<open>Notification types\<close>

datatype WalletNotificationType =
    HoldInvoiceAccepted
  | PaymentReceived
  | PaymentSent
  | UnknownWalletNotification string

definition wallet_notification_ALL :: "WalletNotificationType list" where
  "wallet_notification_ALL = [HoldInvoiceAccepted, PaymentReceived, PaymentSent]"

fun wallet_notification_as_str :: "WalletNotificationType \<Rightarrow> string" where
  "wallet_notification_as_str HoldInvoiceAccepted = ''hold_invoice_accepted''"
| "wallet_notification_as_str PaymentReceived = ''payment_received''"
| "wallet_notification_as_str PaymentSent = ''payment_sent''"
| "wallet_notification_as_str (UnknownWalletNotification s) = s"

definition wallet_notification_from_str :: "string \<Rightarrow> WalletNotificationType" where
  "wallet_notification_from_str s =
     (if s = ''hold_invoice_accepted'' then HoldInvoiceAccepted
      else if s = ''payment_received'' then PaymentReceived
      else if s = ''payment_sent'' then PaymentSent
      else UnknownWalletNotification s)"

interpretation wallet_notification: wire_name wallet_notification_as_str wallet_notification_from_str
  wallet_notification_ALL UnknownWalletNotification
proof unfold_locales
  show "wallet_notification_as_str (wallet_notification_from_str s) = s" for s
    unfolding wallet_notification_from_str_def by (intro if_chain [where f = wallet_notification_as_str]) simp_all
  have "list_all (\<lambda>m. wallet_notification_from_str (wallet_notification_as_str m) = m) wallet_notification_ALL"
    by code_simp
  then show "m \<in> set wallet_notification_ALL \<Longrightarrow> wallet_notification_from_str (wallet_notification_as_str m) = m" for m
    by (simp add: list_all_iff)
  show "m \<in> set wallet_notification_ALL \<or> (\<exists>s. m = UnknownWalletNotification s)" for m
    by (cases m) (auto simp: wallet_notification_ALL_def)
qed (auto simp: wallet_notification_ALL_def)

record WalletNotification =
  wn_type :: WalletNotificationType
  wn_payload :: Value

definition en_WalletNotification :: "WalletNotification \<Rightarrow> Value" where
  "en_WalletNotification n =
     JObj (en_fields [(''notification_type'', Some (JStr (wallet_notification_as_str (wn_type n)))),
                      (''notification'', Some (wn_payload n))])"

definition de_WalletNotification :: "Value \<Rightarrow> WalletNotification option" where
  "de_WalletNotification v = do {
     es \<leftarrow> struct_entries [(''notification_type'', False), (''notification'', False)] v;
     t \<leftarrow> req de_string ''notification_type'' es;
     p \<leftarrow> req de_value ''notification'' es;
     Some \<lparr>wn_type = wallet_notification_from_str t, wn_payload = p\<rparr>
   }"

end
