(* ===== verification/NwcMethods.thy ===== *)
theory NwcMethods
  imports NwcWire
begin

text \<open>
  The messages of the twenty-four wallet methods: \<^verbatim>\<open>src/nwc/types.rs\<close> and \<^verbatim>\<open>src/nwc/methods.rs\<close>, in the same
  form as the control messages: a record per struct, \<open>de_T\<close> and \<open>en_T\<close> for its derived codecs, \<open>wf_T\<close>
  where not every value survives a round trip.
\<close>

section \<open>Shared types (nwc/types.rs)\<close>

datatype TransactionType =
    TT_Incoming
  | TT_Outgoing

definition transaction_type_variant :: "string \<Rightarrow> TransactionType option" where
  "transaction_type_variant s =
     (if s = ''incoming'' then Some TT_Incoming
      else if s = ''outgoing'' then Some TT_Outgoing
      else None)"

definition de_TransactionType :: "Value \<Rightarrow> TransactionType option" where
  "de_TransactionType v = de_variant transaction_type_variant v"

fun en_TransactionType :: "TransactionType \<Rightarrow> Value" where
  "en_TransactionType TT_Incoming = JStr ''incoming''"
| "en_TransactionType TT_Outgoing = JStr ''outgoing''"

lemma de_en_TransactionType [codec_simps]: "de_TransactionType (en_TransactionType x) = Some x"
  by (cases x) (simp_all add: de_TransactionType_def de_variant_def transaction_type_variant_def)

lemma en_TransactionType_not_null [codec_simps]: "en_TransactionType x \<noteq> JNull"
  by (cases x) simp_all

datatype TransactionState =
    TS_Pending
  | TS_Settled
  | TS_Accepted
  | TS_Expired
  | TS_Failed
  | TS_Unknown string

definition transaction_state_variant :: "string \<Rightarrow> TransactionState option" where
  "transaction_state_variant s =
     (if s = ''pending'' then Some TS_Pending
      else if s = ''settled'' then Some TS_Settled
      else if s = ''accepted'' then Some TS_Accepted
      else if s = ''expired'' then Some TS_Expired
      else if s = ''failed'' then Some TS_Failed
      else None)"

definition de_TransactionState :: "Value \<Rightarrow> TransactionState option" where
  "de_TransactionState v = de_variant_or transaction_state_variant TS_Unknown v"

fun en_TransactionState :: "TransactionState \<Rightarrow> Value" where
  "en_TransactionState TS_Pending = JStr ''pending''"
| "en_TransactionState TS_Settled = JStr ''settled''"
| "en_TransactionState TS_Accepted = JStr ''accepted''"
| "en_TransactionState TS_Expired = JStr ''expired''"
| "en_TransactionState TS_Failed = JStr ''failed''"
| "en_TransactionState (TS_Unknown s) = JStr s"

text \<open>The unknown variant holds only strings that name no known one.\<close>

definition wf_TransactionState :: "TransactionState \<Rightarrow> bool" where
  "wf_TransactionState x = (case x of TS_Unknown s \<Rightarrow> transaction_state_variant s = None | _ \<Rightarrow> True)"

lemma de_en_TransactionState [codec_simps]: "wf_TransactionState x \<Longrightarrow> de_TransactionState (en_TransactionState x) = Some x"
  by (cases x) (simp_all add: wf_TransactionState_def de_TransactionState_def de_variant_or_def de_variant_def transaction_state_variant_def)

lemma en_TransactionState_not_null [codec_simps]: "en_TransactionState x \<noteq> JNull"
  by (cases x) simp_all

record Transaction =
  transaction_transaction_type :: TransactionType
  transaction_state :: "TransactionState option"
  transaction_invoice :: "string option"
  transaction_description :: "string option"
  transaction_description_hash :: "string option"
  transaction_preimage :: "string option"
  transaction_payment_hash :: string
  transaction_amount :: u64
  transaction_fees_paid :: u64
  transaction_created_at :: u64
  transaction_expires_at :: "u64 option"
  transaction_settled_at :: "u64 option"
  transaction_metadata :: "Value option"

definition de_Transaction :: "Value \<Rightarrow> Transaction option" where
  "de_Transaction v = do {
     es \<leftarrow> struct_entries [(''type'', False), (''state'', True), (''invoice'', True), (''description'', True),
       (''description_hash'', True), (''preimage'', True), (''payment_hash'', False),
       (''amount'', False), (''fees_paid'', False), (''created_at'', False),
       (''expires_at'', True), (''settled_at'', True), (''metadata'', True)] v;
     x0 \<leftarrow> req de_TransactionType ''type'' es;
     x1 \<leftarrow> opt de_TransactionState ''state'' es;
     x2 \<leftarrow> opt de_string ''invoice'' es;
     x3 \<leftarrow> opt de_string ''description'' es;
     x4 \<leftarrow> opt de_string ''description_hash'' es;
     x5 \<leftarrow> opt de_string ''preimage'' es;
     x6 \<leftarrow> req de_string ''payment_hash'' es;
     x7 \<leftarrow> req de_u64 ''amount'' es;
     x8 \<leftarrow> req de_u64 ''fees_paid'' es;
     x9 \<leftarrow> req de_u64 ''created_at'' es;
     x10 \<leftarrow> opt de_u64 ''expires_at'' es;
     x11 \<leftarrow> opt de_u64 ''settled_at'' es;
     x12 \<leftarrow> opt de_value ''metadata'' es;
     Some \<lparr>transaction_transaction_type = x0, transaction_state = x1,
       transaction_invoice = x2, transaction_description = x3, transaction_description_hash
       = x4, transaction_preimage = x5, transaction_payment_hash = x6, transaction_amount =
       x7, transaction_fees_paid = x8, transaction_created_at = x9, transaction_expires_at =
       x10, transaction_settled_at = x11, transaction_metadata = x12\<rparr>
   }"

definition en_Transaction :: "Transaction \<Rightarrow> Value" where
  "en_Transaction r = JObj (en_fields [
       (''type'', Some (en_TransactionType (transaction_transaction_type r))),
       (''state'', map_option en_TransactionState (transaction_state r)),
       (''invoice'', map_option JStr (transaction_invoice r)),
       (''description'', map_option JStr (transaction_description r)),
       (''description_hash'', map_option JStr (transaction_description_hash r)),
       (''preimage'', map_option JStr (transaction_preimage r)),
       (''payment_hash'', Some (JStr (transaction_payment_hash r))),
       (''amount'', Some (en_u64 (transaction_amount r))),
       (''fees_paid'', Some (en_u64 (transaction_fees_paid r))),
       (''created_at'', Some (en_u64 (transaction_created_at r))),
       (''expires_at'', map_option en_u64 (transaction_expires_at r)),
       (''settled_at'', map_option en_u64 (transaction_settled_at r)),
       (''metadata'', transaction_metadata r)])"

definition wf_Transaction :: "Transaction \<Rightarrow> bool" where
  "wf_Transaction r \<longleftrightarrow> pred_option wf_TransactionState (transaction_state r) \<and>
     opt_value_wf (transaction_metadata r)"

lemma de_en_Transaction [codec_simps]: "wf_Transaction r \<Longrightarrow> de_Transaction (en_Transaction r) = Some r"
  by (cases "transaction_state r") (simp_all add: de_Transaction_def en_Transaction_def wf_Transaction_def codec_simps)

lemma en_Transaction_not_null [codec_simps]: "en_Transaction r \<noteq> JNull"
  by (simp add: en_Transaction_def)

section \<open>Requests and responses (nwc/methods.rs)\<close>

record PayInvoiceRequest =
  pay_invoice_rq_invoice :: string
  pay_invoice_rq_amount :: "u64 option"
  pay_invoice_rq_metadata :: "Value option"

definition de_PayInvoiceRequest :: "Value \<Rightarrow> PayInvoiceRequest option" where
  "de_PayInvoiceRequest v = do {
     es \<leftarrow> struct_entries [(''invoice'', False), (''amount'', True), (''metadata'', True)] v;
     x0 \<leftarrow> req de_string ''invoice'' es;
     x1 \<leftarrow> opt de_u64 ''amount'' es;
     x2 \<leftarrow> opt de_value ''metadata'' es;
     Some \<lparr>pay_invoice_rq_invoice = x0, pay_invoice_rq_amount = x1,
       pay_invoice_rq_metadata = x2\<rparr>
   }"

definition en_PayInvoiceRequest :: "PayInvoiceRequest \<Rightarrow> Value" where
  "en_PayInvoiceRequest r = JObj (en_fields [
       (''invoice'', Some (JStr (pay_invoice_rq_invoice r))),
       (''amount'', map_option en_u64 (pay_invoice_rq_amount r)),
       (''metadata'', pay_invoice_rq_metadata r)])"

definition wf_PayInvoiceRequest :: "PayInvoiceRequest \<Rightarrow> bool" where
  "wf_PayInvoiceRequest r \<longleftrightarrow> opt_value_wf (pay_invoice_rq_metadata r)"

lemma de_en_PayInvoiceRequest [codec_simps]: "wf_PayInvoiceRequest r \<Longrightarrow> de_PayInvoiceRequest (en_PayInvoiceRequest r) = Some r"
  by (simp add: de_PayInvoiceRequest_def en_PayInvoiceRequest_def wf_PayInvoiceRequest_def codec_simps)

lemma en_PayInvoiceRequest_not_null [codec_simps]: "en_PayInvoiceRequest r \<noteq> JNull"
  by (simp add: en_PayInvoiceRequest_def)

record PayInvoiceResponse =
  pay_invoice_rs_preimage :: string
  pay_invoice_rs_fees_paid :: "u64 option"

definition de_PayInvoiceResponse :: "Value \<Rightarrow> PayInvoiceResponse option" where
  "de_PayInvoiceResponse v = do {
     es \<leftarrow> struct_entries [(''preimage'', False), (''fees_paid'', True)] v;
     x0 \<leftarrow> req de_string ''preimage'' es;
     x1 \<leftarrow> opt de_u64 ''fees_paid'' es;
     Some \<lparr>pay_invoice_rs_preimage = x0, pay_invoice_rs_fees_paid = x1\<rparr>
   }"

definition en_PayInvoiceResponse :: "PayInvoiceResponse \<Rightarrow> Value" where
  "en_PayInvoiceResponse r = JObj (en_fields [
       (''preimage'', Some (JStr (pay_invoice_rs_preimage r))),
       (''fees_paid'', map_option en_u64 (pay_invoice_rs_fees_paid r))])"

lemma de_en_PayInvoiceResponse [codec_simps]: "de_PayInvoiceResponse (en_PayInvoiceResponse r) = Some r"
  by (simp add: de_PayInvoiceResponse_def en_PayInvoiceResponse_def codec_simps)

lemma en_PayInvoiceResponse_not_null [codec_simps]: "en_PayInvoiceResponse r \<noteq> JNull"
  by (simp add: en_PayInvoiceResponse_def)

record MakeInvoiceRequest =
  make_invoice_rq_amount :: u64
  make_invoice_rq_description :: "string option"
  make_invoice_rq_description_hash :: "string option"
  make_invoice_rq_expiry :: "u64 option"
  make_invoice_rq_metadata :: "Value option"

definition de_MakeInvoiceRequest :: "Value \<Rightarrow> MakeInvoiceRequest option" where
  "de_MakeInvoiceRequest v = do {
     es \<leftarrow> struct_entries [(''amount'', False), (''description'', True), (''description_hash'', True),
       (''expiry'', True), (''metadata'', True)] v;
     x0 \<leftarrow> req de_u64 ''amount'' es;
     x1 \<leftarrow> opt de_string ''description'' es;
     x2 \<leftarrow> opt de_string ''description_hash'' es;
     x3 \<leftarrow> opt de_u64 ''expiry'' es;
     x4 \<leftarrow> opt de_value ''metadata'' es;
     Some \<lparr>make_invoice_rq_amount = x0, make_invoice_rq_description = x1,
       make_invoice_rq_description_hash = x2, make_invoice_rq_expiry = x3,
       make_invoice_rq_metadata = x4\<rparr>
   }"

definition en_MakeInvoiceRequest :: "MakeInvoiceRequest \<Rightarrow> Value" where
  "en_MakeInvoiceRequest r = JObj (en_fields [
       (''amount'', Some (en_u64 (make_invoice_rq_amount r))),
       (''description'', map_option JStr (make_invoice_rq_description r)),
       (''description_hash'', map_option JStr (make_invoice_rq_description_hash r)),
       (''expiry'', map_option en_u64 (make_invoice_rq_expiry r)),
       (''metadata'', make_invoice_rq_metadata r)])"

definition wf_MakeInvoiceRequest :: "MakeInvoiceRequest \<Rightarrow> bool" where
  "wf_MakeInvoiceRequest r \<longleftrightarrow> opt_value_wf (make_invoice_rq_metadata r)"

lemma de_en_MakeInvoiceRequest [codec_simps]: "wf_MakeInvoiceRequest r \<Longrightarrow> de_MakeInvoiceRequest (en_MakeInvoiceRequest r) = Some r"
  by (simp add: de_MakeInvoiceRequest_def en_MakeInvoiceRequest_def wf_MakeInvoiceRequest_def codec_simps)

lemma en_MakeInvoiceRequest_not_null [codec_simps]: "en_MakeInvoiceRequest r \<noteq> JNull"
  by (simp add: en_MakeInvoiceRequest_def)

type_synonym MakeInvoiceResponse = Transaction

record LookupInvoiceRequest =
  lookup_invoice_rq_payment_hash :: "string option"
  lookup_invoice_rq_invoice :: "string option"

definition de_LookupInvoiceRequest :: "Value \<Rightarrow> LookupInvoiceRequest option" where
  "de_LookupInvoiceRequest v = do {
     es \<leftarrow> struct_entries [(''payment_hash'', True), (''invoice'', True)] v;
     x0 \<leftarrow> opt de_string ''payment_hash'' es;
     x1 \<leftarrow> opt de_string ''invoice'' es;
     Some \<lparr>lookup_invoice_rq_payment_hash = x0, lookup_invoice_rq_invoice = x1\<rparr>
   }"

definition en_LookupInvoiceRequest :: "LookupInvoiceRequest \<Rightarrow> Value" where
  "en_LookupInvoiceRequest r = JObj (en_fields [
       (''payment_hash'', map_option JStr (lookup_invoice_rq_payment_hash r)),
       (''invoice'', map_option JStr (lookup_invoice_rq_invoice r))])"

lemma de_en_LookupInvoiceRequest [codec_simps]: "de_LookupInvoiceRequest (en_LookupInvoiceRequest r) = Some r"
  by (simp add: de_LookupInvoiceRequest_def en_LookupInvoiceRequest_def codec_simps)

lemma en_LookupInvoiceRequest_not_null [codec_simps]: "en_LookupInvoiceRequest r \<noteq> JNull"
  by (simp add: en_LookupInvoiceRequest_def)

type_synonym LookupInvoiceResponse = Transaction

datatype GetBalanceRequest = GetBalanceRequest

definition de_GetBalanceRequest :: "Value \<Rightarrow> GetBalanceRequest option" where
  "de_GetBalanceRequest v = map_option (\<lambda>_. GetBalanceRequest) (struct_entries [] v)"

definition en_GetBalanceRequest :: "GetBalanceRequest \<Rightarrow> Value" where
  "en_GetBalanceRequest r = JObj (en_fields [])"

lemma de_en_GetBalanceRequest [codec_simps]: "de_GetBalanceRequest (en_GetBalanceRequest r) = Some r"
  by (cases r) (simp add: de_GetBalanceRequest_def en_GetBalanceRequest_def codec_simps)

lemma en_GetBalanceRequest_not_null [codec_simps]: "en_GetBalanceRequest r \<noteq> JNull"
  by (simp add: en_GetBalanceRequest_def)

record GetBalanceResponse =
  get_balance_rs_balance :: u64
  get_balance_rs_lightning_balance :: "u64 option"
  get_balance_rs_onchain_balance_sats :: "u64 option"

definition de_GetBalanceResponse :: "Value \<Rightarrow> GetBalanceResponse option" where
  "de_GetBalanceResponse v = do {
     es \<leftarrow> struct_entries [(''balance'', False), (''lightning_balance'', True), (''onchain_balance_sats'', True)] v;
     x0 \<leftarrow> req de_u64 ''balance'' es;
     x1 \<leftarrow> opt de_u64 ''lightning_balance'' es;
     x2 \<leftarrow> opt de_u64 ''onchain_balance_sats'' es;
     Some \<lparr>get_balance_rs_balance = x0, get_balance_rs_lightning_balance = x1,
       get_balance_rs_onchain_balance_sats = x2\<rparr>
   }"

definition en_GetBalanceResponse :: "GetBalanceResponse \<Rightarrow> Value" where
  "en_GetBalanceResponse r = JObj (en_fields [
       (''balance'', Some (en_u64 (get_balance_rs_balance r))),
       (''lightning_balance'', map_option en_u64 (get_balance_rs_lightning_balance r)),
       (''onchain_balance_sats'', map_option en_u64 (get_balance_rs_onchain_balance_sats r))])"

lemma de_en_GetBalanceResponse [codec_simps]: "de_GetBalanceResponse (en_GetBalanceResponse r) = Some r"
  by (simp add: de_GetBalanceResponse_def en_GetBalanceResponse_def codec_simps)

lemma en_GetBalanceResponse_not_null [codec_simps]: "en_GetBalanceResponse r \<noteq> JNull"
  by (simp add: en_GetBalanceResponse_def)

datatype GetInfoRequest = GetInfoRequest

definition de_GetInfoRequest :: "Value \<Rightarrow> GetInfoRequest option" where
  "de_GetInfoRequest v = map_option (\<lambda>_. GetInfoRequest) (struct_entries [] v)"

definition en_GetInfoRequest :: "GetInfoRequest \<Rightarrow> Value" where
  "en_GetInfoRequest r = JObj (en_fields [])"

lemma de_en_GetInfoRequest [codec_simps]: "de_GetInfoRequest (en_GetInfoRequest r) = Some r"
  by (cases r) (simp add: de_GetInfoRequest_def en_GetInfoRequest_def codec_simps)

lemma en_GetInfoRequest_not_null [codec_simps]: "en_GetInfoRequest r \<noteq> JNull"
  by (simp add: en_GetInfoRequest_def)

record Bip321Capability =
  bip321_capability_method :: string
  bip321_capability_address_types :: "string list option"

definition de_Bip321Capability :: "Value \<Rightarrow> Bip321Capability option" where
  "de_Bip321Capability v = do {
     es \<leftarrow> struct_entries [(''method'', False), (''address_types'', True)] v;
     x0 \<leftarrow> req de_string ''method'' es;
     x1 \<leftarrow> opt (de_vec de_string) ''address_types'' es;
     Some \<lparr>bip321_capability_method = x0, bip321_capability_address_types = x1\<rparr>
   }"

definition en_Bip321Capability :: "Bip321Capability \<Rightarrow> Value" where
  "en_Bip321Capability r = JObj (en_fields [
       (''method'', Some (JStr (bip321_capability_method r))),
       (''address_types'', map_option (en_vec JStr) (bip321_capability_address_types r))])"

lemma de_en_Bip321Capability [codec_simps]: "de_Bip321Capability (en_Bip321Capability r) = Some r"
  by (simp add: de_Bip321Capability_def en_Bip321Capability_def codec_simps)

lemma en_Bip321Capability_not_null [codec_simps]: "en_Bip321Capability r \<noteq> JNull"
  by (simp add: en_Bip321Capability_def)

record GetInfoResponse =
  get_info_rs_alias :: "string option"
  get_info_rs_color :: "string option"
  get_info_rs_pubkey :: "string option"
  get_info_rs_network :: "string option"
  get_info_rs_block_height :: "u64 option"
  get_info_rs_block_hash :: "string option"
  get_info_rs_methods :: "string list"
  get_info_rs_notifications :: "string list option"
  get_info_rs_extensions :: "string list option"
  get_info_rs_bip321_methods :: "Bip321Capability list option"

definition de_GetInfoResponse :: "Value \<Rightarrow> GetInfoResponse option" where
  "de_GetInfoResponse v = do {
     es \<leftarrow> struct_entries [(''alias'', True), (''color'', True), (''pubkey'', True), (''network'', True),
       (''block_height'', True), (''block_hash'', True), (''methods'', False),
       (''notifications'', True), (''extensions'', True), (''bip321_methods'', True)] v;
     x0 \<leftarrow> opt de_string ''alias'' es;
     x1 \<leftarrow> opt de_string ''color'' es;
     x2 \<leftarrow> opt de_string ''pubkey'' es;
     x3 \<leftarrow> opt de_string ''network'' es;
     x4 \<leftarrow> opt de_u64 ''block_height'' es;
     x5 \<leftarrow> opt de_string ''block_hash'' es;
     x6 \<leftarrow> req (de_vec de_string) ''methods'' es;
     x7 \<leftarrow> opt (de_vec de_string) ''notifications'' es;
     x8 \<leftarrow> opt (de_vec de_string) ''extensions'' es;
     x9 \<leftarrow> opt (de_vec de_Bip321Capability) ''bip321_methods'' es;
     Some \<lparr>get_info_rs_alias = x0, get_info_rs_color = x1, get_info_rs_pubkey = x2,
       get_info_rs_network = x3, get_info_rs_block_height = x4, get_info_rs_block_hash = x5,
       get_info_rs_methods = x6, get_info_rs_notifications = x7, get_info_rs_extensions =
       x8, get_info_rs_bip321_methods = x9\<rparr>
   }"

definition en_GetInfoResponse :: "GetInfoResponse \<Rightarrow> Value" where
  "en_GetInfoResponse r = JObj (en_fields [
       (''alias'', map_option JStr (get_info_rs_alias r)),
       (''color'', map_option JStr (get_info_rs_color r)),
       (''pubkey'', map_option JStr (get_info_rs_pubkey r)),
       (''network'', map_option JStr (get_info_rs_network r)),
       (''block_height'', map_option en_u64 (get_info_rs_block_height r)),
       (''block_hash'', map_option JStr (get_info_rs_block_hash r)),
       (''methods'', Some ((en_vec JStr) (get_info_rs_methods r))),
       (''notifications'', map_option (en_vec JStr) (get_info_rs_notifications r)),
       (''extensions'', map_option (en_vec JStr) (get_info_rs_extensions r)),
       (''bip321_methods'', map_option (en_vec en_Bip321Capability) (get_info_rs_bip321_methods r))])"

lemma de_en_GetInfoResponse [codec_simps]: "de_GetInfoResponse (en_GetInfoResponse r) = Some r"
  by (simp add: de_GetInfoResponse_def en_GetInfoResponse_def codec_simps)

lemma en_GetInfoResponse_not_null [codec_simps]: "en_GetInfoResponse r \<noteq> JNull"
  by (simp add: en_GetInfoResponse_def)

record PayOnchainRequest =
  pay_onchain_rq_address :: string
  pay_onchain_rq_amount_sats :: u64
  pay_onchain_rq_feerate :: "u64 option"

definition de_PayOnchainRequest :: "Value \<Rightarrow> PayOnchainRequest option" where
  "de_PayOnchainRequest v = do {
     es \<leftarrow> struct_entries [(''address'', False), (''amount_sats'', False), (''feerate'', True)] v;
     x0 \<leftarrow> req de_string ''address'' es;
     x1 \<leftarrow> req de_u64 ''amount_sats'' es;
     x2 \<leftarrow> opt de_u64 ''feerate'' es;
     Some \<lparr>pay_onchain_rq_address = x0, pay_onchain_rq_amount_sats = x1,
       pay_onchain_rq_feerate = x2\<rparr>
   }"

definition en_PayOnchainRequest :: "PayOnchainRequest \<Rightarrow> Value" where
  "en_PayOnchainRequest r = JObj (en_fields [
       (''address'', Some (JStr (pay_onchain_rq_address r))),
       (''amount_sats'', Some (en_u64 (pay_onchain_rq_amount_sats r))),
       (''feerate'', map_option en_u64 (pay_onchain_rq_feerate r))])"

lemma de_en_PayOnchainRequest [codec_simps]: "de_PayOnchainRequest (en_PayOnchainRequest r) = Some r"
  by (simp add: de_PayOnchainRequest_def en_PayOnchainRequest_def codec_simps)

lemma en_PayOnchainRequest_not_null [codec_simps]: "en_PayOnchainRequest r \<noteq> JNull"
  by (simp add: en_PayOnchainRequest_def)

record PayOnchainResponse =
  pay_onchain_rs_txid :: string
  pay_onchain_rs_fee_sats :: "u64 option"

definition de_PayOnchainResponse :: "Value \<Rightarrow> PayOnchainResponse option" where
  "de_PayOnchainResponse v = do {
     es \<leftarrow> struct_entries [(''txid'', False), (''fee_sats'', True)] v;
     x0 \<leftarrow> req de_string ''txid'' es;
     x1 \<leftarrow> opt de_u64 ''fee_sats'' es;
     Some \<lparr>pay_onchain_rs_txid = x0, pay_onchain_rs_fee_sats = x1\<rparr>
   }"

definition en_PayOnchainResponse :: "PayOnchainResponse \<Rightarrow> Value" where
  "en_PayOnchainResponse r = JObj (en_fields [
       (''txid'', Some (JStr (pay_onchain_rs_txid r))),
       (''fee_sats'', map_option en_u64 (pay_onchain_rs_fee_sats r))])"

lemma de_en_PayOnchainResponse [codec_simps]: "de_PayOnchainResponse (en_PayOnchainResponse r) = Some r"
  by (simp add: de_PayOnchainResponse_def en_PayOnchainResponse_def codec_simps)

lemma en_PayOnchainResponse_not_null [codec_simps]: "en_PayOnchainResponse r \<noteq> JNull"
  by (simp add: en_PayOnchainResponse_def)

record MakeHoldInvoiceRequest =
  make_hold_invoice_rq_amount :: u64
  make_hold_invoice_rq_payment_hash :: string
  make_hold_invoice_rq_description :: "string option"
  make_hold_invoice_rq_description_hash :: "string option"
  make_hold_invoice_rq_expiry :: "u64 option"
  make_hold_invoice_rq_min_cltv_expiry_delta :: "u32 option"

definition de_MakeHoldInvoiceRequest :: "Value \<Rightarrow> MakeHoldInvoiceRequest option" where
  "de_MakeHoldInvoiceRequest v = do {
     es \<leftarrow> struct_entries [(''amount'', False), (''payment_hash'', False), (''description'', True),
       (''description_hash'', True), (''expiry'', True), (''min_cltv_expiry_delta'', True)] v;
     x0 \<leftarrow> req de_u64 ''amount'' es;
     x1 \<leftarrow> req de_string ''payment_hash'' es;
     x2 \<leftarrow> opt de_string ''description'' es;
     x3 \<leftarrow> opt de_string ''description_hash'' es;
     x4 \<leftarrow> opt de_u64 ''expiry'' es;
     x5 \<leftarrow> opt de_u32 ''min_cltv_expiry_delta'' es;
     Some \<lparr>make_hold_invoice_rq_amount = x0, make_hold_invoice_rq_payment_hash = x1,
       make_hold_invoice_rq_description = x2, make_hold_invoice_rq_description_hash = x3,
       make_hold_invoice_rq_expiry = x4, make_hold_invoice_rq_min_cltv_expiry_delta =
       x5\<rparr>
   }"

definition en_MakeHoldInvoiceRequest :: "MakeHoldInvoiceRequest \<Rightarrow> Value" where
  "en_MakeHoldInvoiceRequest r = JObj (en_fields [
       (''amount'', Some (en_u64 (make_hold_invoice_rq_amount r))),
       (''payment_hash'', Some (JStr (make_hold_invoice_rq_payment_hash r))),
       (''description'', map_option JStr (make_hold_invoice_rq_description r)),
       (''description_hash'', map_option JStr (make_hold_invoice_rq_description_hash r)),
       (''expiry'', map_option en_u64 (make_hold_invoice_rq_expiry r)),
       (''min_cltv_expiry_delta'', map_option en_u32 (make_hold_invoice_rq_min_cltv_expiry_delta r))])"

lemma de_en_MakeHoldInvoiceRequest [codec_simps]: "de_MakeHoldInvoiceRequest (en_MakeHoldInvoiceRequest r) = Some r"
  by (simp add: de_MakeHoldInvoiceRequest_def en_MakeHoldInvoiceRequest_def codec_simps)

lemma en_MakeHoldInvoiceRequest_not_null [codec_simps]: "en_MakeHoldInvoiceRequest r \<noteq> JNull"
  by (simp add: en_MakeHoldInvoiceRequest_def)

record MakeHoldInvoiceResponse =
  make_hold_invoice_rs_kind :: string
  make_hold_invoice_rs_invoice :: "string option"
  make_hold_invoice_rs_payment_hash :: string
  make_hold_invoice_rs_amount :: u64
  make_hold_invoice_rs_created_at :: u64
  make_hold_invoice_rs_expires_at :: "u64 option"
  make_hold_invoice_rs_description :: "string option"
  make_hold_invoice_rs_description_hash :: "string option"
  make_hold_invoice_rs_metadata :: "Value option"

definition de_MakeHoldInvoiceResponse :: "Value \<Rightarrow> MakeHoldInvoiceResponse option" where
  "de_MakeHoldInvoiceResponse v = do {
     es \<leftarrow> struct_entries [(''type'', False), (''invoice'', True), (''payment_hash'', False), (''amount'',
       False), (''created_at'', False), (''expires_at'', True), (''description'', True),
       (''description_hash'', True), (''metadata'', True)] v;
     x0 \<leftarrow> req de_string ''type'' es;
     x1 \<leftarrow> opt de_string ''invoice'' es;
     x2 \<leftarrow> req de_string ''payment_hash'' es;
     x3 \<leftarrow> req de_u64 ''amount'' es;
     x4 \<leftarrow> req de_u64 ''created_at'' es;
     x5 \<leftarrow> opt de_u64 ''expires_at'' es;
     x6 \<leftarrow> opt de_string ''description'' es;
     x7 \<leftarrow> opt de_string ''description_hash'' es;
     x8 \<leftarrow> opt de_value ''metadata'' es;
     Some \<lparr>make_hold_invoice_rs_kind = x0, make_hold_invoice_rs_invoice = x1,
       make_hold_invoice_rs_payment_hash = x2, make_hold_invoice_rs_amount = x3,
       make_hold_invoice_rs_created_at = x4, make_hold_invoice_rs_expires_at = x5,
       make_hold_invoice_rs_description = x6, make_hold_invoice_rs_description_hash = x7,
       make_hold_invoice_rs_metadata = x8\<rparr>
   }"

definition en_MakeHoldInvoiceResponse :: "MakeHoldInvoiceResponse \<Rightarrow> Value" where
  "en_MakeHoldInvoiceResponse r = JObj (en_fields [
       (''type'', Some (JStr (make_hold_invoice_rs_kind r))),
       (''invoice'', map_option JStr (make_hold_invoice_rs_invoice r)),
       (''payment_hash'', Some (JStr (make_hold_invoice_rs_payment_hash r))),
       (''amount'', Some (en_u64 (make_hold_invoice_rs_amount r))),
       (''created_at'', Some (en_u64 (make_hold_invoice_rs_created_at r))),
       (''expires_at'', map_option en_u64 (make_hold_invoice_rs_expires_at r)),
       (''description'', map_option JStr (make_hold_invoice_rs_description r)),
       (''description_hash'', map_option JStr (make_hold_invoice_rs_description_hash r)),
       (''metadata'', make_hold_invoice_rs_metadata r)])"

definition wf_MakeHoldInvoiceResponse :: "MakeHoldInvoiceResponse \<Rightarrow> bool" where
  "wf_MakeHoldInvoiceResponse r \<longleftrightarrow> opt_value_wf (make_hold_invoice_rs_metadata r)"

lemma de_en_MakeHoldInvoiceResponse [codec_simps]: "wf_MakeHoldInvoiceResponse r \<Longrightarrow> de_MakeHoldInvoiceResponse (en_MakeHoldInvoiceResponse r) = Some r"
  by (simp add: de_MakeHoldInvoiceResponse_def en_MakeHoldInvoiceResponse_def wf_MakeHoldInvoiceResponse_def codec_simps)

lemma en_MakeHoldInvoiceResponse_not_null [codec_simps]: "en_MakeHoldInvoiceResponse r \<noteq> JNull"
  by (simp add: en_MakeHoldInvoiceResponse_def)

record SettleHoldInvoiceRequest =
  settle_hold_invoice_rq_preimage :: string

definition de_SettleHoldInvoiceRequest :: "Value \<Rightarrow> SettleHoldInvoiceRequest option" where
  "de_SettleHoldInvoiceRequest v = do {
     es \<leftarrow> struct_entries [(''preimage'', False)] v;
     x0 \<leftarrow> req de_string ''preimage'' es;
     Some \<lparr>settle_hold_invoice_rq_preimage = x0\<rparr>
   }"

definition en_SettleHoldInvoiceRequest :: "SettleHoldInvoiceRequest \<Rightarrow> Value" where
  "en_SettleHoldInvoiceRequest r = JObj (en_fields [
       (''preimage'', Some (JStr (settle_hold_invoice_rq_preimage r)))])"

lemma de_en_SettleHoldInvoiceRequest [codec_simps]: "de_SettleHoldInvoiceRequest (en_SettleHoldInvoiceRequest r) = Some r"
  by (simp add: de_SettleHoldInvoiceRequest_def en_SettleHoldInvoiceRequest_def codec_simps)

lemma en_SettleHoldInvoiceRequest_not_null [codec_simps]: "en_SettleHoldInvoiceRequest r \<noteq> JNull"
  by (simp add: en_SettleHoldInvoiceRequest_def)

datatype SettleHoldInvoiceResponse = SettleHoldInvoiceResponse

definition de_SettleHoldInvoiceResponse :: "Value \<Rightarrow> SettleHoldInvoiceResponse option" where
  "de_SettleHoldInvoiceResponse v = map_option (\<lambda>_. SettleHoldInvoiceResponse) (struct_entries [] v)"

definition en_SettleHoldInvoiceResponse :: "SettleHoldInvoiceResponse \<Rightarrow> Value" where
  "en_SettleHoldInvoiceResponse r = JObj (en_fields [])"

lemma de_en_SettleHoldInvoiceResponse [codec_simps]: "de_SettleHoldInvoiceResponse (en_SettleHoldInvoiceResponse r) = Some r"
  by (cases r) (simp add: de_SettleHoldInvoiceResponse_def en_SettleHoldInvoiceResponse_def codec_simps)

lemma en_SettleHoldInvoiceResponse_not_null [codec_simps]: "en_SettleHoldInvoiceResponse r \<noteq> JNull"
  by (simp add: en_SettleHoldInvoiceResponse_def)

record CancelHoldInvoiceRequest =
  cancel_hold_invoice_rq_payment_hash :: string

definition de_CancelHoldInvoiceRequest :: "Value \<Rightarrow> CancelHoldInvoiceRequest option" where
  "de_CancelHoldInvoiceRequest v = do {
     es \<leftarrow> struct_entries [(''payment_hash'', False)] v;
     x0 \<leftarrow> req de_string ''payment_hash'' es;
     Some \<lparr>cancel_hold_invoice_rq_payment_hash = x0\<rparr>
   }"

definition en_CancelHoldInvoiceRequest :: "CancelHoldInvoiceRequest \<Rightarrow> Value" where
  "en_CancelHoldInvoiceRequest r = JObj (en_fields [
       (''payment_hash'', Some (JStr (cancel_hold_invoice_rq_payment_hash r)))])"

lemma de_en_CancelHoldInvoiceRequest [codec_simps]: "de_CancelHoldInvoiceRequest (en_CancelHoldInvoiceRequest r) = Some r"
  by (simp add: de_CancelHoldInvoiceRequest_def en_CancelHoldInvoiceRequest_def codec_simps)

lemma en_CancelHoldInvoiceRequest_not_null [codec_simps]: "en_CancelHoldInvoiceRequest r \<noteq> JNull"
  by (simp add: en_CancelHoldInvoiceRequest_def)

datatype CancelHoldInvoiceResponse = CancelHoldInvoiceResponse

definition de_CancelHoldInvoiceResponse :: "Value \<Rightarrow> CancelHoldInvoiceResponse option" where
  "de_CancelHoldInvoiceResponse v = map_option (\<lambda>_. CancelHoldInvoiceResponse) (struct_entries [] v)"

definition en_CancelHoldInvoiceResponse :: "CancelHoldInvoiceResponse \<Rightarrow> Value" where
  "en_CancelHoldInvoiceResponse r = JObj (en_fields [])"

lemma de_en_CancelHoldInvoiceResponse [codec_simps]: "de_CancelHoldInvoiceResponse (en_CancelHoldInvoiceResponse r) = Some r"
  by (cases r) (simp add: de_CancelHoldInvoiceResponse_def en_CancelHoldInvoiceResponse_def codec_simps)

lemma en_CancelHoldInvoiceResponse_not_null [codec_simps]: "en_CancelHoldInvoiceResponse r \<noteq> JNull"
  by (simp add: en_CancelHoldInvoiceResponse_def)

record QuotePaymentRequest =
  quote_payment_rq_invoice :: string
  quote_payment_rq_amount :: "u64 option"

definition de_QuotePaymentRequest :: "Value \<Rightarrow> QuotePaymentRequest option" where
  "de_QuotePaymentRequest v = do {
     es \<leftarrow> struct_entries [(''invoice'', False), (''amount'', True)] v;
     x0 \<leftarrow> req de_string ''invoice'' es;
     x1 \<leftarrow> opt de_u64 ''amount'' es;
     Some \<lparr>quote_payment_rq_invoice = x0, quote_payment_rq_amount = x1\<rparr>
   }"

definition en_QuotePaymentRequest :: "QuotePaymentRequest \<Rightarrow> Value" where
  "en_QuotePaymentRequest r = JObj (en_fields [
       (''invoice'', Some (JStr (quote_payment_rq_invoice r))),
       (''amount'', map_option en_u64 (quote_payment_rq_amount r))])"

lemma de_en_QuotePaymentRequest [codec_simps]: "de_QuotePaymentRequest (en_QuotePaymentRequest r) = Some r"
  by (simp add: de_QuotePaymentRequest_def en_QuotePaymentRequest_def codec_simps)

lemma en_QuotePaymentRequest_not_null [codec_simps]: "en_QuotePaymentRequest r \<noteq> JNull"
  by (simp add: en_QuotePaymentRequest_def)

record QuotePaymentResponse =
  quote_payment_rs_amount :: u64
  quote_payment_rs_fee_msat :: u64
  quote_payment_rs_cltv_expiry_delta :: u32
  quote_payment_rs_route_found :: bool

definition de_QuotePaymentResponse :: "Value \<Rightarrow> QuotePaymentResponse option" where
  "de_QuotePaymentResponse v = do {
     es \<leftarrow> struct_entries [(''amount'', False), (''fee_msat'', False), (''cltv_expiry_delta'', False),
       (''route_found'', False)] v;
     x0 \<leftarrow> req de_u64 ''amount'' es;
     x1 \<leftarrow> req de_u64 ''fee_msat'' es;
     x2 \<leftarrow> req de_u32 ''cltv_expiry_delta'' es;
     x3 \<leftarrow> req de_bool ''route_found'' es;
     Some \<lparr>quote_payment_rs_amount = x0, quote_payment_rs_fee_msat = x1,
       quote_payment_rs_cltv_expiry_delta = x2, quote_payment_rs_route_found = x3\<rparr>
   }"

definition en_QuotePaymentResponse :: "QuotePaymentResponse \<Rightarrow> Value" where
  "en_QuotePaymentResponse r = JObj (en_fields [
       (''amount'', Some (en_u64 (quote_payment_rs_amount r))),
       (''fee_msat'', Some (en_u64 (quote_payment_rs_fee_msat r))),
       (''cltv_expiry_delta'', Some (en_u32 (quote_payment_rs_cltv_expiry_delta r))),
       (''route_found'', Some (JBool (quote_payment_rs_route_found r)))])"

lemma de_en_QuotePaymentResponse [codec_simps]: "de_QuotePaymentResponse (en_QuotePaymentResponse r) = Some r"
  by (simp add: de_QuotePaymentResponse_def en_QuotePaymentResponse_def codec_simps)

lemma en_QuotePaymentResponse_not_null [codec_simps]: "en_QuotePaymentResponse r \<noteq> JNull"
  by (simp add: en_QuotePaymentResponse_def)

record HoldInvoiceAccepted =
  hold_invoice_accepted_kind :: string
  hold_invoice_accepted_state :: "string option"
  hold_invoice_accepted_invoice :: string
  hold_invoice_accepted_payment_hash :: string
  hold_invoice_accepted_amount :: u64
  hold_invoice_accepted_created_at :: u64
  hold_invoice_accepted_expires_at :: u64
  hold_invoice_accepted_settle_deadline :: "u64 option"
  hold_invoice_accepted_description :: "string option"
  hold_invoice_accepted_description_hash :: "string option"
  hold_invoice_accepted_metadata :: "Value option"

definition de_HoldInvoiceAccepted :: "Value \<Rightarrow> HoldInvoiceAccepted option" where
  "de_HoldInvoiceAccepted v = do {
     es \<leftarrow> struct_entries [(''type'', False), (''state'', True), (''invoice'', False), (''payment_hash'',
       False), (''amount'', False), (''created_at'', False), (''expires_at'', False),
       (''settle_deadline'', True), (''description'', True), (''description_hash'', True),
       (''metadata'', True)] v;
     x0 \<leftarrow> req de_string ''type'' es;
     x1 \<leftarrow> opt de_string ''state'' es;
     x2 \<leftarrow> req de_string ''invoice'' es;
     x3 \<leftarrow> req de_string ''payment_hash'' es;
     x4 \<leftarrow> req de_u64 ''amount'' es;
     x5 \<leftarrow> req de_u64 ''created_at'' es;
     x6 \<leftarrow> req de_u64 ''expires_at'' es;
     x7 \<leftarrow> opt de_u64 ''settle_deadline'' es;
     x8 \<leftarrow> opt de_string ''description'' es;
     x9 \<leftarrow> opt de_string ''description_hash'' es;
     x10 \<leftarrow> opt de_value ''metadata'' es;
     Some \<lparr>hold_invoice_accepted_kind = x0, hold_invoice_accepted_state = x1,
       hold_invoice_accepted_invoice = x2, hold_invoice_accepted_payment_hash = x3,
       hold_invoice_accepted_amount = x4, hold_invoice_accepted_created_at = x5,
       hold_invoice_accepted_expires_at = x6, hold_invoice_accepted_settle_deadline = x7,
       hold_invoice_accepted_description = x8, hold_invoice_accepted_description_hash = x9,
       hold_invoice_accepted_metadata = x10\<rparr>
   }"

definition en_HoldInvoiceAccepted :: "HoldInvoiceAccepted \<Rightarrow> Value" where
  "en_HoldInvoiceAccepted r = JObj (en_fields [
       (''type'', Some (JStr (hold_invoice_accepted_kind r))),
       (''state'', map_option JStr (hold_invoice_accepted_state r)),
       (''invoice'', Some (JStr (hold_invoice_accepted_invoice r))),
       (''payment_hash'', Some (JStr (hold_invoice_accepted_payment_hash r))),
       (''amount'', Some (en_u64 (hold_invoice_accepted_amount r))),
       (''created_at'', Some (en_u64 (hold_invoice_accepted_created_at r))),
       (''expires_at'', Some (en_u64 (hold_invoice_accepted_expires_at r))),
       (''settle_deadline'', map_option en_u64 (hold_invoice_accepted_settle_deadline r)),
       (''description'', map_option JStr (hold_invoice_accepted_description r)),
       (''description_hash'', map_option JStr (hold_invoice_accepted_description_hash r)),
       (''metadata'', hold_invoice_accepted_metadata r)])"

definition wf_HoldInvoiceAccepted :: "HoldInvoiceAccepted \<Rightarrow> bool" where
  "wf_HoldInvoiceAccepted r \<longleftrightarrow> opt_value_wf (hold_invoice_accepted_metadata r)"

lemma de_en_HoldInvoiceAccepted [codec_simps]: "wf_HoldInvoiceAccepted r \<Longrightarrow> de_HoldInvoiceAccepted (en_HoldInvoiceAccepted r) = Some r"
  by (simp add: de_HoldInvoiceAccepted_def en_HoldInvoiceAccepted_def wf_HoldInvoiceAccepted_def codec_simps)

lemma en_HoldInvoiceAccepted_not_null [codec_simps]: "en_HoldInvoiceAccepted r \<noteq> JNull"
  by (simp add: en_HoldInvoiceAccepted_def)

record TlvRecord =
  tlv_record_tlv_type :: u64
  tlv_record_value :: string

definition de_TlvRecord :: "Value \<Rightarrow> TlvRecord option" where
  "de_TlvRecord v = do {
     es \<leftarrow> struct_entries [(''type'', False), (''value'', False)] v;
     x0 \<leftarrow> req de_u64 ''type'' es;
     x1 \<leftarrow> req de_string ''value'' es;
     Some \<lparr>tlv_record_tlv_type = x0, tlv_record_value = x1\<rparr>
   }"

definition en_TlvRecord :: "TlvRecord \<Rightarrow> Value" where
  "en_TlvRecord r = JObj (en_fields [
       (''type'', Some (en_u64 (tlv_record_tlv_type r))),
       (''value'', Some (JStr (tlv_record_value r)))])"

lemma de_en_TlvRecord [codec_simps]: "de_TlvRecord (en_TlvRecord r) = Some r"
  by (simp add: de_TlvRecord_def en_TlvRecord_def codec_simps)

lemma en_TlvRecord_not_null [codec_simps]: "en_TlvRecord r \<noteq> JNull"
  by (simp add: en_TlvRecord_def)

record PayKeysendRequest =
  pay_keysend_rq_amount :: u64
  pay_keysend_rq_pubkey :: string
  pay_keysend_rq_preimage :: "string option"
  pay_keysend_rq_tlv_records :: "TlvRecord list option"

definition de_PayKeysendRequest :: "Value \<Rightarrow> PayKeysendRequest option" where
  "de_PayKeysendRequest v = do {
     es \<leftarrow> struct_entries [(''amount'', False), (''pubkey'', False), (''preimage'', True), (''tlv_records'',
       True)] v;
     x0 \<leftarrow> req de_u64 ''amount'' es;
     x1 \<leftarrow> req de_string ''pubkey'' es;
     x2 \<leftarrow> opt de_string ''preimage'' es;
     x3 \<leftarrow> opt (de_vec de_TlvRecord) ''tlv_records'' es;
     Some \<lparr>pay_keysend_rq_amount = x0, pay_keysend_rq_pubkey = x1,
       pay_keysend_rq_preimage = x2, pay_keysend_rq_tlv_records = x3\<rparr>
   }"

definition en_PayKeysendRequest :: "PayKeysendRequest \<Rightarrow> Value" where
  "en_PayKeysendRequest r = JObj (en_fields [
       (''amount'', Some (en_u64 (pay_keysend_rq_amount r))),
       (''pubkey'', Some (JStr (pay_keysend_rq_pubkey r))),
       (''preimage'', map_option JStr (pay_keysend_rq_preimage r)),
       (''tlv_records'', map_option (en_vec en_TlvRecord) (pay_keysend_rq_tlv_records r))])"

lemma de_en_PayKeysendRequest [codec_simps]: "de_PayKeysendRequest (en_PayKeysendRequest r) = Some r"
  by (simp add: de_PayKeysendRequest_def en_PayKeysendRequest_def codec_simps)

lemma en_PayKeysendRequest_not_null [codec_simps]: "en_PayKeysendRequest r \<noteq> JNull"
  by (simp add: en_PayKeysendRequest_def)

record PayKeysendResponse =
  pay_keysend_rs_preimage :: string
  pay_keysend_rs_fees_paid :: "u64 option"

definition de_PayKeysendResponse :: "Value \<Rightarrow> PayKeysendResponse option" where
  "de_PayKeysendResponse v = do {
     es \<leftarrow> struct_entries [(''preimage'', False), (''fees_paid'', True)] v;
     x0 \<leftarrow> req de_string ''preimage'' es;
     x1 \<leftarrow> opt de_u64 ''fees_paid'' es;
     Some \<lparr>pay_keysend_rs_preimage = x0, pay_keysend_rs_fees_paid = x1\<rparr>
   }"

definition en_PayKeysendResponse :: "PayKeysendResponse \<Rightarrow> Value" where
  "en_PayKeysendResponse r = JObj (en_fields [
       (''preimage'', Some (JStr (pay_keysend_rs_preimage r))),
       (''fees_paid'', map_option en_u64 (pay_keysend_rs_fees_paid r))])"

lemma de_en_PayKeysendResponse [codec_simps]: "de_PayKeysendResponse (en_PayKeysendResponse r) = Some r"
  by (simp add: de_PayKeysendResponse_def en_PayKeysendResponse_def codec_simps)

lemma en_PayKeysendResponse_not_null [codec_simps]: "en_PayKeysendResponse r \<noteq> JNull"
  by (simp add: en_PayKeysendResponse_def)

record ListTransactionsRequest =
  list_transactions_rq_from :: "u64 option"
  list_transactions_rq_until :: "u64 option"
  list_transactions_rq_limit :: "u64 option"
  list_transactions_rq_offset :: "u64 option"
  list_transactions_rq_unpaid :: "bool option"
  list_transactions_rq_transaction_type :: "TransactionType option"

definition de_ListTransactionsRequest :: "Value \<Rightarrow> ListTransactionsRequest option" where
  "de_ListTransactionsRequest v = do {
     es \<leftarrow> struct_entries [(''from'', True), (''until'', True), (''limit'', True), (''offset'', True),
       (''unpaid'', True), (''type'', True)] v;
     x0 \<leftarrow> opt de_u64 ''from'' es;
     x1 \<leftarrow> opt de_u64 ''until'' es;
     x2 \<leftarrow> opt de_u64 ''limit'' es;
     x3 \<leftarrow> opt de_u64 ''offset'' es;
     x4 \<leftarrow> opt de_bool ''unpaid'' es;
     x5 \<leftarrow> opt de_TransactionType ''type'' es;
     Some \<lparr>list_transactions_rq_from = x0, list_transactions_rq_until = x1,
       list_transactions_rq_limit = x2, list_transactions_rq_offset = x3,
       list_transactions_rq_unpaid = x4, list_transactions_rq_transaction_type = x5\<rparr>
   }"

definition en_ListTransactionsRequest :: "ListTransactionsRequest \<Rightarrow> Value" where
  "en_ListTransactionsRequest r = JObj (en_fields [
       (''from'', map_option en_u64 (list_transactions_rq_from r)),
       (''until'', map_option en_u64 (list_transactions_rq_until r)),
       (''limit'', map_option en_u64 (list_transactions_rq_limit r)),
       (''offset'', map_option en_u64 (list_transactions_rq_offset r)),
       (''unpaid'', map_option JBool (list_transactions_rq_unpaid r)),
       (''type'', map_option en_TransactionType (list_transactions_rq_transaction_type r))])"

lemma de_en_ListTransactionsRequest [codec_simps]: "de_ListTransactionsRequest (en_ListTransactionsRequest r) = Some r"
  by (simp add: de_ListTransactionsRequest_def en_ListTransactionsRequest_def codec_simps)

lemma en_ListTransactionsRequest_not_null [codec_simps]: "en_ListTransactionsRequest r \<noteq> JNull"
  by (simp add: en_ListTransactionsRequest_def)

record ListTransactionsResponse =
  list_transactions_rs_transactions :: "Transaction list"
  list_transactions_rs_total_count :: "u64 option"

definition de_ListTransactionsResponse :: "Value \<Rightarrow> ListTransactionsResponse option" where
  "de_ListTransactionsResponse v = do {
     es \<leftarrow> struct_entries [(''transactions'', False), (''total_count'', True)] v;
     x0 \<leftarrow> req (de_vec de_Transaction) ''transactions'' es;
     x1 \<leftarrow> opt de_u64 ''total_count'' es;
     Some \<lparr>list_transactions_rs_transactions = x0, list_transactions_rs_total_count =
       x1\<rparr>
   }"

definition en_ListTransactionsResponse :: "ListTransactionsResponse \<Rightarrow> Value" where
  "en_ListTransactionsResponse r = JObj (en_fields [
       (''transactions'', Some ((en_vec en_Transaction) (list_transactions_rs_transactions r))),
       (''total_count'', map_option en_u64 (list_transactions_rs_total_count r))])"

definition wf_ListTransactionsResponse :: "ListTransactionsResponse \<Rightarrow> bool" where
  "wf_ListTransactionsResponse r \<longleftrightarrow> list_all wf_Transaction (list_transactions_rs_transactions r)"

lemma de_en_ListTransactionsResponse [codec_simps]: "wf_ListTransactionsResponse r \<Longrightarrow> de_ListTransactionsResponse (en_ListTransactionsResponse r) = Some r"
  by (simp add: de_ListTransactionsResponse_def en_ListTransactionsResponse_def wf_ListTransactionsResponse_def codec_simps list_all_iff)

lemma en_ListTransactionsResponse_not_null [codec_simps]: "en_ListTransactionsResponse r \<noteq> JNull"
  by (simp add: en_ListTransactionsResponse_def)

type_synonym PaymentReceived = Transaction

type_synonym PaymentSent = Transaction

record MakeNewAddressRequest =
  make_new_address_rq_address_type :: "string option"

definition de_MakeNewAddressRequest :: "Value \<Rightarrow> MakeNewAddressRequest option" where
  "de_MakeNewAddressRequest v = do {
     es \<leftarrow> struct_entries [(''type'', True)] v;
     x0 \<leftarrow> opt de_string ''type'' es;
     Some \<lparr>make_new_address_rq_address_type = x0\<rparr>
   }"

definition en_MakeNewAddressRequest :: "MakeNewAddressRequest \<Rightarrow> Value" where
  "en_MakeNewAddressRequest r = JObj (en_fields [
       (''type'', map_option JStr (make_new_address_rq_address_type r))])"

lemma de_en_MakeNewAddressRequest [codec_simps]: "de_MakeNewAddressRequest (en_MakeNewAddressRequest r) = Some r"
  by (simp add: de_MakeNewAddressRequest_def en_MakeNewAddressRequest_def codec_simps)

lemma en_MakeNewAddressRequest_not_null [codec_simps]: "en_MakeNewAddressRequest r \<noteq> JNull"
  by (simp add: en_MakeNewAddressRequest_def)

record MakeNewAddressResponse =
  make_new_address_rs_address :: string
  make_new_address_rs_address_type :: string

definition de_MakeNewAddressResponse :: "Value \<Rightarrow> MakeNewAddressResponse option" where
  "de_MakeNewAddressResponse v = do {
     es \<leftarrow> struct_entries [(''address'', False), (''type'', False)] v;
     x0 \<leftarrow> req de_string ''address'' es;
     x1 \<leftarrow> req de_string ''type'' es;
     Some \<lparr>make_new_address_rs_address = x0, make_new_address_rs_address_type =
       x1\<rparr>
   }"

definition en_MakeNewAddressResponse :: "MakeNewAddressResponse \<Rightarrow> Value" where
  "en_MakeNewAddressResponse r = JObj (en_fields [
       (''address'', Some (JStr (make_new_address_rs_address r))),
       (''type'', Some (JStr (make_new_address_rs_address_type r)))])"

lemma de_en_MakeNewAddressResponse [codec_simps]: "de_MakeNewAddressResponse (en_MakeNewAddressResponse r) = Some r"
  by (simp add: de_MakeNewAddressResponse_def en_MakeNewAddressResponse_def codec_simps)

lemma en_MakeNewAddressResponse_not_null [codec_simps]: "en_MakeNewAddressResponse r \<noteq> JNull"
  by (simp add: en_MakeNewAddressResponse_def)

record AddressTransaction =
  address_transaction_txid :: string
  address_transaction_amount_sats :: u64
  address_transaction_confirmations :: u64
  address_transaction_timestamp :: u64

definition de_AddressTransaction :: "Value \<Rightarrow> AddressTransaction option" where
  "de_AddressTransaction v = do {
     es \<leftarrow> struct_entries [(''txid'', False), (''amount_sats'', False), (''confirmations'', False),
       (''timestamp'', False)] v;
     x0 \<leftarrow> req de_string ''txid'' es;
     x1 \<leftarrow> req de_u64 ''amount_sats'' es;
     x2 \<leftarrow> req de_u64 ''confirmations'' es;
     x3 \<leftarrow> req de_u64 ''timestamp'' es;
     Some \<lparr>address_transaction_txid = x0, address_transaction_amount_sats = x1,
       address_transaction_confirmations = x2, address_transaction_timestamp = x3\<rparr>
   }"

definition en_AddressTransaction :: "AddressTransaction \<Rightarrow> Value" where
  "en_AddressTransaction r = JObj (en_fields [
       (''txid'', Some (JStr (address_transaction_txid r))),
       (''amount_sats'', Some (en_u64 (address_transaction_amount_sats r))),
       (''confirmations'', Some (en_u64 (address_transaction_confirmations r))),
       (''timestamp'', Some (en_u64 (address_transaction_timestamp r)))])"

lemma de_en_AddressTransaction [codec_simps]: "de_AddressTransaction (en_AddressTransaction r) = Some r"
  by (simp add: de_AddressTransaction_def en_AddressTransaction_def codec_simps)

lemma en_AddressTransaction_not_null [codec_simps]: "en_AddressTransaction r \<noteq> JNull"
  by (simp add: en_AddressTransaction_def)

record LookupAddressRequest =
  lookup_address_rq_address :: string

definition de_LookupAddressRequest :: "Value \<Rightarrow> LookupAddressRequest option" where
  "de_LookupAddressRequest v = do {
     es \<leftarrow> struct_entries [(''address'', False)] v;
     x0 \<leftarrow> req de_string ''address'' es;
     Some \<lparr>lookup_address_rq_address = x0\<rparr>
   }"

definition en_LookupAddressRequest :: "LookupAddressRequest \<Rightarrow> Value" where
  "en_LookupAddressRequest r = JObj (en_fields [
       (''address'', Some (JStr (lookup_address_rq_address r)))])"

lemma de_en_LookupAddressRequest [codec_simps]: "de_LookupAddressRequest (en_LookupAddressRequest r) = Some r"
  by (simp add: de_LookupAddressRequest_def en_LookupAddressRequest_def codec_simps)

lemma en_LookupAddressRequest_not_null [codec_simps]: "en_LookupAddressRequest r \<noteq> JNull"
  by (simp add: en_LookupAddressRequest_def)

record LookupAddressResponse =
  lookup_address_rs_address :: string
  lookup_address_rs_address_type :: string
  lookup_address_rs_total_received_sats :: u64
  lookup_address_rs_transactions :: "AddressTransaction list"

definition de_LookupAddressResponse :: "Value \<Rightarrow> LookupAddressResponse option" where
  "de_LookupAddressResponse v = do {
     es \<leftarrow> struct_entries [(''address'', False), (''type'', False), (''total_received_sats'', False),
       (''transactions'', False)] v;
     x0 \<leftarrow> req de_string ''address'' es;
     x1 \<leftarrow> req de_string ''type'' es;
     x2 \<leftarrow> req de_u64 ''total_received_sats'' es;
     x3 \<leftarrow> req (de_vec de_AddressTransaction) ''transactions'' es;
     Some \<lparr>lookup_address_rs_address = x0, lookup_address_rs_address_type = x1,
       lookup_address_rs_total_received_sats = x2, lookup_address_rs_transactions =
       x3\<rparr>
   }"

definition en_LookupAddressResponse :: "LookupAddressResponse \<Rightarrow> Value" where
  "en_LookupAddressResponse r = JObj (en_fields [
       (''address'', Some (JStr (lookup_address_rs_address r))),
       (''type'', Some (JStr (lookup_address_rs_address_type r))),
       (''total_received_sats'', Some (en_u64 (lookup_address_rs_total_received_sats r))),
       (''transactions'', Some ((en_vec en_AddressTransaction) (lookup_address_rs_transactions r)))])"

lemma de_en_LookupAddressResponse [codec_simps]: "de_LookupAddressResponse (en_LookupAddressResponse r) = Some r"
  by (simp add: de_LookupAddressResponse_def en_LookupAddressResponse_def codec_simps)

lemma en_LookupAddressResponse_not_null [codec_simps]: "en_LookupAddressResponse r \<noteq> JNull"
  by (simp add: en_LookupAddressResponse_def)

record AddressRecord =
  address_record_address :: string
  address_record_address_type :: string
  address_record_total_received_sats :: u64
  address_record_created_at :: u64

definition de_AddressRecord :: "Value \<Rightarrow> AddressRecord option" where
  "de_AddressRecord v = do {
     es \<leftarrow> struct_entries [(''address'', False), (''type'', False), (''total_received_sats'', False),
       (''created_at'', False)] v;
     x0 \<leftarrow> req de_string ''address'' es;
     x1 \<leftarrow> req de_string ''type'' es;
     x2 \<leftarrow> req de_u64 ''total_received_sats'' es;
     x3 \<leftarrow> req de_u64 ''created_at'' es;
     Some \<lparr>address_record_address = x0, address_record_address_type = x1,
       address_record_total_received_sats = x2, address_record_created_at = x3\<rparr>
   }"

definition en_AddressRecord :: "AddressRecord \<Rightarrow> Value" where
  "en_AddressRecord r = JObj (en_fields [
       (''address'', Some (JStr (address_record_address r))),
       (''type'', Some (JStr (address_record_address_type r))),
       (''total_received_sats'', Some (en_u64 (address_record_total_received_sats r))),
       (''created_at'', Some (en_u64 (address_record_created_at r)))])"

lemma de_en_AddressRecord [codec_simps]: "de_AddressRecord (en_AddressRecord r) = Some r"
  by (simp add: de_AddressRecord_def en_AddressRecord_def codec_simps)

lemma en_AddressRecord_not_null [codec_simps]: "en_AddressRecord r \<noteq> JNull"
  by (simp add: en_AddressRecord_def)

record ListAddressesRequest =
  list_addresses_rq_limit :: "u64 option"
  list_addresses_rq_offset :: "u64 option"

definition de_ListAddressesRequest :: "Value \<Rightarrow> ListAddressesRequest option" where
  "de_ListAddressesRequest v = do {
     es \<leftarrow> struct_entries [(''limit'', True), (''offset'', True)] v;
     x0 \<leftarrow> opt de_u64 ''limit'' es;
     x1 \<leftarrow> opt de_u64 ''offset'' es;
     Some \<lparr>list_addresses_rq_limit = x0, list_addresses_rq_offset = x1\<rparr>
   }"

definition en_ListAddressesRequest :: "ListAddressesRequest \<Rightarrow> Value" where
  "en_ListAddressesRequest r = JObj (en_fields [
       (''limit'', map_option en_u64 (list_addresses_rq_limit r)),
       (''offset'', map_option en_u64 (list_addresses_rq_offset r))])"

lemma de_en_ListAddressesRequest [codec_simps]: "de_ListAddressesRequest (en_ListAddressesRequest r) = Some r"
  by (simp add: de_ListAddressesRequest_def en_ListAddressesRequest_def codec_simps)

lemma en_ListAddressesRequest_not_null [codec_simps]: "en_ListAddressesRequest r \<noteq> JNull"
  by (simp add: en_ListAddressesRequest_def)

record ListAddressesResponse =
  list_addresses_rs_addresses :: "AddressRecord list"

definition de_ListAddressesResponse :: "Value \<Rightarrow> ListAddressesResponse option" where
  "de_ListAddressesResponse v = do {
     es \<leftarrow> struct_entries [(''addresses'', False)] v;
     x0 \<leftarrow> req (de_vec de_AddressRecord) ''addresses'' es;
     Some \<lparr>list_addresses_rs_addresses = x0\<rparr>
   }"

definition en_ListAddressesResponse :: "ListAddressesResponse \<Rightarrow> Value" where
  "en_ListAddressesResponse r = JObj (en_fields [
       (''addresses'', Some ((en_vec en_AddressRecord) (list_addresses_rs_addresses r)))])"

lemma de_en_ListAddressesResponse [codec_simps]: "de_ListAddressesResponse (en_ListAddressesResponse r) = Some r"
  by (simp add: de_ListAddressesResponse_def en_ListAddressesResponse_def codec_simps)

lemma en_ListAddressesResponse_not_null [codec_simps]: "en_ListAddressesResponse r \<noteq> JNull"
  by (simp add: en_ListAddressesResponse_def)

datatype EstimateOnchainFeesRequest = EstimateOnchainFeesRequest

definition de_EstimateOnchainFeesRequest :: "Value \<Rightarrow> EstimateOnchainFeesRequest option" where
  "de_EstimateOnchainFeesRequest v = map_option (\<lambda>_. EstimateOnchainFeesRequest) (struct_entries [] v)"

definition en_EstimateOnchainFeesRequest :: "EstimateOnchainFeesRequest \<Rightarrow> Value" where
  "en_EstimateOnchainFeesRequest r = JObj (en_fields [])"

lemma de_en_EstimateOnchainFeesRequest [codec_simps]: "de_EstimateOnchainFeesRequest (en_EstimateOnchainFeesRequest r) = Some r"
  by (cases r) (simp add: de_EstimateOnchainFeesRequest_def en_EstimateOnchainFeesRequest_def codec_simps)

lemma en_EstimateOnchainFeesRequest_not_null [codec_simps]: "en_EstimateOnchainFeesRequest r \<noteq> JNull"
  by (simp add: en_EstimateOnchainFeesRequest_def)

record EstimateOnchainFeesResponse =
  estimate_onchain_fees_rs_fees :: "(string, f64) hashmap"

definition de_EstimateOnchainFeesResponse :: "Value \<Rightarrow> EstimateOnchainFeesResponse option" where
  "de_EstimateOnchainFeesResponse v = do {
     es \<leftarrow> struct_entries [(''fees'', False)] v;
     x0 \<leftarrow> req (de_hashmap de_f64) ''fees'' es;
     Some \<lparr>estimate_onchain_fees_rs_fees = x0\<rparr>
   }"

definition en_EstimateOnchainFeesResponse :: "EstimateOnchainFeesResponse \<Rightarrow> Value" where
  "en_EstimateOnchainFeesResponse r = JObj (en_fields [
       (''fees'', Some ((en_btree en_f64) (estimate_onchain_fees_rs_fees r)))])"

definition wf_EstimateOnchainFeesResponse :: "EstimateOnchainFeesResponse \<Rightarrow> bool" where
  "wf_EstimateOnchainFeesResponse r \<longleftrightarrow> fmpred (\<lambda>_ b. f64_finite b) (estimate_onchain_fees_rs_fees r)"

lemma de_en_EstimateOnchainFeesResponse [codec_simps]: "wf_EstimateOnchainFeesResponse r \<Longrightarrow> de_EstimateOnchainFeesResponse (en_EstimateOnchainFeesResponse r) = Some r"
  by (simp add: de_EstimateOnchainFeesResponse_def en_EstimateOnchainFeesResponse_def wf_EstimateOnchainFeesResponse_def codec_simps de_en_f64 fmpred_iff)

lemma en_EstimateOnchainFeesResponse_not_null [codec_simps]: "en_EstimateOnchainFeesResponse r \<noteq> JNull"
  by (simp add: en_EstimateOnchainFeesResponse_def)

datatype InvoiceState =
    IS_Pending
  | IS_Settled
  | IS_Expired
  | IS_Unknown string

definition invoice_state_variant :: "string \<Rightarrow> InvoiceState option" where
  "invoice_state_variant s =
     (if s = ''pending'' then Some IS_Pending
      else if s = ''settled'' then Some IS_Settled
      else if s = ''expired'' then Some IS_Expired
      else None)"

definition de_InvoiceState :: "Value \<Rightarrow> InvoiceState option" where
  "de_InvoiceState v = de_variant_or invoice_state_variant IS_Unknown v"

fun en_InvoiceState :: "InvoiceState \<Rightarrow> Value" where
  "en_InvoiceState IS_Pending = JStr ''pending''"
| "en_InvoiceState IS_Settled = JStr ''settled''"
| "en_InvoiceState IS_Expired = JStr ''expired''"
| "en_InvoiceState (IS_Unknown s) = JStr s"

text \<open>The unknown variant holds only strings that name no known one.\<close>

definition wf_InvoiceState :: "InvoiceState \<Rightarrow> bool" where
  "wf_InvoiceState x = (case x of IS_Unknown s \<Rightarrow> invoice_state_variant s = None | _ \<Rightarrow> True)"

lemma de_en_InvoiceState [codec_simps]: "wf_InvoiceState x \<Longrightarrow> de_InvoiceState (en_InvoiceState x) = Some x"
  by (cases x) (simp_all add: wf_InvoiceState_def de_InvoiceState_def de_variant_or_def de_variant_def invoice_state_variant_def)

lemma en_InvoiceState_not_null [codec_simps]: "en_InvoiceState x \<noteq> JNull"
  by (cases x) simp_all

record ListInvoicesRequest =
  list_invoices_rq_from :: "u64 option"
  list_invoices_rq_until :: "u64 option"
  list_invoices_rq_limit :: "u64 option"
  list_invoices_rq_offset :: "u64 option"
  list_invoices_rq_state :: "InvoiceState option"

definition de_ListInvoicesRequest :: "Value \<Rightarrow> ListInvoicesRequest option" where
  "de_ListInvoicesRequest v = do {
     es \<leftarrow> struct_entries [(''from'', True), (''until'', True), (''limit'', True), (''offset'', True),
       (''state'', True)] v;
     x0 \<leftarrow> opt de_u64 ''from'' es;
     x1 \<leftarrow> opt de_u64 ''until'' es;
     x2 \<leftarrow> opt de_u64 ''limit'' es;
     x3 \<leftarrow> opt de_u64 ''offset'' es;
     x4 \<leftarrow> opt de_InvoiceState ''state'' es;
     Some \<lparr>list_invoices_rq_from = x0, list_invoices_rq_until = x1,
       list_invoices_rq_limit = x2, list_invoices_rq_offset = x3, list_invoices_rq_state =
       x4\<rparr>
   }"

definition en_ListInvoicesRequest :: "ListInvoicesRequest \<Rightarrow> Value" where
  "en_ListInvoicesRequest r = JObj (en_fields [
       (''from'', map_option en_u64 (list_invoices_rq_from r)),
       (''until'', map_option en_u64 (list_invoices_rq_until r)),
       (''limit'', map_option en_u64 (list_invoices_rq_limit r)),
       (''offset'', map_option en_u64 (list_invoices_rq_offset r)),
       (''state'', map_option en_InvoiceState (list_invoices_rq_state r))])"

definition wf_ListInvoicesRequest :: "ListInvoicesRequest \<Rightarrow> bool" where
  "wf_ListInvoicesRequest r \<longleftrightarrow> pred_option wf_InvoiceState (list_invoices_rq_state r)"

lemma de_en_ListInvoicesRequest [codec_simps]: "wf_ListInvoicesRequest r \<Longrightarrow> de_ListInvoicesRequest (en_ListInvoicesRequest r) = Some r"
  by (cases "list_invoices_rq_state r") (simp_all add: de_ListInvoicesRequest_def en_ListInvoicesRequest_def wf_ListInvoicesRequest_def codec_simps)

lemma en_ListInvoicesRequest_not_null [codec_simps]: "en_ListInvoicesRequest r \<noteq> JNull"
  by (simp add: en_ListInvoicesRequest_def)

record InvoiceRecord =
  invoice_record_invoice :: string
  invoice_record_description :: "string option"
  invoice_record_payment_hash :: string
  invoice_record_amount :: u64
  invoice_record_state :: InvoiceState
  invoice_record_preimage :: "string option"
  invoice_record_created_at :: u64
  invoice_record_expires_at :: u64
  invoice_record_settled_at :: "u64 option"

definition de_InvoiceRecord :: "Value \<Rightarrow> InvoiceRecord option" where
  "de_InvoiceRecord v = do {
     es \<leftarrow> struct_entries [(''invoice'', False), (''description'', True), (''payment_hash'', False),
       (''amount'', False), (''state'', False), (''preimage'', True), (''created_at'',
       False), (''expires_at'', False), (''settled_at'', True)] v;
     x0 \<leftarrow> req de_string ''invoice'' es;
     x1 \<leftarrow> opt de_string ''description'' es;
     x2 \<leftarrow> req de_string ''payment_hash'' es;
     x3 \<leftarrow> req de_u64 ''amount'' es;
     x4 \<leftarrow> req de_InvoiceState ''state'' es;
     x5 \<leftarrow> opt de_string ''preimage'' es;
     x6 \<leftarrow> req de_u64 ''created_at'' es;
     x7 \<leftarrow> req de_u64 ''expires_at'' es;
     x8 \<leftarrow> opt de_u64 ''settled_at'' es;
     Some \<lparr>invoice_record_invoice = x0, invoice_record_description = x1,
       invoice_record_payment_hash = x2, invoice_record_amount = x3, invoice_record_state =
       x4, invoice_record_preimage = x5, invoice_record_created_at = x6,
       invoice_record_expires_at = x7, invoice_record_settled_at = x8\<rparr>
   }"

definition en_InvoiceRecord :: "InvoiceRecord \<Rightarrow> Value" where
  "en_InvoiceRecord r = JObj (en_fields [
       (''invoice'', Some (JStr (invoice_record_invoice r))),
       (''description'', map_option JStr (invoice_record_description r)),
       (''payment_hash'', Some (JStr (invoice_record_payment_hash r))),
       (''amount'', Some (en_u64 (invoice_record_amount r))),
       (''state'', Some (en_InvoiceState (invoice_record_state r))),
       (''preimage'', map_option JStr (invoice_record_preimage r)),
       (''created_at'', Some (en_u64 (invoice_record_created_at r))),
       (''expires_at'', Some (en_u64 (invoice_record_expires_at r))),
       (''settled_at'', map_option en_u64 (invoice_record_settled_at r))])"

definition wf_InvoiceRecord :: "InvoiceRecord \<Rightarrow> bool" where
  "wf_InvoiceRecord r \<longleftrightarrow> wf_InvoiceState (invoice_record_state r)"

lemma de_en_InvoiceRecord [codec_simps]: "wf_InvoiceRecord r \<Longrightarrow> de_InvoiceRecord (en_InvoiceRecord r) = Some r"
  by (simp add: de_InvoiceRecord_def en_InvoiceRecord_def wf_InvoiceRecord_def codec_simps)

lemma en_InvoiceRecord_not_null [codec_simps]: "en_InvoiceRecord r \<noteq> JNull"
  by (simp add: en_InvoiceRecord_def)

record ListInvoicesResponse =
  list_invoices_rs_invoices :: "InvoiceRecord list"

definition de_ListInvoicesResponse :: "Value \<Rightarrow> ListInvoicesResponse option" where
  "de_ListInvoicesResponse v = do {
     es \<leftarrow> struct_entries [(''invoices'', False)] v;
     x0 \<leftarrow> req (de_vec de_InvoiceRecord) ''invoices'' es;
     Some \<lparr>list_invoices_rs_invoices = x0\<rparr>
   }"

definition en_ListInvoicesResponse :: "ListInvoicesResponse \<Rightarrow> Value" where
  "en_ListInvoicesResponse r = JObj (en_fields [
       (''invoices'', Some ((en_vec en_InvoiceRecord) (list_invoices_rs_invoices r)))])"

definition wf_ListInvoicesResponse :: "ListInvoicesResponse \<Rightarrow> bool" where
  "wf_ListInvoicesResponse r \<longleftrightarrow> list_all wf_InvoiceRecord (list_invoices_rs_invoices r)"

lemma de_en_ListInvoicesResponse [codec_simps]: "wf_ListInvoicesResponse r \<Longrightarrow> de_ListInvoicesResponse (en_ListInvoicesResponse r) = Some r"
  by (simp add: de_ListInvoicesResponse_def en_ListInvoicesResponse_def wf_ListInvoicesResponse_def codec_simps list_all_iff)

lemma en_ListInvoicesResponse_not_null [codec_simps]: "en_ListInvoicesResponse r \<noteq> JNull"
  by (simp add: en_ListInvoicesResponse_def)

record PayRequest =
  pay_rq_payment :: string
  pay_rq_amount :: "u64 option"
  pay_rq_max_fee :: "u64 option"
  pay_rq_payer_note :: "string option"
  pay_rq_metadata :: "Value option"

definition de_PayRequest :: "Value \<Rightarrow> PayRequest option" where
  "de_PayRequest v = do {
     es \<leftarrow> struct_entries [(''payment'', False), (''amount'', True), (''max_fee'', True), (''payer_note'',
       True), (''metadata'', True)] v;
     x0 \<leftarrow> req de_string ''payment'' es;
     x1 \<leftarrow> opt de_u64 ''amount'' es;
     x2 \<leftarrow> opt de_u64 ''max_fee'' es;
     x3 \<leftarrow> opt de_string ''payer_note'' es;
     x4 \<leftarrow> opt de_value ''metadata'' es;
     Some \<lparr>pay_rq_payment = x0, pay_rq_amount = x1, pay_rq_max_fee = x2,
       pay_rq_payer_note = x3, pay_rq_metadata = x4\<rparr>
   }"

definition en_PayRequest :: "PayRequest \<Rightarrow> Value" where
  "en_PayRequest r = JObj (en_fields [
       (''payment'', Some (JStr (pay_rq_payment r))),
       (''amount'', map_option en_u64 (pay_rq_amount r)),
       (''max_fee'', map_option en_u64 (pay_rq_max_fee r)),
       (''payer_note'', map_option JStr (pay_rq_payer_note r)),
       (''metadata'', pay_rq_metadata r)])"

definition wf_PayRequest :: "PayRequest \<Rightarrow> bool" where
  "wf_PayRequest r \<longleftrightarrow> opt_value_wf (pay_rq_metadata r)"

lemma de_en_PayRequest [codec_simps]: "wf_PayRequest r \<Longrightarrow> de_PayRequest (en_PayRequest r) = Some r"
  by (simp add: de_PayRequest_def en_PayRequest_def wf_PayRequest_def codec_simps)

lemma en_PayRequest_not_null [codec_simps]: "en_PayRequest r \<noteq> JNull"
  by (simp add: en_PayRequest_def)

record PayResponse =
  pay_rs_transaction_id :: string
  pay_rs_state :: string
  pay_rs_instruction_type :: string
  pay_rs_amount :: u64
  pay_rs_fees_paid :: u64
  pay_rs_payment_hash :: "string option"
  pay_rs_preimage :: "string option"
  pay_rs_payer_proof :: "string option"
  pay_rs_txid :: "string option"
  pay_rs_failure_reason :: "string option"
  pay_rs_created_at :: u64
  pay_rs_settled_at :: "u64 option"

definition de_PayResponse :: "Value \<Rightarrow> PayResponse option" where
  "de_PayResponse v = do {
     es \<leftarrow> struct_entries [(''transaction_id'', False), (''state'', False), (''instruction_type'', False),
       (''amount'', False), (''fees_paid'', False), (''payment_hash'', True), (''preimage'',
       True), (''payer_proof'', True), (''txid'', True), (''failure_reason'', True),
       (''created_at'', False), (''settled_at'', True)] v;
     x0 \<leftarrow> req de_string ''transaction_id'' es;
     x1 \<leftarrow> req de_string ''state'' es;
     x2 \<leftarrow> req de_string ''instruction_type'' es;
     x3 \<leftarrow> req de_u64 ''amount'' es;
     x4 \<leftarrow> req de_u64 ''fees_paid'' es;
     x5 \<leftarrow> opt de_string ''payment_hash'' es;
     x6 \<leftarrow> opt de_string ''preimage'' es;
     x7 \<leftarrow> opt de_string ''payer_proof'' es;
     x8 \<leftarrow> opt de_string ''txid'' es;
     x9 \<leftarrow> opt de_string ''failure_reason'' es;
     x10 \<leftarrow> req de_u64 ''created_at'' es;
     x11 \<leftarrow> opt de_u64 ''settled_at'' es;
     Some \<lparr>pay_rs_transaction_id = x0, pay_rs_state = x1, pay_rs_instruction_type = x2,
       pay_rs_amount = x3, pay_rs_fees_paid = x4, pay_rs_payment_hash = x5, pay_rs_preimage
       = x6, pay_rs_payer_proof = x7, pay_rs_txid = x8, pay_rs_failure_reason = x9,
       pay_rs_created_at = x10, pay_rs_settled_at = x11\<rparr>
   }"

definition en_PayResponse :: "PayResponse \<Rightarrow> Value" where
  "en_PayResponse r = JObj (en_fields [
       (''transaction_id'', Some (JStr (pay_rs_transaction_id r))),
       (''state'', Some (JStr (pay_rs_state r))),
       (''instruction_type'', Some (JStr (pay_rs_instruction_type r))),
       (''amount'', Some (en_u64 (pay_rs_amount r))),
       (''fees_paid'', Some (en_u64 (pay_rs_fees_paid r))),
       (''payment_hash'', map_option JStr (pay_rs_payment_hash r)),
       (''preimage'', map_option JStr (pay_rs_preimage r)),
       (''payer_proof'', map_option JStr (pay_rs_payer_proof r)),
       (''txid'', map_option JStr (pay_rs_txid r)),
       (''failure_reason'', map_option JStr (pay_rs_failure_reason r)),
       (''created_at'', Some (en_u64 (pay_rs_created_at r))),
       (''settled_at'', map_option en_u64 (pay_rs_settled_at r))])"

lemma de_en_PayResponse [codec_simps]: "de_PayResponse (en_PayResponse r) = Some r"
  by (simp add: de_PayResponse_def en_PayResponse_def codec_simps)

lemma en_PayResponse_not_null [codec_simps]: "en_PayResponse r \<noteq> JNull"
  by (simp add: en_PayResponse_def)

record Bip321Method =
  bip321_method_method :: string
  bip321_method_expiry :: "u64 option"
  bip321_method_address_type :: "string option"

definition de_Bip321Method :: "Value \<Rightarrow> Bip321Method option" where
  "de_Bip321Method v = do {
     es \<leftarrow> struct_entries [(''method'', False), (''expiry'', True), (''address_type'', True)] v;
     x0 \<leftarrow> req de_string ''method'' es;
     x1 \<leftarrow> opt de_u64 ''expiry'' es;
     x2 \<leftarrow> opt de_string ''address_type'' es;
     Some \<lparr>bip321_method_method = x0, bip321_method_expiry = x1,
       bip321_method_address_type = x2\<rparr>
   }"

definition en_Bip321Method :: "Bip321Method \<Rightarrow> Value" where
  "en_Bip321Method r = JObj (en_fields [
       (''method'', Some (JStr (bip321_method_method r))),
       (''expiry'', map_option en_u64 (bip321_method_expiry r)),
       (''address_type'', map_option JStr (bip321_method_address_type r))])"

lemma de_en_Bip321Method [codec_simps]: "de_Bip321Method (en_Bip321Method r) = Some r"
  by (simp add: de_Bip321Method_def en_Bip321Method_def codec_simps)

lemma en_Bip321Method_not_null [codec_simps]: "en_Bip321Method r \<noteq> JNull"
  by (simp add: en_Bip321Method_def)

record ReceiveRequest =
  receive_rq_amount :: "u64 option"
  receive_rq_description :: "string option"
  receive_rq_metadata :: "Value option"
  receive_rq_methods :: "Bip321Method list option"
  receive_rq_label :: "string option"

definition de_ReceiveRequest :: "Value \<Rightarrow> ReceiveRequest option" where
  "de_ReceiveRequest v = do {
     es \<leftarrow> struct_entries [(''amount'', True), (''description'', True), (''metadata'', True), (''methods'',
       True), (''label'', True)] v;
     x0 \<leftarrow> opt de_u64 ''amount'' es;
     x1 \<leftarrow> opt de_string ''description'' es;
     x2 \<leftarrow> opt de_value ''metadata'' es;
     x3 \<leftarrow> opt (de_vec de_Bip321Method) ''methods'' es;
     x4 \<leftarrow> opt de_string ''label'' es;
     Some \<lparr>receive_rq_amount = x0, receive_rq_description = x1, receive_rq_metadata =
       x2, receive_rq_methods = x3, receive_rq_label = x4\<rparr>
   }"

definition en_ReceiveRequest :: "ReceiveRequest \<Rightarrow> Value" where
  "en_ReceiveRequest r = JObj (en_fields [
       (''amount'', map_option en_u64 (receive_rq_amount r)),
       (''description'', map_option JStr (receive_rq_description r)),
       (''metadata'', receive_rq_metadata r),
       (''methods'', map_option (en_vec en_Bip321Method) (receive_rq_methods r)),
       (''label'', map_option JStr (receive_rq_label r))])"

definition wf_ReceiveRequest :: "ReceiveRequest \<Rightarrow> bool" where
  "wf_ReceiveRequest r \<longleftrightarrow> opt_value_wf (receive_rq_metadata r)"

lemma de_en_ReceiveRequest [codec_simps]: "wf_ReceiveRequest r \<Longrightarrow> de_ReceiveRequest (en_ReceiveRequest r) = Some r"
  by (simp add: de_ReceiveRequest_def en_ReceiveRequest_def wf_ReceiveRequest_def codec_simps)

lemma en_ReceiveRequest_not_null [codec_simps]: "en_ReceiveRequest r \<noteq> JNull"
  by (simp add: en_ReceiveRequest_def)

record ReceiveResponse =
  receive_rs_bip321 :: string
  receive_rs_transaction_id :: "string option"

definition de_ReceiveResponse :: "Value \<Rightarrow> ReceiveResponse option" where
  "de_ReceiveResponse v = do {
     es \<leftarrow> struct_entries [(''bip321'', False), (''transaction_id'', True)] v;
     x0 \<leftarrow> req de_string ''bip321'' es;
     x1 \<leftarrow> opt de_string ''transaction_id'' es;
     Some \<lparr>receive_rs_bip321 = x0, receive_rs_transaction_id = x1\<rparr>
   }"

definition en_ReceiveResponse :: "ReceiveResponse \<Rightarrow> Value" where
  "en_ReceiveResponse r = JObj (en_fields [
       (''bip321'', Some (JStr (receive_rs_bip321 r))),
       (''transaction_id'', map_option JStr (receive_rs_transaction_id r))])"

lemma de_en_ReceiveResponse [codec_simps]: "de_ReceiveResponse (en_ReceiveResponse r) = Some r"
  by (simp add: de_ReceiveResponse_def en_ReceiveResponse_def codec_simps)

lemma en_ReceiveResponse_not_null [codec_simps]: "en_ReceiveResponse r \<noteq> JNull"
  by (simp add: en_ReceiveResponse_def)

record MakeOfferRequest =
  make_offer_rq_amount :: "u64 option"
  make_offer_rq_description :: "string option"
  make_offer_rq_issuer :: "string option"
  make_offer_rq_single_use :: "bool option"
  make_offer_rq_expires_at :: "u64 option"
  make_offer_rq_metadata :: "Value option"

definition de_MakeOfferRequest :: "Value \<Rightarrow> MakeOfferRequest option" where
  "de_MakeOfferRequest v = do {
     es \<leftarrow> struct_entries [(''amount'', True), (''description'', True), (''issuer'', True), (''single_use'',
       True), (''expires_at'', True), (''metadata'', True)] v;
     x0 \<leftarrow> opt de_u64 ''amount'' es;
     x1 \<leftarrow> opt de_string ''description'' es;
     x2 \<leftarrow> opt de_string ''issuer'' es;
     x3 \<leftarrow> opt de_bool ''single_use'' es;
     x4 \<leftarrow> opt de_u64 ''expires_at'' es;
     x5 \<leftarrow> opt de_value ''metadata'' es;
     Some \<lparr>make_offer_rq_amount = x0, make_offer_rq_description = x1,
       make_offer_rq_issuer = x2, make_offer_rq_single_use = x3, make_offer_rq_expires_at =
       x4, make_offer_rq_metadata = x5\<rparr>
   }"

definition en_MakeOfferRequest :: "MakeOfferRequest \<Rightarrow> Value" where
  "en_MakeOfferRequest r = JObj (en_fields [
       (''amount'', map_option en_u64 (make_offer_rq_amount r)),
       (''description'', map_option JStr (make_offer_rq_description r)),
       (''issuer'', map_option JStr (make_offer_rq_issuer r)),
       (''single_use'', map_option JBool (make_offer_rq_single_use r)),
       (''expires_at'', map_option en_u64 (make_offer_rq_expires_at r)),
       (''metadata'', make_offer_rq_metadata r)])"

definition wf_MakeOfferRequest :: "MakeOfferRequest \<Rightarrow> bool" where
  "wf_MakeOfferRequest r \<longleftrightarrow> opt_value_wf (make_offer_rq_metadata r)"

lemma de_en_MakeOfferRequest [codec_simps]: "wf_MakeOfferRequest r \<Longrightarrow> de_MakeOfferRequest (en_MakeOfferRequest r) = Some r"
  by (simp add: de_MakeOfferRequest_def en_MakeOfferRequest_def wf_MakeOfferRequest_def codec_simps)

lemma en_MakeOfferRequest_not_null [codec_simps]: "en_MakeOfferRequest r \<noteq> JNull"
  by (simp add: en_MakeOfferRequest_def)

record MakeOfferResponse =
  make_offer_rs_offer_id :: string
  make_offer_rs_offer :: string
  make_offer_rs_amount :: "u64 option"
  make_offer_rs_description :: "string option"
  make_offer_rs_issuer :: "string option"
  make_offer_rs_single_use :: bool
  make_offer_rs_created_at :: u64
  make_offer_rs_expires_at :: "u64 option"

definition de_MakeOfferResponse :: "Value \<Rightarrow> MakeOfferResponse option" where
  "de_MakeOfferResponse v = do {
     es \<leftarrow> struct_entries [(''offer_id'', False), (''offer'', False), (''amount'', False), (''description'',
       True), (''issuer'', True), (''single_use'', False), (''created_at'', False),
       (''expires_at'', True)] v;
     x0 \<leftarrow> req de_string ''offer_id'' es;
     x1 \<leftarrow> req de_string ''offer'' es;
     x2 \<leftarrow> opt de_u64 ''amount'' es;
     x3 \<leftarrow> opt de_string ''description'' es;
     x4 \<leftarrow> opt de_string ''issuer'' es;
     x5 \<leftarrow> req de_bool ''single_use'' es;
     x6 \<leftarrow> req de_u64 ''created_at'' es;
     x7 \<leftarrow> opt de_u64 ''expires_at'' es;
     Some \<lparr>make_offer_rs_offer_id = x0, make_offer_rs_offer = x1, make_offer_rs_amount =
       x2, make_offer_rs_description = x3, make_offer_rs_issuer = x4,
       make_offer_rs_single_use = x5, make_offer_rs_created_at = x6,
       make_offer_rs_expires_at = x7\<rparr>
   }"

definition en_MakeOfferResponse :: "MakeOfferResponse \<Rightarrow> Value" where
  "en_MakeOfferResponse r = JObj (en_fields [
       (''offer_id'', Some (JStr (make_offer_rs_offer_id r))),
       (''offer'', Some (JStr (make_offer_rs_offer r))),
       (''amount'', Some (case make_offer_rs_amount r of None \<Rightarrow> JNull | Some y \<Rightarrow> en_u64 y)),
       (''description'', map_option JStr (make_offer_rs_description r)),
       (''issuer'', map_option JStr (make_offer_rs_issuer r)),
       (''single_use'', Some (JBool (make_offer_rs_single_use r))),
       (''created_at'', Some (en_u64 (make_offer_rs_created_at r))),
       (''expires_at'', map_option en_u64 (make_offer_rs_expires_at r))])"

lemma de_en_MakeOfferResponse [codec_simps]: "de_MakeOfferResponse (en_MakeOfferResponse r) = Some r"
  by (simp add: de_MakeOfferResponse_def en_MakeOfferResponse_def codec_simps)

lemma en_MakeOfferResponse_not_null [codec_simps]: "en_MakeOfferResponse r \<noteq> JNull"
  by (simp add: en_MakeOfferResponse_def)

record LookupPaymentRequest =
  lookup_payment_rq_transaction_id :: "string option"
  lookup_payment_rq_payment_hash :: "string option"
  lookup_payment_rq_invoice :: "string option"
  lookup_payment_rq_payment_type :: "string option"
  lookup_payment_rq_lookup :: "Value option"

definition de_LookupPaymentRequest :: "Value \<Rightarrow> LookupPaymentRequest option" where
  "de_LookupPaymentRequest v = do {
     es \<leftarrow> struct_entries [(''transaction_id'', True), (''payment_hash'', True), (''invoice'', True),
       (''payment_type'', True), (''lookup'', True)] v;
     x0 \<leftarrow> opt de_string ''transaction_id'' es;
     x1 \<leftarrow> opt de_string ''payment_hash'' es;
     x2 \<leftarrow> opt de_string ''invoice'' es;
     x3 \<leftarrow> opt de_string ''payment_type'' es;
     x4 \<leftarrow> opt de_value ''lookup'' es;
     Some \<lparr>lookup_payment_rq_transaction_id = x0, lookup_payment_rq_payment_hash = x1,
       lookup_payment_rq_invoice = x2, lookup_payment_rq_payment_type = x3,
       lookup_payment_rq_lookup = x4\<rparr>
   }"

definition en_LookupPaymentRequest :: "LookupPaymentRequest \<Rightarrow> Value" where
  "en_LookupPaymentRequest r = JObj (en_fields [
       (''transaction_id'', map_option JStr (lookup_payment_rq_transaction_id r)),
       (''payment_hash'', map_option JStr (lookup_payment_rq_payment_hash r)),
       (''invoice'', map_option JStr (lookup_payment_rq_invoice r)),
       (''payment_type'', map_option JStr (lookup_payment_rq_payment_type r)),
       (''lookup'', lookup_payment_rq_lookup r)])"

definition wf_LookupPaymentRequest :: "LookupPaymentRequest \<Rightarrow> bool" where
  "wf_LookupPaymentRequest r \<longleftrightarrow> opt_value_wf (lookup_payment_rq_lookup r)"

lemma de_en_LookupPaymentRequest [codec_simps]: "wf_LookupPaymentRequest r \<Longrightarrow> de_LookupPaymentRequest (en_LookupPaymentRequest r) = Some r"
  by (simp add: de_LookupPaymentRequest_def en_LookupPaymentRequest_def wf_LookupPaymentRequest_def codec_simps)

lemma en_LookupPaymentRequest_not_null [codec_simps]: "en_LookupPaymentRequest r \<noteq> JNull"
  by (simp add: en_LookupPaymentRequest_def)

datatype PaymentState =
    PS_Pending
  | PS_Accepted
  | PS_Settled
  | PS_Failed
  | PS_Expired
  | PS_Canceled
  | PS_Unknown string

definition payment_state_variant :: "string \<Rightarrow> PaymentState option" where
  "payment_state_variant s =
     (if s = ''pending'' then Some PS_Pending
      else if s = ''accepted'' then Some PS_Accepted
      else if s = ''settled'' then Some PS_Settled
      else if s = ''failed'' then Some PS_Failed
      else if s = ''expired'' then Some PS_Expired
      else if s = ''canceled'' then Some PS_Canceled
      else None)"

definition de_PaymentState :: "Value \<Rightarrow> PaymentState option" where
  "de_PaymentState v = de_variant_or payment_state_variant PS_Unknown v"

fun en_PaymentState :: "PaymentState \<Rightarrow> Value" where
  "en_PaymentState PS_Pending = JStr ''pending''"
| "en_PaymentState PS_Accepted = JStr ''accepted''"
| "en_PaymentState PS_Settled = JStr ''settled''"
| "en_PaymentState PS_Failed = JStr ''failed''"
| "en_PaymentState PS_Expired = JStr ''expired''"
| "en_PaymentState PS_Canceled = JStr ''canceled''"
| "en_PaymentState (PS_Unknown s) = JStr s"

text \<open>The unknown variant holds only strings that name no known one.\<close>

definition wf_PaymentState :: "PaymentState \<Rightarrow> bool" where
  "wf_PaymentState x = (case x of PS_Unknown s \<Rightarrow> payment_state_variant s = None | _ \<Rightarrow> True)"

lemma de_en_PaymentState [codec_simps]: "wf_PaymentState x \<Longrightarrow> de_PaymentState (en_PaymentState x) = Some x"
  by (cases x) (simp_all add: wf_PaymentState_def de_PaymentState_def de_variant_or_def de_variant_def payment_state_variant_def)

lemma en_PaymentState_not_null [codec_simps]: "en_PaymentState x \<noteq> JNull"
  by (cases x) simp_all

record LookupPaymentResponse =
  lookup_payment_rs_transaction_id :: string
  lookup_payment_rs_payment_direction :: TransactionType
  lookup_payment_rs_state :: PaymentState
  lookup_payment_rs_payment_type :: string
  lookup_payment_rs_amount :: u64
  lookup_payment_rs_fees_paid :: "u64 option"
  lookup_payment_rs_created_at :: u64
  lookup_payment_rs_updated_at :: "u64 option"
  lookup_payment_rs_expires_at :: "u64 option"
  lookup_payment_rs_settled_at :: "u64 option"
  lookup_payment_rs_failure_reason :: "string option"
  lookup_payment_rs_metadata :: "Value option"
  lookup_payment_rs_details :: Value

definition de_LookupPaymentResponse :: "Value \<Rightarrow> LookupPaymentResponse option" where
  "de_LookupPaymentResponse v = do {
     es \<leftarrow> struct_entries [(''transaction_id'', False), (''type'', False), (''state'', False),
       (''payment_type'', False), (''amount'', False), (''fees_paid'', True),
       (''created_at'', False), (''updated_at'', True), (''expires_at'', True),
       (''settled_at'', True), (''failure_reason'', True), (''metadata'', True),
       (''details'', False)] v;
     x0 \<leftarrow> req de_string ''transaction_id'' es;
     x1 \<leftarrow> req de_TransactionType ''type'' es;
     x2 \<leftarrow> req de_PaymentState ''state'' es;
     x3 \<leftarrow> req de_string ''payment_type'' es;
     x4 \<leftarrow> req de_u64 ''amount'' es;
     x5 \<leftarrow> opt de_u64 ''fees_paid'' es;
     x6 \<leftarrow> req de_u64 ''created_at'' es;
     x7 \<leftarrow> opt de_u64 ''updated_at'' es;
     x8 \<leftarrow> opt de_u64 ''expires_at'' es;
     x9 \<leftarrow> opt de_u64 ''settled_at'' es;
     x10 \<leftarrow> opt de_string ''failure_reason'' es;
     x11 \<leftarrow> opt de_value ''metadata'' es;
     x12 \<leftarrow> req de_value ''details'' es;
     Some \<lparr>lookup_payment_rs_transaction_id = x0, lookup_payment_rs_payment_direction =
       x1, lookup_payment_rs_state = x2, lookup_payment_rs_payment_type = x3,
       lookup_payment_rs_amount = x4, lookup_payment_rs_fees_paid = x5,
       lookup_payment_rs_created_at = x6, lookup_payment_rs_updated_at = x7,
       lookup_payment_rs_expires_at = x8, lookup_payment_rs_settled_at = x9,
       lookup_payment_rs_failure_reason = x10, lookup_payment_rs_metadata = x11,
       lookup_payment_rs_details = x12\<rparr>
   }"

definition en_LookupPaymentResponse :: "LookupPaymentResponse \<Rightarrow> Value" where
  "en_LookupPaymentResponse r = JObj (en_fields [
       (''transaction_id'', Some (JStr (lookup_payment_rs_transaction_id r))),
       (''type'', Some (en_TransactionType (lookup_payment_rs_payment_direction r))),
       (''state'', Some (en_PaymentState (lookup_payment_rs_state r))),
       (''payment_type'', Some (JStr (lookup_payment_rs_payment_type r))),
       (''amount'', Some (en_u64 (lookup_payment_rs_amount r))),
       (''fees_paid'', map_option en_u64 (lookup_payment_rs_fees_paid r)),
       (''created_at'', Some (en_u64 (lookup_payment_rs_created_at r))),
       (''updated_at'', map_option en_u64 (lookup_payment_rs_updated_at r)),
       (''expires_at'', map_option en_u64 (lookup_payment_rs_expires_at r)),
       (''settled_at'', map_option en_u64 (lookup_payment_rs_settled_at r)),
       (''failure_reason'', map_option JStr (lookup_payment_rs_failure_reason r)),
       (''metadata'', lookup_payment_rs_metadata r),
       (''details'', Some (lookup_payment_rs_details r))])"

definition wf_LookupPaymentResponse :: "LookupPaymentResponse \<Rightarrow> bool" where
  "wf_LookupPaymentResponse r \<longleftrightarrow> wf_PaymentState (lookup_payment_rs_state r) \<and>
     opt_value_wf (lookup_payment_rs_metadata r) \<and>
     value_wf (lookup_payment_rs_details r)"

lemma de_en_LookupPaymentResponse [codec_simps]: "wf_LookupPaymentResponse r \<Longrightarrow> de_LookupPaymentResponse (en_LookupPaymentResponse r) = Some r"
  by (simp add: de_LookupPaymentResponse_def en_LookupPaymentResponse_def wf_LookupPaymentResponse_def codec_simps)

lemma en_LookupPaymentResponse_not_null [codec_simps]: "en_LookupPaymentResponse r \<noteq> JNull"
  by (simp add: en_LookupPaymentResponse_def)

record PayOfferRequest =
  pay_offer_rq_offer :: string
  pay_offer_rq_amount :: "u64 option"
  pay_offer_rq_payer_note :: "string option"

definition de_PayOfferRequest :: "Value \<Rightarrow> PayOfferRequest option" where
  "de_PayOfferRequest v = do {
     es \<leftarrow> struct_entries [(''offer'', False), (''amount'', True), (''payer_note'', True)] v;
     x0 \<leftarrow> req de_string ''offer'' es;
     x1 \<leftarrow> opt de_u64 ''amount'' es;
     x2 \<leftarrow> opt de_string ''payer_note'' es;
     Some \<lparr>pay_offer_rq_offer = x0, pay_offer_rq_amount = x1, pay_offer_rq_payer_note =
       x2\<rparr>
   }"

definition en_PayOfferRequest :: "PayOfferRequest \<Rightarrow> Value" where
  "en_PayOfferRequest r = JObj (en_fields [
       (''offer'', Some (JStr (pay_offer_rq_offer r))),
       (''amount'', map_option en_u64 (pay_offer_rq_amount r)),
       (''payer_note'', map_option JStr (pay_offer_rq_payer_note r))])"

lemma de_en_PayOfferRequest [codec_simps]: "de_PayOfferRequest (en_PayOfferRequest r) = Some r"
  by (simp add: de_PayOfferRequest_def en_PayOfferRequest_def codec_simps)

lemma en_PayOfferRequest_not_null [codec_simps]: "en_PayOfferRequest r \<noteq> JNull"
  by (simp add: en_PayOfferRequest_def)

record PayOfferResponse =
  pay_offer_rs_transaction_id :: string
  pay_offer_rs_preimage :: string
  pay_offer_rs_fees_paid :: "u64 option"

definition de_PayOfferResponse :: "Value \<Rightarrow> PayOfferResponse option" where
  "de_PayOfferResponse v = do {
     es \<leftarrow> struct_entries [(''transaction_id'', False), (''preimage'', False), (''fees_paid'', True)] v;
     x0 \<leftarrow> req de_string ''transaction_id'' es;
     x1 \<leftarrow> req de_string ''preimage'' es;
     x2 \<leftarrow> opt de_u64 ''fees_paid'' es;
     Some \<lparr>pay_offer_rs_transaction_id = x0, pay_offer_rs_preimage = x1,
       pay_offer_rs_fees_paid = x2\<rparr>
   }"

definition en_PayOfferResponse :: "PayOfferResponse \<Rightarrow> Value" where
  "en_PayOfferResponse r = JObj (en_fields [
       (''transaction_id'', Some (JStr (pay_offer_rs_transaction_id r))),
       (''preimage'', Some (JStr (pay_offer_rs_preimage r))),
       (''fees_paid'', map_option en_u64 (pay_offer_rs_fees_paid r))])"

lemma de_en_PayOfferResponse [codec_simps]: "de_PayOfferResponse (en_PayOfferResponse r) = Some r"
  by (simp add: de_PayOfferResponse_def en_PayOfferResponse_def codec_simps)

lemma en_PayOfferResponse_not_null [codec_simps]: "en_PayOfferResponse r \<noteq> JNull"
  by (simp add: en_PayOfferResponse_def)

record OfferRecord =
  offer_record_offer_id :: string
  offer_record_offer :: string
  offer_record_description :: "string option"
  offer_record_issuer :: "string option"
  offer_record_amount :: "u64 option"
  offer_record_active :: bool
  offer_record_single_use :: bool
  offer_record_num_payments_received :: u64
  offer_record_total_received :: u64
  offer_record_created_at :: u64
  offer_record_expires_at :: "u64 option"

definition de_OfferRecord :: "Value \<Rightarrow> OfferRecord option" where
  "de_OfferRecord v = do {
     es \<leftarrow> struct_entries [(''offer_id'', False), (''offer'', False), (''description'', True), (''issuer'',
       True), (''amount'', False), (''active'', False), (''single_use'', False),
       (''num_payments_received'', False), (''total_received'', False), (''created_at'',
       False), (''expires_at'', True)] v;
     x0 \<leftarrow> req de_string ''offer_id'' es;
     x1 \<leftarrow> req de_string ''offer'' es;
     x2 \<leftarrow> opt de_string ''description'' es;
     x3 \<leftarrow> opt de_string ''issuer'' es;
     x4 \<leftarrow> opt de_u64 ''amount'' es;
     x5 \<leftarrow> req de_bool ''active'' es;
     x6 \<leftarrow> req de_bool ''single_use'' es;
     x7 \<leftarrow> req de_u64 ''num_payments_received'' es;
     x8 \<leftarrow> req de_u64 ''total_received'' es;
     x9 \<leftarrow> req de_u64 ''created_at'' es;
     x10 \<leftarrow> opt de_u64 ''expires_at'' es;
     Some \<lparr>offer_record_offer_id = x0, offer_record_offer = x1, offer_record_description
       = x2, offer_record_issuer = x3, offer_record_amount = x4, offer_record_active = x5,
       offer_record_single_use = x6, offer_record_num_payments_received = x7,
       offer_record_total_received = x8, offer_record_created_at = x9,
       offer_record_expires_at = x10\<rparr>
   }"

definition en_OfferRecord :: "OfferRecord \<Rightarrow> Value" where
  "en_OfferRecord r = JObj (en_fields [
       (''offer_id'', Some (JStr (offer_record_offer_id r))),
       (''offer'', Some (JStr (offer_record_offer r))),
       (''description'', map_option JStr (offer_record_description r)),
       (''issuer'', map_option JStr (offer_record_issuer r)),
       (''amount'', Some (case offer_record_amount r of None \<Rightarrow> JNull | Some y \<Rightarrow> en_u64 y)),
       (''active'', Some (JBool (offer_record_active r))),
       (''single_use'', Some (JBool (offer_record_single_use r))),
       (''num_payments_received'', Some (en_u64 (offer_record_num_payments_received r))),
       (''total_received'', Some (en_u64 (offer_record_total_received r))),
       (''created_at'', Some (en_u64 (offer_record_created_at r))),
       (''expires_at'', map_option en_u64 (offer_record_expires_at r))])"

lemma de_en_OfferRecord [codec_simps]: "de_OfferRecord (en_OfferRecord r) = Some r"
  by (simp add: de_OfferRecord_def en_OfferRecord_def codec_simps)

lemma en_OfferRecord_not_null [codec_simps]: "en_OfferRecord r \<noteq> JNull"
  by (simp add: en_OfferRecord_def)

record ListOffersRequest =
  list_offers_rq_active_only :: "bool option"
  list_offers_rq_limit :: "u64 option"
  list_offers_rq_offset :: "u64 option"

definition de_ListOffersRequest :: "Value \<Rightarrow> ListOffersRequest option" where
  "de_ListOffersRequest v = do {
     es \<leftarrow> struct_entries [(''active_only'', True), (''limit'', True), (''offset'', True)] v;
     x0 \<leftarrow> opt de_bool ''active_only'' es;
     x1 \<leftarrow> opt de_u64 ''limit'' es;
     x2 \<leftarrow> opt de_u64 ''offset'' es;
     Some \<lparr>list_offers_rq_active_only = x0, list_offers_rq_limit = x1,
       list_offers_rq_offset = x2\<rparr>
   }"

definition en_ListOffersRequest :: "ListOffersRequest \<Rightarrow> Value" where
  "en_ListOffersRequest r = JObj (en_fields [
       (''active_only'', map_option JBool (list_offers_rq_active_only r)),
       (''limit'', map_option en_u64 (list_offers_rq_limit r)),
       (''offset'', map_option en_u64 (list_offers_rq_offset r))])"

lemma de_en_ListOffersRequest [codec_simps]: "de_ListOffersRequest (en_ListOffersRequest r) = Some r"
  by (simp add: de_ListOffersRequest_def en_ListOffersRequest_def codec_simps)

lemma en_ListOffersRequest_not_null [codec_simps]: "en_ListOffersRequest r \<noteq> JNull"
  by (simp add: en_ListOffersRequest_def)

record ListOffersResponse =
  list_offers_rs_offers :: "OfferRecord list"

definition de_ListOffersResponse :: "Value \<Rightarrow> ListOffersResponse option" where
  "de_ListOffersResponse v = do {
     es \<leftarrow> struct_entries [(''offers'', False)] v;
     x0 \<leftarrow> req (de_vec de_OfferRecord) ''offers'' es;
     Some \<lparr>list_offers_rs_offers = x0\<rparr>
   }"

definition en_ListOffersResponse :: "ListOffersResponse \<Rightarrow> Value" where
  "en_ListOffersResponse r = JObj (en_fields [
       (''offers'', Some ((en_vec en_OfferRecord) (list_offers_rs_offers r)))])"

lemma de_en_ListOffersResponse [codec_simps]: "de_ListOffersResponse (en_ListOffersResponse r) = Some r"
  by (simp add: de_ListOffersResponse_def en_ListOffersResponse_def codec_simps)

lemma en_ListOffersResponse_not_null [codec_simps]: "en_ListOffersResponse r \<noteq> JNull"
  by (simp add: en_ListOffersResponse_def)

record DisableOfferRequest =
  disable_offer_rq_offer_id :: string

definition de_DisableOfferRequest :: "Value \<Rightarrow> DisableOfferRequest option" where
  "de_DisableOfferRequest v = do {
     es \<leftarrow> struct_entries [(''offer_id'', False)] v;
     x0 \<leftarrow> req de_string ''offer_id'' es;
     Some \<lparr>disable_offer_rq_offer_id = x0\<rparr>
   }"

definition en_DisableOfferRequest :: "DisableOfferRequest \<Rightarrow> Value" where
  "en_DisableOfferRequest r = JObj (en_fields [
       (''offer_id'', Some (JStr (disable_offer_rq_offer_id r)))])"

lemma de_en_DisableOfferRequest [codec_simps]: "de_DisableOfferRequest (en_DisableOfferRequest r) = Some r"
  by (simp add: de_DisableOfferRequest_def en_DisableOfferRequest_def codec_simps)

lemma en_DisableOfferRequest_not_null [codec_simps]: "en_DisableOfferRequest r \<noteq> JNull"
  by (simp add: en_DisableOfferRequest_def)

datatype DisableOfferResponse = DisableOfferResponse

definition de_DisableOfferResponse :: "Value \<Rightarrow> DisableOfferResponse option" where
  "de_DisableOfferResponse v = map_option (\<lambda>_. DisableOfferResponse) (struct_entries [] v)"

definition en_DisableOfferResponse :: "DisableOfferResponse \<Rightarrow> Value" where
  "en_DisableOfferResponse r = JObj (en_fields [])"

lemma de_en_DisableOfferResponse [codec_simps]: "de_DisableOfferResponse (en_DisableOfferResponse r) = Some r"
  by (cases r) (simp add: de_DisableOfferResponse_def en_DisableOfferResponse_def codec_simps)

lemma en_DisableOfferResponse_not_null [codec_simps]: "en_DisableOfferResponse r \<noteq> JNull"
  by (simp add: en_DisableOfferResponse_def)

end
