(* ===== verification/Handler.thy ===== *)
theory Handler
  imports NncMethods NwcMethods
begin

text \<open>
  What a node implements and how a name reaches it: \<^verbatim>\<open>src/service/handler.rs\<close>, \<^verbatim>\<open>src/service/dispatch.rs\<close> and
  the attribute macro of \<^verbatim>\<open>macros/src/lib.rs\<close>. A trait object is a record of its methods; a method takes
  the node's state and returns its result and the state afterwards, so every effect a call has on the
  node is visible in the model.
\<close>

section \<open>Callers and costs\<close>

record Caller =
  caller_controller :: PublicKey
  caller_request_id :: "EventId option"

text \<open>The selection is any value of the node's choosing; \<^const>\<open>None\<close> is the unit of \<open>Prepared::free\<close>.\<close>

record 's Prepared =
  cost_sats :: u64
  selection :: "'s option"

definition prepared_free :: "'s Prepared" where
  "prepared_free = \<lparr>cost_sats = 0, selection = None\<rparr>"

definition prepared_new :: "u64 \<Rightarrow> 's \<Rightarrow> 's Prepared" where
  "prepared_new c s = \<lparr>cost_sats = c, selection = Some s\<rparr>"

section \<open>The services\<close>

type_synonym ('n, 'q, 'r) method_fn = "'n \<Rightarrow> 'q \<Rightarrow> Caller \<Rightarrow> ('r, NncError) result \<times> 'n"

definition default_method :: "string \<Rightarrow> ('n, 'q, 'r) method_fn" where
  "default_method name n rq caller = (Inl (not_implemented name), n)"

definition default_prepare ::
  "'n \<Rightarrow> string \<Rightarrow> Value \<Rightarrow> Caller \<Rightarrow> ('s Prepared, NncError) result \<times> 'n" where
  "default_prepare n name params caller = (Inr prepared_free, n)"

text \<open>A node that overrides nothing: \<open>methods()\<close> has no default and is the macro's list.\<close>

record ('n, 's) ControlService =
  cs_methods :: "string list"
  cs_list_channels :: "('n, ListChannelsRequest, ListChannelsResponse) method_fn"
  cs_open_channel :: "('n, OpenChannelRequest, OpenChannelResponse) method_fn"
  cs_close_channel :: "('n, CloseChannelRequest, CloseChannelResponse) method_fn"
  cs_list_peers :: "('n, ListPeersRequest, ListPeersResponse) method_fn"
  cs_connect_peer :: "('n, ConnectPeerRequest, ConnectPeerResponse) method_fn"
  cs_disconnect_peer :: "('n, DisconnectPeerRequest, DisconnectPeerResponse) method_fn"
  cs_get_channel_fees :: "('n, GetChannelFeesRequest, GetChannelFeesResponse) method_fn"
  cs_set_channel_fees :: "('n, SetChannelFeesRequest, SetChannelFeesResponse) method_fn"
  cs_get_forwarding_history :: "('n, GetForwardingHistoryRequest, GetForwardingHistoryResponse) method_fn"
  cs_get_pending_htlcs :: "('n, GetPendingHtlcsRequest, GetPendingHtlcsResponse) method_fn"
  cs_query_routes :: "('n, QueryRoutesRequest, QueryRoutesResponse) method_fn"
  cs_list_network_nodes :: "('n, ListNetworkNodesRequest, ListNetworkNodesResponse) method_fn"
  cs_get_network_stats :: "('n, GetNetworkStatsRequest, GetNetworkStatsResponse) method_fn"
  cs_get_network_node :: "('n, GetNetworkNodeRequest, GetNetworkNodeResponse) method_fn"
  cs_get_network_channel :: "('n, GetNetworkChannelRequest, GetNetworkChannelResponse) method_fn"
  cs_sign_message :: "('n, SignMessageRequest, SignMessageResponse) method_fn"
  cs_prepare :: "'n \<Rightarrow> string \<Rightarrow> Value \<Rightarrow> Caller \<Rightarrow> ('s Prepared, NncError) result \<times> 'n"

definition control_defaults :: "string list \<Rightarrow> ('n, 's) ControlService" where
  "control_defaults names = \<lparr>
     cs_methods = names,
     cs_list_channels = default_method ''list_channels'',
     cs_open_channel = default_method ''open_channel'',
     cs_close_channel = default_method ''close_channel'',
     cs_list_peers = default_method ''list_peers'',
     cs_connect_peer = default_method ''connect_peer'',
     cs_disconnect_peer = default_method ''disconnect_peer'',
     cs_get_channel_fees = default_method ''get_channel_fees'',
     cs_set_channel_fees = default_method ''set_channel_fees'',
     cs_get_forwarding_history = default_method ''get_forwarding_history'',
     cs_get_pending_htlcs = default_method ''get_pending_htlcs'',
     cs_query_routes = default_method ''query_routes'',
     cs_list_network_nodes = default_method ''list_network_nodes'',
     cs_get_network_stats = default_method ''get_network_stats'',
     cs_get_network_node = default_method ''get_network_node'',
     cs_get_network_channel = default_method ''get_network_channel'',
     cs_sign_message = default_method ''sign_message'',
     cs_prepare = default_prepare\<rparr>"

record ('n, 's) WalletService =
  ws_methods :: "string list"
  ws_pay_invoice :: "('n, PayInvoiceRequest, PayInvoiceResponse) method_fn"
  ws_make_invoice :: "('n, MakeInvoiceRequest, MakeInvoiceResponse) method_fn"
  ws_lookup_invoice :: "('n, LookupInvoiceRequest, LookupInvoiceResponse) method_fn"
  ws_get_balance :: "('n, GetBalanceRequest, GetBalanceResponse) method_fn"
  ws_get_info :: "('n, GetInfoRequest, GetInfoResponse) method_fn"
  ws_pay_onchain :: "('n, PayOnchainRequest, PayOnchainResponse) method_fn"
  ws_make_hold_invoice :: "('n, MakeHoldInvoiceRequest, MakeHoldInvoiceResponse) method_fn"
  ws_settle_hold_invoice :: "('n, SettleHoldInvoiceRequest, SettleHoldInvoiceResponse) method_fn"
  ws_cancel_hold_invoice :: "('n, CancelHoldInvoiceRequest, CancelHoldInvoiceResponse) method_fn"
  ws_quote_payment :: "('n, QuotePaymentRequest, QuotePaymentResponse) method_fn"
  ws_pay_keysend :: "('n, PayKeysendRequest, PayKeysendResponse) method_fn"
  ws_list_transactions :: "('n, ListTransactionsRequest, ListTransactionsResponse) method_fn"
  ws_make_new_address :: "('n, MakeNewAddressRequest, MakeNewAddressResponse) method_fn"
  ws_lookup_address :: "('n, LookupAddressRequest, LookupAddressResponse) method_fn"
  ws_list_addresses :: "('n, ListAddressesRequest, ListAddressesResponse) method_fn"
  ws_estimate_onchain_fees :: "('n, EstimateOnchainFeesRequest, EstimateOnchainFeesResponse) method_fn"
  ws_list_invoices :: "('n, ListInvoicesRequest, ListInvoicesResponse) method_fn"
  ws_pay :: "('n, PayRequest, PayResponse) method_fn"
  ws_receive :: "('n, ReceiveRequest, ReceiveResponse) method_fn"
  ws_make_offer :: "('n, MakeOfferRequest, MakeOfferResponse) method_fn"
  ws_lookup_payment :: "('n, LookupPaymentRequest, LookupPaymentResponse) method_fn"
  ws_pay_offer :: "('n, PayOfferRequest, PayOfferResponse) method_fn"
  ws_list_offers :: "('n, ListOffersRequest, ListOffersResponse) method_fn"
  ws_disable_offer :: "('n, DisableOfferRequest, DisableOfferResponse) method_fn"
  ws_notifications :: "string list"
  ws_prepare :: "'n \<Rightarrow> string \<Rightarrow> Value \<Rightarrow> Caller \<Rightarrow> ('s Prepared, NncError) result \<times> 'n"

definition wallet_defaults :: "string list \<Rightarrow> ('n, 's) WalletService" where
  "wallet_defaults names = \<lparr>
     ws_methods = names,
     ws_pay_invoice = default_method ''pay_invoice'',
     ws_make_invoice = default_method ''make_invoice'',
     ws_lookup_invoice = default_method ''lookup_invoice'',
     ws_get_balance = default_method ''get_balance'',
     ws_get_info = default_method ''get_info'',
     ws_pay_onchain = default_method ''pay_onchain'',
     ws_make_hold_invoice = default_method ''make_hold_invoice'',
     ws_settle_hold_invoice = default_method ''settle_hold_invoice'',
     ws_cancel_hold_invoice = default_method ''cancel_hold_invoice'',
     ws_quote_payment = default_method ''quote_payment'',
     ws_pay_keysend = default_method ''pay_keysend'',
     ws_list_transactions = default_method ''list_transactions'',
     ws_make_new_address = default_method ''make_new_address'',
     ws_lookup_address = default_method ''lookup_address'',
     ws_list_addresses = default_method ''list_addresses'',
     ws_estimate_onchain_fees = default_method ''estimate_onchain_fees'',
     ws_list_invoices = default_method ''list_invoices'',
     ws_pay = default_method ''pay'',
     ws_receive = default_method ''receive'',
     ws_make_offer = default_method ''make_offer'',
     ws_lookup_payment = default_method ''lookup_payment'',
     ws_pay_offer = default_method ''pay_offer'',
     ws_list_offers = default_method ''list_offers'',
     ws_disable_offer = default_method ''disable_offer'',
     ws_notifications = [],
     ws_prepare = default_prepare\<rparr>"

section \<open>The service macro\<close>

text \<open>\<open>#[nostr_ln::service]\<close>: the method list is read off the functions of the impl block; a block that
  already has a \<open>methods\<close> is a compile error.\<close>

datatype ImplItem = ImplFn string | ImplOther

definition NOT_A_METHOD :: "string list" where
  "NOT_A_METHOD = [''prepare'', ''methods'', ''call'', ''notifications'']"

definition service_names :: "ImplItem list \<Rightarrow> string list" where
  "service_names items =
     List.map_filter (\<lambda>i. case i of
         ImplFn name \<Rightarrow> if name \<in> set NOT_A_METHOD then None else Some name
       | ImplOther \<Rightarrow> None) items"

definition service :: "ImplItem list \<Rightarrow> (ImplItem list \<times> string list) option" where
  "service items =
     (if ImplFn ''methods'' \<in> set items then None
      else Some (items @ [ImplFn ''methods''], service_names items))"

section \<open>Dispatch\<close>

text \<open>\<open>serde_json::to_value\<close> collects a response into a map, so an extra entry that repeats a field's key
  replaces it.\<close>

definition to_value :: "('r \<Rightarrow> Value) \<Rightarrow> 'r \<Rightarrow> Value" where
  "to_value en r = norm_value (en r)"

text \<open>One arm of the dispatch: read, call, write. Writing has no error branch here: \<open>to_value\<close> fails only on a map whose keys are not
  strings or on a \<open>Serialize\<close> that fails by itself, and no response type has either, so the arm's \<open>Internal\<close> is not reached.\<close>

definition dispatch_arm ::
  "(Value \<Rightarrow> 'q option) \<Rightarrow> ('n, 'q, 'r) method_fn \<Rightarrow> ('r \<Rightarrow> Value) \<Rightarrow>
     Value \<Rightarrow> Caller \<Rightarrow> 'n \<Rightarrow> (Value, NncError) result \<times> 'n" where
  "dispatch_arm de call en params caller n =
     (case de params of
        None \<Rightarrow> (Inl (serde_failure EC_Other ''bad params''), n)
      | Some request \<Rightarrow>
          (case call n request caller of
             (Inl e, n') \<Rightarrow> (Inl e, n')
           | (Inr response, n') \<Rightarrow> (Inr (to_value en response), n')))"

definition dispatch_control ::
  "('n, 's) ControlService \<Rightarrow> Method \<Rightarrow> Value \<Rightarrow> Caller \<Rightarrow> 'n \<Rightarrow> (Value, NncError) result \<times> 'n" where
  "dispatch_control svc method params caller n =
     (case method of
        ListChannels \<Rightarrow> dispatch_arm de_ListChannelsRequest (cs_list_channels svc) en_ListChannelsResponse params caller n
      | OpenChannel \<Rightarrow> dispatch_arm de_OpenChannelRequest (cs_open_channel svc) en_OpenChannelResponse params caller n
      | CloseChannel \<Rightarrow> dispatch_arm de_CloseChannelRequest (cs_close_channel svc) en_CloseChannelResponse params caller n
      | ListPeers \<Rightarrow> dispatch_arm de_ListPeersRequest (cs_list_peers svc) en_ListPeersResponse params caller n
      | ConnectPeer \<Rightarrow> dispatch_arm de_ConnectPeerRequest (cs_connect_peer svc) en_ConnectPeerResponse params caller n
      | DisconnectPeer \<Rightarrow> dispatch_arm de_DisconnectPeerRequest (cs_disconnect_peer svc) en_DisconnectPeerResponse params caller n
      | GetChannelFees \<Rightarrow> dispatch_arm de_GetChannelFeesRequest (cs_get_channel_fees svc) en_GetChannelFeesResponse params caller n
      | SetChannelFees \<Rightarrow> dispatch_arm de_SetChannelFeesRequest (cs_set_channel_fees svc) en_SetChannelFeesResponse params caller n
      | GetForwardingHistory \<Rightarrow> dispatch_arm de_GetForwardingHistoryRequest (cs_get_forwarding_history svc) en_GetForwardingHistoryResponse params caller n
      | GetPendingHtlcs \<Rightarrow> dispatch_arm de_GetPendingHtlcsRequest (cs_get_pending_htlcs svc) en_GetPendingHtlcsResponse params caller n
      | QueryRoutes \<Rightarrow> dispatch_arm de_QueryRoutesRequest (cs_query_routes svc) en_QueryRoutesResponse params caller n
      | ListNetworkNodes \<Rightarrow> dispatch_arm de_ListNetworkNodesRequest (cs_list_network_nodes svc) en_ListNetworkNodesResponse params caller n
      | GetNetworkStats \<Rightarrow> dispatch_arm de_GetNetworkStatsRequest (cs_get_network_stats svc) en_GetNetworkStatsResponse params caller n
      | GetNetworkNode \<Rightarrow> dispatch_arm de_GetNetworkNodeRequest (cs_get_network_node svc) en_NetworkNode params caller n
      | GetNetworkChannel \<Rightarrow> dispatch_arm de_GetNetworkChannelRequest (cs_get_network_channel svc) en_GetNetworkChannelResponse params caller n
      | SignMessage \<Rightarrow> dispatch_arm de_SignMessageRequest (cs_sign_message svc) en_SignMessageResponse params caller n
      | UnknownMethod name \<Rightarrow> (Inl (not_implemented name), n))"

definition dispatch_wallet ::
  "('n, 's) WalletService \<Rightarrow> WalletMethod \<Rightarrow> Value \<Rightarrow> Caller \<Rightarrow> 'n \<Rightarrow> (Value, NncError) result \<times> 'n" where
  "dispatch_wallet svc method params caller n =
     (case method of
        PayInvoice \<Rightarrow> dispatch_arm de_PayInvoiceRequest (ws_pay_invoice svc) en_PayInvoiceResponse params caller n
      | MakeInvoice \<Rightarrow> dispatch_arm de_MakeInvoiceRequest (ws_make_invoice svc) en_Transaction params caller n
      | LookupInvoice \<Rightarrow> dispatch_arm de_LookupInvoiceRequest (ws_lookup_invoice svc) en_Transaction params caller n
      | GetBalance \<Rightarrow> dispatch_arm de_GetBalanceRequest (ws_get_balance svc) en_GetBalanceResponse params caller n
      | GetInfo \<Rightarrow> dispatch_arm de_GetInfoRequest (ws_get_info svc) en_GetInfoResponse params caller n
      | PayOnchain \<Rightarrow> dispatch_arm de_PayOnchainRequest (ws_pay_onchain svc) en_PayOnchainResponse params caller n
      | MakeHoldInvoice \<Rightarrow> dispatch_arm de_MakeHoldInvoiceRequest (ws_make_hold_invoice svc) en_MakeHoldInvoiceResponse params caller n
      | SettleHoldInvoice \<Rightarrow> dispatch_arm de_SettleHoldInvoiceRequest (ws_settle_hold_invoice svc) en_SettleHoldInvoiceResponse params caller n
      | CancelHoldInvoice \<Rightarrow> dispatch_arm de_CancelHoldInvoiceRequest (ws_cancel_hold_invoice svc) en_CancelHoldInvoiceResponse params caller n
      | QuotePayment \<Rightarrow> dispatch_arm de_QuotePaymentRequest (ws_quote_payment svc) en_QuotePaymentResponse params caller n
      | PayKeysend \<Rightarrow> dispatch_arm de_PayKeysendRequest (ws_pay_keysend svc) en_PayKeysendResponse params caller n
      | ListTransactions \<Rightarrow> dispatch_arm de_ListTransactionsRequest (ws_list_transactions svc) en_ListTransactionsResponse params caller n
      | MakeNewAddress \<Rightarrow> dispatch_arm de_MakeNewAddressRequest (ws_make_new_address svc) en_MakeNewAddressResponse params caller n
      | LookupAddress \<Rightarrow> dispatch_arm de_LookupAddressRequest (ws_lookup_address svc) en_LookupAddressResponse params caller n
      | ListAddresses \<Rightarrow> dispatch_arm de_ListAddressesRequest (ws_list_addresses svc) en_ListAddressesResponse params caller n
      | EstimateOnchainFees \<Rightarrow> dispatch_arm de_EstimateOnchainFeesRequest (ws_estimate_onchain_fees svc) en_EstimateOnchainFeesResponse params caller n
      | ListInvoices \<Rightarrow> dispatch_arm de_ListInvoicesRequest (ws_list_invoices svc) en_ListInvoicesResponse params caller n
      | Pay \<Rightarrow> dispatch_arm de_PayRequest (ws_pay svc) en_PayResponse params caller n
      | Receive \<Rightarrow> dispatch_arm de_ReceiveRequest (ws_receive svc) en_ReceiveResponse params caller n
      | MakeOffer \<Rightarrow> dispatch_arm de_MakeOfferRequest (ws_make_offer svc) en_MakeOfferResponse params caller n
      | LookupPayment \<Rightarrow> dispatch_arm de_LookupPaymentRequest (ws_lookup_payment svc) en_LookupPaymentResponse params caller n
      | PayOffer \<Rightarrow> dispatch_arm de_PayOfferRequest (ws_pay_offer svc) en_PayOfferResponse params caller n
      | ListOffers \<Rightarrow> dispatch_arm de_ListOffersRequest (ws_list_offers svc) en_ListOffersResponse params caller n
      | DisableOffer \<Rightarrow> dispatch_arm de_DisableOfferRequest (ws_disable_offer svc) en_DisableOfferResponse params caller n
      | UnknownWalletMethod name \<Rightarrow> (Inl (not_implemented name), n))"

section \<open>Validation\<close>

text \<open>The two halves of \<open>validate\<close> in \<^verbatim>\<open>src/service/pipeline.rs\<close>: the parameters must read as the request
  type of the method.\<close>

definition check_params :: "(Value \<Rightarrow> 'q option) \<Rightarrow> Value \<Rightarrow> (unit, NncError) result" where
  "check_params de params =
     (case de params of
        None \<Rightarrow> Inl (serde_failure EC_Other ''bad params'')
      | Some _ \<Rightarrow> Inr ())"

definition validate_wallet :: "WalletMethod \<Rightarrow> Value \<Rightarrow> (unit, NncError) result" where
  "validate_wallet method params =
     (case method of
        PayInvoice \<Rightarrow> check_params de_PayInvoiceRequest params
      | MakeInvoice \<Rightarrow> check_params de_MakeInvoiceRequest params
      | LookupInvoice \<Rightarrow> check_params de_LookupInvoiceRequest params
      | GetBalance \<Rightarrow> check_params de_GetBalanceRequest params
      | GetInfo \<Rightarrow> check_params de_GetInfoRequest params
      | PayOnchain \<Rightarrow> check_params de_PayOnchainRequest params
      | MakeHoldInvoice \<Rightarrow> check_params de_MakeHoldInvoiceRequest params
      | SettleHoldInvoice \<Rightarrow> check_params de_SettleHoldInvoiceRequest params
      | CancelHoldInvoice \<Rightarrow> check_params de_CancelHoldInvoiceRequest params
      | QuotePayment \<Rightarrow> check_params de_QuotePaymentRequest params
      | PayKeysend \<Rightarrow> check_params de_PayKeysendRequest params
      | ListTransactions \<Rightarrow> check_params de_ListTransactionsRequest params
      | MakeNewAddress \<Rightarrow> check_params de_MakeNewAddressRequest params
      | LookupAddress \<Rightarrow> check_params de_LookupAddressRequest params
      | ListAddresses \<Rightarrow> check_params de_ListAddressesRequest params
      | EstimateOnchainFees \<Rightarrow> check_params de_EstimateOnchainFeesRequest params
      | ListInvoices \<Rightarrow> check_params de_ListInvoicesRequest params
      | Pay \<Rightarrow> check_params de_PayRequest params
      | Receive \<Rightarrow> check_params de_ReceiveRequest params
      | MakeOffer \<Rightarrow> check_params de_MakeOfferRequest params
      | LookupPayment \<Rightarrow> check_params de_LookupPaymentRequest params
      | PayOffer \<Rightarrow> check_params de_PayOfferRequest params
      | ListOffers \<Rightarrow> check_params de_ListOffersRequest params
      | DisableOffer \<Rightarrow> check_params de_DisableOfferRequest params
      | UnknownWalletMethod name \<Rightarrow> Inl (not_implemented name))"

definition validate_control :: "Method \<Rightarrow> Value \<Rightarrow> (unit, NncError) result" where
  "validate_control method params =
     (case method of
        ListChannels \<Rightarrow> check_params de_ListChannelsRequest params
      | OpenChannel \<Rightarrow> check_params de_OpenChannelRequest params
      | CloseChannel \<Rightarrow> check_params de_CloseChannelRequest params
      | ListPeers \<Rightarrow> check_params de_ListPeersRequest params
      | ConnectPeer \<Rightarrow> check_params de_ConnectPeerRequest params
      | DisconnectPeer \<Rightarrow> check_params de_DisconnectPeerRequest params
      | GetChannelFees \<Rightarrow> check_params de_GetChannelFeesRequest params
      | SetChannelFees \<Rightarrow> check_params de_SetChannelFeesRequest params
      | GetForwardingHistory \<Rightarrow> check_params de_GetForwardingHistoryRequest params
      | GetPendingHtlcs \<Rightarrow> check_params de_GetPendingHtlcsRequest params
      | QueryRoutes \<Rightarrow> check_params de_QueryRoutesRequest params
      | ListNetworkNodes \<Rightarrow> check_params de_ListNetworkNodesRequest params
      | GetNetworkStats \<Rightarrow> check_params de_GetNetworkStatsRequest params
      | GetNetworkNode \<Rightarrow> check_params de_GetNetworkNodeRequest params
      | GetNetworkChannel \<Rightarrow> check_params de_GetNetworkChannelRequest params
      | SignMessage \<Rightarrow> check_params de_SignMessageRequest params
      | UnknownMethod name \<Rightarrow> Inl (not_implemented name))"

end
