(* ===== verification/Usage.thy ===== *)
theory Usage
  imports Limit Nostr
begin

text \<open>
  \<^verbatim>\<open>src/service/state.rs\<close>: the live buckets of each controller, one per method for rates and one for
  the quota, created full the first time they are asked about. A method taking \<open>&mut self\<close> returns its
  result and the state afterwards. The contract both kinds of limit keep towards the pipeline is the
  locale \<open>limiter\<close>.
\<close>

section \<open>Data and operations\<close>

record Usage =
  u_rate :: "(string \<times> string, Bucket) hashmap"
  u_quota :: "(string, Bucket) hashmap"

definition usage_new :: Usage where
  "usage_new = \<lparr>u_rate = fmempty, u_quota = fmempty\<rparr>"

definition rate_allows ::
  "Usage \<Rightarrow> PublicKey \<Rightarrow> string \<Rightarrow> RateLimitRule \<Rightarrow> u64 \<Rightarrow> bool \<times> Usage" where
  "rate_allows u controller method rule now =
     (let key = (to_hex controller, method);
          (m, b) = entry_or_insert key (full rule now) (u_rate u)
      in (can_withdraw b 1 now rule, u\<lparr>u_rate := m\<rparr>))"

definition quota_allows ::
  "Usage \<Rightarrow> PublicKey \<Rightarrow> u64 \<Rightarrow> RateLimitRule \<Rightarrow> u64 \<Rightarrow> bool \<times> Usage" where
  "quota_allows u controller cost_sats rule now =
     (let (m, b) = entry_or_insert (to_hex controller) (full rule now) (u_quota u)
      in (can_withdraw b cost_sats now rule, u\<lparr>u_quota := m\<rparr>))"

definition charge_rate ::
  "Usage \<Rightarrow> PublicKey \<Rightarrow> string \<Rightarrow> RateLimitRule \<Rightarrow> u64 \<Rightarrow> bool \<times> Usage" where
  "charge_rate u controller method rule now =
     (let key = (to_hex controller, method);
          (m, b) = entry_or_insert key (full rule now) (u_rate u);
          (b', ok) = withdraw b 1 now rule
      in (ok, u\<lparr>u_rate := fmupd key b' m\<rparr>))"

definition charge_quota ::
  "Usage \<Rightarrow> PublicKey \<Rightarrow> u64 \<Rightarrow> RateLimitRule \<Rightarrow> u64 \<Rightarrow> bool \<times> Usage" where
  "charge_quota u controller cost_sats rule now =
     (let (m, b) = entry_or_insert (to_hex controller) (full rule now) (u_quota u);
          (b', ok) = withdraw b cost_sats now rule
      in (ok, u\<lparr>u_quota := fmupd (to_hex controller) b' m\<rparr>))"

definition controllers_seen :: "Usage \<Rightarrow> nat" where
  "controllers_seen u =
     max (fcard (fmdom (u_quota u))) (fcard (fimage fst (fmdom (u_rate u))))"

section \<open>What is left\<close>

text \<open>A bucket that does not exist yet counts as full.\<close>

definition rate_left :: "Usage \<Rightarrow> PublicKey \<times> string \<Rightarrow> RateLimitRule \<Rightarrow> u64 \<Rightarrow> u64" where
  "rate_left u k rule now =
     balance_at (case fmlookup (u_rate u) (to_hex (fst k), snd k) of
         Some b \<Rightarrow> b | None \<Rightarrow> full rule now) now rule"

definition quota_left :: "Usage \<Rightarrow> PublicKey \<Rightarrow> RateLimitRule \<Rightarrow> u64 \<Rightarrow> u64" where
  "quota_left u c rule now =
     balance_at (case fmlookup (u_quota u) (to_hex c) of
         Some b \<Rightarrow> b | None \<Rightarrow> full rule now) now rule"

text \<open>
  The contract: asking grants exactly what is left and takes nothing, under the rule asked about;
  charging succeeds exactly when asking would, takes exactly the cost, and touches no other key.
\<close>

locale limiter =
  fixes allows :: "'u \<Rightarrow> 'k \<Rightarrow> 'a \<Rightarrow> RateLimitRule \<Rightarrow> u64 \<Rightarrow> bool \<times> 'u"
    and charge :: "'u \<Rightarrow> 'k \<Rightarrow> 'a \<Rightarrow> RateLimitRule \<Rightarrow> u64 \<Rightarrow> bool \<times> 'u"
    and left :: "'u \<Rightarrow> 'k \<Rightarrow> RateLimitRule \<Rightarrow> u64 \<Rightarrow> u64"
    and cost :: "'a \<Rightarrow> u64"
  assumes allows_iff: "fst (allows u k a r t) \<longleftrightarrow> cost a \<le> left u k r t"
    and allows_left: "k' \<noteq> k \<or> r' = r \<Longrightarrow> left (snd (allows u k a r t)) k' r' t' = left u k' r' t'"
    and charge_iff: "fst (charge u k a r t) \<longleftrightarrow> cost a \<le> left u k r t"
    and charge_left: "cost a \<le> left u k r t \<Longrightarrow>
      left (snd (charge u k a r t)) k r t = left u k r t - cost a"
    and charge_other: "k' \<noteq> k \<Longrightarrow> left (snd (charge u k a r t)) k' r' t' = left u k' r' t'"
begin

text \<open>What was checked is what is charged: at the same instant, under the same rule, the charge after a
  positive check cannot fail.\<close>

lemma check_then_charge:
  assumes "fst (allows u k a r t)"
  shows "fst (charge (snd (allows u k a r t)) k a r t)"
    and "left (snd (charge (snd (allows u k a r t)) k a r t)) k r t = left u k r t - cost a"
  using assms by (simp_all add: allows_iff charge_iff charge_left allows_left)

lemma check_then_charge_other:
  "k' \<noteq> k \<Longrightarrow> left (snd (charge (snd (allows u k a r t)) k a r t)) k' r' t' = left u k' r' t'"
  by (simp add: charge_other allows_left)

end

lemma balance_at_full_any: "balance_at (full rule t) now rule = balance_at (full rule now) now rule"
  by (cases "rule_is_valid rule") (simp_all add: balance_at_full, simp add: balance_at_def)

lemmas limiter_defs =
  rate_allows_def quota_allows_def charge_rate_def charge_quota_def rate_left_def quota_left_def

lemmas limiter_simps =
  limiter_defs Let_def split_def hm_simps can_withdraw_def snd_withdraw balance_at_after_withdraw

interpretation quota_limit: limiter quota_allows charge_quota quota_left "\<lambda>c. c"
proof unfold_locales
  fix u k a r t k' and r' :: RateLimitRule and t'
  show "fst (quota_allows u k a r t) \<longleftrightarrow> a \<le> quota_left u k r t"
    by (simp add: limiter_simps)
  show "quota_left (snd (quota_allows u k a r t)) k' r' t' = quota_left u k' r' t'"
    if "k' \<noteq> k \<or> r' = r"
    using that by (auto simp: limiter_simps split: option.split intro: balance_at_full_any)
  show "fst (charge_quota u k a r t) \<longleftrightarrow> a \<le> quota_left u k r t"
    by (simp add: limiter_simps)
  show "quota_left (snd (charge_quota u k a r t)) k r t = quota_left u k r t - a"
    if "a \<le> quota_left u k r t"
    using that by (simp add: limiter_simps)
  show "quota_left (snd (charge_quota u k a r t)) k' r' t' = quota_left u k' r' t'"
    if "k' \<noteq> k"
    using that by (simp add: limiter_simps)
qed

interpretation rate_limit: limiter
  "\<lambda>u k _. rate_allows u (fst k) (snd k)" "\<lambda>u k _. charge_rate u (fst k) (snd k)"
  rate_left "\<lambda>_ :: unit. 1"
proof unfold_locales
  fix u k r t k' and r' :: RateLimitRule and t'
  show "fst (rate_allows u (fst k) (snd k) r t) \<longleftrightarrow> 1 \<le> rate_left u k r t"
    by (simp add: limiter_simps)
  show "rate_left (snd (rate_allows u (fst k) (snd k) r t)) k' r' t' = rate_left u k' r' t'"
    if "k' \<noteq> k \<or> r' = r"
    using that
    by (auto simp: limiter_simps prod_eq_iff split: option.split intro: balance_at_full_any)
  show "fst (charge_rate u (fst k) (snd k) r t) \<longleftrightarrow> 1 \<le> rate_left u k r t"
    by (simp add: limiter_simps)
  show "rate_left (snd (charge_rate u (fst k) (snd k) r t)) k r t = rate_left u k r t - 1"
    if "1 \<le> rate_left u k r t"
    using that by (simp add: limiter_simps)
  show "rate_left (snd (charge_rate u (fst k) (snd k) r t)) k' r' t' = rate_left u k' r' t'"
    if "k' \<noteq> k"
    using that by (auto simp: limiter_simps prod_eq_iff)
qed

text \<open>Rates and quotas are separate ledgers.\<close>

lemma rate_ops_quota [simp]:
  "u_quota (snd (rate_allows u c m r t)) = u_quota u"
  "u_quota (snd (charge_rate u c m r t)) = u_quota u"
  by (simp_all add: limiter_defs Let_def split_def)

lemma quota_ops_rate [simp]:
  "u_rate (snd (quota_allows u c a r t)) = u_rate u"
  "u_rate (snd (charge_quota u c a r t)) = u_rate u"
  by (simp_all add: limiter_defs Let_def split_def)

lemma quota_left_cong: "u_quota u = u_quota u' \<Longrightarrow> quota_left u = quota_left u'"
  by (simp add: quota_left_def fun_eq_iff)

lemma rate_left_cong: "u_rate u = u_rate u' \<Longrightarrow> rate_left u = rate_left u'"
  by (simp add: rate_left_def fun_eq_iff)

section \<open>Properties\<close>

text \<open>Checking a limit takes nothing. A rate check and a quota check leave what every controller can
  still spend, at every instant, as it was: for every other key under any rule, and for the key asked
  about under the rule asked about. They grant exactly what is left.\<close>

lemma checks_take_nothing:
  "fst (rate_allows u c m rule now) = (1 \<le> rate_left u (c, m) rule now) \<and>
   fst (quota_allows u c cost rule now) = (cost \<le> quota_left u c rule now) \<and>
   (\<forall>k r t. k \<noteq> (c, m) \<or> r = rule \<longrightarrow>
      rate_left (snd (rate_allows u c m rule now)) k r t = rate_left u k r t) \<and>
   (\<forall>k r t. k \<noteq> c \<or> r = rule \<longrightarrow>
      quota_left (snd (quota_allows u c cost rule now)) k r t = quota_left u k r t)"
  using rate_limit.allows_iff [of u "(c, m)" rule now]
    rate_limit.allows_left [of _ "(c, m)" _ rule u now]
    quota_limit.allows_iff [of u c cost rule now] quota_limit.allows_left [of _ c _ rule u cost now]
  by simp

text \<open>A check does mutate, and it shows when a grant changes. The first check creates the bucket with
  the capacity of the rule in force; a later grant that raises the ceiling finds that bucket, not a full
  one. A controller asked about under a ceiling of 10 has 10 left under a ceiling of 1000; one never asked
  about has 1000.\<close>

lemma check_pins_capacity:
  "quota_left (snd (quota_allows usage_new 3 4 \<lparr>amount = 0, per_secs = 1, max_capacity = 10\<rparr> 100)) 3
      \<lparr>amount = 0, per_secs = 1, max_capacity = 1000\<rparr> 100 = 10 \<and>
   quota_left usage_new 3 \<lparr>amount = 0, per_secs = 1, max_capacity = 1000\<rparr> 100 = 1000"
  by (simp add: limiter_defs Let_def usage_new_def entry_or_insert_def full_def balance_at_def
      rule_is_valid_def saturating_mul_def saturating_add_def saturating_sub_def min_def)

text \<open>Charges are exact and private. After a positive check at the same instant under the same rule
  the charge cannot fail and takes exactly what was checked; no charge changes what any other controller,
  or the same controller's other methods, have left.\<close>

lemma charges_exact_and_private:
  "(fst (quota_allows u c cost rule now) \<longrightarrow>
      fst (charge_quota (snd (quota_allows u c cost rule now)) c cost rule now) \<and>
      quota_left (snd (charge_quota (snd (quota_allows u c cost rule now)) c cost rule now)) c rule now =
        quota_left u c rule now - cost) \<and>
   (fst (rate_allows u c m rule now) \<longrightarrow>
      fst (charge_rate (snd (rate_allows u c m rule now)) c m rule now) \<and>
      rate_left (snd (charge_rate (snd (rate_allows u c m rule now)) c m rule now)) (c, m) rule now =
        rate_left u (c, m) rule now - 1) \<and>
   (\<forall>c' r t. c' \<noteq> c \<longrightarrow> quota_left (snd (charge_quota u c cost rule now)) c' r t = quota_left u c' r t) \<and>
   (\<forall>k r t. k \<noteq> (c, m) \<longrightarrow> rate_left (snd (charge_rate u c m rule now)) k r t = rate_left u k r t)"
  using quota_limit.check_then_charge [of u c cost rule now]
    rate_limit.check_then_charge [of u "(c, m)" rule now]
    quota_limit.charge_other [of _ c u cost rule now]
    rate_limit.charge_other [of _ "(c, m)" u rule now]
  by simp

end
