(* ===== verification/Metering.thy ===== *)
theory Metering
  imports Usage
begin

text \<open>
  What a metered system can take in total. A system makes steps; a step may look a bucket up, create it
  full, or withdraw from it what the step takes. The locale \<open>metered\<close> states that much about one bucket
  and bounds what any run of steps takes by the ceiling and the refill of the run's duration. The
  pipeline is such a system twice over: for a controller's quota and for a method's rate.
\<close>

fun run_total :: "('op \<Rightarrow> 's \<Rightarrow> 's) \<Rightarrow> ('op \<Rightarrow> 's \<Rightarrow> nat) \<Rightarrow> 'op list \<Rightarrow> 's \<Rightarrow> nat" where
  "run_total step taken [] s = 0"
| "run_total step taken (op # ops) s = taken op s + run_total step taken ops (step op s)"

text \<open>The bucket a step works on: the one held, or a full one.\<close>

definition held_or_full :: "RateLimitRule \<Rightarrow> u64 \<Rightarrow> Bucket option \<Rightarrow> Bucket" where
  "held_or_full rule now h = (case h of Some b \<Rightarrow> b | None \<Rightarrow> full rule now)"

definition refill :: "RateLimitRule \<Rightarrow> nat \<Rightarrow> nat" where
  "refill rule t = unat (amount rule) * t div unat (per_secs rule)"

lemma refill_add: "refill rule x + refill rule y \<le> refill rule (x + y)"
  by (simp add: refill_def distrib_left div_add_le)

lemma refill_mono: "x \<le> y \<Longrightarrow> refill rule x \<le> refill rule y"
  by (auto simp: refill_def intro!: div_le_mono mult_le_mono)

text \<open>The credit a bucket can pay out up to time \<open>T\<close>; a bucket not yet created has the ceiling and may be
  created as early as \<open>t0\<close>.\<close>

definition credit :: "RateLimitRule \<Rightarrow> nat \<Rightarrow> nat \<Rightarrow> Bucket option \<Rightarrow> nat" where
  "credit rule t0 T h =
     (case h of
        Some b \<Rightarrow> unat (balance b) + refill rule (T - unat (since b))
      | None \<Rightarrow> unat (max_capacity rule) + refill rule (T - t0))"

definition not_ahead :: "nat \<Rightarrow> Bucket option \<Rightarrow> bool" where
  "not_ahead t h = (case h of Some b \<Rightarrow> unat (since b) \<le> t | None \<Rightarrow> True)"

lemma credit_held_or_full:
  "t0 \<le> unat now \<Longrightarrow> credit rule t0 T (Some (held_or_full rule now h)) \<le> credit rule t0 T h"
  by (cases h) (simp_all add: credit_def held_or_full_def full_def refill_mono)

lemma credit_withdraw:
  assumes "can_withdraw b cost now rule" "unat (since b) \<le> unat now" "unat now \<le> T"
  shows "unat cost + credit rule t0 T (Some (fst (withdraw b cost now rule))) \<le>
    credit rule t0 T (Some b)"
proof -
  from assms(1) have w: "withdraw b cost now rule = (\<lparr>balance = balance_at b now rule - cost, since = now\<rparr>, True)"
    and le: "cost \<le> balance_at b now rule"
    by (cases rule: withdraw_cases [of b now rule cost]; simp add: can_withdraw_def)+
  have "refill rule (unat now - unat (since b)) + refill rule (T - unat now) \<le>
      refill rule (T - unat (since b))"
    using refill_add [of rule "unat now - unat (since b)" "T - unat now"] assms(2,3) by simp
  moreover have "unat (balance_at b now rule - cost) + unat cost = unat (balance_at b now rule)"
    using le by (simp add: unat_sub word_le_nat_alt)
  moreover have "unat (balance_at b now rule) \<le> unat (balance b) + refill rule (unat now - unat (since b))"
    using balance_at_le_refill [of b now rule] by (simp add: refill_def)
  ultimately show ?thesis
    using w by (simp add: credit_def)
qed

locale metered =
  fixes step :: "'op \<Rightarrow> 's \<Rightarrow> 's"
    and held :: "'s \<Rightarrow> Bucket option"
    and taken :: "'op \<Rightarrow> 's \<Rightarrow> nat"
    and time :: "'op \<Rightarrow> u64"
    and lawful :: "'op \<Rightarrow> bool"
    and rule :: RateLimitRule
  assumes step_held: "lawful op \<Longrightarrow>
      taken op s = 0 \<and> held (step op s) \<in> {held s, Some (held_or_full rule (time op) (held s))} \<or>
      (\<exists>cost. taken op s = unat cost \<and>
         can_withdraw (held_or_full rule (time op) (held s)) cost (time op) rule \<and>
         held (step op s) =
           Some (fst (withdraw (held_or_full rule (time op) (held s)) cost (time op) rule)))"
begin

lemma step_credit:
  assumes "lawful op" "not_ahead (unat (time op)) (held s)" "t0 \<le> unat (time op)" "unat (time op) \<le> T"
  shows "taken op s + credit rule t0 T (held (step op s)) \<le> credit rule t0 T (held s)"
    and "not_ahead (unat (time op)) (held (step op s))"
proof -
  let ?b = "held_or_full rule (time op) (held s)"
  have b: "credit rule t0 T (Some ?b) \<le> credit rule t0 T (held s)"
    using assms(3) by (rule credit_held_or_full)
  have since: "unat (since ?b) \<le> unat (time op)"
    using assms(2) by (cases "held s") (simp_all add: held_or_full_def not_ahead_def full_def)
  have "taken op s + credit rule t0 T (held (step op s)) \<le> credit rule t0 T (held s) \<and>
      not_ahead (unat (time op)) (held (step op s))"
    using step_held [OF assms(1), of s]
  proof (elim disjE conjE exE)
    assume "taken op s = 0" "held (step op s) \<in> {held s, Some ?b}"
    then show ?thesis
      using b since assms(2) by (auto simp: not_ahead_def)
  next
    fix cost
    assume *: "taken op s = unat cost" "can_withdraw ?b cost (time op) rule"
      "held (step op s) = Some (fst (withdraw ?b cost (time op) rule))"
    have "since (fst (withdraw ?b cost (time op) rule)) = time op"
      using *(2) by (cases rule: withdraw_cases [of ?b "time op" rule cost]) (auto simp: can_withdraw_def)
    then show ?thesis
      using credit_withdraw [OF *(2) since assms(4), of t0] b * by (simp add: not_ahead_def)
  qed
  then show "taken op s + credit rule t0 T (held (step op s)) \<le> credit rule t0 T (held s)"
    and "not_ahead (unat (time op)) (held (step op s))" by auto
qed

lemma run_credit:
  assumes "list_all lawful ops" "not_ahead t (held s)" "t0 \<le> t"
    and "sorted (t # map (\<lambda>op. unat (time op)) ops)" "\<forall>op \<in> set ops. unat (time op) \<le> T"
  shows "run_total step taken ops s \<le> credit rule t0 T (held s)"
  using assms
proof (induction ops arbitrary: s t)
  case (Cons op ops)
  from Cons.prems have op: "lawful op" "t0 \<le> unat (time op)" "unat (time op) \<le> T" by auto
  from Cons.prems have "not_ahead (unat (time op)) (held s)"
    by (auto simp: not_ahead_def split: option.splits)
  note now = step_credit [OF op(1) this op(2,3)]
  from Cons.prems have "run_total step taken ops (step op s) \<le> credit rule t0 T (held (step op s))"
    using now(2) op(2) by (intro Cons.IH [of "unat (time op)"]) auto
  with now(1) show ?case by simp
qed simp

lemma run_bound:
  assumes "list_all lawful ops" "held s = None"
    and "sorted (map (\<lambda>op. unat (time op)) ops)" "ops \<noteq> []"
  shows "run_total step taken ops s \<le> unat (max_capacity rule) +
    refill rule (unat (time (last ops)) - unat (time (hd ops)))"
proof -
  let ?ts = "map (\<lambda>op. unat (time op)) ops"
  from assms(3,4) have "sorted (unat (time (hd ops)) # ?ts)"
    by (cases ops) auto
  moreover have "\<forall>op \<in> set ops. unat (time op) \<le> unat (time (last ops))"
  proof
    fix op
    assume "op \<in> set ops"
    then have "op \<in> set (butlast ops @ [last ops])" using assms(4) by simp
    moreover have "sorted (map (\<lambda>op. unat (time op)) (butlast ops @ [last ops]))"
      using assms(3,4) by simp
    ultimately show "unat (time op) \<le> unat (time (last ops))"
      by (auto simp: sorted_append)
  qed
  ultimately have "run_total step taken ops s \<le>
      credit rule (unat (time (hd ops))) (unat (time (last ops))) (held s)"
    using assms(1,2) by (intro run_credit [where t = "unat (time (hd ops))"]) (simp_all add: not_ahead_def)
  with assms(2) show ?thesis by (simp add: credit_def)
qed

end

section \<open>How the usage tables move\<close>

text \<open>The bucket a check or a charge leaves behind, in the terms of the locale.\<close>

lemma quota_bucket_after:
  "fmlookup (u_quota (snd (quota_allows u c cost rule now))) (to_hex c') =
     (if c' = c then Some (held_or_full rule now (fmlookup (u_quota u) (to_hex c)))
      else fmlookup (u_quota u) (to_hex c'))"
  "fmlookup (u_quota (snd (charge_quota u c cost rule now))) (to_hex c') =
     (if c' = c then Some (fst (withdraw (held_or_full rule now (fmlookup (u_quota u) (to_hex c))) cost now rule))
      else fmlookup (u_quota u) (to_hex c'))"
  by (simp_all add: limiter_simps held_or_full_def)

lemma rate_bucket_after:
  "fmlookup (u_rate (snd (rate_allows u c m rule now))) (to_hex c', m') =
     (if c' = c \<and> m' = m then Some (held_or_full rule now (fmlookup (u_rate u) (to_hex c, m)))
      else fmlookup (u_rate u) (to_hex c', m'))"
  "fmlookup (u_rate (snd (charge_rate u c m rule now))) (to_hex c', m') =
     (if c' = c \<and> m' = m
      then Some (fst (withdraw (held_or_full rule now (fmlookup (u_rate u) (to_hex c, m))) 1 now rule))
      else fmlookup (u_rate u) (to_hex c', m'))"
  by (auto simp: limiter_simps held_or_full_def)

lemma allowed_iff:
  "fst (quota_allows u c cost rule now) =
     can_withdraw (held_or_full rule now (fmlookup (u_quota u) (to_hex c))) cost now rule"
  "fst (rate_allows u c m rule now) =
     can_withdraw (held_or_full rule now (fmlookup (u_rate u) (to_hex c, m))) 1 now rule"
  by (simp_all add: limiter_simps held_or_full_def)

end
