(* ===== verification/Pipeline.thy ===== *)
theory Pipeline
  imports Handler Grant Metering
begin

text \<open>
  \<^verbatim>\<open>src/service/pipeline.rs\<close>: the steps every request goes through, once for both protocols: resolve,
  authorize, validate, rate, prepare, quota, execute, commit. \<open>handle\<close> returns the answer together with
  the usage tables and the node's state afterwards, on every path.
\<close>

section \<open>Handlers\<close>

datatype Protocol = Wallet | Control

datatype ('n, 's) Handler = HWallet "('n, 's) WalletService" | HControl "('n, 's) ControlService"

fun handler_protocol :: "('n, 's) Handler \<Rightarrow> Protocol" where
  "handler_protocol (HWallet _) = Wallet"
| "handler_protocol (HControl _) = Control"

fun handler_methods :: "('n, 's) Handler \<Rightarrow> string list" where
  "handler_methods (HWallet s) = ws_methods s"
| "handler_methods (HControl s) = cs_methods s"

definition implements :: "('n, 's) Handler \<Rightarrow> string \<Rightarrow> bool" where
  "implements handler method \<longleftrightarrow> method \<in> set (handler_methods handler)"

section \<open>The steps\<close>

fun deny :: "Denied \<Rightarrow> NncError" where
  "deny Unauthorized = nnc_error EC_Unauthorized ''no grant applies to this controller''"
| "deny Restricted = nnc_error EC_Restricted ''this controller may not call that method''"

text \<open>Step 3: the grant's profile, and the rate rule of the map the protocol is checked against.\<close>

definition authorize ::
  "('n, 's) Handler \<Rightarrow> Grants \<Rightarrow> PublicKey \<Rightarrow> string \<Rightarrow>
     (UsageProfile \<times> RateLimitRule option, Denied) result" where
  "authorize handler grants controller name =
     (case resolve grants controller of
        Inl d \<Rightarrow> Inl d
      | Inr grant \<Rightarrow>
          let profile = vg_profile grant in
          (case (case handler_protocol handler of
                   Wallet \<Rightarrow> allows_wallet profile name
                 | Control \<Rightarrow> allows_control profile name) of
             Inl d \<Rightarrow> Inl d
           | Inr rule \<Rightarrow> Inr (profile, rule)))"

text \<open>Step 4.\<close>

definition validate :: "('n, 's) Handler \<Rightarrow> Method \<Rightarrow> Value \<Rightarrow> (unit, NncError) result" where
  "validate handler method params =
     (case handler_protocol handler of
        Wallet \<Rightarrow> validate_wallet (wallet_method_from_str (method_as_str method)) params
      | Control \<Rightarrow> validate_control method params)"

text \<open>Step 5a: checked, and charged at once.\<close>

definition rate_step ::
  "Usage \<Rightarrow> PublicKey \<Rightarrow> string \<Rightarrow> RateLimitRule option \<Rightarrow> u64 \<Rightarrow> bool \<times> Usage" where
  "rate_step usage controller name rule now =
     (case rule of
        None \<Rightarrow> (True, usage)
      | Some rule \<Rightarrow>
          (case rate_allows usage controller name rule now of
             (False, usage') \<Rightarrow> (False, usage')
           | (True, usage') \<Rightarrow> (True, snd (charge_rate usage' controller name rule now))))"

text \<open>Step 5b.\<close>

definition prepare ::
  "('n, 's) Handler \<Rightarrow> string \<Rightarrow> Value \<Rightarrow> Caller \<Rightarrow> 'n \<Rightarrow> ('s Prepared, NncError) result \<times> 'n" where
  "prepare handler name params caller n =
     (case handler of
        HWallet s \<Rightarrow> ws_prepare s n name params caller
      | HControl s \<Rightarrow> cs_prepare s n name params caller)"

text \<open>Step 5c, and step 7 on success.\<close>

definition quota_step ::
  "Usage \<Rightarrow> PublicKey \<Rightarrow> u64 \<Rightarrow> RateLimitRule option \<Rightarrow> u64 \<Rightarrow> bool \<times> Usage" where
  "quota_step usage controller cost q now =
     (if cost > 0 then
        (case q of
           None \<Rightarrow> (True, usage)
         | Some rule \<Rightarrow> quota_allows usage controller cost rule now)
      else (True, usage))"

definition commit ::
  "Usage \<Rightarrow> PublicKey \<Rightarrow> u64 \<Rightarrow> RateLimitRule option \<Rightarrow> u64 \<Rightarrow> Usage" where
  "commit usage controller cost q now =
     (if cost > 0 then
        (case q of
           None \<Rightarrow> usage
         | Some rule \<Rightarrow> snd (charge_quota usage controller cost rule now))
      else usage)"

text \<open>Step 6.\<close>

definition execute ::
  "('n, 's) Handler \<Rightarrow> Method \<Rightarrow> Value \<Rightarrow> Caller \<Rightarrow> 'n \<Rightarrow> (Value, NncError) result \<times> 'n" where
  "execute handler method params caller n =
     (case handler of
        HWallet s \<Rightarrow> dispatch_wallet s (wallet_method_from_str (method_as_str method)) params caller n
      | HControl s \<Rightarrow> dispatch_control s method params caller n)"

definition rate_limited :: "string \<Rightarrow> NncError" where
  "rate_limited name = nnc_error EC_RateLimited (name @ '' is rate limited for this controller'')"

definition quota_exceeded :: "u64 \<Rightarrow> NncError" where
  "quota_exceeded cost = nnc_error EC_QuotaExceeded
     (dec_digits (unat cost) @ '' sats exceeds this controller'' @ [char_of (39 :: nat)] @ ''s remaining quota'')"

definition handle ::
  "('n, 's) Handler \<Rightarrow> Grants \<Rightarrow> PublicKey \<Rightarrow> EventId option \<Rightarrow> Method \<Rightarrow> Value \<Rightarrow> u64 \<Rightarrow>
     Usage \<Rightarrow> 'n \<Rightarrow> (Value, NncError) result \<times> Usage \<times> 'n" where
  "handle handler grants controller request_id method params now usage n =
     (let caller = \<lparr>caller_controller = controller, caller_request_id = request_id\<rparr>;
          name = method_as_str method
      in if \<not> implements handler name then (Inl (not_implemented name), usage, n)
      else case authorize handler grants controller name of
        Inl d \<Rightarrow> (Inl (deny d), usage, n)
      | Inr (profile, rule) \<Rightarrow>
      (case validate handler method params of
        Inl e \<Rightarrow> (Inl e, usage, n)
      | Inr _ \<Rightarrow>
      (case rate_step usage controller name rule now of
        (False, usage1) \<Rightarrow> (Inl (rate_limited name), usage1, n)
      | (True, usage1) \<Rightarrow>
      (case prepare handler name params caller n of
        (Inl e, n1) \<Rightarrow> (Inl e, usage1, n1)
      | (Inr prepared, n1) \<Rightarrow>
      (let cost = cost_sats prepared in
       case quota_step usage1 controller cost (quota profile) now of
        (False, usage2) \<Rightarrow> (Inl (quota_exceeded cost), usage2, n1)
      | (True, usage2) \<Rightarrow>
      (case execute handler method params caller n1 of
        (Inl e, n2) \<Rightarrow> (Inl e, usage2, n2)
      | (Inr value, n2) \<Rightarrow> (Inr value, commit usage2 controller cost (quota profile) now, n2)))))))"

section \<open>The paths\<close>

lemma rate_step_quota [simp]: "u_quota (snd (rate_step u c name rule now)) = u_quota u"
  by (simp add: rate_step_def split: option.split prod.split bool.split) (metis rate_ops_quota snd_conv)

lemma quota_step_rate [simp]: "u_rate (snd (quota_step u c cost q now)) = u_rate u"
  by (simp add: quota_step_def split: option.split)

lemma commit_rate [simp]: "u_rate (commit u c cost q now) = u_rate u"
  by (simp add: commit_def split: option.split)

text \<open>The six ways a request ends before or at the node, and the one on which it runs.\<close>

lemma handle_cases:
  fixes h :: "('n, 's) Handler"
  obtains
    (unimplemented) "\<not> implements h (method_as_str m)"
      "handle h g c rid m params now u n = (Inl (not_implemented (method_as_str m)), u, n)"
  | (denied) d where "implements h (method_as_str m)" "authorize h g c (method_as_str m) = Inl d"
      "handle h g c rid m params now u n = (Inl (deny d), u, n)"
  | (invalid) profile rule e where "implements h (method_as_str m)"
      "authorize h g c (method_as_str m) = Inr (profile, rule)" "validate h m params = Inl e"
      "handle h g c rid m params now u n = (Inl e, u, n)"
  | (throttled) profile rule u1 where "implements h (method_as_str m)"
      "authorize h g c (method_as_str m) = Inr (profile, rule)" "validate h m params = Inr ()"
      "rate_step u c (method_as_str m) rule now = (False, u1)"
      "handle h g c rid m params now u n = (Inl (rate_limited (method_as_str m)), u1, n)"
  | (unprepared) profile rule u1 e n1 where "implements h (method_as_str m)"
      "authorize h g c (method_as_str m) = Inr (profile, rule)" "validate h m params = Inr ()"
      "rate_step u c (method_as_str m) rule now = (True, u1)"
      "prepare h (method_as_str m) params \<lparr>caller_controller = c, caller_request_id = rid\<rparr> n = (Inl e, n1)"
      "handle h g c rid m params now u n = (Inl e, u1, n1)"
  | (over_quota) profile rule u1 p n1 u2 where "implements h (method_as_str m)"
      "authorize h g c (method_as_str m) = Inr (profile, rule)" "validate h m params = Inr ()"
      "rate_step u c (method_as_str m) rule now = (True, u1)"
      "prepare h (method_as_str m) params \<lparr>caller_controller = c, caller_request_id = rid\<rparr> n = (Inr p, n1)"
      "quota_step u1 c (cost_sats p) (quota profile) now = (False, u2)"
      "handle h g c rid m params now u n = (Inl (quota_exceeded (cost_sats p)), u2, n1)"
  | (ran) profile rule u1 p n1 u2 r n2 where "implements h (method_as_str m)"
      "authorize h g c (method_as_str m) = Inr (profile, rule)" "validate h m params = Inr ()"
      "rate_step u c (method_as_str m) rule now = (True, u1)"
      "prepare h (method_as_str m) params \<lparr>caller_controller = c, caller_request_id = rid\<rparr> n = (Inr p, n1)"
      "quota_step u1 c (cost_sats p) (quota profile) now = (True, u2)"
      "execute h m params \<lparr>caller_controller = c, caller_request_id = rid\<rparr> n1 = (r, n2)"
      "handle h g c rid m params now u n =
        (r, if is_ok r then commit u2 c (cost_sats p) (quota profile) now else u2, n2)"
proof -
  note d = handle_def [of h g c rid m params now u n, unfolded Let_def]
  let ?name = "method_as_str m" and ?caller = "\<lparr>caller_controller = c, caller_request_id = rid\<rparr>"
  define profile where "profile = fst (projr (authorize h g c ?name))"
  define rule where "rule = snd (projr (authorize h g c ?name))"
  obtain b u1 where rate: "rate_step u c ?name rule now = (b, u1)" by fastforce
  obtain pr n1 where prep: "prepare h ?name params ?caller n = (pr, n1)" by fastforce
  obtain b2 u2 where q: "quota_step u1 c (cost_sats (projr pr)) (quota profile) now = (b2, u2)" by fastforce
  obtain r n2 where ex: "execute h m params ?caller n1 = (r, n2)" by fastforce
  have auth: "authorize h g c ?name = Inr (profile, rule)" if "\<not> isl (authorize h g c ?name)"
    using that by (simp add: profile_def rule_def)
  have val: "validate h m params = Inr ()" if "\<not> isl (validate h m params)"
    using that by (cases "validate h m params") simp_all
  consider "\<not> implements h ?name"
    | "implements h ?name" "isl (authorize h g c ?name)"
    | "implements h ?name" "\<not> isl (authorize h g c ?name)" "isl (validate h m params)"
    | "implements h ?name" "\<not> isl (authorize h g c ?name)" "\<not> isl (validate h m params)" "\<not> b"
    | "implements h ?name" "\<not> isl (authorize h g c ?name)" "\<not> isl (validate h m params)" "b" "isl pr"
    | "implements h ?name" "\<not> isl (authorize h g c ?name)" "\<not> isl (validate h m params)" "b" "\<not> isl pr" "\<not> b2"
    | "implements h ?name" "\<not> isl (authorize h g c ?name)" "\<not> isl (validate h m params)" "b" "\<not> isl pr" "b2"
    by argo
  then show ?thesis
  proof cases
    case 1
    then show ?thesis by (rule unimplemented) (simp add: d 1)
  next
    case 2
    then show ?thesis by (intro denied [of "projl (authorize h g c ?name)"]) (auto simp: d isl_def)
  next
    case 3
    then show ?thesis
      by (intro invalid [OF _ auth, of "projl (validate h m params)"]) (simp_all add: d auth sum.case_eq_if)
  next
    case 4
    then show ?thesis by (intro throttled [OF _ auth val]) (simp_all add: d auth val rate)
  next
    case 5
    then show ?thesis
      by (intro unprepared [OF _ auth val, of u1 "projl pr"]) (simp_all add: d auth val rate prep sum.case_eq_if)
  next
    case 6
    then show ?thesis
      by (intro over_quota [OF _ auth val, of u1 "projr pr"])
        (simp_all add: d auth val rate prep q sum.case_eq_if)
  next
    case 7
    then show ?thesis
      by (intro ran [OF _ auth val, of u1 "projr pr" n1 u2 r n2])
        (simp_all add: d auth val rate prep q ex is_ok_def sum.case_eq_if)
  qed
qed

section \<open>Runs of requests\<close>

text \<open>One request as the transport hands it to the pipeline; the tables and the node's state are threaded
  from request to request, of both protocols and all controllers.\<close>

record ('n, 's) op =
  op_handler :: "('n, 's) Handler"
  op_grants :: Grants
  op_controller :: PublicKey
  op_request_id :: "EventId option"
  op_method :: Method
  op_params :: Value
  op_now :: u64

definition handle_op :: "('n, 's) op \<Rightarrow> Usage \<times> 'n \<Rightarrow> (Value, NncError) result \<times> Usage \<times> 'n" where
  "handle_op op s = handle (op_handler op) (op_grants op) (op_controller op) (op_request_id op)
     (op_method op) (op_params op) (op_now op) (fst s) (snd s)"

definition serve :: "('n, 's) op \<Rightarrow> Usage \<times> 'n \<Rightarrow> Usage \<times> 'n" where
  "serve op s = snd (handle_op op s)"

text \<open>What the node quotes for a request, and what a controller has spent by it: the quoted cost of a
  request that succeeded.\<close>

definition quoted :: "('n, 's) op \<Rightarrow> 'n \<Rightarrow> u64" where
  "quoted op n =
     (case fst (prepare (op_handler op) (method_as_str (op_method op)) (op_params op)
                 \<lparr>caller_controller = op_controller op, caller_request_id = op_request_id op\<rparr> n) of
        Inl _ \<Rightarrow> 0
      | Inr p \<Rightarrow> cost_sats p)"

definition spent :: "PublicKey \<Rightarrow> ('n, 's) op \<Rightarrow> Usage \<times> 'n \<Rightarrow> nat" where
  "spent c op s =
     (if op_controller op = c \<and> is_ok (fst (handle_op op s)) then unat (quoted op (snd s)) else 0)"

text \<open>Whether a request passes everything that comes before the node. That this is exactly when the node is asked anything is
  \<open>handle_recorded\<close> of \<open>Observed\<close>, with a recorder around the node.\<close>

definition reaches_node :: "('n, 's) op \<Rightarrow> Usage \<Rightarrow> bool" where
  "reaches_node op u \<longleftrightarrow>
     implements (op_handler op) (method_as_str (op_method op)) \<and>
     is_ok (validate (op_handler op) (op_method op) (op_params op)) \<and>
     (case authorize (op_handler op) (op_grants op) (op_controller op) (method_as_str (op_method op)) of
        Inl _ \<Rightarrow> False
      | Inr (_, rule) \<Rightarrow>
          fst (rate_step u (op_controller op) (method_as_str (op_method op)) rule (op_now op)))"

definition reached :: "PublicKey \<Rightarrow> string \<Rightarrow> ('n, 's) op \<Rightarrow> Usage \<times> 'n \<Rightarrow> nat" where
  "reached c name op s =
     (if op_controller op = c \<and> method_as_str (op_method op) = name \<and> reaches_node op (fst s) then 1 else 0)"

definition under_quota :: "PublicKey \<Rightarrow> RateLimitRule \<Rightarrow> ('n, 's) op \<Rightarrow> bool" where
  "under_quota c rule op \<longleftrightarrow>
     (op_controller op = c \<longrightarrow>
      (case resolve (op_grants op) c of
         Inl _ \<Rightarrow> True | Inr grant \<Rightarrow> quota (vg_profile grant) = Some rule))"

definition under_rate :: "PublicKey \<Rightarrow> string \<Rightarrow> RateLimitRule \<Rightarrow> ('n, 's) op \<Rightarrow> bool" where
  "under_rate c name rule op \<longleftrightarrow>
     (op_controller op = c \<and> method_as_str (op_method op) = name \<longrightarrow>
      (case authorize (op_handler op) (op_grants op) c name of
         Inl _ \<Rightarrow> True | Inr (_, r) \<Rightarrow> r = Some rule))"

lemma authorize_resolve:
  "authorize h g c name = Inr (profile, rule) \<Longrightarrow> \<exists>grant. resolve g c = Inr grant \<and> vg_profile grant = profile"
  by (auto simp: authorize_def Let_def split: sum.splits)

lemma authorize_quota:
  assumes "authorize h g c name = Inr (profile, rule')"
    and "case resolve g c of Inl _ \<Rightarrow> True | Inr grant \<Rightarrow> quota (vg_profile grant) = Some rule"
  shows "quota profile = Some rule"
  using authorize_resolve [OF assms(1)] assms(2) by auto

text \<open>The quota table of one controller under the pipeline.\<close>

lemma quota_step_bucket:
  "fmlookup (u_quota (snd (quota_step u c cost q now))) (to_hex c') =
     (case q of
        Some rule \<Rightarrow> if cost > 0 \<and> c' = c then Some (held_or_full rule now (fmlookup (u_quota u) (to_hex c)))
          else fmlookup (u_quota u) (to_hex c')
      | None \<Rightarrow> fmlookup (u_quota u) (to_hex c'))"
  by (simp add: quota_step_def quota_bucket_after split: option.split)

lemma held_or_full_Some [simp]: "held_or_full rule now (Some b) = b"
  by (simp add: held_or_full_def)

lemma commit_bucket:
  "fmlookup (u_quota (commit u c cost q now)) (to_hex c') =
     (case q of
        Some rule \<Rightarrow> if cost > 0 \<and> c' = c
          then Some (fst (withdraw (held_or_full rule now (fmlookup (u_quota u) (to_hex c))) cost now rule))
          else fmlookup (u_quota u) (to_hex c')
      | None \<Rightarrow> fmlookup (u_quota u) (to_hex c'))"
  by (simp add: commit_def quota_bucket_after split: option.split)

lemma rate_step_fst_quota: "rate_step u c name rule now = (b, u1) \<Longrightarrow> u_quota u1 = u_quota u"
  using rate_step_quota [of u c name rule now] by simp

lemma quota_step_fst_rate: "quota_step u c cost q now = (b, u1) \<Longrightarrow> u_rate u1 = u_rate u"
  using quota_step_rate [of u c cost q now] by simp

lemma quota_step_granted:
  "quota_step u c cost (Some rule) now = (True, u1) \<Longrightarrow> cost > 0 \<Longrightarrow>
     can_withdraw (held_or_full rule now (fmlookup (u_quota u) (to_hex c))) cost now rule"
  using allowed_iff(1) [of u c cost rule now] by (simp add: quota_step_def)

lemma quota_step_after:
  "quota_step u c cost q now = (b, u1) \<Longrightarrow>
     fmlookup (u_quota u1) (to_hex c') =
       (case q of
          Some rule \<Rightarrow> if cost > 0 \<and> c' = c then Some (held_or_full rule now (fmlookup (u_quota u) (to_hex c)))
            else fmlookup (u_quota u) (to_hex c')
        | None \<Rightarrow> fmlookup (u_quota u) (to_hex c'))"
  using quota_step_bucket [of u c cost q now c'] by simp

lemma handle_quota_other:
  assumes "c' \<noteq> c"
  shows "fmlookup (u_quota (fst (snd (handle h g c rid m params now u n)))) (to_hex c') =
    fmlookup (u_quota u) (to_hex c')"
  by (cases rule: handle_cases [of h m g c rid params now u n])
    (use assms in \<open>auto simp: commit_bucket quota_step_after rate_step_fst_quota split: option.splits\<close>)

lemma handle_quota_own:
  fixes h :: "('n, 's) Handler" and rid m params now u n
  assumes "case resolve g c of Inl _ \<Rightarrow> True | Inr grant \<Rightarrow> quota (vg_profile grant) = Some rule"
  defines "out \<equiv> handle h g c rid m params now u n"
    and "cost \<equiv> (case fst (prepare h (method_as_str m) params
      \<lparr>caller_controller = c, caller_request_id = rid\<rparr> n) of Inl _ \<Rightarrow> 0 | Inr p \<Rightarrow> cost_sats p)"
    and "b \<equiv> held_or_full rule now (fmlookup (u_quota u) (to_hex c))"
  shows "(is_ok (fst out) \<longrightarrow> cost = 0) \<and>
      fmlookup (u_quota (fst (snd out))) (to_hex c) \<in> {fmlookup (u_quota u) (to_hex c), Some b} \<or>
    is_ok (fst out) \<and> can_withdraw b cost now rule \<and>
      fmlookup (u_quota (fst (snd out))) (to_hex c) = Some (fst (withdraw b cost now rule))"
proof (cases rule: handle_cases [of h m g c rid params now u n])
  case (over_quota profile rule' u1 p n1 u2)
  then show ?thesis
    using authorize_quota [OF over_quota(2) assms(1)]
    by (auto simp: out_def b_def quota_step_after rate_step_fst_quota)
next
  case (ran profile rule' u1 p n1 u2 r n2)
  have q: "quota profile = Some rule" using ran(2) assms(1) by (rule authorize_quota)
  have cost: "cost = cost_sats p" by (simp add: cost_def ran(5))
  have u1: "u_quota u1 = u_quota u" using ran(4) by (rule rate_step_fst_quota)
  have u2: "fmlookup (u_quota u2) (to_hex c) =
      (if cost > 0 then Some b else fmlookup (u_quota u) (to_hex c))"
    using quota_step_after [OF ran(6), of c] by (simp add: q cost b_def u1)
  show ?thesis
  proof (cases "is_ok r \<and> cost > 0")
    case True
    then have "can_withdraw b cost now rule"
      using quota_step_granted [of u1 c cost rule now u2] ran(6) by (simp add: q cost b_def u1)
    with True u2 show ?thesis
      by (simp add: out_def ran(8) commit_bucket q cost)
  next
    case False
    with u2 show ?thesis
      by (auto simp: out_def ran(8) commit_bucket q cost word_gt_0)
  qed
qed (auto simp: out_def rate_step_fst_quota)

interpretation quota_meter: metered serve "\<lambda>s. fmlookup (u_quota (fst s)) (to_hex c)" "spent c" op_now
  "under_quota c rule" rule
  for c rule
proof unfold_locales
  fix op :: "('n, 's) op" and s :: "Usage \<times> 'n"
  let ?b = "held_or_full rule (op_now op) (fmlookup (u_quota (fst s)) (to_hex c))"
  assume lawful: "under_quota c rule op"
  show "spent c op s = 0 \<and> fmlookup (u_quota (fst (serve op s))) (to_hex c) \<in>
      {fmlookup (u_quota (fst s)) (to_hex c), Some ?b} \<or>
    (\<exists>cost. spent c op s = unat cost \<and> can_withdraw ?b cost (op_now op) rule \<and>
       fmlookup (u_quota (fst (serve op s))) (to_hex c) = Some (fst (withdraw ?b cost (op_now op) rule)))"
  proof (cases "op_controller op = c")
    case True
    with lawful have "case resolve (op_grants op) c of Inl _ \<Rightarrow> True
        | Inr grant \<Rightarrow> quota (vg_profile grant) = Some rule"
      by (simp add: under_quota_def)
    from handle_quota_own [OF this, where h = "op_handler op" and m = "op_method op" and params = "op_params op"
        and rid = "op_request_id op" and n = "snd s" and now = "op_now op" and u = "fst s"]
    show ?thesis
      using True by (auto simp: spent_def serve_def handle_op_def quoted_def)
  next
    case False
    then show ?thesis
      by (simp add: spent_def serve_def handle_op_def handle_quota_other)
  qed
qed

text \<open>The rate table under the pipeline: nothing after step 5a moves it.\<close>

lemma handle_rate:
  "u_rate (fst (snd (handle h g c rid m params now u n))) =
     (if implements h (method_as_str m) \<and> is_ok (validate h m params)
      then (case authorize h g c (method_as_str m) of
              Inl _ \<Rightarrow> u_rate u
            | Inr (_, rule) \<Rightarrow> u_rate (snd (rate_step u c (method_as_str m) rule now)))
      else u_rate u)"
  by (cases rule: handle_cases [of h m g c rid params now u n]) (auto simp: quota_step_fst_rate)

lemma rate_step_None: "rate_step u c name None now = (True, u)"
  by (simp add: rate_step_def)

lemma rate_step_Some:
  "rate_step u c name (Some r) now =
     (if fst (rate_allows u c name r now)
      then (True, snd (charge_rate (snd (rate_allows u c name r now)) c name r now))
      else (False, snd (rate_allows u c name r now)))"
  by (cases "rate_allows u c name r now") (simp add: rate_step_def split: bool.split)

lemma rate_step_bucket:
  "fmlookup (u_rate (snd (rate_step u c name rule now))) (to_hex c', name') =
     (case rule of
        Some r \<Rightarrow>
          (let b = held_or_full r now (fmlookup (u_rate u) (to_hex c, name))
           in if c' = c \<and> name' = name
              then Some (if can_withdraw b 1 now r then fst (withdraw b 1 now r) else b)
              else fmlookup (u_rate u) (to_hex c', name'))
      | None \<Rightarrow> fmlookup (u_rate u) (to_hex c', name'))"
  "fst (rate_step u c name rule now) =
     (case rule of
        Some r \<Rightarrow> can_withdraw (held_or_full r now (fmlookup (u_rate u) (to_hex c, name))) 1 now r
      | None \<Rightarrow> True)"
  by (cases rule; auto simp: rate_step_None rate_step_Some rate_bucket_after allowed_iff Let_def)+

lemma handle_rate_other:
  assumes "(c', name') \<noteq> (c, method_as_str m)"
  shows "fmlookup (u_rate (fst (snd (handle h g c rid m params now u n)))) (to_hex c', name') =
    fmlookup (u_rate u) (to_hex c', name')"
  using assms by (auto simp: handle_rate rate_step_bucket Let_def split: sum.split prod.split option.split)

interpretation rate_meter: metered serve "\<lambda>s. fmlookup (u_rate (fst s)) (to_hex c, name)" "reached c name"
  op_now "under_rate c name rule" rule
  for c name rule
proof unfold_locales
  fix op :: "('n, 's) op" and s :: "Usage \<times> 'n"
  let ?b = "held_or_full rule (op_now op) (fmlookup (u_rate (fst s)) (to_hex c, name))"
  assume lawful: "under_rate c name rule op"
  show "reached c name op s = 0 \<and> fmlookup (u_rate (fst (serve op s))) (to_hex c, name) \<in>
      {fmlookup (u_rate (fst s)) (to_hex c, name), Some ?b} \<or>
    (\<exists>cost. reached c name op s = unat cost \<and> can_withdraw ?b cost (op_now op) rule \<and>
       fmlookup (u_rate (fst (serve op s))) (to_hex c, name) = Some (fst (withdraw ?b cost (op_now op) rule)))"
  proof (cases "op_controller op = c \<and> method_as_str (op_method op) = name")
    case True
    then have "authorize (op_handler op) (op_grants op) c name = Inr (profile, r) \<Longrightarrow> r = Some rule" for profile r
      using lawful by (auto simp: under_rate_def)
    with True show ?thesis
      by (cases "can_withdraw ?b 1 (op_now op) rule")
        (auto simp: reached_def reaches_node_def serve_def handle_op_def handle_rate rate_step_bucket Let_def
          intro: exI [of _ 1] split: sum.split)
  next
    case False
    then show ?thesis
      by (auto simp: reached_def serve_def handle_op_def handle_rate_other)
  qed
qed

section \<open>Step 4 against step 6\<close>

lemma dispatch_arm_simps:
  "check_params de params = Inl e \<Longrightarrow> dispatch_arm de call en params caller n = (Inl e, n)"
  "is_ok (check_params de params) \<Longrightarrow>
     dispatch_arm de (default_method name) en params caller n = (Inl (not_implemented name), n)"
  by (auto simp: check_params_def dispatch_arm_def default_method_def split: option.splits)

lemma dispatch_control_invalid:
  "validate_control m params = Inl e \<Longrightarrow> dispatch_control svc m params caller n = (Inl e, n)"
  by (cases m) (auto simp: validate_control_def dispatch_control_def dispatch_arm_simps)

lemma dispatch_wallet_invalid:
  "validate_wallet m params = Inl e \<Longrightarrow> dispatch_wallet svc m params caller n = (Inl e, n)"
  by (cases m) (auto simp: validate_wallet_def dispatch_wallet_def dispatch_arm_simps)

text \<open>What the two traits answer by default: the method's own \<open>NOT_IMPLEMENTED\<close>, on well-formed parameters.\<close>

lemma dispatch_control_default:
  "is_ok (validate_control m params) \<Longrightarrow>
     dispatch_control (control_defaults names) m params caller n = (Inl (not_implemented (method_as_str m)), n)"
  by (cases m) (auto simp: validate_control_def dispatch_control_def dispatch_arm_simps control_defaults_def)

lemma dispatch_wallet_default:
  "is_ok (validate_wallet m params) \<Longrightarrow>
     dispatch_wallet (wallet_defaults names) m params caller n =
       (Inl (not_implemented (wallet_method_as_str m)), n)"
  by (cases m) (auto simp: validate_wallet_def dispatch_wallet_def dispatch_arm_simps wallet_defaults_def)

lemma execute_invalid:
  "validate h m params = Inl e \<Longrightarrow> execute h m params caller n = (Inl e, n)"
  by (cases h) (simp_all add: validate_def execute_def dispatch_control_invalid dispatch_wallet_invalid)

text \<open>An answer of either dispatcher is a well-formed value and never \<open>null\<close>.\<close>

lemma norm_value_null: "norm_value v = JNull \<longleftrightarrow> v = JNull"
  by (cases v) simp_all

lemma dispatch_arm_value:
  "(\<And>r. en r \<noteq> JNull) \<Longrightarrow> fst (dispatch_arm de call en params caller n) = Inr v \<Longrightarrow> value_wf v \<and> v \<noteq> JNull"
  by (auto simp: dispatch_arm_def to_value_def value_wf_norm_value norm_value_null
      split: option.splits prod.splits sum.splits)

lemma execute_value: "fst (execute h m params caller n) = Inr v \<Longrightarrow> value_wf v \<and> v \<noteq> JNull"
proof -
  have "fst (dispatch_control svc m params caller n) = Inr v \<Longrightarrow> value_wf v \<and> v \<noteq> JNull" for svc
    by (cases m) (auto simp: dispatch_control_def codec_simps dest!: dispatch_arm_value [rotated])
  moreover have "fst (dispatch_wallet svc wm params caller n) = Inr v \<Longrightarrow> value_wf v \<and> v \<noteq> JNull" for svc wm
    by (cases wm) (auto simp: dispatch_wallet_def codec_simps dest!: dispatch_arm_value [rotated])
  ultimately show "fst (execute h m params caller n) = Inr v \<Longrightarrow> value_wf v \<and> v \<noteq> JNull"
    by (cases h) (simp_all add: execute_def)
qed

lemma handle_value:
  "fst (handle h g c rid m params now u n) = Inr v \<Longrightarrow> value_wf v \<and> v \<noteq> JNull"
  by (cases rule: handle_cases [of h m g c rid params now u n])
    (auto dest: execute_value [of h m params _ _ v, OF arg_cong [of _ _ fst, THEN trans]])

text \<open>No request type reads from \<open>null\<close>.\<close>

lemma check_params_null: "de JNull = None \<Longrightarrow> check_params de JNull = Inl (serde_failure EC_Other ''bad params'')"
  by (simp add: check_params_def)

lemmas request_defs =
  de_ListChannelsRequest_def de_OpenChannelRequest_def de_CloseChannelRequest_def
  de_ListPeersRequest_def de_ConnectPeerRequest_def de_DisconnectPeerRequest_def
  de_GetChannelFeesRequest_def de_SetChannelFeesRequest_def de_GetForwardingHistoryRequest_def
  de_GetPendingHtlcsRequest_def de_QueryRoutesRequest_def de_ListNetworkNodesRequest_def
  de_GetNetworkStatsRequest_def de_GetNetworkNodeRequest_def de_GetNetworkChannelRequest_def
  de_SignMessageRequest_def de_PayInvoiceRequest_def de_MakeInvoiceRequest_def
  de_LookupInvoiceRequest_def de_GetBalanceRequest_def de_GetInfoRequest_def
  de_PayOnchainRequest_def de_MakeHoldInvoiceRequest_def de_SettleHoldInvoiceRequest_def
  de_CancelHoldInvoiceRequest_def de_QuotePaymentRequest_def de_PayKeysendRequest_def
  de_ListTransactionsRequest_def de_MakeNewAddressRequest_def de_LookupAddressRequest_def
  de_ListAddressesRequest_def de_EstimateOnchainFeesRequest_def de_ListInvoicesRequest_def
  de_PayRequest_def de_ReceiveRequest_def de_MakeOfferRequest_def de_LookupPaymentRequest_def
  de_PayOfferRequest_def de_ListOffersRequest_def de_DisableOfferRequest_def

lemma validate_null: "\<not> is_ok (validate h m JNull)"
proof -
  have "\<not> is_ok (validate_control m JNull)"
    by (cases m) (simp_all add: validate_control_def check_params_null request_defs struct_not_object)
  moreover have "\<not> is_ok (validate_wallet m' JNull)" for m'
    by (cases m') (simp_all add: validate_wallet_def check_params_null request_defs struct_not_object)
  ultimately show ?thesis
    by (cases h) (simp_all add: validate_def)
qed

section \<open>What a caller's ledgers read afterwards\<close>

lemma left_held:
  "quota_left u c rule now = balance_at (held_or_full rule now (fmlookup (u_quota u) (to_hex c))) now rule"
  "rate_left u (c, name) rule now =
     balance_at (held_or_full rule now (fmlookup (u_rate u) (to_hex c, name))) now rule"
  by (simp_all add: quota_left_def rate_left_def held_or_full_def)

lemma rate_step_left:
  "1 \<le> rate_left u (c, name) rule now \<Longrightarrow>
     \<exists>u1. rate_step u c name (Some rule) now = (True, u1) \<and>
       rate_left u1 (c, name) rule now = rate_left u (c, name) rule now - 1 \<and> u_quota u1 = u_quota u"
  using rate_limit.allows_iff [of u "(c, name)" rule now]
    rate_limit.check_then_charge [of u "(c, name)" rule now]
  by (simp add: rate_step_Some)

lemma quota_step_left:
  "cost \<le> quota_left u c rule now \<Longrightarrow>
     \<exists>u1. quota_step u c cost (Some rule) now = (True, u1) \<and> u_rate u1 = u_rate u \<and>
       quota_left u1 c rule now = quota_left u c rule now \<and>
       quota_left (commit u1 c cost (Some rule) now) c rule now = quota_left u c rule now - cost"
  using quota_limit.allows_iff [of u c cost rule now] quota_limit.allows_left [of c c rule rule u cost now]
    quota_limit.check_then_charge [of u c cost rule now]
    quota_ops_rate(1) [of u c cost rule now]
  by (cases "quota_allows u c cost rule now")
    (auto simp: quota_step_def commit_def word_gt_0 simp del: quota_ops_rate)

lemma quota_step_refuses:
  "quota_left u c rule now < cost \<Longrightarrow>
     \<exists>u1. quota_step u c cost (Some rule) now = (False, u1) \<and> u_rate u1 = u_rate u \<and>
       quota_left u1 c rule now = quota_left u c rule now"
  using quota_limit.allows_iff [of u c cost rule now] quota_limit.allows_left [of c c rule rule u cost now]
    quota_ops_rate(1) [of u c cost rule now]
  by (cases "quota_allows u c cost rule now")
    (auto simp: quota_step_def word_gt_0 simp del: quota_ops_rate)

lemma handle_entitled:
  assumes "implements h (method_as_str m)"
    and "authorize h g c (method_as_str m) = Inr (profile, Some rule)"
    and "validate h m params = Inr ()"
    and "1 \<le> rate_left u (c, method_as_str m) rule now"
    and "prepare h (method_as_str m) params \<lparr>caller_controller = c, caller_request_id = rid\<rparr> n = (Inr p, n1)"
    and "quota profile = Some q" "cost_sats p \<le> quota_left u c q now"
    and "execute h m params \<lparr>caller_controller = c, caller_request_id = rid\<rparr> n1 = (r, n2)"
  shows "\<exists>u'. handle h g c rid m params now u n = (r, u', n2) \<and>
    rate_left u' (c, method_as_str m) rule now = rate_left u (c, method_as_str m) rule now - 1 \<and>
    quota_left u' c q now = quota_left u c q now - (if is_ok r then cost_sats p else 0)"
proof -
  obtain u1 where u1: "rate_step u c (method_as_str m) (Some rule) now = (True, u1)"
      "rate_left u1 (c, method_as_str m) rule now = rate_left u (c, method_as_str m) rule now - 1"
      "u_quota u1 = u_quota u"
    using rate_step_left [OF assms(4)] by blast
  note q1 = quota_left_cong [OF u1(3)]
  obtain u2 where u2: "quota_step u1 c (cost_sats p) (Some q) now = (True, u2)" "u_rate u2 = u_rate u1"
      "quota_left u2 c q now = quota_left u c q now"
      "quota_left (commit u2 c (cost_sats p) (Some q) now) c q now = quota_left u c q now - cost_sats p"
    using quota_step_left [of "cost_sats p" u1 c q now] assms(7) by (auto simp: q1)
  have "rate_left u' (c, method_as_str m) rule now = rate_left u (c, method_as_str m) rule now - 1"
    if "u_rate u' = u_rate u1" for u'
    using u1(2) rate_left_cong [OF that] by simp
  with u1(1) u2 assms show ?thesis
    by (cases r) (simp_all add: handle_def Let_def)
qed

lemma authorized_profile:
  assumes "authorize h g c name = Inr (profile, rule)"
  shows "\<exists>grant. resolve g c = Inr grant \<and> vg_profile grant = profile \<and> profile_is_valid profile \<and>
    permits (case handler_protocol h of Wallet \<Rightarrow> methods profile | Control \<Rightarrow> control profile) name"
proof -
  from assms obtain grant where "resolve g c = Inr grant" "vg_profile grant = profile"
    by (blast dest: authorize_resolve)
  with assms have "is_ok (case handler_protocol h of
      Wallet \<Rightarrow> allows_wallet profile name | Control \<Rightarrow> allows_control profile name)"
    by (auto simp: authorize_def Let_def is_ok_def split: sum.splits)
  then show ?thesis
    using \<open>resolve g c = Inr grant\<close> \<open>vg_profile grant = profile\<close>
    by (auto simp: allows_wallet_ok allows_control_ok split: Protocol.splits)
qed

lemma reaches_node_profile:
  "reaches_node op u \<Longrightarrow> \<exists>profile rule.
     authorize (op_handler op) (op_grants op) (op_controller op) (method_as_str (op_method op)) =
       Inr (profile, rule)"
  by (auto simp: reaches_node_def split: sum.splits)

lemma not_reached:
  assumes "\<not> reaches_node op u"
  shows "snd (snd (handle_op op (u, n))) = n \<and> \<not> is_ok (fst (handle_op op (u, n))) \<and>
    u_quota (fst (snd (handle_op op (u, n)))) = u_quota u"
  by (cases rule: handle_cases [of "op_handler op" "op_method op" "op_grants op" "op_controller op"
        "op_request_id op" "op_params op" "op_now op" u n])
    (use assms in \<open>auto simp: handle_op_def reaches_node_def rate_step_fst_quota\<close>)

lemma traces_are_permitted:
  fixes op :: "('n, 's) op"
  assumes "is_ok (fst (handle_op op (u, n))) \<or> snd (snd (handle_op op (u, n))) \<noteq> n \<or>
    u_quota (fst (snd (handle_op op (u, n)))) \<noteq> u_quota u"
  shows "method_as_str (op_method op) \<in> set (handler_methods (op_handler op)) \<and>
    is_ok (validate (op_handler op) (op_method op) (op_params op)) \<and> reaches_node op u \<and>
    (\<exists>grant. resolve (op_grants op) (op_controller op) = Inr grant \<and> profile_is_valid (vg_profile grant) \<and>
       permits (case handler_protocol (op_handler op) of
           Wallet \<Rightarrow> methods (vg_profile grant) | Control \<Rightarrow> control (vg_profile grant))
         (method_as_str (op_method op)))"
proof -
  from assms not_reached [of op u n] have r: "reaches_node op u" by blast
  then obtain profile rule where
    "authorize (op_handler op) (op_grants op) (op_controller op) (method_as_str (op_method op)) =
       Inr (profile, rule)"
    by (blast dest: reaches_node_profile)
  from authorized_profile [OF this] r show ?thesis
    by (auto simp: reaches_node_def implements_def)
qed

text \<open>Leaving the selection out of what a node prepares.\<close>

definition forget :: "('s Prepared, NncError) result \<times> 'n \<Rightarrow> ('s Prepared, NncError) result \<times> 'n" where
  "forget out = (case out of (Inr p, n) \<Rightarrow> (Inr (p\<lparr>selection := None\<rparr>), n) | (Inl e, n) \<Rightarrow> (Inl e, n))"

definition forget_selection :: "('n, 's) Handler \<Rightarrow> ('n, 's) Handler" where
  "forget_selection h =
     (case h of
        HWallet s \<Rightarrow> HWallet (s\<lparr>ws_prepare := \<lambda>n name p c. forget (ws_prepare s n name p c)\<rparr>)
      | HControl s \<Rightarrow> HControl (s\<lparr>cs_prepare := \<lambda>n name p c. forget (cs_prepare s n name p c)\<rparr>))"

lemma forget_selection_simps [simp]:
  "handler_protocol (forget_selection h) = handler_protocol h"
  "handler_methods (forget_selection h) = handler_methods h"
  by (cases h; simp add: forget_selection_def)+

lemma prepare_forget_selection:
  "prepare (forget_selection h) name params caller n = forget (prepare h name params caller n)"
  by (cases h) (simp_all add: forget_selection_def prepare_def)

lemma forget_selection_steps:
  "implements (forget_selection h) name = implements h name"
  "authorize (forget_selection h) g c name = authorize h g c name"
  "validate (forget_selection h) m params = validate h m params"
  unfolding implements_def authorize_def validate_def forget_selection_simps by (rule refl)+

lemma dispatch_prepare:
  "dispatch_wallet (s\<lparr>ws_prepare := f\<rparr>) wm params caller n = dispatch_wallet s wm params caller n"
  "dispatch_control (s'\<lparr>cs_prepare := f'\<rparr>) m params caller n = dispatch_control s' m params caller n"
  by (cases wm; simp add: dispatch_wallet_def) (cases m; simp add: dispatch_control_def)

lemma execute_forget_selection: "execute (forget_selection h) m params caller n = execute h m params caller n"
  by (cases h) (simp_all add: forget_selection_def execute_def dispatch_prepare)

lemma handle_op_value: "fst (handle_op op s) = Inr v \<Longrightarrow> value_wf v \<and> v \<noteq> JNull"
  unfolding handle_op_def by (rule handle_value)

section \<open>A small wallet, for the witnesses\<close>

text \<open>It serves \<open>get_balance\<close>, quotes 4 sats for it and counts its calls; controller 7 may call it twice and
  spend 10 sats.\<close>

definition demo_wallet :: "(nat, unit) WalletService" where
  "demo_wallet = (wallet_defaults [''get_balance''])
     \<lparr>ws_get_balance := \<lambda>n _ _. (Inr \<lparr>get_balance_rs_balance = 100, get_balance_rs_lightning_balance = None,
        get_balance_rs_onchain_balance_sats = None\<rparr>, n + 1),
      ws_prepare := \<lambda>n _ _ _. (Inr (prepared_new 4 ()), n)\<rparr>"

definition demo_rule :: "u64 \<Rightarrow> RateLimitRule" where
  "demo_rule cap = \<lparr>amount = 0, per_secs = 1, max_capacity = cap\<rparr>"

definition demo_profile :: UsageProfile where
  "demo_profile = \<lparr>methods = Some (fmupd ''get_balance'' \<lparr>rate = Some (demo_rule 2)\<rparr> fmempty),
     control = None, notifications = None, quota = Some (demo_rule 10)\<rparr>"

definition demo_grants :: Grants where
  "demo_grants = \<lparr>g_node = Some 1, g_owners = [2], g_by_controller =
     fmupd (to_hex 7) \<lparr>vg_profile = demo_profile, vg_created_at = 1, vg_owner = 2\<rparr> fmempty, g_others = None\<rparr>"

definition demo_op :: "u64 \<Rightarrow> (nat, unit) op" where
  "demo_op now = \<lparr>op_handler = HWallet demo_wallet, op_grants = demo_grants, op_controller = 7,
     op_request_id = None, op_method = UnknownMethod ''get_balance'', op_params = JObj [], op_now = now\<rparr>"

lemma demo_resolve: "resolve demo_grants 7 = Inr \<lparr>vg_profile = demo_profile, vg_created_at = 1, vg_owner = 2\<rparr>"
  by (simp add: resolve_def demo_grants_def)

lemma demo_authorize:
  "authorize (HWallet demo_wallet) demo_grants 7 ''get_balance'' = Inr (demo_profile, Some (demo_rule 2))"
  by (simp add: authorize_def demo_resolve allows_wallet_def guard_def profile_is_valid_def rules_ok_def
      demo_profile_def demo_rule_def rule_is_valid_def lookup_def fmpred_iff)

lemma demo_steps:
  "implements (HWallet demo_wallet) ''get_balance''"
  "validate (HWallet demo_wallet) (UnknownMethod ''get_balance'') (JObj []) = Inr ()"
  "prepare (HWallet demo_wallet) ''get_balance'' (JObj []) caller n = (Inr (prepared_new 4 ()), n)"
  by (simp_all add: implements_def validate_def prepare_def demo_wallet_def wallet_defaults_def
      wallet_method_from_str_def validate_wallet_def check_params_def de_GetBalanceRequest_def
      struct_entries_def)

lemma demo_left:
  "rate_left usage_new (7, ''get_balance'') (demo_rule 2) now = 2"
  "quota_left usage_new 7 (demo_rule 10) now = 10"
  by (simp_all add: left_held usage_new_def held_or_full_def balance_at_full demo_rule_def rule_is_valid_def)

lemma demo_under:
  "under_quota 7 (demo_rule 10) (demo_op t)" "under_rate 7 ''get_balance'' (demo_rule 2) (demo_op t)"
  by (simp_all add: under_quota_def under_rate_def demo_op_def demo_resolve demo_authorize demo_profile_def)

lemma demo_execute:
  "execute (HWallet demo_wallet) (UnknownMethod ''get_balance'') (JObj []) caller n =
     (Inr (to_value en_GetBalanceResponse \<lparr>get_balance_rs_balance = 100,
        get_balance_rs_lightning_balance = None, get_balance_rs_onchain_balance_sats = None\<rparr>), n + 1)"
  by (simp add: execute_def demo_wallet_def wallet_defaults_def wallet_method_from_str_def dispatch_wallet_def
      dispatch_arm_def de_GetBalanceRequest_def struct_entries_def)

lemma demo_ok: "is_ok (fst (handle_op (demo_op 100) (usage_new, 0)))"
  using handle_entitled [of "HWallet demo_wallet" "UnknownMethod ''get_balance''" demo_grants 7 demo_profile
      "demo_rule 2" "JObj []" usage_new 100 None 0 "prepared_new 4 ()" 0 "demo_rule 10"]
  by (auto simp: demo_steps demo_authorize demo_left demo_execute prepared_new_def handle_op_def demo_op_def
      demo_profile_def)

section \<open>Properties\<close>

text \<open>C2: money. However requests of both protocols and of all controllers interleave, and whatever the
  node does on them, the quoted cost of everything that succeeded for one controller stays within its
  quota's ceiling and the refill of the run's duration, as long as its grant keeps that quota and the clock
  does not go back.\<close>

theorem quota_bounds_spending:
  assumes "list_all (under_quota c rule) ops" "fmlookup (u_quota u) (to_hex c) = None"
    and "sorted (map (\<lambda>op. unat (op_now op)) ops)" "ops \<noteq> []"
  shows "run_total serve (spent c) ops (u, n) \<le> unat (max_capacity rule) +
    unat (amount rule) * (unat (op_now (last ops)) - unat (op_now (hd ops))) div unat (per_secs rule)"
  using quota_meter.run_bound [of c rule ops "(u, n)"] assms by (simp add: refill_def)

theorem quota_bounds_spending_witness:
  "run_total serve (spent 7) [demo_op 100, demo_op 101, demo_op 102] (usage_new, 0) \<le> 10"
  using quota_bounds_spending [of 7 "demo_rule 10" "[demo_op 100, demo_op 101, demo_op 102]" usage_new 0]
  by (simp add: demo_under usage_new_def) (simp add: demo_op_def demo_rule_def)

text \<open>C3: nothing runs unauthorized. If a request succeeds, or leaves any trace in the node's state, then the
  method is one the handler declares, a grant applies to the controller, its whole profile is valid and the
  map of the request's own protocol permits the method, the parameters are well formed, and the rate rule
  had a call left. A request that does not get that far leaves the node and every quota as they were.\<close>

theorem nothing_runs_unauthorized:
  fixes op :: "('n, 's) op"
  assumes "is_ok (fst (handle_op op (u, n))) \<or> snd (snd (handle_op op (u, n))) \<noteq> n \<or>
    u_quota (fst (snd (handle_op op (u, n)))) \<noteq> u_quota u"
  shows "method_as_str (op_method op) \<in> set (handler_methods (op_handler op)) \<and>
    is_ok (validate (op_handler op) (op_method op) (op_params op)) \<and> reaches_node op u \<and>
    (\<exists>grant. resolve (op_grants op) (op_controller op) = Inr grant \<and> profile_is_valid (vg_profile grant) \<and>
       permits (case handler_protocol (op_handler op) of
           Wallet \<Rightarrow> methods (vg_profile grant) | Control \<Rightarrow> control (vg_profile grant))
         (method_as_str (op_method op)))"
  using assms by (rule traces_are_permitted)

theorem nothing_runs_unauthorized_witness:
  "is_ok (fst (handle_op (demo_op 100) (usage_new, 0))) \<and> reaches_node (demo_op 100) usage_new"
proof -
  have "is_ok (fst (handle_op (demo_op 100) (usage_new, 0)))" by (rule demo_ok)
  then show ?thesis
    using nothing_runs_unauthorized [of "demo_op 100" usage_new 0] by blast
qed

text \<open>C29: a caller without a grant for the method learns nothing: the answer, like everything else, is the
  same whatever parameters are sent, whatever the time and whatever state the node is in.\<close>

theorem unauthorized_learns_nothing:
  assumes "authorize h g c (method_as_str m) = Inl d"
  shows "fst (handle h g c rid m params now u n) = fst (handle h g c rid' m params' now' u' n') \<and>
    snd (handle h g c rid m params now u n) = (u, n)"
  using assms by (simp add: handle_def Let_def)

theorem unauthorized_learns_nothing_witness:
  "fst (handle (HWallet demo_wallet) demo_grants 8 None (UnknownMethod ''get_balance'') (JObj []) 100 usage_new 0) =
   fst (handle (HWallet demo_wallet) demo_grants 8 None (UnknownMethod ''get_balance'') JNull 900 usage_new 5)"
proof -
  have "resolve demo_grants 8 = Inl Unauthorized"
    by (simp add: resolve_def demo_grants_def to_hex_inject)
  then have "authorize (HWallet demo_wallet) demo_grants 8 (method_as_str (UnknownMethod ''get_balance'')) =
      Inl Unauthorized"
    by (simp add: authorize_def)
  then show ?thesis by (rule unauthorized_learns_nothing [THEN conjunct1])
qed

text \<open>C6: a request entitled to run does run, and what it is charged is settled: the answer is the node's,
  one call is taken from the rate whatever that answer is, and the quota loses exactly the quoted cost if
  the answer is a success and nothing otherwise.\<close>

theorem entitled_request_runs:
  assumes "implements h (method_as_str m)"
    and "authorize h g c (method_as_str m) = Inr (profile, Some rule)"
    and "validate h m params = Inr ()"
    and "1 \<le> rate_left u (c, method_as_str m) rule now"
    and "prepare h (method_as_str m) params \<lparr>caller_controller = c, caller_request_id = rid\<rparr> n = (Inr p, n1)"
    and "quota profile = Some q" "cost_sats p \<le> quota_left u c q now"
    and "execute h m params \<lparr>caller_controller = c, caller_request_id = rid\<rparr> n1 = (r, n2)"
  shows "\<exists>u'. handle h g c rid m params now u n = (r, u', n2) \<and>
    rate_left u' (c, method_as_str m) rule now = rate_left u (c, method_as_str m) rule now - 1 \<and>
    quota_left u' c q now = quota_left u c q now - (if is_ok r then cost_sats p else 0)"
  using assms by (rule handle_entitled)

theorem entitled_request_runs_witness:
  "\<exists>u'. snd (handle (HWallet demo_wallet) demo_grants 7 None (UnknownMethod ''get_balance'') (JObj []) 100
       usage_new 0) = (u', 1) \<and>
     rate_left u' (7, ''get_balance'') (demo_rule 2) 100 = 1 \<and> quota_left u' 7 (demo_rule 10) 100 = 6"
  using entitled_request_runs [of "HWallet demo_wallet" "UnknownMethod ''get_balance''" demo_grants 7 demo_profile
      "demo_rule 2" "JObj []" usage_new 100 None 0 "prepared_new 4 ()" 0 "demo_rule 10"]
  by (auto simp: demo_steps demo_authorize demo_left demo_execute prepared_new_def demo_profile_def)

text \<open>A request whose quoted cost is more than the quota has left is answered \<open>QUOTA_EXCEEDED\<close> and never
  executed: the node is left as its own \<open>prepare\<close> left it. Its rate is charged all the same, its quota is
  not.\<close>

lemma handle_over_quota:
  assumes "implements h (method_as_str m)"
    and "authorize h g c (method_as_str m) = Inr (profile, Some rule)"
    and "validate h m params = Inr ()"
    and "1 \<le> rate_left u (c, method_as_str m) rule now"
    and "prepare h (method_as_str m) params \<lparr>caller_controller = c, caller_request_id = rid\<rparr> n = (Inr p, n1)"
    and "quota profile = Some q" "quota_left u c q now < cost_sats p"
  shows "\<exists>u'. handle h g c rid m params now u n = (Inl (quota_exceeded (cost_sats p)), u', n1) \<and>
    rate_left u' (c, method_as_str m) rule now = rate_left u (c, method_as_str m) rule now - 1 \<and>
    quota_left u' c q now = quota_left u c q now"
proof -
  obtain u1 where u1: "rate_step u c (method_as_str m) (Some rule) now = (True, u1)"
      "rate_left u1 (c, method_as_str m) rule now = rate_left u (c, method_as_str m) rule now - 1"
      "u_quota u1 = u_quota u"
    using rate_step_left [OF assms(4)] by blast
  note q1 = quota_left_cong [OF u1(3)]
  obtain u2 where u2: "quota_step u1 c (cost_sats p) (Some q) now = (False, u2)" "u_rate u2 = u_rate u1"
      "quota_left u2 c q now = quota_left u c q now"
    using quota_step_refuses [of u1 c q now "cost_sats p"] assms(7) by (auto simp: q1)
  with u1 assms show ?thesis
    using rate_left_cong [OF u2(2)] by (simp add: handle_def Let_def)
qed

text \<open>C27: one controller's requests never touch another's allowances, nor its own for other methods: what
  every other controller may still spend and call, at any time and under any rule, is as it was.\<close>

theorem allowances_are_private:
  "(c' \<noteq> c \<longrightarrow>
      quota_left (fst (snd (handle h g c rid m params now u n))) c' r t = quota_left u c' r t) \<and>
   ((c', name') \<noteq> (c, method_as_str m) \<longrightarrow>
      rate_left (fst (snd (handle h g c rid m params now u n))) (c', name') r t = rate_left u (c', name') r t)"
  by (simp only: left_held) (simp add: handle_quota_other handle_rate_other)

theorem allowances_are_private_witness:
  "quota_left (fst (snd (handle (HWallet demo_wallet) demo_grants 7 None (UnknownMethod ''get_balance'')
      (JObj []) 100 usage_new 0))) 8 (demo_rule 10) 200 = quota_left usage_new 8 (demo_rule 10) 200"
  using allowances_are_private [of 8 7 "HWallet demo_wallet" demo_grants None "UnknownMethod ''get_balance''"
      "JObj []" 100 usage_new 0 "demo_rule 10" 200 "[]"] by simp

text \<open>A request that leaves \<open>params\<close> out is refused for every method of both protocols, those that take
  no parameters included: the envelope's default is \<open>null\<close>, which no request type reads.\<close>

lemma missing_params_always_refused:
  "map_option rq_params (de_Request (JObj [(''method'', JStr name)])) = Some JNull \<and>
   \<not> is_ok (fst (handle h g c rid (method_from_str name) JNull now u n)) \<and>
   snd (snd (handle h g c rid (method_from_str name) JNull now u n)) = n"
proof -
  have "de_Request (JObj [(''method'', JStr name)]) =
      Some \<lparr>rq_method = method_from_str name, rq_params = JNull\<rparr>"
    by (simp add: de_Request_def struct_entries_def req_def dflt_def de_string_def)
  moreover have "\<not> is_ok (fst (handle h g c rid m JNull now u n)) \<and>
      snd (snd (handle h g c rid m JNull now u n)) = n" for m
    by (cases rule: handle_cases [of h m g c rid JNull now u n]) (use validate_null [of h m] in auto)
  ultimately show ?thesis by simp
qed

text \<open>The selection a node makes in \<open>prepare\<close> reaches nothing: discarding it changes no answer, no table
  and no node state. What \<open>execute\<close> runs is chosen again from the parameters; only the quoted cost is
  carried over.\<close>

lemma selection_reaches_nothing:
  "handle (forget_selection h) g c rid m params now u n = handle h g c rid m params now u n"
  by (cases rule: handle_cases [of h m g c rid params now u n])
    (simp_all add: handle_def [of "forget_selection h"] Let_def forget_selection_steps
      prepare_forget_selection execute_forget_selection forget_def split: sum.split)

end
