(* ===== verification/Transport.thy ===== *)
theory Transport
  imports Subscription Pipeline
begin

text \<open>
  \<^verbatim>\<open>src/service/transport.rs\<close>: everything between a relay and a handler, as one state machine. Its state is
  what \<open>run\<close> owns (grants, subscriptions, usage), the mirror the notifier reads, the node's own state and
  the events handed to the relay client so far; its inputs are what \<open>tokio::select!\<close> wakes up for.

  What lies outside is a parameter: \<open>codec\<close> is JSON text in both directions and the wording of library
  errors, the same throughout a run; \<open>env\<close> is what may differ from call to call: the signer's NIP-44, the
  clock, the order a hash map is walked in, and whether the relay client accepts something.
\<close>

section \<open>Kinds\<close>

definition WALLET_INFO_KIND :: u16 where "WALLET_INFO_KIND = 13194"
definition WALLET_REQUEST_KIND :: u16 where "WALLET_REQUEST_KIND = 23194"
definition WALLET_RESPONSE_KIND :: u16 where "WALLET_RESPONSE_KIND = 23195"
definition CONTROL_INFO_KIND :: u16 where "CONTROL_INFO_KIND = 13198"
definition CONTROL_REQUEST_KIND :: u16 where "CONTROL_REQUEST_KIND = 23198"
definition CONTROL_RESPONSE_KIND :: u16 where "CONTROL_RESPONSE_KIND = 23199"
definition NOTIFICATION_KIND :: u16 where "NOTIFICATION_KIND = 23200"
definition WALLET_NOTIFICATION_KIND :: u16 where "WALLET_NOTIFICATION_KIND = 23197"

lemmas kind_defs =
  GRANT_KIND_def SUBSCRIPTION_KIND_def WALLET_INFO_KIND_def WALLET_REQUEST_KIND_def
  WALLET_RESPONSE_KIND_def CONTROL_INFO_KIND_def CONTROL_REQUEST_KIND_def CONTROL_RESPONSE_KIND_def
  NOTIFICATION_KIND_def WALLET_NOTIFICATION_KIND_def

section \<open>What is outside\<close>

record codec =
  parse :: "string \<Rightarrow> Value option"
  print :: "Value \<Rightarrow> string"
  render :: "message \<Rightarrow> string"

record env =
  nip44_encrypt :: "PublicKey \<Rightarrow> string \<Rightarrow> string option"
  nip44_decrypt :: "PublicKey \<Rightarrow> string \<Rightarrow> string option"
  get_public_key :: "PublicKey option"
  send_event_builder :: "EventBuilder \<Rightarrow> bool"
  add_relay :: "string \<Rightarrow> bool"
  client_subscribe :: bool
  clock :: u64
  sub_order :: "(string, Wanted) hashmap \<Rightarrow> string list"

text \<open>\<open>transport::Error\<close>, without the library's wording.\<close>

datatype ServiceError = Relay | Signer

text \<open>An operation that sends returns what it handed to the relay client, in order, and its result.\<close>

type_synonym 'a sending = "EventBuilder list \<times> ('a, ServiceError) result"

definition send :: "env \<Rightarrow> EventBuilder \<Rightarrow> unit sending" where
  "send env eb = ([eb], if send_event_builder env eb then Inr () else Inl Relay)"

section \<open>State\<close>

record Delivery =
  d_grants :: Grants
  d_subs :: Subscriptions

definition delivery_default :: Delivery where
  "delivery_default = \<lparr>d_grants = grants_default, d_subs = subs_default\<rparr>"

record ('n, 's) Service =
  sv_relays :: "string list"
  sv_owners :: "PublicKey list"
  sv_wallet :: "('n, 's) WalletService option"
  sv_control :: "('n, 's) ControlService option"

definition service_new :: "string list \<Rightarrow> PublicKey list \<Rightarrow> ('n, 's) Service" where
  "service_new relays owners =
     \<lparr>sv_relays = relays, sv_owners = owners, sv_wallet = None, sv_control = None\<rparr>"

definition service_wallet :: "('n, 's) WalletService \<Rightarrow> ('n, 's) Service \<Rightarrow> ('n, 's) Service" where
  "service_wallet w sv = sv\<lparr>sv_wallet := Some w\<rparr>"

definition service_control :: "('n, 's) ControlService \<Rightarrow> ('n, 's) Service \<Rightarrow> ('n, 's) Service" where
  "service_control c sv = sv\<lparr>sv_control := Some c\<rparr>"

record 'n State =
  st_grants :: Grants
  st_subs :: Subscriptions
  st_usage :: Usage
  st_delivery :: Delivery
  st_connected :: "string fset"
  st_node :: 'n
  st_sent :: "EventBuilder list"

section \<open>Notifications\<close>

datatype Cause = Command EventId | Subscription | Both EventId

fun cause_request_id :: "Cause \<Rightarrow> EventId option" where
  "cause_request_id (Command i) = Some i"
| "cause_request_id (Both i) = Some i"
| "cause_request_id Subscription = None"

fun is_subscription :: "Cause \<Rightarrow> bool" where
  "is_subscription (Command _) = False"
| "is_subscription Subscription = True"
| "is_subscription (Both _) = True"

text \<open>\<open>Deliverable\<close>: the kind, the wire name and the JSON of a notification of either protocol.\<close>

record Deliverable =
  dl_kind :: u16
  dl_type :: string
  dl_json :: Value

definition deliverable_nnc :: "Notification \<Rightarrow> Deliverable" where
  "deliverable_nnc n =
     \<lparr>dl_kind = NOTIFICATION_KIND, dl_type = notification_as_str (nt_type n), dl_json = en_Notification n\<rparr>"

definition deliverable_nwc :: "WalletNotification \<Rightarrow> Deliverable" where
  "deliverable_nwc n =
     \<lparr>dl_kind = WALLET_NOTIFICATION_KIND, dl_type = wallet_notification_as_str (wn_type n),
      dl_json = en_WalletNotification n\<rparr>"

definition notify :: "codec \<Rightarrow> env \<Rightarrow> PublicKey \<Rightarrow> Deliverable \<Rightarrow> Cause \<Rightarrow> unit sending" where
  "notify codec env to notification cause =
     (case nip44_encrypt env to (print codec (dl_json notification)) of
        None \<Rightarrow> ([], Inl Signer)
      | Some ciphertext \<Rightarrow>
          let tags = tag_public_key to #
            (case cause_request_id cause of Some i \<Rightarrow> [tag_event i] | None \<Rightarrow> [])
          in if is_subscription cause then
               (case get_public_key env of
                  None \<Rightarrow> ([], Inl Signer)
                | Some me \<Rightarrow>
                    send env \<lparr>eb_kind = dl_kind notification, eb_content = ciphertext,
                      eb_tags = tags @ [tag_coordinate SUBSCRIPTION_KIND to (to_hex me)]\<rparr>)
             else send env \<lparr>eb_kind = dl_kind notification, eb_content = ciphertext, eb_tags = tags\<rparr>)"

text \<open>\<open>deliver\<close>: who receives it and why, then one \<open>notify\<close> each; a failed one does not stop the rest.\<close>

definition delivery_list ::
  "env \<Rightarrow> Delivery \<Rightarrow> string \<Rightarrow> (PublicKey \<times> EventId) option \<Rightarrow> (PublicKey \<times> Cause) list" where
  "delivery_list env d ty caller =
     (let subscribers = recipients (sub_order env) (d_subs d) ty (d_grants d);
          first = (case caller of
              Some (who, request_id) \<Rightarrow>
                [(who, if who \<in> set subscribers then Both request_id else Command request_id)]
            | None \<Rightarrow> []);
          rest = map (\<lambda>s. (s, Subscription))
            (filter (\<lambda>s. map_option fst caller \<noteq> Some s) subscribers)
      in first @ rest)"

fun notify_all :: "codec \<Rightarrow> env \<Rightarrow> Deliverable \<Rightarrow> (PublicKey \<times> Cause) list \<Rightarrow> EventBuilder list \<times> nat" where
  "notify_all codec env n [] = ([], 0)"
| "notify_all codec env n ((to, cause) # rest) =
     (let (out, r) = notify codec env to n cause;
          (outs, sent) = notify_all codec env n rest
      in (out @ outs, (if is_ok r then 1 else 0) + sent))"

definition deliver ::
  "codec \<Rightarrow> env \<Rightarrow> Delivery \<Rightarrow> Deliverable \<Rightarrow> (PublicKey \<times> EventId) option \<Rightarrow> EventBuilder list \<times> nat" where
  "deliver codec env d n caller = notify_all codec env n (delivery_list env d (dl_type n) caller)"

definition announce :: "codec \<Rightarrow> env \<Rightarrow> Delivery \<Rightarrow> Deliverable \<Rightarrow> EventBuilder list \<times> nat" where
  "announce codec env d n = deliver codec env d n None"

section \<open>Starting\<close>

text \<open>\<open>names.join(" ")\<close>.\<close>

fun join :: "string \<Rightarrow> string list \<Rightarrow> string" where
  "join sep [] = []"
| "join sep [x] = x"
| "join sep (x # y # xs) = x @ sep @ join sep (y # xs)"

definition wallet_info :: "('n, 's) WalletService \<Rightarrow> EventBuilder" where
  "wallet_info w =
     \<lparr>eb_kind = WALLET_INFO_KIND, eb_content = join '' '' (ws_methods w),
      eb_tags = [''encryption'', ''nip44_v2''] #
        (if ws_notifications w = [] then [] else [[''notifications'', join '' '' (ws_notifications w)]])\<rparr>"

definition control_info :: "('n, 's) ControlService \<Rightarrow> EventBuilder" where
  "control_info c =
     \<lparr>eb_kind = CONTROL_INFO_KIND, eb_content = join '' '' (cs_methods c),
      eb_tags = [[''encryption'', ''nip44_v2'']]\<rparr>"

text \<open>Two sends in sequence, the second only after the first succeeded.\<close>

definition and_then :: "unit sending \<Rightarrow> unit sending \<Rightarrow> unit sending" where
  "and_then a b = (case a of (out, Inl e) \<Rightarrow> (out, Inl e) | (out, Inr _) \<Rightarrow> (out @ fst b, snd b))"

definition publish_info :: "env \<Rightarrow> ('n, 's) Service \<Rightarrow> unit sending" where
  "publish_info env sv =
     and_then (case sv_wallet sv of None \<Rightarrow> ([], Inr ()) | Some w \<Rightarrow> send env (wallet_info w))
       (case sv_control sv of None \<Rightarrow> ([], Inr ()) | Some c \<Rightarrow> send env (control_info c))"

text \<open>The filter \<open>subscribe\<close> asks the relays for: these kinds, tagged to this node.\<close>

definition subscribe_kinds :: "('n, 's) Service \<Rightarrow> u16 list" where
  "subscribe_kinds sv =
     [GRANT_KIND, SUBSCRIPTION_KIND] @
     (if sv_wallet sv \<noteq> None then [WALLET_REQUEST_KIND] else []) @
     (if sv_control sv \<noteq> None then [CONTROL_REQUEST_KIND] else [])"

definition mirror :: "'n State \<Rightarrow> 'n State" where
  "mirror s = s\<lparr>st_delivery := \<lparr>d_grants = st_grants s, d_subs = st_subs s\<rparr>\<rparr>"

definition apply_stored :: "codec \<Rightarrow> env \<Rightarrow> Event \<Rightarrow> 'n State \<Rightarrow> 'n State" where
  "apply_stored codec env event s =
     (if ev_kind event = GRANT_KIND
      then s\<lparr>st_grants := snd (apply_grant (parse codec) event (st_grants s))\<rparr>
      else s\<lparr>st_subs := snd (apply_sub (nip44_decrypt env) (parse codec) event (st_grants s) (st_subs s))\<rparr>)"

text \<open>\<open>refresh\<close>, on what the relays returned, if anything: oldest first.\<close>

definition refresh :: "codec \<Rightarrow> env \<Rightarrow> Event list option \<Rightarrow> 'n State \<Rightarrow> 'n State" where
  "refresh codec env found s =
     (case found of
        None \<Rightarrow> s
      | Some events \<Rightarrow> fold (apply_stored codec env) (sort_key ev_created_at events) s)"

section \<open>Requests\<close>

definition answer ::
  "codec \<Rightarrow> env \<Rightarrow> ('n, 's) Service \<Rightarrow> Event \<Rightarrow> u16 \<Rightarrow> 'n State \<Rightarrow> Response \<times> 'n State" where
  "answer codec env sv event kind s =
     (case nip44_decrypt env (ev_pubkey event) (ev_content event) of
        None \<Rightarrow>
          (response_err (UnknownMethod [])
             (nnc_error EC_UnsupportedEncryption ''this service speaks NIP-44 only''), s)
      | Some plaintext \<Rightarrow>
          (case Option.bind (parse codec plaintext) de_Request of
             None \<Rightarrow>
               (response_err (UnknownMethod []) (serde_failure EC_Other ''malformed request''), s)
           | Some request \<Rightarrow>
               (case (if kind = WALLET_REQUEST_KIND then map_option HWallet (sv_wallet sv)
                      else map_option HControl (sv_control sv)) of
                  None \<Rightarrow>
                    (response_err (rq_method request) (not_implemented (method_as_str (rq_method request))), s)
                | Some handler \<Rightarrow>
                    (case handle handler (st_grants s) (ev_pubkey event) (Some (ev_id event))
                            (rq_method request) (rq_params request) (clock env) (st_usage s) (st_node s) of
                       (Inr value, usage', n') \<Rightarrow>
                         (response_ok (rq_method request) value, s\<lparr>st_usage := usage', st_node := n'\<rparr>)
                     | (Inl e, usage', n') \<Rightarrow>
                         (response_err (rq_method request) e, s\<lparr>st_usage := usage', st_node := n'\<rparr>)))))"

definition reply :: "codec \<Rightarrow> env \<Rightarrow> Event \<Rightarrow> u16 \<Rightarrow> Response \<Rightarrow> unit sending" where
  "reply codec env request request_kind response =
     (case nip44_encrypt env (ev_pubkey request) (print codec (en_Response (render codec) response)) of
        None \<Rightarrow> ([], Inl Signer)
      | Some ciphertext \<Rightarrow>
          send env \<lparr>eb_kind = (if request_kind = WALLET_REQUEST_KIND then WALLET_RESPONSE_KIND
                               else CONTROL_RESPONSE_KIND),
            eb_content = ciphertext,
            eb_tags = [tag_public_key (ev_pubkey request), tag_event (ev_id request)]\<rparr>)"

definition on_event :: "codec \<Rightarrow> env \<Rightarrow> ('n, 's) Service \<Rightarrow> Event \<Rightarrow> 'n State \<Rightarrow> 'n State" where
  "on_event codec env sv event s =
     (let kind = ev_kind event in
      if kind = GRANT_KIND then
        mirror (s\<lparr>st_grants := snd (apply_grant (parse codec) event (st_grants s))\<rparr>)
      else if kind = SUBSCRIPTION_KIND then
        mirror (s\<lparr>st_subs :=
          snd (apply_sub (nip44_decrypt env) (parse codec) event (st_grants s) (st_subs s))\<rparr>)
      else if kind = WALLET_REQUEST_KIND \<or> kind = CONTROL_REQUEST_KIND then
        (let (response, s') = answer codec env sv event kind s
         in s'\<lparr>st_sent := st_sent s' @ fst (reply codec env event kind response)\<rparr>)
      else s)"

section \<open>The loop\<close>

datatype ClientNotification = NEvent Event | NMessage | NShutdown

text \<open>The relays connected now, of the client's relays with their status.\<close>

definition connected_now :: "('r \<Rightarrow> bool) \<Rightarrow> (string \<times> 'r) list \<Rightarrow> string fset" where
  "connected_now is_connected relays = fset_of_list (map fst (filter (\<lambda>(_, r). is_connected r) relays))"

lemma returned_relays:
  "connected_now is_connected relays |-| before = {||} \<longleftrightarrow>
     (\<forall>(url, r) \<in> set relays. is_connected r \<longrightarrow> url |\<in>| before)"
  by (auto 4 4 simp: connected_now_def fset_of_list.rep_eq fset_eq_iff image_iff)

text \<open>What \<open>select!\<close> takes next: an item of the client's stream, or a tick, with the relays connected at
  that moment and what a fetch returns if one is made.\<close>

datatype input = INotification "ClientNotification option" | ITick "string fset" "Event list option"

fun loop_step :: "codec \<Rightarrow> env \<Rightarrow> ('n, 's) Service \<Rightarrow> input \<Rightarrow> 'n State \<Rightarrow> 'n State option" where
  "loop_step codec env sv (INotification (Some (NEvent event))) s = Some (on_event codec env sv event s)"
| "loop_step codec env sv (INotification (Some NShutdown)) s = None"
| "loop_step codec env sv (INotification None) s = None"
| "loop_step codec env sv (INotification (Some NMessage)) s = Some s"
| "loop_step codec env sv (ITick now_connected found) s =
     (let s' = (if now_connected |-| st_connected s \<noteq> {||}
                then mirror (refresh codec env found s) else s)
      in Some (s'\<lparr>st_connected := now_connected\<rparr>))"

text \<open>\<open>run\<close> up to the loop; \<open>n\<close> is the node's state when it is called.\<close>

definition start ::
  "codec \<Rightarrow> env \<Rightarrow> ('n, 's) Service \<Rightarrow> Event list option \<Rightarrow> string fset \<Rightarrow> 'n \<Rightarrow>
     EventBuilder list \<times> ('n State, ServiceError) result" where
  "start codec env sv found up n =
     (case get_public_key env of
        None \<Rightarrow> ([], Inl Signer)
      | Some me \<Rightarrow>
          if \<not> list_all (add_relay env) (sv_relays sv) then ([], Inl Relay)
          else
            (case publish_info env sv of
               (out, Inl e) \<Rightarrow> (out, Inl e)
             | (out, Inr _) \<Rightarrow>
                 if \<not> client_subscribe env then (out, Inl Relay)
                 else
                   (out, Inr ((mirror (refresh codec env found
                      \<lparr>st_grants = grants_new me (sv_owners sv), st_subs = subs_new me,
                       st_usage = usage_new, st_delivery = delivery_default, st_connected = {||},
                       st_node = n, st_sent = out\<rparr>))\<lparr>st_connected := up\<rparr>))))"

section \<open>Reachable states\<close>

text \<open>A run: a start that succeeds and then steps, each in an environment of its own. The history is the
  events that reached \<open>apply\<close> or \<open>on_event\<close>, in that order.\<close>

fun absorbed :: "'n State \<Rightarrow> input \<Rightarrow> Event list" where
  "absorbed s (INotification (Some (NEvent event))) = [event]"
| "absorbed s (ITick now_connected (Some events)) =
     (if now_connected |-| st_connected s \<noteq> {||} then sort_key ev_created_at events else [])"
| "absorbed s _ = []"

inductive reachable :: "codec \<Rightarrow> ('n, 's) Service \<Rightarrow> PublicKey \<Rightarrow> 'n \<Rightarrow> Event list \<Rightarrow> 'n State \<Rightarrow> bool"
  for codec :: codec and sv :: "('n, 's) Service" and me :: PublicKey and n :: 'n where
  start: "get_public_key env = Some me \<Longrightarrow> start codec env sv found up n = (out, Inr s) \<Longrightarrow>
    reachable codec sv me n (case found of None \<Rightarrow> [] | Some events \<Rightarrow> sort_key ev_created_at events) s"
| step: "reachable codec sv me n hist s \<Longrightarrow> loop_step codec env sv i s = Some s' \<Longrightarrow>
    reachable codec sv me n (hist @ absorbed s i) s'"

text \<open>The invariant: the registries are this node's, the grants are exactly what the history makes them,
  and the mirror is current.\<close>

definition mirrored :: "'n State \<Rightarrow> bool" where
  "mirrored s \<longleftrightarrow> st_delivery s = \<lparr>d_grants = st_grants s, d_subs = st_subs s\<rparr>"

definition registries_ok :: "codec \<Rightarrow> PublicKey \<Rightarrow> PublicKey list \<Rightarrow> Event list \<Rightarrow> 'n State \<Rightarrow> bool" where
  "registries_ok codec me owners hist s \<longleftrightarrow>
     st_grants s = apply_grants (parse codec) hist (grants_new me owners) \<and>
     s_node (st_subs s) = Some me \<and> subs_wf (st_subs s)"

lemma apply_grant_other_kind: "ev_kind e \<noteq> GRANT_KIND \<Longrightarrow> snd (apply_grant rd e g) = g"
  by (simp add: apply_grant_def split: option.split)

lemma apply_grants_snoc:
  "apply_grants rd (es @ [e]) g = snd (apply_grant rd e (apply_grants rd es g))"
  by (simp add: apply_grants_def)

lemma apply_sub_keeps:
  assumes "s_node s = Some node" "subs_wf s"
  shows "s_node (snd (apply_sub decrypt rd event grants s)) = Some node \<and>
    subs_wf (snd (apply_sub decrypt rd event grants s))"
  using sub_store.step_inv [of s "Some node" decrypt rd "(event, grants)"] assms by simp

lemma apply_stored_ok:
  assumes "registries_ok codec me owners hist s"
  shows "registries_ok codec me owners (hist @ [e]) (apply_stored codec env e s)"
  using assms apply_sub_keeps [of "st_subs s" me]
  by (simp add: registries_ok_def apply_stored_def apply_grants_snoc apply_grant_other_kind)

lemma refresh_ok:
  assumes "registries_ok codec me owners hist s"
  shows "registries_ok codec me owners
    (hist @ (case found of None \<Rightarrow> [] | Some events \<Rightarrow> sort_key ev_created_at events)) (refresh codec env found s)"
proof -
  have "registries_ok codec me owners (hist @ es) (fold (apply_stored codec env) es s)" for es
    using assms
  proof (induction es arbitrary: hist s)
    case (Cons e es)
    from Cons.IH [OF apply_stored_ok [OF Cons.prems]] show ?case by simp
  qed simp
  with assms show ?thesis by (simp add: refresh_def split: option.split)
qed

lemma mirror_simps [simp]:
  "mirrored (mirror s)" "registries_ok codec me owners hist (mirror s) = registries_ok codec me owners hist s"
  "st_node (mirror s) = st_node s" "st_usage (mirror s) = st_usage s" "st_grants (mirror s) = st_grants s"
  "st_subs (mirror s) = st_subs s" "st_sent (mirror s) = st_sent s"
  by (simp_all add: mirrored_def mirror_def registries_ok_def)

lemma refresh_frame [simp]:
  "st_node (refresh codec env found s) = st_node s" "st_usage (refresh codec env found s) = st_usage s"
  "st_sent (refresh codec env found s) = st_sent s"
proof -
  have "st_node (fold (apply_stored codec env) es s) = st_node s \<and>
      st_usage (fold (apply_stored codec env) es s) = st_usage s \<and>
      st_sent (fold (apply_stored codec env) es s) = st_sent s" for es
    by (induction es arbitrary: s) (simp_all add: apply_stored_def)
  then show "st_node (refresh codec env found s) = st_node s" "st_usage (refresh codec env found s) = st_usage s"
    "st_sent (refresh codec env found s) = st_sent s"
    by (simp_all add: refresh_def split: option.split)
qed

lemma answer_frame:
  "answer codec env sv event kind s = (response, s') \<Longrightarrow>
     st_grants s' = st_grants s \<and> st_subs s' = st_subs s \<and> st_delivery s' = st_delivery s \<and>
     st_sent s' = st_sent s \<and> st_connected s' = st_connected s"
  by (auto simp: answer_def split: option.splits prod.splits sum.splits if_splits)

lemma on_event_ok:
  assumes "registries_ok codec me owners hist s" "mirrored s"
  shows "registries_ok codec me owners (hist @ [e]) (on_event codec env sv e s) \<and>
    mirrored (on_event codec env sv e s)"
proof (cases "ev_kind e = GRANT_KIND \<or> ev_kind e = SUBSCRIPTION_KIND")
  case True
  then show ?thesis
    using apply_stored_ok [OF assms(1), of e env]
    by (auto simp: on_event_def apply_stored_def kind_defs Let_def)
next
  case False
  obtain response s' where a: "answer codec env sv e (ev_kind e) s = (response, s')" by fastforce
  from False have "registries_ok codec me owners (hist @ [e]) s"
    using assms(1) by (simp add: registries_ok_def apply_grants_snoc apply_grant_other_kind)
  with False assms(2) answer_frame [OF a] show ?thesis
    by (simp add: on_event_def Let_def a registries_ok_def mirrored_def)
qed

lemma loop_step_ok:
  assumes "registries_ok codec me owners hist s" "mirrored s" "loop_step codec env sv i s = Some s'"
  shows "registries_ok codec me owners (hist @ absorbed s i) s' \<and> mirrored s'"
proof (cases i)
  case (INotification n)
  show ?thesis
  proof (cases "\<exists>event. n = Some (NEvent event)")
    case True
    then obtain event where "n = Some (NEvent event)" by blast
    then show ?thesis
      using assms INotification on_event_ok [OF assms(1,2), of event env sv] by simp
  next
    case False
    then have "n = Some NMessage" "s' = s"
      using assms(3) INotification by (cases "(codec, env, sv, i, s)" rule: loop_step.cases; simp)+
    then show ?thesis using assms INotification by simp
  qed
next
  case (ITick now_connected found)
  show ?thesis
  proof (cases "now_connected |-| st_connected s = {||}")
    case True
    with assms(3) ITick have "s' = s\<lparr>st_connected := now_connected\<rparr>" "absorbed s i = []"
      by (cases found; simp)+
    with assms(1,2) show ?thesis by (simp add: registries_ok_def mirrored_def)
  next
    case False
    with assms(3) ITick have "s' = (mirror (refresh codec env found s))\<lparr>st_connected := now_connected\<rparr>"
      "absorbed s i = (case found of None \<Rightarrow> [] | Some events \<Rightarrow> sort_key ev_created_at events)"
      by (cases found; simp)+
    with refresh_ok [OF assms(1), of found env] show ?thesis
      by (simp add: registries_ok_def mirrored_def mirror_def)
  qed
qed

lemma start_ok:
  assumes "get_public_key env = Some me" "start codec env sv found up n = (out, Inr s)"
  shows "registries_ok codec me (sv_owners sv)
      (case found of None \<Rightarrow> [] | Some events \<Rightarrow> sort_key ev_created_at events) s \<and> mirrored s \<and> st_node s = n"
proof -
  let ?s0 = "\<lparr>st_grants = grants_new me (sv_owners sv), st_subs = subs_new me, st_usage = usage_new,
    st_delivery = delivery_default, st_connected = {||}, st_node = n, st_sent = out\<rparr>"
  have "registries_ok codec me (sv_owners sv) [] ?s0"
    by (simp add: registries_ok_def apply_grants_def subs_new_def subs_wf_def)
  from refresh_ok [OF this, of found env]
  have "registries_ok codec me (sv_owners sv)
      (case found of None \<Rightarrow> [] | Some events \<Rightarrow> sort_key ev_created_at events) (refresh codec env found ?s0)"
    by simp
  moreover have "s = (mirror (refresh codec env found ?s0))\<lparr>st_connected := up\<rparr>"
    using assms by (auto simp: start_def split: if_splits prod.splits sum.splits)
  ultimately show ?thesis
    by (simp add: registries_ok_def mirrored_def mirror_def)
qed

lemma reachable_ok:
  "reachable codec sv me n hist s \<Longrightarrow> registries_ok codec me (sv_owners sv) hist s \<and> mirrored s"
proof (induction rule: reachable.induct)
  case (start env found up out s)
  from start_ok [OF start] show ?case by simp
next
  case (step hist s env i s')
  then show ?case using loop_step_ok by blast
qed

lemma reachable_grants:
  "reachable codec sv me n hist s \<Longrightarrow>
     st_grants s = apply_grants (parse codec) hist (grants_new me (sv_owners sv))"
  using reachable_ok by (force simp: registries_ok_def)

section \<open>What makes the node act\<close>

definition request_of :: "codec \<Rightarrow> env \<Rightarrow> Event \<Rightarrow> Request option" where
  "request_of codec env event =
     Option.bind (nip44_decrypt env (ev_pubkey event) (ev_content event))
       (\<lambda>plain. Option.bind (parse codec plain) de_Request)"

definition handler_for :: "('n, 's) Service \<Rightarrow> u16 \<Rightarrow> ('n, 's) Handler option" where
  "handler_for sv kind =
     (if kind = WALLET_REQUEST_KIND then map_option HWallet (sv_wallet sv)
      else map_option HControl (sv_control sv))"

definition op_of :: "env \<Rightarrow> ('n, 's) Handler \<Rightarrow> Event \<Rightarrow> Request \<Rightarrow> 'n State \<Rightarrow> ('n, 's) op" where
  "op_of env h event request s =
     \<lparr>op_handler = h, op_grants = st_grants s, op_controller = ev_pubkey event,
      op_request_id = Some (ev_id event), op_method = rq_method request, op_params = rq_params request,
      op_now = clock env\<rparr>"

text \<open>\<open>answer\<close> in the pipeline's terms: without a readable request or a handler nothing happens; otherwise
  it is one step of the pipeline.\<close>

lemma answer_cases:
  obtains (refused) e m where "answer codec env sv event kind s = (response_err m e, s)"
      "request_of codec env event = None \<or> handler_for sv kind = None"
      "m = (case request_of codec env event of None \<Rightarrow> UnknownMethod [] | Some r \<Rightarrow> rq_method r)"
      "\<forall>c. err_code e \<noteq> EC_Unknown c"
  | (handled) request h r where "request_of codec env event = Some request" "handler_for sv kind = Some h"
      "fst (handle_op (op_of env h event request s) (st_usage s, st_node s)) = r"
      "answer codec env sv event kind s =
        ((case r of Inr v \<Rightarrow> response_ok (rq_method request) v | Inl e \<Rightarrow> response_err (rq_method request) e),
         s\<lparr>st_usage := fst (snd (handle_op (op_of env h event request s) (st_usage s, st_node s))),
           st_node := snd (snd (handle_op (op_of env h event request s) (st_usage s, st_node s)))\<rparr>)"
proof (cases "request_of codec env event = None \<or> handler_for sv kind = None")
  case True
  then have "\<exists>e. answer codec env sv event kind s =
      (response_err (case request_of codec env event of None \<Rightarrow> UnknownMethod [] | Some r \<Rightarrow> rq_method r) e, s) \<and>
      (\<forall>c. err_code e \<noteq> EC_Unknown c)"
    by (auto simp: answer_def request_of_def handler_for_def nnc_error_def serde_failure_def not_implemented_def
        bind_eq_Some_conv split: option.splits)
  with True show ?thesis using refused by blast
next
  case False
  then obtain request h where r: "request_of codec env event = Some request" and h: "handler_for sv kind = Some h"
    by auto
  then show ?thesis
    by (intro handled [OF r h refl])
      (auto simp: answer_def request_of_def handler_for_def handle_op_def op_of_def bind_eq_Some_conv
        split: option.splits prod.splits sum.splits)
qed

lemma handler_for_protocol:
  "handler_for sv kind = Some h \<Longrightarrow>
     handler_protocol h = (if kind = WALLET_REQUEST_KIND then Wallet else Control)"
  by (auto simp: handler_for_def split: if_splits)

lemma step_node:
  assumes "loop_step codec env sv i s = Some s'" "st_node s' \<noteq> st_node s"
  shows "\<exists>event request h. i = INotification (Some (NEvent event)) \<and>
    ev_kind event \<in> {WALLET_REQUEST_KIND, CONTROL_REQUEST_KIND} \<and>
    request_of codec env event = Some request \<and> handler_for sv (ev_kind event) = Some h \<and>
    st_node s' = snd (snd (handle_op (op_of env h event request s) (st_usage s, st_node s)))"
proof -
  from assms obtain event where i: "i = INotification (Some (NEvent event))"
    and s': "s' = on_event codec env sv event s"
    by (cases "(codec, env, sv, i, s)" rule: loop_step.cases) (auto simp: Let_def split: if_splits)
  with assms(2) have kind: "ev_kind event \<in> {WALLET_REQUEST_KIND, CONTROL_REQUEST_KIND}"
    by (auto simp: on_event_def Let_def split: if_splits)
  then have "st_node s' = st_node (snd (answer codec env sv event (ev_kind event) s))"
    by (auto simp: s' on_event_def Let_def kind_defs split: prod.splits)
  with assms(2) i kind show ?thesis
    by (cases rule: answer_cases [of codec env sv event "ev_kind event" s]) auto
qed

lemma act_has_grant:
  assumes "reachable codec sv me n hist s" "loop_step codec env sv i s = Some s'" "st_node s' \<noteq> st_node s"
  shows "\<exists>event request g. i = INotification (Some (NEvent event)) \<and>
    ev_kind event \<in> {WALLET_REQUEST_KIND, CONTROL_REQUEST_KIND} \<and>
    request_of codec env event = Some request \<and> g \<in> set hist \<and> ev_pubkey g \<in> set (sv_owners sv) \<and>
    (admitted me (sv_owners sv) (to_hex (ev_pubkey event)) g \<or> admitted me (sv_owners sv) OTHERS g) \<and>
    permits ((if ev_kind event = WALLET_REQUEST_KIND then methods else control)
      (vg_profile (verified_of (parse codec) g))) (method_as_str (rq_method request))"
proof -
  from step_node [OF assms(2,3)] obtain event request h where
    i: "i = INotification (Some (NEvent event))"
      "ev_kind event \<in> {WALLET_REQUEST_KIND, CONTROL_REQUEST_KIND}"
    and r: "request_of codec env event = Some request" "handler_for sv (ev_kind event) = Some h"
    and n: "st_node s' = snd (snd (handle_op (op_of env h event request s) (st_usage s, st_node s)))"
    by blast
  from assms(3) n
    traces_are_permitted [of "op_of env h event request s" "st_usage s" "st_node s"]
  obtain grant where grant: "resolve (st_grants s) (ev_pubkey event) = Inr grant"
    "permits (case handler_protocol h of
        Wallet \<Rightarrow> methods (vg_profile grant) | Control \<Rightarrow> control (vg_profile grant))
      (method_as_str (rq_method request))"
    by (auto simp: op_of_def)
  from resolve_source [OF grant(1) [unfolded reachable_grants [OF assms(1)]]] obtain g where
    "g \<in> set hist" "admitted me (sv_owners sv) (to_hex (ev_pubkey event)) g \<or> admitted me (sv_owners sv) OTHERS g"
    "grant = verified_of (parse codec) g"
    by blast
  moreover from this(2) have "ev_pubkey g \<in> set (sv_owners sv)" by (auto simp: admitted_def)
  ultimately show ?thesis
    using i r grant(2)
    by (intro exI [of _ event] exI [of _ request] exI [of _ g])
      (auto simp: handler_for_protocol [OF r(2)] split: if_splits)
qed

section \<open>Delivery\<close>

lemma delivery_list_exact:
  assumes "key_order (sub_order env)" "subs_wf (d_subs d)"
  shows "distinct (map fst (delivery_list env d ty caller))"
    and "(pk, cause) \<in> set (delivery_list env d ty caller) \<longleftrightarrow>
      (case caller of
         Some (who, i) \<Rightarrow>
           if pk = who
           then cause = (if should_receive (d_subs d) pk ty (d_grants d) then Both i else Command i)
           else should_receive (d_subs d) pk ty (d_grants d) \<and> cause = Subscription
       | None \<Rightarrow> should_receive (d_subs d) pk ty (d_grants d) \<and> cause = Subscription)"
proof -
  note r = recipients_set [OF assms, of ty "d_grants d"]
  show "distinct (map fst (delivery_list env d ty caller))"
    using r(2) by (auto simp: delivery_list_def Let_def comp_def split: option.split)
  show "(pk, cause) \<in> set (delivery_list env d ty caller) \<longleftrightarrow>
      (case caller of
         Some (who, i) \<Rightarrow>
           if pk = who
           then cause = (if should_receive (d_subs d) pk ty (d_grants d) then Both i else Command i)
           else should_receive (d_subs d) pk ty (d_grants d) \<and> cause = Subscription
       | None \<Rightarrow> should_receive (d_subs d) pk ty (d_grants d) \<and> cause = Subscription)"
    using r(1) by (auto simp: delivery_list_def Let_def split: option.split)
qed

text \<open>The tags a cause asks for.\<close>

definition cause_tags :: "PublicKey \<Rightarrow> PublicKey \<Rightarrow> Cause \<Rightarrow> Tag list" where
  "cause_tags me to cause =
     (case cause of
        Command i \<Rightarrow> [tag_event i]
      | Subscription \<Rightarrow> [tag_coordinate SUBSCRIPTION_KIND to (to_hex me)]
      | Both i \<Rightarrow> [tag_event i, tag_coordinate SUBSCRIPTION_KIND to (to_hex me)])"

lemma notify_sends:
  assumes "get_public_key env = Some me" "nip44_encrypt env to (print codec (dl_json n)) = Some c"
  shows "notify codec env to n cause =
    send env \<lparr>eb_kind = dl_kind n, eb_content = c, eb_tags = tag_public_key to # cause_tags me to cause\<rparr>"
  using assms by (cases cause) (simp_all add: notify_def cause_tags_def)

lemma notify_all_sends:
  assumes "get_public_key env = Some me"
    and "\<And>to. nip44_encrypt env to (print codec (dl_json n)) = Some (c to)"
  defines "eb \<equiv> \<lambda>(to, cause). \<lparr>eb_kind = dl_kind n, eb_content = c to,
      eb_tags = tag_public_key to # cause_tags me to cause\<rparr>"
  shows "notify_all codec env n rs = (map eb rs, length (filter (send_event_builder env \<circ> eb) rs))"
proof (induction rs)
  case (Cons r rs)
  then show ?case
    using assms by (cases r) (simp add: notify_sends send_def is_ok_def)
qed simp

section \<open>Info events\<close>

lemma split_on_join:
  "xs \<noteq> [] \<Longrightarrow> list_all (\<lambda>x. c \<notin> set x) xs \<Longrightarrow> split_on c (join [c] xs) = xs"
proof (induction "[c]" xs rule: join.induct)
  case (3 x y xs)
  then show ?case by (simp add: str_simps)
qed (simp_all add: str_simps)

section \<open>Reading an answer back\<close>

lemma answer_method:
  assumes "request_of codec env event = Some request"
  shows "method_from_str (method_as_str (rq_method request)) = rq_method request"
proof -
  from assms obtain v where "de_Request v = Some request"
    by (auto simp: request_of_def bind_eq_Some_conv)
  then obtain s where "rq_method request = method_from_str s"
    by (auto simp: de_Request_def bind_eq_Some_conv)
  then show ?thesis by (simp add: control_method.as_str_from_str)
qed

definition rendered :: "(message \<Rightarrow> string) \<Rightarrow> Response \<Rightarrow> Response" where
  "rendered rd r = r\<lparr>rs_error := map_option (\<lambda>e. nnc_error (err_code e) (rd (err_message e))) (rs_error r)\<rparr>"

definition plain_code :: "ErrorCode \<Rightarrow> bool" where
  "plain_code c \<longleftrightarrow> (case c of EC_Unknown s \<Rightarrow> error_code_variant s = None | _ \<Rightarrow> True)"

lemma de_en_Response:
  assumes "method_from_str (method_as_str (rs_result_type r)) = rs_result_type r"
    and "opt_value_wf (rs_result r)" "\<forall>e. rs_error r = Some e \<longrightarrow> plain_code (err_code e)"
  shows "de_Response (en_Response rd r) = Some (rendered rd r)"
proof (cases "rs_error r")
  case None
  with assms(1,2) show ?thesis
    by (simp add: de_Response_def en_Response_def codec_simps rendered_def)
next
  case (Some e)
  with assms(3) have "de_NncError (en_NncError rd e) = Some (nnc_error (err_code e) (rd (err_message e)))"
    by (intro de_en_NncError) (auto simp: plain_code_def)
  with Some assms(1,2) show ?thesis
    by (simp add: de_Response_def en_Response_def codec_simps rendered_def)
qed

lemma answer_result_type:
  assumes "answer codec env sv event kind s = (response, s')"
  shows "method_from_str (method_as_str (rs_result_type response)) = rs_result_type response"
proof (cases rule: answer_cases [of codec env sv event kind s])
  case (refused e m)
  moreover have "method_from_str [] = UnknownMethod []" by (simp add: method_from_str_def)
  ultimately show ?thesis
    using assms answer_method [of codec env event]
    by (cases "request_of codec env event") (auto simp: response_err_def)
next
  case (handled request h r)
  then have "rs_result_type response = rq_method request"
    using assms by (auto simp: response_err_def response_ok_def split: sum.splits)
  with answer_method [OF handled(1)] show ?thesis by simp
qed

lemma answer_result_wf:
  assumes "answer codec env sv event kind s = (response, s')"
  shows "opt_value_wf (rs_result response)"
proof (cases rule: answer_cases [of codec env sv event kind s])
  case (handled request h r)
  have "r = Inr v \<Longrightarrow> value_wf v \<and> v \<noteq> JNull" for v
    by (rule handle_op_value [of "op_of env h event request s" "(st_usage s, st_node s)"]) (simp add: handled(3))
  moreover have "response = (case r of Inr v \<Rightarrow> response_ok (rq_method request) v
      | Inl e \<Rightarrow> response_err (rq_method request) e)"
    using handled(4) assms by simp
  ultimately show ?thesis
    by (cases r) (simp_all add: response_err_def response_ok_def opt_value_wf_def)
qed (use assms in \<open>auto simp: response_err_def opt_value_wf_def\<close>)

lemma answer_reads_back:
  assumes "answer codec env sv event kind s = (response, s')"
    and "\<forall>e. rs_error response = Some e \<longrightarrow> plain_code (err_code e)"
  shows "de_Response (en_Response rd response) = Some (rendered rd response)"
  using answer_result_type [OF assms(1)] answer_result_wf [OF assms(1)] assms(2) by (rule de_en_Response)

section \<open>A small service, for the witnesses\<close>

text \<open>Owner 2 lets controller 3 call \<open>get_balance\<close> on node 1; its events arrive in the clear.\<close>

definition demo_codec :: codec where
  "demo_codec =
     \<lparr>parse = \<lambda>t.
        if t = ''grant'' then Some (JObj [(''methods'', JObj [(''get_balance'', JObj [])])])
        else if t = ''request'' then Some (JObj [(''method'', JStr ''get_balance''), (''params'', JObj [])])
        else None,
      print = \<lambda>_. ''text'', render = \<lambda>m. case m of Msg t \<Rightarrow> t | MsgSerde t \<Rightarrow> t\<rparr>"

definition demo_env :: env where
  "demo_env =
     \<lparr>nip44_encrypt = \<lambda>_ t. Some t, nip44_decrypt = \<lambda>_ t. Some t, get_public_key = Some 1,
      send_event_builder = \<lambda>_. True, add_relay = \<lambda>_. True, client_subscribe = True, clock = 100,
      sub_order = sorted_keys\<rparr>"

definition demo_service :: "PublicKey list \<Rightarrow> (nat, unit) Service" where
  "demo_service owners = service_wallet demo_wallet (service_new [] owners)"

definition demo_stored :: "Event list" where
  "demo_stored = [grant_event 1 2 (to_hex 3) 10 ''grant'']"

definition demo_request :: Event where
  "demo_request = \<lparr>ev_id = 9, ev_pubkey = 3, ev_created_at = 50, ev_kind = WALLET_REQUEST_KIND,
     ev_tags = [tag_public_key 1], ev_content = ''request''\<rparr>"

definition demo_state :: "PublicKey list \<Rightarrow> nat State" where
  "demo_state owners = projr (snd (start demo_codec demo_env (demo_service owners) (Some demo_stored) {||} 0))"

lemma demo_start:
  "\<exists>out. start demo_codec demo_env (demo_service owners) (Some demo_stored) {||} 0 = (out, Inr (demo_state owners))"
  unfolding demo_state_def
  by (simp add: start_def demo_env_def demo_service_def service_new_def service_wallet_def publish_info_def
      send_def and_then_def)

lemma demo_reachable: "reachable demo_codec (demo_service owners) 1 0 demo_stored (demo_state owners)"
proof -
  obtain out where "start demo_codec demo_env (demo_service owners) (Some demo_stored) {||} 0 =
      (out, Inr (demo_state owners))"
    using demo_start by blast
  then show ?thesis
    using reachable.start [of demo_env 1 demo_codec "demo_service owners" "Some demo_stored"]
    by (simp add: demo_env_def demo_stored_def)
qed

lemma demo_node: "st_node (demo_state owners) = 0"
  using demo_start [of owners] start_ok [of demo_env 1 demo_codec "demo_service owners" "Some demo_stored" "{||}" 0]
  by (auto simp: demo_env_def)

lemma demo_resolved:
  "resolve (st_grants (demo_state [2])) 3 =
     Inr (verified_of (parse demo_codec) (grant_event 1 2 (to_hex 3) 10 ''grant''))"
  by (simp add: reachable_grants [OF demo_reachable] resolve_get_raw apply_grants_newest demo_stored_def
      newest_def demo_service_def service_new_def service_wallet_def)

lemma demo_profile_read:
  "vg_profile (verified_of (parse demo_codec) (grant_event 1 2 (to_hex 3) 10 ''grant'')) =
     default_profile\<lparr>methods := Some (fmupd ''get_balance'' \<lparr>rate = None\<rparr> fmempty)\<rparr>"
  by (simp add: verified_of_def profile_of_def grant_event_def demo_codec_def de_UsageProfile_def
      struct_entries_def opt_def de_hashmap_def de_MethodAccessRule_def default_profile_def)

lemma demo_authorized:
  "authorize (HWallet demo_wallet) (st_grants (demo_state [2])) 3 ''get_balance'' =
     Inr (default_profile\<lparr>methods := Some (fmupd ''get_balance'' \<lparr>rate = None\<rparr> fmempty)\<rparr>, None)"
  by (simp add: authorize_def demo_resolved demo_profile_read allows_wallet_def guard_def
      profile_is_valid_def rules_ok_def default_profile_def lookup_def fmpred_iff)

lemma demo_request_read:
  "request_of demo_codec demo_env demo_request =
     Some \<lparr>rq_method = UnknownMethod ''get_balance'', rq_params = JObj []\<rparr>"
  by (simp add: request_of_def demo_request_def demo_env_def demo_codec_def de_Request_def struct_entries_def
      req_def dflt_def de_string_def de_value_def obj_of_def method_from_str_def)

lemma demo_request_simps [simp]:
  "ev_pubkey demo_request = 3" "ev_id demo_request = 9" "ev_kind demo_request = WALLET_REQUEST_KIND"
  by (simp_all add: demo_request_def)

lemma demo_acts: "st_node (on_event demo_codec demo_env (demo_service [2]) demo_request (demo_state [2])) = 1"
proof -
  have h: "handler_for (demo_service [2]) WALLET_REQUEST_KIND = Some (HWallet demo_wallet)"
    by (simp add: handler_for_def demo_service_def service_new_def service_wallet_def)
  have "st_node (snd (answer demo_codec demo_env (demo_service [2]) demo_request WALLET_REQUEST_KIND
      (demo_state [2]))) = 1"
    by (cases rule: answer_cases [of demo_codec demo_env "demo_service [2]" demo_request WALLET_REQUEST_KIND
          "demo_state [2]"])
      (auto simp: demo_request_read h handle_op_def op_of_def handle_def Let_def demo_steps demo_execute
        demo_authorized rate_step_None quota_step_def default_profile_def demo_node)
  then show ?thesis
    by (simp add: on_event_def kind_defs Let_def split_def)
qed

end
