(* ===== verification/Await.thy ===== *)
theory Await
  imports Transport
begin

text \<open>
  How a client waits. The three waits of the two clients (\<open>await_response\<close> in
  \<^verbatim>\<open>src/nnc/client/mod.rs\<close>, \<open>wait\<close> in \<^verbatim>\<open>src/nnc/client/pending.rs\<close>, the second half of \<open>send\<close> in
  \<^verbatim>\<open>src/nwc/client/mod.rs\<close>) are one loop: take the client's event stream under a deadline, pass over
  everything that is not the awaited event, stop at the first that is. \<open>await_loop\<close> is that loop, with what
  differs, the judgement of one event, as its argument.

  A stream is what it yields, item by item: a notification, its end, or nothing any more. Beside it runs a
  timer: in the \<open>i\<close>-th round, the clock reading at the top of the loop and whether the timeout fires before the
  \<open>i\<close>-th item. Instants and durations are nanoseconds. The loop may go round forever, so not returning is a
  value, and that it does return is a theorem.
\<close>

section \<open>Streams and timers\<close>

datatype arrival = Item ClientNotification | Closed | Silent

type_synonym stream = "nat \<Rightarrow> arrival"
type_synonym timer = "nat \<Rightarrow> nat \<times> bool"

text \<open>\<open>Instant + Duration\<close>, which panics past what the platform's \<open>Instant\<close> can hold.\<close>

definition instant_add :: "nat \<Rightarrow> nat \<Rightarrow> nat \<Rightarrow> nat option" where
  "instant_add instant_max now d = (if now + d \<le> instant_max then Some (now + d) else None)"

text \<open>\<open>event.tags.iter().any(..)\<close>: some tag is \<open>e\<close> with this id.\<close>

definition names_request :: "EventId \<Rightarrow> Event \<Rightarrow> bool" where
  "names_request i event \<longleftrightarrow> list_ex (\<lambda>t. tag_is t ''e'' (to_hex i)) (ev_tags event)"

section \<open>The loop\<close>

partial_function (option) await_loop ::
  "(Event \<Rightarrow> 'r option) \<Rightarrow> 'r \<Rightarrow> nat \<Rightarrow> timer \<Rightarrow> stream \<Rightarrow> nat \<Rightarrow> 'r option" where
  "await_loop body timed_out deadline timer stream i =
     (let (now, late) = timer i
      in if deadline - now = 0 then Some timed_out
         else if late then Some timed_out
         else
           (case stream i of
              Silent \<Rightarrow> Some timed_out
            | Closed \<Rightarrow> await_loop body timed_out deadline timer stream (Suc i)
            | Item (NEvent event) \<Rightarrow>
                (case body event of
                   Some r \<Rightarrow> Some r
                 | None \<Rightarrow> await_loop body timed_out deadline timer stream (Suc i))
            | Item _ \<Rightarrow> await_loop body timed_out deadline timer stream (Suc i)))"

text \<open>The same by rounds: what a single round decides, and the first that decides anything.\<close>

definition expired :: "nat \<Rightarrow> timer \<Rightarrow> stream \<Rightarrow> nat \<Rightarrow> bool" where
  "expired deadline timer stream i \<longleftrightarrow> deadline \<le> fst (timer i) \<or> snd (timer i) \<or> stream i = Silent"

definition accepted :: "(Event \<Rightarrow> 'r option) \<Rightarrow> stream \<Rightarrow> nat \<Rightarrow> 'r option" where
  "accepted body stream i = (case stream i of Item (NEvent event) \<Rightarrow> body event | _ \<Rightarrow> None)"

definition verdict :: "(Event \<Rightarrow> 'r option) \<Rightarrow> 'r \<Rightarrow> nat \<Rightarrow> timer \<Rightarrow> stream \<Rightarrow> nat \<Rightarrow> 'r option" where
  "verdict body timed_out deadline timer stream i =
     (if expired deadline timer stream i then Some timed_out else accepted body stream i)"

lemma await_loop_round:
  "await_loop body timed_out deadline timer stream i =
     (case verdict body timed_out deadline timer stream i of
        Some r \<Rightarrow> Some r
      | None \<Rightarrow> await_loop body timed_out deadline timer stream (Suc i))"
  by (subst await_loop.simps, cases "timer i")
    (auto simp: verdict_def expired_def accepted_def split: arrival.split ClientNotification.split option.split)

lemma await_loop_skip:
  assumes "i \<le> k" "\<And>j. i \<le> j \<Longrightarrow> j < k \<Longrightarrow> verdict body timed_out deadline timer stream j = None"
  shows "await_loop body timed_out deadline timer stream i = await_loop body timed_out deadline timer stream k"
  using assms
proof (induction k rule: dec_induct)
  case (step k)
  then show ?case using await_loop_round [of body timed_out deadline timer stream k] by simp
qed simp

lemma await_loop_first:
  assumes "i \<le> k" "verdict body timed_out deadline timer stream k = Some r"
    and "\<And>j. i \<le> j \<Longrightarrow> j < k \<Longrightarrow> verdict body timed_out deadline timer stream j = None"
  shows "await_loop body timed_out deadline timer stream i = Some r"
  using await_loop_skip [OF assms(1,3)] assms(2) await_loop_round [of body timed_out deadline timer stream k] by simp

lemma await_loop_source:
  fixes body :: "Event \<Rightarrow> 'r option"
  assumes "await_loop body timed_out deadline timer stream i = Some r"
  shows "\<exists>k\<ge>i. verdict body timed_out deadline timer stream k = Some r \<and>
    (\<forall>j. i \<le> j \<and> j < k \<longrightarrow> verdict body timed_out deadline timer stream j = None)"
proof (rule await_loop.raw_induct [where P = "\<lambda>body timed_out deadline timer stream i r. \<exists>k\<ge>i.
      verdict body timed_out deadline timer stream k = Some r \<and>
      (\<forall>j. i \<le> j \<and> j < k \<longrightarrow> verdict body timed_out deadline timer stream j = None)", OF _ assms])
  fix loop :: "(Event \<Rightarrow> 'r option) \<Rightarrow> 'r \<Rightarrow> nat \<Rightarrow> timer \<Rightarrow> stream \<Rightarrow> nat \<Rightarrow> 'r option"
    and body :: "Event \<Rightarrow> 'r option" and timed_out deadline timer stream i r
  let ?v = "verdict body timed_out deadline timer stream"
  assume IH: "\<And>body timed_out deadline timer stream i r. loop body timed_out deadline timer stream i = Some r \<Longrightarrow>
      \<exists>k\<ge>i. verdict body timed_out deadline timer stream k = Some r \<and>
        (\<forall>j. i \<le> j \<and> j < k \<longrightarrow> verdict body timed_out deadline timer stream j = None)"
    and eq: "(let (now, late) = timer i
      in if deadline - now = 0 then Some timed_out
         else if late then Some timed_out
         else
           (case stream i of
              Silent \<Rightarrow> Some timed_out
            | Closed \<Rightarrow> loop body timed_out deadline timer stream (Suc i)
            | Item (NEvent event) \<Rightarrow>
                (case body event of
                   Some r \<Rightarrow> Some r
                 | None \<Rightarrow> loop body timed_out deadline timer stream (Suc i))
            | Item _ \<Rightarrow> loop body timed_out deadline timer stream (Suc i))) = Some r"
  show "\<exists>k\<ge>i. ?v k = Some r \<and> (\<forall>j. i \<le> j \<and> j < k \<longrightarrow> ?v j = None)"
  proof (cases "?v i")
    case None
    with eq have "loop body timed_out deadline timer stream (Suc i) = Some r"
      by (auto simp: verdict_def expired_def accepted_def
          split: arrival.splits ClientNotification.splits option.splits if_splits prod.splits)
    from IH [OF this] obtain k where "Suc i \<le> k" "?v k = Some r" "\<forall>j. Suc i \<le> j \<and> j < k \<longrightarrow> ?v j = None"
      by blast
    with None show ?thesis by (intro exI [of _ k]) (metis Suc_leD not_less_eq_eq le_antisym)
  next
    case (Some r')
    with eq have "r' = r"
      by (auto simp: verdict_def expired_def accepted_def
          split: arrival.splits ClientNotification.splits option.splits if_splits prod.splits)
    with Some show ?thesis by (intro exI [of _ i]) auto
  qed
qed

lemma await_loop_iff:
  "await_loop body timed_out deadline timer stream i = Some r \<longleftrightarrow>
     (\<exists>k\<ge>i. verdict body timed_out deadline timer stream k = Some r \<and>
        (\<forall>j. i \<le> j \<and> j < k \<longrightarrow> verdict body timed_out deadline timer stream j = None))"
  using await_loop_source [of body timed_out deadline timer stream i r]
    await_loop_first [of i _ body timed_out deadline timer stream r] by blast

text \<open>A wait ends at the latest in the round whose clock reading has reached the deadline, whatever the stream
  yields, also if it is closed.\<close>

lemma await_loop_returns:
  assumes "i \<le> k" "expired deadline timer stream k"
  shows "\<exists>r. await_loop body timed_out deadline timer stream i = Some r"
proof -
  let ?v = "verdict body timed_out deadline timer stream"
  let ?k = "LEAST k. i \<le> k \<and> ?v k \<noteq> None"
  have "i \<le> k \<and> ?v k \<noteq> None" using assms by (simp add: verdict_def)
  then have "i \<le> ?k \<and> ?v ?k \<noteq> None" by (rule LeastI)
  moreover from this obtain r where "?v ?k = Some r" by blast
  moreover have "?v j = None" if "i \<le> j" "j < ?k" for j
    using not_less_Least [OF that(2)] that(1) by blast
  ultimately show ?thesis using await_loop_first [of i ?k body timed_out deadline timer stream r] by blast
qed

text \<open>Only what the judgement accepts matters: two streams that agree on it, and on when they fall silent,
  give the same result.\<close>

lemma await_loop_cong:
  assumes "\<And>i. accepted body stream i = accepted body stream' i" "\<And>i. stream i = Silent \<longleftrightarrow> stream' i = Silent"
  shows "await_loop body timed_out deadline timer stream i = await_loop body timed_out deadline timer stream' i"
proof -
  have "verdict body timed_out deadline timer stream = verdict body timed_out deadline timer stream'"
    using assms by (auto simp: verdict_def expired_def)
  then have "await_loop body timed_out deadline timer stream i = Some r \<longleftrightarrow>
      await_loop body timed_out deadline timer stream' i = Some r" for r
    by (simp add: await_loop_iff)
  then show ?thesis by (metis not_None_eq)
qed

section \<open>Contracts of a wait\<close>

text \<open>What the judgement of every wait promises: it accepts only events of the awaited kind that name the
  request. So whatever the wait returns, other than that time ran out, came in such an event.\<close>

locale reply_wait =
  fixes body :: "Event \<Rightarrow> 'r option"
    and kind :: u16
    and request :: EventId
  assumes body_kind: "body e = Some r \<Longrightarrow> ev_kind e = kind"
    and body_names: "body e = Some r \<Longrightarrow> names_request request e"
begin

lemma accepted_event:
  assumes "accepted body stream k = Some r"
  shows "\<exists>e. stream k = Item (NEvent e) \<and> ev_kind e = kind \<and> names_request request e \<and> body e = Some r"
  using assms body_kind body_names by (auto simp: accepted_def split: arrival.splits ClientNotification.splits)

lemma answered:
  assumes "await_loop body timed_out deadline timer stream i = Some r" "r \<noteq> timed_out"
  shows "\<exists>k\<ge>i. \<exists>e. stream k = Item (NEvent e) \<and> fst (timer k) < deadline \<and> ev_kind e = kind \<and>
    names_request request e \<and> body e = Some r"
proof -
  from await_loop_source [OF assms(1)] obtain k where "k \<ge> i"
    "verdict body timed_out deadline timer stream k = Some r" by blast
  with assms(2) have "accepted body stream k = Some r" "fst (timer k) < deadline"
    by (auto simp: verdict_def expired_def split: if_splits)
  with accepted_event \<open>k \<ge> i\<close> show ?thesis by blast
qed

text \<open>A first acceptable event that comes in time is what the wait returns.\<close>

lemma heard:
  assumes "stream k = Item (NEvent e)" "body e = Some r" "i \<le> k"
    and "\<And>j. i \<le> j \<Longrightarrow> j \<le> k \<Longrightarrow> \<not> expired deadline timer stream j"
    and "\<And>j e'. i \<le> j \<Longrightarrow> j < k \<Longrightarrow> stream j = Item (NEvent e') \<Longrightarrow> body e' = None"
  shows "await_loop body timed_out deadline timer stream i = Some r"
proof (rule await_loop_first [OF assms(3)])
  show "verdict body timed_out deadline timer stream k = Some r"
    using assms(1-4) by (simp add: verdict_def accepted_def)
  show "verdict body timed_out deadline timer stream j = None" if "i \<le> j" "j < k" for j
    using assms(4,5) that
    by (auto simp: verdict_def accepted_def split: arrival.split ClientNotification.split)
qed

end

text \<open>A stream with every event signed by anybody else put out of sight.\<close>

definition only_from :: "PublicKey \<Rightarrow> stream \<Rightarrow> stream" where
  "only_from author stream j =
     (case stream j of
        Item (NEvent e) \<Rightarrow> if ev_pubkey e = author then Item (NEvent e) else Item NMessage
      | a \<Rightarrow> a)"

text \<open>A judgement that also asks who signed the event. Then events of anybody else could as well not have
  been there.\<close>

locale authored_wait = reply_wait body kind request
  for body :: "Event \<Rightarrow> 'r option" and kind :: u16 and request :: EventId +
  fixes author :: PublicKey
  assumes body_author: "body e = Some r \<Longrightarrow> ev_pubkey e = author"
begin

lemma others_irrelevant:
  "await_loop body timed_out deadline timer stream i =
   await_loop body timed_out deadline timer (only_from author stream) i"
proof (rule await_loop_cong)
  show "accepted body stream j = accepted body (only_from author stream) j" for j
    using body_author by (fastforce simp: accepted_def only_from_def split: arrival.split ClientNotification.split)
qed (simp add: only_from_def split: arrival.split ClientNotification.split)

end

end
