(* ===== verification/Uri.thy ===== *)
theory Uri
  imports Nostr
begin

text \<open>
  Connection URIs: \<^verbatim>\<open>src/nnc/uri.rs\<close>, and the \<open>WalletUri\<close> of \<^verbatim>\<open>src/nwc/client/mod.rs\<close>. Both have the same
  percent decoder, which slices a string at byte offsets and so can panic: it returns an option, \<^const>\<open>None\<close>
  being the panic. A string is the list of its UTF-8 bytes. Parsing of bech32 keys is the vendored
  crate's: the parameters \<open>parse_pk\<close> and \<open>parse_sk\<close>.
\<close>

section \<open>Percent coding\<close>

text \<open>\<open>String::push(v as char)\<close> for a byte: Latin-1, so one byte of UTF-8 or two.\<close>

definition push_byte :: "nat \<Rightarrow> string" where
  "push_byte v =
     (if v < 128 then [char_of v] else [char_of (192 + v div 64), char_of (128 + v mod 64)])"

definition is_continuation :: "char \<Rightarrow> bool" where
  "is_continuation c \<longleftrightarrow> 128 \<le> (of_char c :: nat) \<and> (of_char c :: nat) < 192"

text \<open>\<open>u8::from_str_radix(s, 16)\<close> on two bytes: a leading \<open>+\<close> is allowed.\<close>

definition radix16 :: "char \<Rightarrow> char \<Rightarrow> nat option" where
  "radix16 a b =
     (if a = CHR ''+'' then hex_val b
      else (case hex_val a of None \<Rightarrow> None | Some x \<Rightarrow> map_option (\<lambda>y. 16 * x + y) (hex_val b)))"

fun percent_decode :: "string \<Rightarrow> string option" where
  "percent_decode [] = Some []"
| "percent_decode (c # a # b # rest) =
     (if c = CHR ''%'' then
        if is_continuation a \<or> (rest \<noteq> [] \<and> is_continuation (hd rest)) then None
        else (case radix16 a b of
                Some v \<Rightarrow> map_option ((@) (push_byte v)) (percent_decode rest)
              | None \<Rightarrow> map_option ((@) (push_byte (of_char c))) (percent_decode (a # b # rest)))
      else map_option ((@) (push_byte (of_char c))) (percent_decode (a # b # rest)))"
| "percent_decode (c # cs) = map_option ((@) (push_byte (of_char c))) (percent_decode cs)"

definition hex_upper :: "nat \<Rightarrow> char" where
  "hex_upper d = ''0123456789ABCDEF'' ! d"

definition unreserved :: "char \<Rightarrow> bool" where
  "unreserved c \<longleftrightarrow>
     (let n = of_char c :: nat
      in (65 \<le> n \<and> n \<le> 90) \<or> (97 \<le> n \<and> n \<le> 122) \<or> (48 \<le> n \<and> n \<le> 57) \<or> c \<in> set ''-_.~'')"

definition encode_byte :: "char \<Rightarrow> string" where
  "encode_byte c =
     (if unreserved c then [c]
      else [CHR ''%'', hex_upper (of_char c div 16), hex_upper (of_char c mod 16)])"

definition percent_encode :: "string \<Rightarrow> string" where
  "percent_encode s = concat (map encode_byte s)"

section \<open>Node control URIs\<close>

definition SCHEME :: string where
  "SCHEME = ''nostr+nodecontrol''"

record NodeControlUri =
  uri_service :: PublicKey
  uri_relays :: "string list"

datatype UriError = WrongScheme string | BadServiceKey | NoRelay | CarriesSecret

text \<open>\<open>s.split("://").next()\<close>.\<close>

fun before_separator :: "string \<Rightarrow> string" where
  "before_separator [] = []"
| "before_separator (c # cs) =
     (if strip_prefix ''://'' (c # cs) \<noteq> None then [] else c # before_separator cs)"

definition pair_of :: "string \<Rightarrow> string \<times> string" where
  "pair_of p = (case split_once CHR ''='' p of Some kv \<Rightarrow> kv | None \<Rightarrow> (p, []))"

text \<open>The loop over the query's pairs; \<^const>\<open>None\<close> is a panic.\<close>

fun read_pairs :: "string list \<Rightarrow> string list \<Rightarrow> (string list, UriError) result option" where
  "read_pairs relays [] = Some (Inr relays)"
| "read_pairs relays (pair # pairs) =
     (let (k, v) = pair_of pair
      in if k = ''relay'' then Option.bind (percent_decode v) (\<lambda>r. read_pairs (relays @ [r]) pairs)
         else if k = ''secret'' then Some (Inl CarriesSecret)
         else read_pairs relays pairs)"

definition query_pairs :: "string \<Rightarrow> string list" where
  "query_pairs q = filter (\<lambda>p. p \<noteq> []) (split_on CHR ''&'' q)"

definition uri_from_str :: "string \<Rightarrow> (NodeControlUri, UriError) result option" where
  "uri_from_str s =
     (case strip_prefix (SCHEME @ ''://'') s of
        None \<Rightarrow> Some (Inl (WrongScheme (before_separator s)))
      | Some rest \<Rightarrow>
          let (key, query) = (case split_once CHR ''?'' rest of Some kq \<Rightarrow> kq | None \<Rightarrow> (rest, []))
          in (case from_hex key of
                None \<Rightarrow> Some (Inl BadServiceKey)
              | Some pk \<Rightarrow>
                  (case read_pairs [] (query_pairs query) of
                     None \<Rightarrow> None
                   | Some (Inl e) \<Rightarrow> Some (Inl e)
                   | Some (Inr relays) \<Rightarrow>
                       if relays = [] then Some (Inl NoRelay)
                       else Some (Inr \<lparr>uri_service = pk, uri_relays = relays\<rparr>))))"

fun relay_params :: "char \<Rightarrow> string list \<Rightarrow> string" where
  "relay_params sep [] = []"
| "relay_params sep (r # rs) = sep # ''relay='' @ percent_encode r @ relay_params CHR ''&'' rs"

definition uri_display :: "NodeControlUri \<Rightarrow> string" where
  "uri_display u = SCHEME @ ''://'' @ to_hex (uri_service u) @ relay_params CHR ''?'' (uri_relays u)"

section \<open>Wallet URIs\<close>

record 'sk WalletUri =
  wu_wallet :: PublicKey
  wu_relays :: "string list"
  wu_secret :: 'sk

datatype WalletUriError = WU_Scheme | WU_Wallet | WU_NoRelay | WU_Secret

fun read_wallet_pairs ::
  "(string \<Rightarrow> 'sk option) \<Rightarrow> string list \<Rightarrow> 'sk option \<Rightarrow> string list \<Rightarrow> (string list \<times> 'sk option) option" where
  "read_wallet_pairs parse_sk relays secret [] = Some (relays, secret)"
| "read_wallet_pairs parse_sk relays secret (pair # pairs) =
     (case split_once CHR ''='' pair of
        None \<Rightarrow> read_wallet_pairs parse_sk relays secret pairs
      | Some (k, v) \<Rightarrow>
          Option.bind (percent_decode v) (\<lambda>v.
            if k = ''relay'' then read_wallet_pairs parse_sk (relays @ [v]) secret pairs
            else if k = ''secret'' then read_wallet_pairs parse_sk relays (parse_sk v) pairs
            else read_wallet_pairs parse_sk relays secret pairs))"

definition wallet_uri_from_str ::
  "(string \<Rightarrow> PublicKey option) \<Rightarrow> (string \<Rightarrow> 'sk option) \<Rightarrow> string \<Rightarrow>
     ('sk WalletUri, WalletUriError) result option" where
  "wallet_uri_from_str parse_pk parse_sk s =
     (case strip_prefix ''nostr+walletconnect://'' s of
        None \<Rightarrow> Some (Inl WU_Scheme)
      | Some rest \<Rightarrow>
          let (pubkey, query) = (case split_once CHR ''?'' rest of Some kq \<Rightarrow> kq | None \<Rightarrow> (rest, []))
          in (case parse_pk pubkey of
                None \<Rightarrow> Some (Inl WU_Wallet)
              | Some wallet \<Rightarrow>
                  (case read_wallet_pairs parse_sk [] None (query_pairs query) of
                     None \<Rightarrow> None
                   | Some (relays, secret) \<Rightarrow>
                       if relays = [] then Some (Inl WU_NoRelay)
                       else (case secret of
                               None \<Rightarrow> Some (Inl WU_Secret)
                             | Some sk \<Rightarrow>
                                 Some (Inr \<lparr>wu_wallet = wallet, wu_relays = relays, wu_secret = sk\<rparr>)))))"

section \<open>Laws\<close>

definition ascii :: "string \<Rightarrow> bool" where
  "ascii s \<longleftrightarrow> list_all (\<lambda>c. (of_char c :: nat) < 128) s"

lemma hex_upper_val: "d < 16 \<Longrightarrow> hex_val (hex_upper d) = Some d"
  using nat_less_16_cases [of d]
  by (auto simp: hex_upper_def hex_val_def Let_def nth_Cons')

lemma hex_upper_not: "d < 16 \<Longrightarrow> hex_upper d \<noteq> CHR ''+'' \<and> \<not> is_continuation (hex_upper d) \<and>
    hex_upper d \<notin> set ''%?&=''"
  using nat_less_16_cases [of d]
  by (auto simp: hex_upper_def is_continuation_def nth_Cons')

lemma of_char_less [simp]: "(of_char c :: nat) < 256"
  by (metis of_char_mod_256 mod_less_divisor zero_less_numeral)

lemma of_char_div_16 [simp]: "(of_char c :: nat) div 16 < 16"
  by (simp add: less_mult_imp_div_less)

lemma percent_not_continuation [simp]: "\<not> is_continuation CHR ''%''"
  by (simp add: is_continuation_def)

lemma unreserved_not: "unreserved c \<Longrightarrow> c \<notin> set ''%?&='' \<and> \<not> is_continuation c"
  by (auto simp: unreserved_def is_continuation_def Let_def)

lemma percent_decode_plain:
  "c \<noteq> CHR ''%'' \<Longrightarrow> percent_decode (c # s) = map_option ((@) (push_byte (of_char c))) (percent_decode s)"
  by (cases s rule: list.exhaust [case_product list.exhaust]; cases "tl s") auto

text \<open>No encoded text starts with a continuation byte or contains a character the syntax of URIs uses.\<close>

lemma hd_percent_encode: "s \<noteq> [] \<Longrightarrow> \<not> is_continuation (hd (percent_encode s))"
  by (cases s) (auto simp: percent_encode_def encode_byte_def unreserved_not)

lemma encode_chars: "c \<in> set (percent_encode s) \<Longrightarrow> c \<notin> set ''?&=''"
proof -
  have "c \<in> set (encode_byte x) \<Longrightarrow> c \<notin> set ''?&=''" for x
    using hex_upper_not [of "of_char x div 16"] hex_upper_not [of "of_char x mod 16"] unreserved_not [of x]
    by (auto simp: encode_byte_def split: if_splits)
  then show "c \<in> set (percent_encode s) \<Longrightarrow> c \<notin> set ''?&=''"
    by (auto simp: percent_encode_def)
qed

lemma percent_decode_encode_byte:
  "\<not> (rest \<noteq> [] \<and> is_continuation (hd rest)) \<Longrightarrow>
     percent_decode (encode_byte c @ rest) = map_option ((@) (push_byte (of_char c))) (percent_decode rest)"
proof (cases "unreserved c")
  case True
  then show ?thesis
    using unreserved_not [of c] by (auto simp: encode_byte_def percent_decode_plain)
next
  case False
  assume "\<not> (rest \<noteq> [] \<and> is_continuation (hd rest))"
  moreover have "radix16 (hex_upper (of_char c div 16)) (hex_upper (of_char c mod 16)) = Some (of_char c)"
    by (simp add: radix16_def hex_upper_val hex_upper_not)
  ultimately show ?thesis
    using False by (auto simp: encode_byte_def hex_upper_not)
qed

text \<open>Decoding what was encoded never panics, and gives every byte as a character of its own.\<close>

lemma percent_decode_encode:
  "percent_decode (percent_encode s) = Some (concat (map (\<lambda>c. push_byte (of_char c)) s))"
proof (induction s)
  case (Cons c s)
  have "\<not> (percent_encode s \<noteq> [] \<and> is_continuation (hd (percent_encode s)))"
    using hd_percent_encode [of s] by (cases s) (auto simp: percent_encode_def)
  from percent_decode_encode_byte [OF this, of c] Cons show ?case
    by (simp add: percent_encode_def)
qed (simp add: percent_encode_def)

lemma pushed_ascii: "concat (map (\<lambda>c. push_byte (of_char c)) s) = s \<longleftrightarrow> ascii s"
proof (induction s)
  case (Cons c s)
  have len: "length s \<le> length (concat (map (\<lambda>c. push_byte (of_char c)) s))" for s
    by (induction s) (auto simp: push_byte_def)
  show ?case
  proof (cases "(of_char c :: nat) < 128")
    case True
    then show ?thesis using Cons by (simp add: ascii_def push_byte_def)
  next
    case False
    then have "length (concat (map (\<lambda>c. push_byte (of_char c)) (c # s))) \<noteq> length (c # s)"
      using len [of s] by (simp add: push_byte_def)
    then have "concat (map (\<lambda>c. push_byte (of_char c)) (c # s)) \<noteq> c # s"
      by (rule contrapos_nn) (rule arg_cong)
    moreover have "\<not> ascii (c # s)" using False by (simp add: ascii_def)
    ultimately show ?thesis by blast
  qed
qed (simp add: ascii_def)

text \<open>A printed query is read back pair by pair.\<close>

definition relay_pair :: "string \<Rightarrow> string" where
  "relay_pair r = ''relay='' @ percent_encode r"

lemma relay_params_Cons: "relay_params sep (r # rs) = sep # relay_pair r @ relay_params CHR ''&'' rs"
  by (simp add: relay_pair_def)

lemma relay_pair_no_amp: "CHR ''&'' \<notin> set (relay_pair r)"
  using encode_chars [of "CHR ''&''" r] by (auto simp: relay_pair_def)

lemma relay_params_pairs:
  "rs \<noteq> [] \<Longrightarrow> split_on CHR ''&'' (tl (relay_params sep rs)) = map relay_pair rs"
proof (induction rs arbitrary: sep)
  case (Cons r rs)
  show ?case
  proof (cases rs)
    case Nil
    then show ?thesis
      by (simp add: relay_params_Cons split_on_no_sep relay_pair_no_amp del: relay_params.simps(2))
  next
    case (Cons r' rs')
    then have "tl (relay_params sep (r # rs)) = relay_pair r @ CHR ''&'' # tl (relay_params CHR ''&'' rs)"
      by (simp add: relay_params_Cons del: relay_params.simps(2))
    then show ?thesis
      using Cons.IH [of "CHR ''&''"] Cons
      by (simp add: split_on_append relay_pair_no_amp del: relay_params.simps(2))
  qed
qed simp

lemma pair_of_relay: "pair_of (relay_pair r) = (''relay'', percent_encode r)"
  using split_once_append [of "CHR ''=''" "''relay''" "percent_encode r"]
  by (simp add: pair_of_def relay_pair_def)

lemma relay_pair_nonempty [simp]: "relay_pair r \<noteq> []"
  by (simp add: relay_pair_def)

lemma read_relays: "list_all ascii rs \<Longrightarrow> read_pairs acc (map relay_pair rs) = Some (Inr (acc @ rs))"
  by (induction rs arbitrary: acc) (simp_all add: pair_of_relay percent_decode_encode pushed_ascii)

lemma uri_reads_back:
  assumes "uri_relays u \<noteq> []" "list_all ascii (uri_relays u)"
  shows "uri_from_str (uri_display u) = Some (Inr u)"
proof -
  let ?params = "relay_params CHR ''?'' (uri_relays u)"
  have params: "?params = CHR ''?'' # tl ?params"
    using assms(1) by (cases "uri_relays u") simp_all
  have q: "CHR ''?'' \<notin> set (to_hex (uri_service u))"
    by (auto dest: to_hex_chars simp: hex_chars_def)
  have "split_once CHR ''?'' (to_hex (uri_service u) @ ?params) = Some (to_hex (uri_service u), tl ?params)"
    by (subst params) (rule split_once_append [OF q])
  moreover have "query_pairs (tl ?params) = map relay_pair (uri_relays u)"
    using assms(1) by (simp add: query_pairs_def relay_params_pairs)
  moreover have "strip_prefix (SCHEME @ ''://'') (uri_display u) = Some (to_hex (uri_service u) @ ?params)"
    using strip_prefix_append [of "SCHEME @ ''://''"] by (simp add: uri_display_def)
  ultimately show ?thesis
    using assms read_relays [OF assms(2), of "[]"] by (simp add: uri_from_str_def)
qed

lemma read_pairs_no_secret:
  "read_pairs acc ps = Some (Inr relays) \<Longrightarrow> p \<in> set ps \<Longrightarrow> fst (pair_of p) \<noteq> ''secret''"
proof (induction ps arbitrary: acc)
  case (Cons q qs)
  obtain k v where kv: "pair_of q = (k, v)" by fastforce
  from Cons.prems(1) kv have "k \<noteq> ''secret''" and "\<exists>acc'. read_pairs acc' qs = Some (Inr relays)"
    by (cases "k = ''relay''"; cases "k = ''secret''"; auto simp: bind_eq_Some_conv)+
  with Cons.IH Cons.prems(2) kv show ?case by auto
qed simp

section \<open>Properties\<close>

text \<open>C37: a control URI is read back as it was printed, for every service key and every non-empty list of ASCII
  relay addresses, whatever characters they contain.\<close>

theorem uri_round_trip:
  assumes "uri_relays u \<noteq> []" "list_all ascii (uri_relays u)"
  shows "uri_from_str (uri_display u) = Some (Inr u)"
  using assms by (rule uri_reads_back)

theorem uri_round_trip_witness:
  "uri_from_str (uri_display \<lparr>uri_service = 5, uri_relays = [''wss://r.example/?a=b&c'', ''ws://[::1]:80'']\<rparr>) =
   Some (Inr \<lparr>uri_service = 5, uri_relays = [''wss://r.example/?a=b&c'', ''ws://[::1]:80'']\<rparr>)"
  by (rule uri_round_trip) (simp_all add: ascii_def)

text \<open>C38: a control URI never hands over an identity or an empty connection: one that is accepted names at
  least one relay and carries no \<open>secret\<close> parameter, wherever in the query it might stand.\<close>

theorem uri_accepts_no_secret:
  assumes "uri_from_str s = Some (Inr u)"
  shows "uri_relays u \<noteq> [] \<and> (\<exists>key query. from_hex key = Some (uri_service u) \<and>
    (s = SCHEME @ ''://'' @ key @ CHR ''?'' # query) \<and>
    (\<forall>p \<in> set (query_pairs query). fst (pair_of p) \<noteq> ''secret''))"
proof -
  from assms obtain rest key query relays where
    rest: "strip_prefix (SCHEME @ ''://'') s = Some rest"
    and kq: "(case split_once CHR ''?'' rest of Some kq \<Rightarrow> kq | None \<Rightarrow> (rest, [])) = (key, query)"
    and key: "from_hex key = Some (uri_service u)"
    and pairs: "read_pairs [] (query_pairs query) = Some (Inr relays)" "relays \<noteq> []" "uri_relays u = relays"
    by (auto simp: uri_from_str_def Let_def split: option.splits prod.splits sum.splits if_splits)
  have "query \<noteq> []"
    using pairs(1,2) by (auto simp: query_pairs_def)
  with kq have "rest = key @ CHR ''?'' # query"
    by (auto simp: split_once_Some split: option.splits)
  with rest key pairs read_pairs_no_secret [OF pairs(1)] show ?thesis
    by (auto simp: strip_prefix_Some)
qed

theorem uri_accepts_no_secret_witness:
  "uri_relays \<lparr>uri_service = 5, uri_relays = [''ws://r'']\<rparr> \<noteq> []"
proof -
  have "uri_from_str (uri_display \<lparr>uri_service = 5, uri_relays = [''ws://r'']\<rparr>) =
      Some (Inr \<lparr>uri_service = 5, uri_relays = [''ws://r'']\<rparr>)"
    by (rule uri_reads_back) (simp_all add: ascii_def)
  from uri_accepts_no_secret [OF this] show ?thesis by blast
qed

text \<open>Beyond ASCII the two percent coders are not inverse. Encoding works on UTF-8 bytes, decoding turns
  each byte into a character of its own, so an address survives printing and reading exactly when it is
  ASCII.\<close>

lemma percent_coding_ascii_only:
  "(percent_decode (percent_encode r) = Some r) = ascii r"
  by (simp add: percent_decode_encode pushed_ascii)

text \<open>Reading a URI can panic. A percent sign two bytes in front of the middle of a multi-byte character
  makes the decoder slice the string inside that character; both kinds of URI go through it.\<close>

lemma uri_reading_panics:
  "uri_from_str (SCHEME @ ''://'' @ to_hex 5 @ ''?relay=%a'' @ [char_of (195 :: nat), char_of (169 :: nat)]) = None \<and>
   wallet_uri_from_str from_hex (\<lambda>s. Some s)
     (''nostr+walletconnect://'' @ to_hex 5 @ ''?relay=%a'' @ [char_of (195 :: nat), char_of (169 :: nat)]) = None"
proof -
  let ?v = "''%a'' @ [char_of (195 :: nat), char_of (169 :: nat)]"
  let ?q = "''relay='' @ ?v"
  have v: "percent_decode ?v = None"
    by (simp add: is_continuation_def)
  have pairs: "query_pairs ?q = [?q]"
    by (simp add: query_pairs_def char_of_def)
  have kv: "split_once CHR ''='' ?q = Some (''relay'', ?v)"
    by simp
  have q: "split_once CHR ''?'' (to_hex 5 @ CHR ''?'' # ?q) = Some (to_hex 5, ?q)"
    by (rule split_once_append) (auto dest: to_hex_chars simp: hex_chars_def)
  have "read_pairs [] [?q] = None"
    using kv v by (simp add: pair_of_def del: append.simps)
  moreover have "read_wallet_pairs Some [] None [?q] = None"
    using kv v by (simp del: append.simps split_once.simps)
  ultimately show ?thesis
    using q pairs strip_prefix_append [of "SCHEME @ ''://''" "to_hex 5 @ CHR ''?'' # ?q"]
      strip_prefix_append [of "''nostr+walletconnect://''" "to_hex 5 @ CHR ''?'' # ?q"]
    by (simp add: uri_from_str_def wallet_uri_from_str_def del: strip_prefix.simps split_once.simps)
qed

end
