(* ===== verification/Outcomes.thy ===== *)
theory Outcomes
  imports NncMethods
begin

text \<open>
  The payloads of the two notifications an asynchronous command ends in, \<open>ChannelOpened\<close> and \<open>ChannelClosed\<close>
  of \<^verbatim>\<open>src/nnc/mod.rs\<close>, with their derived codecs, and the typed readings of the envelopes: \<open>Request::new\<close>,
  \<open>Request::params_as\<close>, \<open>Notification::new\<close> and \<open>Notification::as_typed\<close>.
\<close>

section \<open>Payloads\<close>

text \<open>The channel is flattened into the payload, whose entries are its own: they are handed on as they are.\<close>

record ChannelOpened =
  opened_channel :: Channel

definition en_ChannelOpened :: "ChannelOpened \<Rightarrow> Value" where
  "en_ChannelOpened r = en_Channel (opened_channel r)"

definition de_ChannelOpened :: "Value \<Rightarrow> ChannelOpened option" where
  "de_ChannelOpened v = do { c \<leftarrow> de_Channel v; Some \<lparr>opened_channel = c\<rparr> }"

record ChannelClosed =
  closed_id :: string
  closed_short_channel_id :: "string option"
  closed_peer_pubkey :: "string option"
  closed_capacity :: "u64 option"
  closed_closing_txid :: "string option"
  closed_close_type :: CloseType

definition en_ChannelClosed :: "ChannelClosed \<Rightarrow> Value" where
  "en_ChannelClosed r = JObj (en_fields [
       (''id'', Some (JStr (closed_id r))),
       (''short_channel_id'', map_option JStr (closed_short_channel_id r)),
       (''peer_pubkey'', map_option JStr (closed_peer_pubkey r)),
       (''capacity'', map_option en_u64 (closed_capacity r)),
       (''closing_txid'', map_option JStr (closed_closing_txid r)),
       (''close_type'', Some (en_CloseType (closed_close_type r)))])"

definition de_ChannelClosed :: "Value \<Rightarrow> ChannelClosed option" where
  "de_ChannelClosed v = do {
     es \<leftarrow> struct_entries [(''id'', False), (''short_channel_id'', True), (''peer_pubkey'', True),
       (''capacity'', True), (''closing_txid'', True), (''close_type'', False)] v;
     x0 \<leftarrow> req de_string ''id'' es;
     x1 \<leftarrow> opt de_string ''short_channel_id'' es;
     x2 \<leftarrow> opt de_string ''peer_pubkey'' es;
     x3 \<leftarrow> opt de_u64 ''capacity'' es;
     x4 \<leftarrow> opt de_string ''closing_txid'' es;
     x5 \<leftarrow> req de_CloseType ''close_type'' es;
     Some \<lparr>closed_id = x0, closed_short_channel_id = x1, closed_peer_pubkey = x2, closed_capacity = x3,
       closed_closing_txid = x4, closed_close_type = x5\<rparr>
   }"

lemma de_en_ChannelOpened [codec_simps]:
  "wf_Channel (opened_channel r) \<Longrightarrow> de_ChannelOpened (en_ChannelOpened r) = Some r"
  by (simp add: de_ChannelOpened_def en_ChannelOpened_def codec_simps)

lemma de_en_ChannelClosed [codec_simps]:
  "wf_CloseType (closed_close_type r) \<Longrightarrow> de_ChannelClosed (en_ChannelClosed r) = Some r"
  by (simp add: de_ChannelClosed_def en_ChannelClosed_def codec_simps)

section \<open>Typed envelopes\<close>

text \<open>\<open>serde_json::to_value\<close> collects what a serializer writes into a map.\<close>

definition request_new :: "('p \<Rightarrow> Value) \<Rightarrow> Method \<Rightarrow> 'p \<Rightarrow> Request" where
  "request_new en m params = \<lparr>rq_method = m, rq_params = norm_value (en params)\<rparr>"

definition params_as :: "(Value \<Rightarrow> 'p option) \<Rightarrow> Request \<Rightarrow> 'p option" where
  "params_as de r = de (rq_params r)"

definition notification_new :: "('p \<Rightarrow> Value) \<Rightarrow> NotificationType \<Rightarrow> 'p \<Rightarrow> Notification" where
  "notification_new en ty payload = \<lparr>nt_type = ty, nt_payload = norm_value (en payload)\<rparr>"

definition as_typed :: "(Value \<Rightarrow> 'p option) \<Rightarrow> Notification \<Rightarrow> 'p option" where
  "as_typed de n = de (nt_payload n)"

lemma value_wf_en_fields:
  assumes "distinct (map fst fvs)" "list_all (\<lambda>(k, ov). pred_option value_wf ov) fvs"
  shows "value_wf (JObj (en_fields fvs))"
proof -
  have "list_all (\<lambda>(k, v). value_wf v) (en_fields fvs)"
    using assms(2)
  proof (induction fvs)
    case (Cons f fvs)
    then show ?case by (cases f; cases "snd f") (auto simp: en_fields_simps)
  qed (simp add: en_fields_simps)
  with distinct_en_fields [OF assms(1)] show ?thesis by simp
qed

lemma value_wf_en_CloseType [simp]: "value_wf (en_CloseType c)"
  by (cases c) simp_all

lemma value_wf_en_ChannelClosed [simp]: "value_wf (en_ChannelClosed r)"
  unfolding en_ChannelClosed_def
  by (rule value_wf_en_fields) (auto simp: en_u64_def option.pred_map comp_def pred_option_def)

lemma de_en_Notification:
  assumes "value_wf (nt_payload n)"
  shows "de_Notification (en_Notification n) =
    Some (n\<lparr>nt_type := notification_from_str (notification_as_str (nt_type n))\<rparr>)"
  using assms by (simp add: de_Notification_def en_Notification_def codec_simps)

end
