(* ===== verification/Link.thy ===== *)
theory Link
  imports Await Uri Outcomes
begin

text \<open>
  What both clients (\<^verbatim>\<open>src/nnc/client\<close>, \<^verbatim>\<open>src/nwc/client\<close>) are written over: the relay client and the signer,
  and how a call ends. A client's own state is whether it has connected; beside it the model keeps every call
  made to the relay client, in order. What the outside answers is a parameter \<open>cenv\<close>, each answer a function
  of the calls made so far, so that the same question may be answered differently later.

  A call returns, fails with an error, panics, or never ends; \<open>bind_op\<close> is sequencing with \<open>?\<close>.
\<close>

section \<open>Filters\<close>

text \<open>The part of \<open>nostr::Filter\<close> the clients set, and its \<open>match_event\<close>.\<close>

record Filter =
  f_kind :: u16
  f_pubkey :: PublicKey
  f_since :: "u64 option"
  f_event :: "EventId option"

definition match_event :: "Filter \<Rightarrow> Event \<Rightarrow> bool" where
  "match_event f event \<longleftrightarrow>
     ev_kind event = f_kind f \<and>
     (case f_since f of None \<Rightarrow> True | Some t \<Rightarrow> t \<le> ev_created_at event) \<and>
     list_ex (\<lambda>t. tag_is t ''p'' (to_hex (f_pubkey f))) (ev_tags event) \<and>
     (case f_event f of None \<Rightarrow> True | Some i \<Rightarrow> names_request i event)"

section \<open>Calls to the relay client\<close>

type_synonym SubscriptionId = string

datatype act =
    AddRelay string
  | Connect
  | Subscribe Filter
  | TakeStream
  | SendEvent Event
  | Sleep nat
  | Unsubscribe SubscriptionId

record cenv =
  cl_add_relay :: "act list \<Rightarrow> string \<Rightarrow> bool"
  cl_subscribe :: "act list \<Rightarrow> Filter \<Rightarrow> SubscriptionId option"
  cl_stream :: "act list \<Rightarrow> stream"
  cl_send_event :: "act list \<Rightarrow> Event \<Rightarrow> bool"
  cl_public_key :: "PublicKey option"
  cl_encrypt :: "act list \<Rightarrow> PublicKey \<Rightarrow> string \<Rightarrow> string option"
  cl_decrypt :: "PublicKey \<Rightarrow> string \<Rightarrow> string option"
  cl_sign :: "act list \<Rightarrow> EventBuilder \<Rightarrow> Event option"
  cl_timestamp :: "act list \<Rightarrow> u64"
  cl_instant :: "act list \<Rightarrow> nat"
  cl_timer :: "act list \<Rightarrow> timer"
  cl_instant_max :: nat
  cl_runtime :: bool

section \<open>How a call ends\<close>

text \<open>\<open>Error\<close> of either client, without the libraries' wording.\<close>

datatype ClientError =
    Refused NncError
  | TimedOut nat
  | ResultErr ResultError
  | RelayErr
  | SignerErr
  | JsonErr

datatype 'a run = Returns 'a | Fails ClientError | Panics | Diverges

record Link =
  lk_connected :: bool
  lk_acts :: "act list"

type_synonym 'a cop = "Link \<Rightarrow> 'a run \<times> Link"

definition link_new :: Link where
  "link_new = \<lparr>lk_connected = False, lk_acts = []\<rparr>"

definition return_op :: "'a \<Rightarrow> 'a cop" where
  "return_op a l = (Returns a, l)"

definition bind_op :: "'a cop \<Rightarrow> ('a \<Rightarrow> 'b cop) \<Rightarrow> 'b cop" where
  "bind_op m f l =
     (case m l of
        (Returns a, l') \<Rightarrow> f a l'
      | (Fails e, l') \<Rightarrow> (Fails e, l')
      | (Panics, l') \<Rightarrow> (Panics, l')
      | (Diverges, l') \<Rightarrow> (Diverges, l'))"

text \<open>\<open>x.map_err(|_| e)?\<close> on a fallible answer.\<close>

definition try_op :: "ClientError \<Rightarrow> 'a option \<Rightarrow> 'a cop" where
  "try_op e x l = ((case x of Some a \<Rightarrow> Returns a | None \<Rightarrow> Fails e), l)"

definition of_result :: "('a, ClientError) result \<Rightarrow> 'a cop" where
  "of_result r l = ((case r of Inr a \<Rightarrow> Returns a | Inl e \<Rightarrow> Fails e), l)"

text \<open>A call to the relay client: recorded, then answered from what was called before it.\<close>

definition call_client :: "act \<Rightarrow> (act list \<Rightarrow> 'a option) \<Rightarrow> 'a cop" where
  "call_client a ans l =
     try_op RelayErr (ans (lk_acts l)) (l\<lparr>lk_acts := lk_acts l @ [a]\<rparr>)"

definition client_add_relay :: "cenv \<Rightarrow> string \<Rightarrow> unit cop" where
  "client_add_relay env url =
     call_client (AddRelay url) (\<lambda>acts. if cl_add_relay env acts url then Some () else None)"

definition client_connect :: "unit cop" where
  "client_connect = call_client Connect (\<lambda>_. Some ())"

definition client_subscribe_to :: "cenv \<Rightarrow> Filter \<Rightarrow> SubscriptionId cop" where
  "client_subscribe_to env f = call_client (Subscribe f) (\<lambda>acts. cl_subscribe env acts f)"

definition client_notifications :: "cenv \<Rightarrow> stream cop" where
  "client_notifications env = call_client TakeStream (\<lambda>acts. Some (cl_stream env acts))"

definition client_send_event :: "cenv \<Rightarrow> Event \<Rightarrow> unit cop" where
  "client_send_event env event =
     call_client (SendEvent event) (\<lambda>acts. if cl_send_event env acts event then Some () else None)"

definition client_sleep :: "nat \<Rightarrow> unit cop" where
  "client_sleep d = call_client (Sleep d) (\<lambda>_. Some ())"

text \<open>\<open>let _ = client.unsubscribe(..)\<close>: its result is discarded.\<close>

definition client_unsubscribe :: "SubscriptionId \<Rightarrow> unit cop" where
  "client_unsubscribe i = call_client (Unsubscribe i) (\<lambda>_. Some ())"

definition signer_public_key :: "cenv \<Rightarrow> PublicKey cop" where
  "signer_public_key env = try_op SignerErr (cl_public_key env)"

definition signer_encrypt :: "cenv \<Rightarrow> PublicKey \<Rightarrow> string \<Rightarrow> string cop" where
  "signer_encrypt env to text l = try_op SignerErr (cl_encrypt env (lk_acts l) to text) l"

definition sign_event :: "cenv \<Rightarrow> EventBuilder \<Rightarrow> Event cop" where
  "sign_event env eb l = try_op RelayErr (cl_sign env (lk_acts l) eb) l"

text \<open>The same \<open>bootstrap\<close> in both clients: the relays of the URI, added until one fails, then connected once.\<close>

fun add_relays :: "cenv \<Rightarrow> string list \<Rightarrow> unit cop" where
  "add_relays env [] = return_op ()"
| "add_relays env (r # rs) = bind_op (client_add_relay env r) (\<lambda>_. add_relays env rs)"

definition set_connected :: "unit cop" where
  "set_connected l = (Returns (), l\<lparr>lk_connected := True\<rparr>)"

definition bootstrap :: "cenv \<Rightarrow> string list \<Rightarrow> unit cop" where
  "bootstrap env relays l =
     (if lk_connected l then (Returns (), l)
      else bind_op (add_relays env relays) (\<lambda>_. bind_op client_connect (\<lambda>_. set_connected)) l)"

text \<open>A wait on a stream: the deadline, then the loop.\<close>

definition wait_on ::
  "cenv \<Rightarrow> nat \<Rightarrow> (Event \<Rightarrow> 'r option) \<Rightarrow> 'r \<Rightarrow> stream \<Rightarrow> Link \<Rightarrow> 'r run" where
  "wait_on env timeout body timed_out stream l =
     (case instant_add (cl_instant_max env) (cl_instant env (lk_acts l)) timeout of
        None \<Rightarrow> Panics
      | Some deadline \<Rightarrow>
          (case await_loop body timed_out deadline (cl_timer env (lk_acts l)) stream 0 of
             None \<Rightarrow> Diverges
           | Some r \<Rightarrow> Returns r))"

section \<open>Laws\<close>

named_theorems op_simps

lemma bind_op_simps [op_simps]:
  "m l = (Returns a, l') \<Longrightarrow> bind_op m f l = f a l'"
  "m l = (Fails e, l') \<Longrightarrow> bind_op m f l = (Fails e, l')"
  "m l = (Panics, l') \<Longrightarrow> bind_op m f l = (Panics, l')"
  "m l = (Diverges, l') \<Longrightarrow> bind_op m f l = (Diverges, l')"
  by (simp_all add: bind_op_def)

lemma bind_op_Returns:
  "bind_op m f l = (Returns b, l'') \<longleftrightarrow> (\<exists>a l'. m l = (Returns a, l') \<and> f a l' = (Returns b, l''))"
  by (auto simp: bind_op_def split: prod.splits run.splits)

lemma try_op_Returns [simp]: "try_op e x l = (Returns a, l') \<longleftrightarrow> x = Some a \<and> l' = l"
  by (auto simp: try_op_def split: option.splits)

lemma call_client_Returns:
  "call_client a ans l = (Returns x, l') \<longleftrightarrow>
     ans (lk_acts l) = Some x \<and> l' = l\<lparr>lk_acts := lk_acts l @ [a]\<rparr>"
  by (auto simp: call_client_def)

end
