(* ===== verification/NncClient.thy ===== *)
theory NncClient
  imports Link
begin

text \<open>
  The NNC client, \<^verbatim>\<open>src/nnc/client/mod.rs\<close>, \<^verbatim>\<open>methods.rs\<close> and \<^verbatim>\<open>pending.rs\<close>: \<open>send\<close> and \<open>await_response\<close>, the
  typed calls over them, asynchronous commands with their \<open>Pending\<close> handle, subscriptions and the listener.
  What a callback does to its caller's state is a state-passing function.
\<close>

section \<open>The client\<close>

definition DEFAULT_TIMEOUT :: nat where
  "DEFAULT_TIMEOUT = 30 * 10 ^ 9"

definition DEFAULT_OUTCOME_TIMEOUT :: nat where
  "DEFAULT_OUTCOME_TIMEOUT = 3600 * 10 ^ 9"

record NostrNodeControl =
  nc_uri :: NodeControlUri
  nc_timeout :: nat
  nc_outcome_timeout :: nat

definition nnc_new :: "NodeControlUri \<Rightarrow> NostrNodeControl" where
  "nnc_new uri =
     \<lparr>nc_uri = uri, nc_timeout = DEFAULT_TIMEOUT, nc_outcome_timeout = DEFAULT_OUTCOME_TIMEOUT\<rparr>"

definition nnc_with_timeout :: "nat \<Rightarrow> NostrNodeControl \<Rightarrow> NostrNodeControl" where
  "nnc_with_timeout d c = c\<lparr>nc_timeout := d\<rparr>"

definition nnc_with_outcome_timeout :: "nat \<Rightarrow> NostrNodeControl \<Rightarrow> NostrNodeControl" where
  "nnc_with_outcome_timeout d c = c\<lparr>nc_outcome_timeout := d\<rparr>"

definition nnc_service :: "NostrNodeControl \<Rightarrow> PublicKey" where
  "nnc_service c = uri_service (nc_uri c)"

section \<open>Requests and responses\<close>

text \<open>What one event of the stream means to a request that waits for its response.\<close>

definition response_body ::
  "codec \<Rightarrow> cenv \<Rightarrow> PublicKey \<Rightarrow> EventId \<Rightarrow> Event \<Rightarrow> (Response, ClientError) result option" where
  "response_body codec env srv request_id event =
     (if ev_kind event \<noteq> CONTROL_RESPONSE_KIND \<or> ev_pubkey event \<noteq> srv then None
      else if \<not> names_request request_id event then None
      else Some
        (case cl_decrypt env srv (ev_content event) of
           None \<Rightarrow> Inl SignerErr
         | Some plaintext \<Rightarrow> ok_or (Option.bind (parse codec plaintext) de_Response) JsonErr))"

definition await_response ::
  "codec \<Rightarrow> cenv \<Rightarrow> NostrNodeControl \<Rightarrow> EventId \<Rightarrow> stream \<Rightarrow> Response cop" where
  "await_response codec env c request_id events =
     bind_op
       (\<lambda>l. (wait_on env (nc_timeout c) (response_body codec env (nnc_service c) request_id)
               (Inl (TimedOut (nc_timeout c))) events l, l))
       of_result"

definition request_builder :: "u16 \<Rightarrow> PublicKey \<Rightarrow> string \<Rightarrow> EventBuilder" where
  "request_builder kind srv ciphertext =
     \<lparr>eb_kind = kind, eb_content = ciphertext, eb_tags = [tag_public_key srv]\<rparr>"

definition response_filter :: "u16 \<Rightarrow> cenv \<Rightarrow> PublicKey \<Rightarrow> Link \<Rightarrow> Filter" where
  "response_filter kind env me l =
     \<lparr>f_kind = kind, f_pubkey = me, f_since = Some (cl_timestamp env (lk_acts l)), f_event = None\<rparr>"

definition nnc_send :: "codec \<Rightarrow> cenv \<Rightarrow> NostrNodeControl \<Rightarrow> Request \<Rightarrow> Response cop" where
  "nnc_send codec env c request =
     bind_op (bootstrap env (uri_relays (nc_uri c))) (\<lambda>_.
     bind_op (signer_public_key env) (\<lambda>me.
     bind_op (\<lambda>l. client_subscribe_to env (response_filter CONTROL_RESPONSE_KIND env me l) l) (\<lambda>_.
     bind_op (signer_encrypt env (nnc_service c) (print codec (en_Request request))) (\<lambda>ciphertext.
     bind_op (sign_event env (request_builder CONTROL_REQUEST_KIND (nnc_service c) ciphertext)) (\<lambda>event.
     bind_op (client_notifications env) (\<lambda>events.
     bind_op (client_send_event env event) (\<lambda>_.
     await_response codec env c (ev_id event) events)))))))"

text \<open>\<open>if let Some(e) = response.error\<close>: a refusal.\<close>

definition accepted_response :: "Response \<Rightarrow> Response cop" where
  "accepted_response response =
     of_result (case rs_error response of Some e \<Rightarrow> Inl (Refused e) | None \<Rightarrow> Inr response)"

definition nnc_call_raw :: "codec \<Rightarrow> cenv \<Rightarrow> NostrNodeControl \<Rightarrow> string \<Rightarrow> Value \<Rightarrow> Value cop" where
  "nnc_call_raw codec env c name params =
     bind_op (nnc_send codec env c (request_new id (method_from_str name) params)) (\<lambda>response.
     bind_op (accepted_response response) (\<lambda>response.
     return_op (case rs_result response of Some v \<Rightarrow> v | None \<Rightarrow> JNull)))"

definition nnc_call ::
  "codec \<Rightarrow> cenv \<Rightarrow> NostrNodeControl \<Rightarrow> ('p \<Rightarrow> Value) \<Rightarrow> (Value \<Rightarrow> 'r option) \<Rightarrow> Method \<Rightarrow> 'p \<Rightarrow> 'r cop" where
  "nnc_call codec env c en de m params =
     bind_op (nnc_send codec env c (request_new en m params)) (\<lambda>response.
     bind_op (accepted_response response) (\<lambda>response.
     of_result (case result_as de response of Inr r \<Rightarrow> Inr r | Inl e \<Rightarrow> Inl (ResultErr e))))"

text \<open>A call whose result is read and dropped.\<close>

definition nnc_call_unit ::
  "codec \<Rightarrow> cenv \<Rightarrow> NostrNodeControl \<Rightarrow> ('p \<Rightarrow> Value) \<Rightarrow> (Value \<Rightarrow> 'r option) \<Rightarrow> Method \<Rightarrow> 'p \<Rightarrow> unit cop" where
  "nnc_call_unit codec env c en de m params = bind_op (nnc_call codec env c en de m params) (\<lambda>_. return_op ())"

section \<open>Pending outcomes\<close>

record Pending =
  pd_events :: stream
  pd_subscription :: SubscriptionId
  pd_request_id :: EventId
  pd_service :: PublicKey
  pd_timeout :: nat

definition pending_new :: "stream \<Rightarrow> SubscriptionId \<Rightarrow> EventId \<Rightarrow> PublicKey \<Rightarrow> nat \<Rightarrow> Pending" where
  [simp]: "pending_new events subscription request_id srv timeout =
     \<lparr>pd_events = events, pd_subscription = subscription, pd_request_id = request_id, pd_service = srv,
      pd_timeout = timeout\<rparr>"

definition pending_with_timeout :: "nat \<Rightarrow> Pending \<Rightarrow> Pending" where
  "pending_with_timeout d p = p\<lparr>pd_timeout := d\<rparr>"

text \<open>The loop of \<open>wait\<close> is left by \<open>break\<close>, or by \<open>?\<close> past the unsubscribe that follows it.\<close>

datatype 'a leave = Break "('a, ClientError) result" | Question ClientError

definition outcome_body ::
  "codec \<Rightarrow> cenv \<Rightarrow> (Value \<Rightarrow> 't option) \<Rightarrow> PublicKey \<Rightarrow> EventId \<Rightarrow> Event \<Rightarrow> 't leave option" where
  "outcome_body codec env de srv request_id event =
     (if ev_kind event \<noteq> NOTIFICATION_KIND then None
      else if \<not> names_request request_id event then None
      else Some
        (case cl_decrypt env srv (ev_content event) of
           None \<Rightarrow> Question SignerErr
         | Some plaintext \<Rightarrow>
             (case Option.bind (parse codec plaintext) de_Notification of
                None \<Rightarrow> Question JsonErr
              | Some n \<Rightarrow> Break (ok_or (as_typed de n) JsonErr))))"

text \<open>\<open>Drop\<close>: the unsubscribe is spawned where there is a runtime to spawn it on.\<close>

definition pending_drop :: "cenv \<Rightarrow> Pending \<Rightarrow> unit cop" where
  "pending_drop env p = (if cl_runtime env then client_unsubscribe (pd_subscription p) else return_op ())"

definition pending_wait :: "codec \<Rightarrow> cenv \<Rightarrow> (Value \<Rightarrow> 't option) \<Rightarrow> Pending \<Rightarrow> 't cop" where
  "pending_wait codec env de p l =
     (case wait_on env (pd_timeout p) (outcome_body codec env de (pd_service p) (pd_request_id p))
             (Break (Inl (TimedOut (pd_timeout p)))) (pd_events p) l of
        Returns (Break outcome) \<Rightarrow>
          bind_op (client_unsubscribe (pd_subscription p)) (\<lambda>_.
          bind_op (pending_drop env p) (\<lambda>_. of_result outcome)) l
      | Returns (Question e) \<Rightarrow> bind_op (pending_drop env p) (\<lambda>_. of_result (Inl e)) l
      | Panics \<Rightarrow> (Panics, snd (pending_drop env p l))
      | Fails e \<Rightarrow> (Fails e, l)
      | Diverges \<Rightarrow> (Diverges, l))"

definition outcome_filter :: "PublicKey \<Rightarrow> EventId \<Rightarrow> Filter" where
  "outcome_filter me request_id =
     \<lparr>f_kind = NOTIFICATION_KIND, f_pubkey = me, f_since = None, f_event = Some request_id\<rparr>"

definition nnc_begin ::
  "codec \<Rightarrow> cenv \<Rightarrow> NostrNodeControl \<Rightarrow> ('p \<Rightarrow> Value) \<Rightarrow> Method \<Rightarrow> 'p \<Rightarrow> Pending cop" where
  "nnc_begin codec env c en m params =
     bind_op (bootstrap env (uri_relays (nc_uri c))) (\<lambda>_.
     bind_op (signer_public_key env) (\<lambda>me.
     bind_op (signer_encrypt env (nnc_service c) (print codec (en_Request (request_new en m params)))) (\<lambda>ciphertext.
     bind_op (sign_event env (request_builder CONTROL_REQUEST_KIND (nnc_service c) ciphertext)) (\<lambda>event.
     bind_op (\<lambda>l. client_subscribe_to env (response_filter CONTROL_RESPONSE_KIND env me l) l) (\<lambda>_.
     bind_op (client_subscribe_to env (outcome_filter me (ev_id event))) (\<lambda>outcome_sub.
     bind_op (client_notifications env) (\<lambda>responses.
     bind_op (client_notifications env) (\<lambda>outcomes.
     bind_op (client_send_event env event) (\<lambda>_.
     bind_op (await_response codec env c (ev_id event) responses) (\<lambda>response.
     bind_op (accepted_response response) (\<lambda>_.
     return_op (pending_new outcomes outcome_sub (ev_id event) (nnc_service c) (nc_outcome_timeout c)))))))))))))"

section \<open>The methods\<close>

definition client_list_channels :: "codec \<Rightarrow> cenv \<Rightarrow> NostrNodeControl \<Rightarrow> ListChannelsResponse cop" where
  "client_list_channels codec env c =
     nnc_call codec env c en_ListChannelsRequest de_ListChannelsResponse ListChannels ListChannelsRequest"

definition client_open_channel :: "codec \<Rightarrow> cenv \<Rightarrow> NostrNodeControl \<Rightarrow> OpenChannelRequest \<Rightarrow> Pending cop" where
  "client_open_channel codec env c request =
     nnc_begin codec env c en_OpenChannelRequest OpenChannel (request\<lparr>open_channel_rq_notify := Some True\<rparr>)"

definition client_open_channel_without_notification ::
  "codec \<Rightarrow> cenv \<Rightarrow> NostrNodeControl \<Rightarrow> OpenChannelRequest \<Rightarrow> unit cop" where
  "client_open_channel_without_notification codec env c request =
     nnc_call_unit codec env c en_OpenChannelRequest de_OpenChannelResponse OpenChannel
       (request\<lparr>open_channel_rq_notify := Some False\<rparr>)"

definition client_close_channel :: "codec \<Rightarrow> cenv \<Rightarrow> NostrNodeControl \<Rightarrow> CloseChannelRequest \<Rightarrow> Pending cop" where
  "client_close_channel codec env c request =
     nnc_begin codec env c en_CloseChannelRequest CloseChannel (request\<lparr>close_channel_rq_notify := Some True\<rparr>)"

definition client_close_channel_without_notification ::
  "codec \<Rightarrow> cenv \<Rightarrow> NostrNodeControl \<Rightarrow> CloseChannelRequest \<Rightarrow> unit cop" where
  "client_close_channel_without_notification codec env c request =
     nnc_call_unit codec env c en_CloseChannelRequest de_CloseChannelResponse CloseChannel
       (request\<lparr>close_channel_rq_notify := Some False\<rparr>)"

definition client_list_peers :: "codec \<Rightarrow> cenv \<Rightarrow> NostrNodeControl \<Rightarrow> ListPeersResponse cop" where
  "client_list_peers codec env c =
     nnc_call codec env c en_ListPeersRequest de_ListPeersResponse ListPeers ListPeersRequest"

definition client_connect_peer :: "codec \<Rightarrow> cenv \<Rightarrow> NostrNodeControl \<Rightarrow> ConnectPeerRequest \<Rightarrow> unit cop" where
  "client_connect_peer codec env c request =
     nnc_call_unit codec env c en_ConnectPeerRequest de_ConnectPeerResponse ConnectPeer request"

definition client_disconnect_peer :: "codec \<Rightarrow> cenv \<Rightarrow> NostrNodeControl \<Rightarrow> DisconnectPeerRequest \<Rightarrow> unit cop" where
  "client_disconnect_peer codec env c request =
     nnc_call_unit codec env c en_DisconnectPeerRequest de_DisconnectPeerResponse DisconnectPeer request"

definition client_get_channel_fees ::
  "codec \<Rightarrow> cenv \<Rightarrow> NostrNodeControl \<Rightarrow> GetChannelFeesRequest \<Rightarrow> GetChannelFeesResponse cop" where
  "client_get_channel_fees codec env c request =
     nnc_call codec env c en_GetChannelFeesRequest de_GetChannelFeesResponse GetChannelFees request"

definition client_set_channel_fees :: "codec \<Rightarrow> cenv \<Rightarrow> NostrNodeControl \<Rightarrow> SetChannelFeesRequest \<Rightarrow> unit cop" where
  "client_set_channel_fees codec env c request =
     nnc_call_unit codec env c en_SetChannelFeesRequest de_SetChannelFeesResponse SetChannelFees request"

definition client_get_forwarding_history ::
  "codec \<Rightarrow> cenv \<Rightarrow> NostrNodeControl \<Rightarrow> GetForwardingHistoryRequest \<Rightarrow> GetForwardingHistoryResponse cop" where
  "client_get_forwarding_history codec env c request =
     nnc_call codec env c en_GetForwardingHistoryRequest de_GetForwardingHistoryResponse GetForwardingHistory request"

definition client_get_pending_htlcs :: "codec \<Rightarrow> cenv \<Rightarrow> NostrNodeControl \<Rightarrow> GetPendingHtlcsResponse cop" where
  "client_get_pending_htlcs codec env c =
     nnc_call codec env c en_GetPendingHtlcsRequest de_GetPendingHtlcsResponse GetPendingHtlcs GetPendingHtlcsRequest"

definition client_query_routes ::
  "codec \<Rightarrow> cenv \<Rightarrow> NostrNodeControl \<Rightarrow> QueryRoutesRequest \<Rightarrow> QueryRoutesResponse cop" where
  "client_query_routes codec env c request =
     nnc_call codec env c en_QueryRoutesRequest de_QueryRoutesResponse QueryRoutes request"

definition client_list_network_nodes ::
  "codec \<Rightarrow> cenv \<Rightarrow> NostrNodeControl \<Rightarrow> ListNetworkNodesRequest \<Rightarrow> ListNetworkNodesResponse cop" where
  "client_list_network_nodes codec env c request =
     nnc_call codec env c en_ListNetworkNodesRequest de_ListNetworkNodesResponse ListNetworkNodes request"

definition client_get_network_stats :: "codec \<Rightarrow> cenv \<Rightarrow> NostrNodeControl \<Rightarrow> GetNetworkStatsResponse cop" where
  "client_get_network_stats codec env c =
     nnc_call codec env c en_GetNetworkStatsRequest de_GetNetworkStatsResponse GetNetworkStats GetNetworkStatsRequest"

definition client_get_network_node ::
  "codec \<Rightarrow> cenv \<Rightarrow> NostrNodeControl \<Rightarrow> GetNetworkNodeRequest \<Rightarrow> GetNetworkNodeResponse cop" where
  "client_get_network_node codec env c request =
     nnc_call codec env c en_GetNetworkNodeRequest de_NetworkNode GetNetworkNode request"

definition client_get_network_channel ::
  "codec \<Rightarrow> cenv \<Rightarrow> NostrNodeControl \<Rightarrow> GetNetworkChannelRequest \<Rightarrow> GetNetworkChannelResponse cop" where
  "client_get_network_channel codec env c request =
     nnc_call codec env c en_GetNetworkChannelRequest de_GetNetworkChannelResponse GetNetworkChannel request"

definition client_sign_message ::
  "codec \<Rightarrow> cenv \<Rightarrow> NostrNodeControl \<Rightarrow> SignMessageRequest \<Rightarrow> SignMessageResponse cop" where
  "client_sign_message codec env c request =
     nnc_call codec env c en_SignMessageRequest de_SignMessageResponse SignMessage request"

section \<open>Subscriptions\<close>

definition subscription_builder :: "PublicKey \<Rightarrow> string \<Rightarrow> EventBuilder" where
  "subscription_builder srv content =
     \<lparr>eb_kind = SUBSCRIPTION_KIND, eb_content = content,
      eb_tags = [tag_identifier (to_hex srv), tag_public_key srv]\<rparr>"

definition set_subscription :: "codec \<Rightarrow> cenv \<Rightarrow> NostrNodeControl \<Rightarrow> NotificationType list \<Rightarrow> unit cop" where
  "set_subscription codec env c types =
     bind_op (bootstrap env (uri_relays (nc_uri c))) (\<lambda>_.
     bind_op (signer_encrypt env (nnc_service c) (print codec (en_vec (JStr \<circ> notification_as_str) types))) (\<lambda>content.
     bind_op (sign_event env (subscription_builder (nnc_service c) content)) (\<lambda>event.
     client_send_event env event)))"

text \<open>One pass over the tags: whether the event names a subscription, whether it names \<open>mine\<close>, whether it
  names a request; the last only decides whether a warning is logged.\<close>

definition scan_tag :: "string \<Rightarrow> Tag \<Rightarrow> bool \<times> bool \<times> bool \<Rightarrow> bool \<times> bool \<times> bool" where
  "scan_tag mine t seen =
     (case seen of (names_a_subscription, names_mine, names_a_request) \<Rightarrow>
        if slice_get t 0 = Some ''a'' then (True, names_mine \<or> slice_get t 1 = Some mine, names_a_request)
        else if slice_get t 0 = Some ''e'' then (names_a_subscription, names_mine, True)
        else (names_a_subscription, names_mine, names_a_request))"

definition scan_tags :: "string \<Rightarrow> Tag list \<Rightarrow> bool \<times> bool \<times> bool" where
  "scan_tags mine tags = fold (scan_tag mine) tags (False, False, False)"

definition listen_body ::
  "codec \<Rightarrow> cenv \<Rightarrow> PublicKey \<Rightarrow> PublicKey \<Rightarrow> Event \<Rightarrow> (Notification, ClientError) result option" where
  "listen_body codec env me srv event =
     (if ev_kind event \<noteq> NOTIFICATION_KIND \<or> ev_pubkey event \<noteq> srv then None
      else
        (case scan_tags (coordinate SUBSCRIPTION_KIND me (to_hex srv)) (ev_tags event) of
           (names_a_subscription, names_mine, _) \<Rightarrow>
             if \<not> names_a_subscription then None
             else if \<not> names_mine then None
             else Some
               (case cl_decrypt env srv (ev_content event) of
                  None \<Rightarrow> Inl SignerErr
                | Some plaintext \<Rightarrow> ok_or (Option.bind (parse codec plaintext) de_Notification) JsonErr)))"

partial_function (option) listen_loop ::
  "(Event \<Rightarrow> (Notification, ClientError) result option) \<Rightarrow>
   (Notification \<Rightarrow> 's \<Rightarrow> (bool, ClientError) result \<times> 's) \<Rightarrow>
   stream \<Rightarrow> nat \<Rightarrow> 's \<Rightarrow> ((unit, ClientError) result \<times> 's) option" where
  "listen_loop body f stream i s =
     (case stream i of
        Silent \<Rightarrow> None
      | Closed \<Rightarrow> Some (Inr (), s)
      | Item (NEvent event) \<Rightarrow>
          (case body event of
             None \<Rightarrow> listen_loop body f stream (Suc i) s
           | Some (Inl e) \<Rightarrow> Some (Inl e, s)
           | Some (Inr n) \<Rightarrow>
               (case f n s of
                  (Inl e, s') \<Rightarrow> Some (Inl e, s')
                | (Inr again, s') \<Rightarrow>
                    if \<not> again then Some (Inr (), s') else listen_loop body f stream (Suc i) s'))
      | Item _ \<Rightarrow> listen_loop body f stream (Suc i) s)"

text \<open>The listener is set up, then runs over the caller's state \<open>s\<close>, which the callback changes.\<close>

definition listen :: "cenv \<Rightarrow> NostrNodeControl \<Rightarrow> (PublicKey \<times> stream) cop" where
  "listen env c =
     bind_op (bootstrap env (uri_relays (nc_uri c))) (\<lambda>_.
     bind_op (signer_public_key env) (\<lambda>me.
     bind_op (\<lambda>l. client_subscribe_to env (response_filter NOTIFICATION_KIND env me l) l) (\<lambda>_.
     bind_op (client_notifications env) (\<lambda>events.
     return_op (me, events)))))"

definition handle_notifications ::
  "codec \<Rightarrow> cenv \<Rightarrow> NostrNodeControl \<Rightarrow> (Notification \<Rightarrow> 's \<Rightarrow> (bool, ClientError) result \<times> 's) \<Rightarrow>
     Link \<Rightarrow> 's \<Rightarrow> unit run \<times> Link \<times> 's" where
  "handle_notifications codec env c f l s =
     (case listen env c l of
        (Returns (me, events), l') \<Rightarrow>
          (case listen_loop (listen_body codec env me (nnc_service c)) f events 0 s of
             None \<Rightarrow> (Diverges, l', s)
           | Some (Inl e, s') \<Rightarrow> (Fails e, l', s')
           | Some (Inr _, s') \<Rightarrow> (Returns (), l', s'))
      | (Fails e, l') \<Rightarrow> (Fails e, l', s)
      | (Panics, l') \<Rightarrow> (Panics, l', s)
      | (Diverges, l') \<Rightarrow> (Diverges, l', s))"

section \<open>Laws of the waits\<close>

interpretation response: authored_wait "response_body codec env srv request_id" CONTROL_RESPONSE_KIND request_id srv
  for codec env srv request_id
  by unfold_locales (auto simp: response_body_def split: if_splits)

text \<open>An outcome is matched by kind and request alone: the judgement does not ask who signed it.\<close>

interpretation outcome: reply_wait "outcome_body codec env de srv request_id" NOTIFICATION_KIND request_id
  for codec env de srv request_id
  by unfold_locales (auto simp: outcome_body_def split: if_splits)

lemma scan_tags_iff:
  "scan_tags mine tags = (list_ex (\<lambda>t. slice_get t 0 = Some ''a'') tags, list_ex (\<lambda>t. tag_is t ''a'' mine) tags,
     list_ex (\<lambda>t. slice_get t 0 = Some ''e'') tags)"
proof -
  have "fold (scan_tag mine) tags (a, b, c) = (a \<or> list_ex (\<lambda>t. slice_get t 0 = Some ''a'') tags,
      b \<or> list_ex (\<lambda>t. tag_is t ''a'' mine) tags, c \<or> list_ex (\<lambda>t. slice_get t 0 = Some ''e'') tags)" for a b c
    by (induction tags arbitrary: a b c) (auto simp: scan_tag_def tag_is_def)
  then show ?thesis by (simp add: scan_tags_def)
qed

lemma listen_body_Some:
  "listen_body codec env me srv event = Some r \<longleftrightarrow>
     ev_kind event = NOTIFICATION_KIND \<and> ev_pubkey event = srv \<and>
     list_ex (\<lambda>t. tag_is t ''a'' (coordinate SUBSCRIPTION_KIND me (to_hex srv))) (ev_tags event) \<and>
     r = (case cl_decrypt env srv (ev_content event) of
            None \<Rightarrow> Inl SignerErr
          | Some plaintext \<Rightarrow> ok_or (Option.bind (parse codec plaintext) de_Notification) JsonErr)"
  by (auto simp: listen_body_def scan_tags_iff list_ex_iff tag_is_def)

end
