(* ===== verification/NwcClient.thy ===== *)
theory NwcClient
  imports NncClient NwcMethods
begin

text \<open>
  The NWC client, \<^verbatim>\<open>src/nwc/client/mod.rs\<close> and \<^verbatim>\<open>methods.rs\<close>: requests under the key the URI carries, the nine
  typed methods, and the stream of wallet notifications. The key derived from the secret is a parameter.
\<close>

section \<open>The client\<close>

record 'sk WalletConnect =
  wc_uri :: "'sk WalletUri"
  wc_public_key :: PublicKey
  wc_timeout :: nat

definition wallet_connect_new :: "('sk \<Rightarrow> PublicKey) \<Rightarrow> 'sk WalletUri \<Rightarrow> 'sk WalletConnect" where
  "wallet_connect_new public_key uri =
     \<lparr>wc_uri = uri, wc_public_key = public_key (wu_secret uri), wc_timeout = 30 * 10 ^ 9\<rparr>"

definition wallet_with_timeout :: "nat \<Rightarrow> 'sk WalletConnect \<Rightarrow> 'sk WalletConnect" where
  "wallet_with_timeout d c = c\<lparr>wc_timeout := d\<rparr>"

definition wc_wallet :: "'sk WalletConnect \<Rightarrow> PublicKey" where
  "wc_wallet c = wu_wallet (wc_uri c)"

section \<open>Requests\<close>

text \<open>\<open>Value::get\<close> by key.\<close>

definition value_get :: "string \<Rightarrow> Value \<Rightarrow> Value option" where
  "value_get k v = (case v of JObj kvs \<Rightarrow> map_of kvs k | _ \<Rightarrow> None)"

definition wallet_verdict :: "Value \<Rightarrow> (Value, ClientError) result" where
  "wallet_verdict v =
     (case value_get ''error'' v of
        Some err \<Rightarrow>
          if err \<noteq> JNull then
            (case de_NncError err of None \<Rightarrow> Inl JsonErr | Some e \<Rightarrow> Inl (Refused e))
          else Inr (case value_get ''result'' v of Some r \<Rightarrow> r | None \<Rightarrow> JNull)
      | None \<Rightarrow> Inr (case value_get ''result'' v of Some r \<Rightarrow> r | None \<Rightarrow> JNull))"

definition wallet_body ::
  "codec \<Rightarrow> cenv \<Rightarrow> PublicKey \<Rightarrow> EventId \<Rightarrow> Event \<Rightarrow> (Value, ClientError) result option" where
  "wallet_body codec env wallet request_id event =
     (if ev_kind event \<noteq> WALLET_RESPONSE_KIND \<or> ev_pubkey event \<noteq> wallet then None
      else if \<not> names_request request_id event then None
      else Some
        (case cl_decrypt env (ev_pubkey event) (ev_content event) of
           None \<Rightarrow> Inl SignerErr
         | Some plain \<Rightarrow>
             (case Option.bind (parse codec plain) de_value of
                None \<Rightarrow> Inl JsonErr
              | Some v \<Rightarrow> wallet_verdict v)))"

text \<open>The loop at the end of \<open>send\<close>.\<close>

definition wallet_await ::
  "codec \<Rightarrow> cenv \<Rightarrow> 'sk WalletConnect \<Rightarrow> EventId \<Rightarrow> stream \<Rightarrow> Value cop" where
  "wallet_await codec env c request_id events =
     bind_op
       (\<lambda>l. (wait_on env (wc_timeout c) (wallet_body codec env (wc_wallet c) request_id)
               (Inl (TimedOut (wc_timeout c))) events l, l))
       of_result"

definition wallet_payload :: "WalletMethod \<Rightarrow> Value \<Rightarrow> Value" where
  "wallet_payload m params = JObj [(''method'', JStr (wallet_method_as_str m)), (''params'', params)]"

definition wallet_send :: "codec \<Rightarrow> cenv \<Rightarrow> 'sk WalletConnect \<Rightarrow> WalletMethod \<Rightarrow> Value \<Rightarrow> Value cop" where
  "wallet_send codec env c m params =
     bind_op (bootstrap env (wu_relays (wc_uri c))) (\<lambda>_.
     bind_op (\<lambda>l. client_subscribe_to env (response_filter WALLET_RESPONSE_KIND env (wc_public_key c) l) l) (\<lambda>_.
     bind_op (signer_encrypt env (wc_wallet c) (print codec (wallet_payload m params))) (\<lambda>ciphertext.
     bind_op (sign_event env (request_builder WALLET_REQUEST_KIND (wc_wallet c) ciphertext)) (\<lambda>event.
     bind_op (client_notifications env) (\<lambda>events.
     bind_op (client_send_event env event) (\<lambda>_.
     wallet_await codec env c (ev_id event) events))))))"

definition wallet_call_raw :: "codec \<Rightarrow> cenv \<Rightarrow> 'sk WalletConnect \<Rightarrow> string \<Rightarrow> Value \<Rightarrow> Value cop" where
  "wallet_call_raw codec env c name params = wallet_send codec env c (wallet_method_from_str name) params"

section \<open>The methods\<close>

definition decode :: "(Value \<Rightarrow> 'r option) \<Rightarrow> Value \<Rightarrow> ('r, ClientError) result" where
  "decode de v = ok_or (de v) (ResultErr Malformed)"

text \<open>Three lines each: build params, \<open>send\<close>, \<open>decode\<close>.\<close>

definition wallet_call ::
  "codec \<Rightarrow> cenv \<Rightarrow> 'sk WalletConnect \<Rightarrow> (Value \<Rightarrow> 'r option) \<Rightarrow> WalletMethod \<Rightarrow> Value \<Rightarrow> 'r cop" where
  "wallet_call codec env c de m params =
     bind_op (wallet_send codec env c m params) (\<lambda>v. of_result (decode de v))"

definition wallet_get_info :: "codec \<Rightarrow> cenv \<Rightarrow> 'sk WalletConnect \<Rightarrow> GetInfoResponse cop" where
  "wallet_get_info codec env c = wallet_call codec env c de_GetInfoResponse GetInfo (JObj [])"

definition wallet_get_balance :: "codec \<Rightarrow> cenv \<Rightarrow> 'sk WalletConnect \<Rightarrow> GetBalanceResponse cop" where
  "wallet_get_balance codec env c = wallet_call codec env c de_GetBalanceResponse GetBalance (JObj [])"

definition wallet_make_invoice ::
  "codec \<Rightarrow> cenv \<Rightarrow> 'sk WalletConnect \<Rightarrow> MakeInvoiceRequest \<Rightarrow> MakeInvoiceResponse cop" where
  "wallet_make_invoice codec env c r =
     wallet_call codec env c de_Transaction MakeInvoice (norm_value (en_MakeInvoiceRequest r))"

definition wallet_lookup_invoice ::
  "codec \<Rightarrow> cenv \<Rightarrow> 'sk WalletConnect \<Rightarrow> LookupInvoiceRequest \<Rightarrow> LookupInvoiceResponse cop" where
  "wallet_lookup_invoice codec env c r =
     wallet_call codec env c de_Transaction LookupInvoice (norm_value (en_LookupInvoiceRequest r))"

definition wallet_pay_invoice ::
  "codec \<Rightarrow> cenv \<Rightarrow> 'sk WalletConnect \<Rightarrow> PayInvoiceRequest \<Rightarrow> PayInvoiceResponse cop" where
  "wallet_pay_invoice codec env c r =
     wallet_call codec env c de_PayInvoiceResponse PayInvoice (norm_value (en_PayInvoiceRequest r))"

definition wallet_make_hold_invoice ::
  "codec \<Rightarrow> cenv \<Rightarrow> 'sk WalletConnect \<Rightarrow> MakeHoldInvoiceRequest \<Rightarrow> MakeHoldInvoiceResponse cop" where
  "wallet_make_hold_invoice codec env c r =
     wallet_call codec env c de_MakeHoldInvoiceResponse MakeHoldInvoice (norm_value (en_MakeHoldInvoiceRequest r))"

definition wallet_settle_hold_invoice ::
  "codec \<Rightarrow> cenv \<Rightarrow> 'sk WalletConnect \<Rightarrow> SettleHoldInvoiceRequest \<Rightarrow> SettleHoldInvoiceResponse cop" where
  "wallet_settle_hold_invoice codec env c r =
     wallet_call codec env c de_SettleHoldInvoiceResponse SettleHoldInvoice
       (norm_value (en_SettleHoldInvoiceRequest r))"

definition wallet_cancel_hold_invoice ::
  "codec \<Rightarrow> cenv \<Rightarrow> 'sk WalletConnect \<Rightarrow> CancelHoldInvoiceRequest \<Rightarrow> CancelHoldInvoiceResponse cop" where
  "wallet_cancel_hold_invoice codec env c r =
     wallet_call codec env c de_CancelHoldInvoiceResponse CancelHoldInvoice
       (norm_value (en_CancelHoldInvoiceRequest r))"

definition wallet_quote_payment ::
  "codec \<Rightarrow> cenv \<Rightarrow> 'sk WalletConnect \<Rightarrow> QuotePaymentRequest \<Rightarrow> QuotePaymentResponse cop" where
  "wallet_quote_payment codec env c r =
     wallet_call codec env c de_QuotePaymentResponse QuotePayment (norm_value (en_QuotePaymentRequest r))"

section \<open>Notifications\<close>

text \<open>\<open>WalletNotification::new\<close> and \<open>as_typed\<close>: a payload is built from its type and read as it.\<close>

definition wallet_notification_new ::
  "('p \<Rightarrow> Value) \<Rightarrow> WalletNotificationType \<Rightarrow> 'p \<Rightarrow> WalletNotification" where
  "wallet_notification_new en ty payload = \<lparr>wn_type = ty, wn_payload = norm_value (en payload)\<rparr>"

definition wallet_as_typed :: "(Value \<Rightarrow> 'p option) \<Rightarrow> WalletNotification \<Rightarrow> 'p option" where
  "wallet_as_typed de n = de (wn_payload n)"

text \<open>A stream with the position it has been read to, and the wallet it belongs to.\<close>

record Notifications =
  ns_stream :: stream
  ns_position :: nat
  ns_wallet :: PublicKey

definition wallet_notifications ::
  "codec \<Rightarrow> cenv \<Rightarrow> 'sk WalletConnect \<Rightarrow> WalletNotificationType list \<Rightarrow> Notifications cop" where
  "wallet_notifications codec env c types =
     bind_op (bootstrap env (wu_relays (wc_uri c))) (\<lambda>_.
     bind_op (signer_encrypt env (wc_wallet c) (print codec (en_vec (JStr \<circ> wallet_notification_as_str) types))) (\<lambda>content.
     bind_op (sign_event env (subscription_builder (wc_wallet c) content)) (\<lambda>event.
     bind_op (client_send_event env event) (\<lambda>_.
     bind_op (client_sleep (500 * 10 ^ 6)) (\<lambda>_.
     bind_op (\<lambda>l. client_subscribe_to env
         (response_filter WALLET_NOTIFICATION_KIND env (wc_public_key c) l) l) (\<lambda>_.
     bind_op (client_notifications env) (\<lambda>events.
     return_op \<lparr>ns_stream = events, ns_position = 0, ns_wallet = wc_wallet c\<rparr>)))))))"

text \<open>What one item means to \<open>next\<close>: go on, or return this.\<close>

definition next_step ::
  "codec \<Rightarrow> cenv \<Rightarrow> PublicKey \<Rightarrow> ClientNotification \<Rightarrow> WalletNotification option option" where
  "next_step codec env wallet item =
     (case item of
        NEvent event \<Rightarrow>
          if ev_kind event \<noteq> WALLET_NOTIFICATION_KIND \<or> ev_pubkey event \<noteq> wallet then None
          else
            (case cl_decrypt env (ev_pubkey event) (ev_content event) of
               None \<Rightarrow> Some None
             | Some plain \<Rightarrow>
                 (case Option.bind (parse codec plain) de_WalletNotification of
                    Some n \<Rightarrow> Some (Some n)
                  | None \<Rightarrow> None))
      | _ \<Rightarrow> None)"

partial_function (option) next_loop ::
  "(ClientNotification \<Rightarrow> 'n option option) \<Rightarrow> stream \<Rightarrow> nat \<Rightarrow> ('n option \<times> nat) option" where
  "next_loop step stream i =
     (case stream i of
        Silent \<Rightarrow> None
      | Closed \<Rightarrow> Some (None, Suc i)
      | Item item \<Rightarrow>
          (case step item of
             Some r \<Rightarrow> Some (r, Suc i)
           | None \<Rightarrow> next_loop step stream (Suc i)))"

definition notifications_next ::
  "codec \<Rightarrow> cenv \<Rightarrow> Notifications \<Rightarrow> (WalletNotification option \<times> Notifications) option" where
  "notifications_next codec env ns =
     map_option (\<lambda>(r, i). (r, ns\<lparr>ns_position := i\<rparr>))
       (next_loop (next_step codec env (ns_wallet ns)) (ns_stream ns) (ns_position ns))"

text \<open>\<open>timeout(left, self.next())\<close>: the same loop, left when the timeout fires; \<^const>\<open>None\<close> is \<open>Err(Elapsed)\<close>.
  What \<open>next\<close> had passed over by then stays consumed.\<close>

partial_function (option) timed_next ::
  "(ClientNotification \<Rightarrow> 'n option option) \<Rightarrow> timer \<Rightarrow> stream \<Rightarrow> nat \<Rightarrow> ('n option option \<times> nat) option" where
  "timed_next step timer stream i =
     (if snd (timer i) then Some (None, i)
      else
        (case stream i of
           Silent \<Rightarrow> Some (None, i)
         | Closed \<Rightarrow> Some (Some None, Suc i)
         | Item item \<Rightarrow>
             (case step item of
                Some r \<Rightarrow> Some (Some r, Suc i)
              | None \<Rightarrow> timed_next step timer stream (Suc i))))"

partial_function (option) wait_for_loop ::
  "('n \<Rightarrow> bool) \<Rightarrow> (ClientNotification \<Rightarrow> 'n option option) \<Rightarrow> nat \<Rightarrow> timer \<Rightarrow> stream \<Rightarrow> nat \<Rightarrow>
     ('n option \<times> nat) option" where
  "wait_for_loop want step deadline timer stream i =
     (if deadline - fst (timer i) = 0 then Some (None, i)
      else
        (case timed_next step timer stream i of
           None \<Rightarrow> None
         | Some (r, i') \<Rightarrow>
             (case r of
                Some (Some n) \<Rightarrow>
                  if want n then Some (Some n, i')
                  else wait_for_loop want step deadline timer stream i'
              | Some None \<Rightarrow> Some (None, i')
              | None \<Rightarrow> Some (None, i'))))"

definition wait_for ::
  "codec \<Rightarrow> cenv \<Rightarrow> Notifications \<Rightarrow> WalletNotificationType \<Rightarrow> nat \<Rightarrow> Link \<Rightarrow>
     (WalletNotification option \<times> Notifications) run" where
  "wait_for codec env ns want limit l =
     (case instant_add (cl_instant_max env) (cl_instant env (lk_acts l)) limit of
        None \<Rightarrow> Panics
      | Some deadline \<Rightarrow>
          (case wait_for_loop (\<lambda>n. wn_type n = want) (next_step codec env (ns_wallet ns)) deadline
                  (cl_timer env (lk_acts l)) (ns_stream ns) (ns_position ns) of
             None \<Rightarrow> Diverges
           | Some (r, i) \<Rightarrow> Returns (r, ns\<lparr>ns_position := i\<rparr>)))"

section \<open>Laws\<close>

lemma wallet_typed_round_trip:
  "value_wf (en x) \<Longrightarrow> de (en x) = Some x \<Longrightarrow> wallet_as_typed de (wallet_notification_new en ty x) = Some x"
  by (simp add: wallet_as_typed_def wallet_notification_new_def norm_value_wf)

interpretation wallet_response: authored_wait "wallet_body codec env wallet request_id" WALLET_RESPONSE_KIND
  request_id wallet for codec env wallet request_id
  by unfold_locales (auto simp: wallet_body_def split: if_splits)

end
