(* ===== verification/Calls.thy ===== *)
theory Calls
  imports NwcClient
begin

text \<open>
  What holds of every call of the two clients, whatever is on the other side: what it asks of the relay client
  and in which order, that it ends, whose events can decide it. The properties rest on the contracts of the
  waits (\<open>reply_wait\<close> and \<open>authored_wait\<close> in \<open>Await\<close>) and on a small program logic over the calls an operation
  makes.
\<close>

section \<open>A logic of calls\<close>

text \<open>\<open>triple P m Q R\<close>: from a list of calls that satisfies \<open>P\<close>, the operation \<open>m\<close> either returns \<open>a\<close> with calls
  that satisfy \<open>Q a\<close>, or ends in any other way with calls that satisfy \<open>R\<close>.\<close>

definition triple :: "(act list \<Rightarrow> bool) \<Rightarrow> 'a cop \<Rightarrow> ('a \<Rightarrow> act list \<Rightarrow> bool) \<Rightarrow> (act list \<Rightarrow> bool) \<Rightarrow> bool" where
  "triple P m Q R \<longleftrightarrow>
     (\<forall>l r l'. P (lk_acts l) \<longrightarrow> m l = (r, l') \<longrightarrow>
        (case r of Returns a \<Rightarrow> Q a (lk_acts l') | _ \<Rightarrow> R (lk_acts l')))"

lemma tripleD: "triple P m Q R \<Longrightarrow> P (lk_acts l) \<Longrightarrow> m l = (r, l') \<Longrightarrow>
    (case r of Returns a \<Rightarrow> Q a (lk_acts l') | _ \<Rightarrow> R (lk_acts l'))"
  unfolding triple_def by blast

lemma tripleI:
  assumes "\<And>l r l'. P (lk_acts l) \<Longrightarrow> m l = (r, l') \<Longrightarrow>
    (case r of Returns a \<Rightarrow> Q a (lk_acts l') | _ \<Rightarrow> R (lk_acts l'))"
  shows "triple P m Q R"
  unfolding triple_def using assms by blast

lemma triple_bind:
  assumes "triple P m Q R" "\<And>a. triple (Q a) (f a) S R"
  shows "triple P (bind_op m f) S R"
proof (rule tripleI)
  fix l r l'
  assume P: "P (lk_acts l)" and r: "bind_op m f l = (r, l')"
  obtain r1 l1 where m: "m l = (r1, l1)" by fastforce
  note first = tripleD [OF assms(1) P m]
  show "case r of Returns a \<Rightarrow> S a (lk_acts l') | _ \<Rightarrow> R (lk_acts l')"
  proof (cases r1)
    case (Returns a)
    with first m r show ?thesis by (intro tripleD [OF assms(2) [of a]]) (simp_all add: bind_op_def)
  qed (use first m r in \<open>auto simp: bind_op_def\<close>)
qed

lemma triple_weaken: "triple P' m Q R \<Longrightarrow> (\<And>acts. P acts \<Longrightarrow> P' acts) \<Longrightarrow> triple P m Q R"
  unfolding triple_def by blast

lemma triple_seq: "(\<And>a. triple (Q a) (f a) S R) \<Longrightarrow> triple P m Q R \<Longrightarrow> triple P (bind_op m f) S R"
  by (rule triple_bind)

lemma triple_fail: "triple P m Q R' \<Longrightarrow> (\<And>acts. R' acts \<Longrightarrow> R acts) \<Longrightarrow> triple P m Q R"
  unfolding triple_def by (fastforce split: run.splits)

text \<open>What each step needs for given conclusions, so that a chain of steps is read backwards.\<close>

named_theorems wp

lemma triple_call [wp]:
  "triple (\<lambda>acts. (\<forall>x. Q x (acts @ [a])) \<and> R (acts @ [a])) (call_client a ans) Q R"
  by (intro tripleI) (auto simp: call_client_def try_op_def split: option.splits)

lemma triple_pure:
  assumes "\<And>l. snd (m l) = l"
  shows "triple (\<lambda>acts. (\<forall>x. Q x acts) \<and> R acts) m Q R"
proof (rule tripleI)
  fix l r l'
  assume "(\<forall>x. Q x (lk_acts l)) \<and> R (lk_acts l)" "m l = (r, l')"
  moreover from this(2) have "l' = l" using assms [of l] by simp
  ultimately show "case r of Returns a \<Rightarrow> Q a (lk_acts l') | _ \<Rightarrow> R (lk_acts l')"
    by (simp split: run.split)
qed

lemma triple_steps [wp]:
  "triple (\<lambda>acts. (\<forall>x. Q x acts) \<and> R acts) (signer_encrypt env to text) Q R"
  "triple (\<lambda>acts. (\<forall>x. Q' x acts) \<and> R acts) (sign_event env eb) Q' R"
  "triple (\<lambda>acts. (\<forall>x. Q'' x acts) \<and> R acts) (of_result r) Q'' R"
  "triple (\<lambda>acts. (\<forall>x. Q'' x acts) \<and> R acts) (return_op a) Q'' R"
  "triple (\<lambda>acts. (\<forall>x. Q'' x acts) \<and> R acts) (\<lambda>l. (w l, l)) Q'' R"
  by (auto intro!: triple_pure simp: signer_encrypt_def sign_event_def try_op_def of_result_def return_op_def)

lemma triple_public_key [wp]:
  "triple (\<lambda>acts. (\<forall>me. cl_public_key env = Some me \<longrightarrow> Q me acts) \<and> R acts) (signer_public_key env) Q R"
  by (auto intro!: tripleI simp: signer_public_key_def try_op_def split: option.splits)

lemma triple_response_filter [wp]:
  "triple (\<lambda>acts. \<forall>f. f_kind f = kind \<and> f_pubkey f = me \<longrightarrow> (\<forall>x. Q x (acts @ [Subscribe f])) \<and> R (acts @ [Subscribe f]))
     (\<lambda>l. call_client (Subscribe (response_filter kind env me l)) (ans l) l) Q R"
  by (auto intro!: tripleI simp: call_client_def try_op_def response_filter_def split: option.splits)

lemma triple_bootstrap:
  assumes "\<And>acts url. P acts \<Longrightarrow> P (acts @ [AddRelay url])" "\<And>acts. P acts \<Longrightarrow> P (acts @ [Connect])"
  shows "triple P (bootstrap env relays) (\<lambda>_. P) P"
proof -
  have relays: "triple P (add_relays env rs) (\<lambda>_. P) P" for rs
  proof (induction rs)
    case (Cons r rs)
    show ?case unfolding add_relays.simps client_add_relay_def
      by (rule triple_bind [OF triple_weaken [OF triple_call] Cons.IH]) (simp add: assms(1))
  qed (simp add: triple_weaken [OF triple_steps(4)])
  have connected: "triple P set_connected (\<lambda>_. P) P"
    by (auto intro!: tripleI simp: set_connected_def)
  have "triple P client_connect (\<lambda>_. P) P"
    unfolding client_connect_def by (rule triple_weaken [OF triple_call]) (simp add: assms(2))
  note chain = triple_bind [OF relays triple_bind [OF this connected]]
  show ?thesis
    by (rule tripleI) (auto simp: bootstrap_def dest: tripleD [OF chain] split: if_splits)
qed

section \<open>Listening before sending\<close>

definition after_calls :: "act list \<Rightarrow> (act list \<Rightarrow> bool) \<Rightarrow> act list \<Rightarrow> bool" where
  "after_calls before \<phi> acts \<longleftrightarrow> (\<exists>new. acts = before @ new \<and> \<phi> new)"

definition unsent :: "act list \<Rightarrow> bool" where
  "unsent new \<longleftrightarrow> (\<forall>q. SendEvent q \<notin> set new)"

text \<open>Of the calls of one operation: if an event is handed over, it is the last call and what came before it
  satisfies \<open>ready\<close>.\<close>

definition orderly :: "(act list \<Rightarrow> bool) \<Rightarrow> act list \<Rightarrow> bool" where
  "orderly ready new \<longleftrightarrow> (\<forall>pre q post. new = pre @ SendEvent q # post \<longrightarrow> post = [] \<and> ready pre)"

definition subscribed :: "u16 \<Rightarrow> PublicKey \<Rightarrow> act list \<Rightarrow> bool" where
  "subscribed kind me new \<longleftrightarrow> (\<exists>f. Subscribe f \<in> set new \<and> f_kind f = kind \<and> f_pubkey f = me)"

lemma orderly_Nil [simp]: "orderly ready []"
  by (simp add: orderly_def)

lemma orderly_send [simp]: "orderly ready (SendEvent q # acts) \<longleftrightarrow> acts = [] \<and> ready []"
  by (auto simp: orderly_def Cons_eq_append_conv)

lemma orderly_other: "(\<And>q. a \<noteq> SendEvent q) \<Longrightarrow> orderly ready (a # acts) \<longleftrightarrow> orderly (\<lambda>pre. ready (a # pre)) acts"
  by (auto simp: orderly_def Cons_eq_append_conv)

lemma orderly_append [simp]: "unsent new \<Longrightarrow> orderly ready (new @ acts) \<longleftrightarrow> orderly (\<lambda>pre. ready (new @ pre)) acts"
proof (induction new arbitrary: ready)
  case (Cons a new)
  then have "\<And>q. a \<noteq> SendEvent q" "unsent new" by (auto simp: unsent_def)
  with Cons.IH show ?case by (simp add: orderly_other)
qed simp

lemma orderly_unsent: "unsent new \<Longrightarrow> orderly ready new"
  using orderly_append [of new ready "[]"] by simp

lemma subscribed_simps [simp]:
  "\<not> subscribed kind me []"
  "subscribed kind me (pre @ post) \<longleftrightarrow> subscribed kind me pre \<or> subscribed kind me post"
  "subscribed kind me (a # post) \<longleftrightarrow>
     (\<exists>f. a = Subscribe f \<and> f_kind f = kind \<and> f_pubkey f = me) \<or> subscribed kind me post"
  by (auto simp: subscribed_def)

lemmas op_defs = client_subscribe_to_def client_notifications_def client_send_event_def client_unsubscribe_def
  client_sleep_def

text \<open>Every sender first bootstraps, which adds relays and connects.\<close>

definition booting :: "act list \<Rightarrow> bool" where
  "booting new \<longleftrightarrow> (\<forall>a \<in> set new. a = Connect \<or> (\<exists>url. a = AddRelay url))"

lemma booting_unsent [simp]: "booting new \<Longrightarrow> unsent new"
  by (auto simp: booting_def unsent_def)

lemma triple_after_boot:
  assumes "triple (P ()) (f ()) S R" "\<And>new. booting new \<Longrightarrow> P () (before @ new)"
    and "\<And>new. booting new \<Longrightarrow> R (before @ new)"
  shows "triple (after_calls before booting) (bind_op (bootstrap env relays) f) S R"
proof (rule triple_bind)
  show "triple (after_calls before booting) (bootstrap env relays) (\<lambda>_. after_calls before booting) R"
    by (rule triple_fail [OF triple_bootstrap [of "after_calls before booting"]])
      (use assms(3) in \<open>auto simp: after_calls_def booting_def\<close>)
  show "triple (after_calls before booting) (f u) S R" for u
    using triple_weaken [OF assms(1), of "after_calls before booting"] assms(2) by (auto simp: after_calls_def)
qed

lemma nnc_send_orderly:
  assumes "ready = (\<lambda>pre. TakeStream \<in> set pre \<and>
        (\<exists>me. cl_public_key env = Some me \<and> subscribed CONTROL_RESPONSE_KIND me pre))"
  shows "triple (after_calls before booting) (nnc_send codec env c request) (\<lambda>_. after_calls before (orderly ready))
     (after_calls before (orderly ready))"
  unfolding nnc_send_def op_defs await_response_def
  by (rule triple_after_boot, (rule triple_seq wp)+)
    (auto simp: after_calls_def assms orderly_other orderly_unsent)

lemma nnc_begin_orderly:
  assumes "ready = (\<lambda>pre. TakeStream \<in> set pre \<and> (\<exists>me. cl_public_key env = Some me \<and>
        subscribed CONTROL_RESPONSE_KIND me pre \<and> subscribed NOTIFICATION_KIND me pre))"
  shows "triple (after_calls before booting) (nnc_begin codec env c en m params) (\<lambda>_. after_calls before (orderly ready))
     (after_calls before (orderly ready))"
  unfolding nnc_begin_def op_defs await_response_def accepted_response_def
  by (rule triple_after_boot, (rule triple_seq wp)+)
    (auto simp: after_calls_def assms orderly_other orderly_unsent outcome_filter_def)

lemma wallet_send_orderly:
  assumes "ready = (\<lambda>pre. TakeStream \<in> set pre \<and> subscribed WALLET_RESPONSE_KIND (wc_public_key c) pre)"
  shows "triple (after_calls before booting) (wallet_send codec env c m params) (\<lambda>_. after_calls before (orderly ready))
     (after_calls before (orderly ready))"
  unfolding wallet_send_def wallet_await_def op_defs
  by (rule triple_after_boot, (rule triple_seq wp)+)
    (auto simp: after_calls_def assms orderly_other orderly_unsent)

lemma triple_run: "triple (after_calls (lk_acts l) booting) m (\<lambda>_. R) R \<Longrightarrow> R (lk_acts (snd (m l)))"
  using tripleD [of "after_calls (lk_acts l) booting" m "\<lambda>_. R" R l "fst (m l)" "snd (m l)"]
  by (auto simp: after_calls_def booting_def split: run.splits)

text \<open>C13: a client listens before it speaks. However a call ends, if it handed an event to the relays, that was
  the last thing it asked of the relay client, and before it it had taken the stream it will wait on and opened
  the subscription for the answers addressed to its own key; an asynchronous command had also opened the one
  for the outcome. This is what keeps a fast answer from being missed.\<close>

theorem listening_before_sending:
  "after_calls (lk_acts l) (orderly (\<lambda>pre. TakeStream \<in> set pre \<and>
       (\<exists>me. cl_public_key env = Some me \<and> subscribed CONTROL_RESPONSE_KIND me pre)))
     (lk_acts (snd (nnc_send codec env c request l))) \<and>
   after_calls (lk_acts l) (orderly (\<lambda>pre. TakeStream \<in> set pre \<and> (\<exists>me. cl_public_key env = Some me \<and>
       subscribed CONTROL_RESPONSE_KIND me pre \<and> subscribed NOTIFICATION_KIND me pre)))
     (lk_acts (snd (nnc_begin codec env c en m params l))) \<and>
   after_calls (lk_acts l) (orderly (\<lambda>pre. TakeStream \<in> set pre \<and>
       subscribed WALLET_RESPONSE_KIND (wc_public_key w) pre))
     (lk_acts (snd (wallet_send codec env w wm v l)))"
  by (intro conjI triple_run nnc_send_orderly nnc_begin_orderly wallet_send_orderly refl)

text \<open>How many events a list of calls hands over, how many subscriptions it opens and how many it closes.\<close>

fun handed :: "act list \<Rightarrow> nat" where
  "handed [] = 0"
| "handed (SendEvent q # acts) = Suc (handed acts)"
| "handed (a # acts) = handed acts"

fun openings :: "act list \<Rightarrow> nat" where
  "openings [] = 0"
| "openings (Subscribe f # acts) = Suc (openings acts)"
| "openings (a # acts) = openings acts"

fun closings :: "act list \<Rightarrow> nat" where
  "closings [] = 0"
| "closings (Unsubscribe i # acts) = Suc (closings acts)"
| "closings (a # acts) = closings acts"

lemma counts_append [simp]:
  "handed (xs @ ys) = handed xs + handed ys"
  "openings (xs @ ys) = openings xs + openings ys"
  "closings (xs @ ys) = closings xs + closings ys"
  by (induction xs rule: handed.induct) simp_all

lemma booting_counts [simp]:
  "booting new \<Longrightarrow> handed new = 0" "booting new \<Longrightarrow> openings new = 0" "booting new \<Longrightarrow> closings new = 0"
  by (induction new) (auto simp: booting_def)

text \<open>The subscription of a request is never closed. However a call ends, it has opened a relay subscription
  for every event it handed over, at most one, and closed none; so the subscriptions a client holds grow with
  the number of calls it has made. A command has opened two, and closes neither itself: when it is refused or times out
  there is no handle that would close the one for the outcome.\<close>

lemma calls_leave_subscriptions:
  "after_calls (lk_acts l) (\<lambda>new. handed new \<le> openings new \<and> openings new \<le> 1 \<and> closings new = 0)
     (lk_acts (snd (nnc_send codec env c request l))) \<and>
   after_calls (lk_acts l) (\<lambda>new. handed new \<le> openings new \<and> openings new \<le> 1 \<and> closings new = 0)
     (lk_acts (snd (wallet_send codec env w wm v l))) \<and>
   after_calls (lk_acts l) (\<lambda>new. 2 * handed new \<le> openings new \<and> openings new \<le> 2 \<and> closings new = 0)
     (lk_acts (snd (nnc_begin codec env c en m params l)))"
  (is "after_calls _ ?\<phi> _ \<and> _ \<and> after_calls _ ?\<psi> _")
proof -
  let ?R = "after_calls (lk_acts l) ?\<phi>"
  have "triple (after_calls (lk_acts l) booting) (nnc_send codec env c request) (\<lambda>_. ?R) ?R"
    unfolding nnc_send_def op_defs await_response_def
    by (rule triple_after_boot, (rule triple_seq wp)+) (auto simp: after_calls_def)
  moreover have "triple (after_calls (lk_acts l) booting) (wallet_send codec env w wm v) (\<lambda>_. ?R) ?R"
    unfolding wallet_send_def wallet_await_def op_defs
    by (rule triple_after_boot, (rule triple_seq wp)+) (auto simp: after_calls_def)
  moreover have "triple (after_calls (lk_acts l) booting) (nnc_begin codec env c en m params)
      (\<lambda>_. after_calls (lk_acts l) ?\<psi>) (after_calls (lk_acts l) ?\<psi>)"
    unfolding nnc_begin_def op_defs await_response_def accepted_response_def
    by (rule triple_after_boot, (rule triple_seq wp)+) (auto simp: after_calls_def)
  ultimately show ?thesis
    by (intro conjI triple_run [where R = ?R] triple_run [where R = "after_calls (lk_acts l) ?\<psi>"])
qed

section \<open>Every call ends\<close>

text \<open>The clock a wait reads gets to the deadline, and the deadline is an instant there is.\<close>

definition clock_runs :: "cenv \<Rightarrow> nat \<Rightarrow> bool" where
  "clock_runs env d \<longleftrightarrow>
     (\<forall>acts. cl_instant env acts + d \<le> cl_instant_max env \<and>
        (\<exists>k. cl_instant env acts + d \<le> fst (cl_timer env acts k)))"

definition settles :: "'a cop \<Rightarrow> bool" where
  "settles m \<longleftrightarrow> (\<forall>l. fst (m l) \<noteq> Panics \<and> fst (m l) \<noteq> Diverges)"

named_theorems settles_intros

lemma settles_bind [settles_intros]: "settles m \<Longrightarrow> (\<And>a. settles (f a)) \<Longrightarrow> settles (bind_op m f)"
  unfolding settles_def bind_op_def
  by (auto split: run.split prod.split) (metis fst_conv)+

lemma settles_simple [settles_intros]:
  "settles (return_op z)" "settles (try_op e x)" "settles (of_result r)" "settles (call_client a ans)"
  "settles set_connected" "settles (\<lambda>l. call_client (b l) (bns l) l)"
  by (auto simp: settles_def return_op_def try_op_def of_result_def call_client_def set_connected_def
      split: option.split sum.split)

lemma settles_steps [settles_intros]:
  "settles (signer_encrypt env to text)" "settles (sign_event env eb)" "settles (signer_public_key env)"
  by (auto simp: settles_def signer_encrypt_def sign_event_def signer_public_key_def try_op_def split: option.split)

lemma settles_bootstrap [settles_intros]: "settles (bootstrap env relays)"
proof -
  have "settles (add_relays env rs)" for rs
    by (induction rs) (auto intro: settles_intros simp: client_add_relay_def)
  then have "settles (bind_op (add_relays env relays) (\<lambda>_. bind_op client_connect (\<lambda>_. set_connected)))"
    unfolding client_connect_def by (intro settles_intros)
  then show ?thesis by (simp add: settles_def bootstrap_def)
qed

lemma wait_on_returns:
  assumes "clock_runs env d"
  shows "\<exists>r. wait_on env d body timed_out stream l = Returns r"
proof -
  from assms obtain k where "cl_instant env (lk_acts l) + d \<le> cl_instant_max env"
    and "expired (cl_instant env (lk_acts l) + d) (cl_timer env (lk_acts l)) stream k"
    by (auto simp: clock_runs_def expired_def)
  with await_loop_returns [OF _ this(2), of 0 body timed_out] show ?thesis
    by (auto simp: wait_on_def instant_add_def)
qed

lemma settles_wait [settles_intros]: "clock_runs env d \<Longrightarrow> settles (\<lambda>l. (wait_on env d body timed_out stream l, l))"
  using wait_on_returns [of env d body timed_out stream] by (auto simp: settles_def) (metis run.distinct)+

lemma settles_pending_wait:
  fixes de :: "Value \<Rightarrow> 't option"
  assumes "clock_runs env (pd_timeout p)"
  shows "settles (pending_wait codec env de p)"
  unfolding settles_def
proof
  fix l
  obtain r where r: "wait_on env (pd_timeout p) (outcome_body codec env de (pd_service p) (pd_request_id p))
      (Break (Inl (TimedOut (pd_timeout p)))) (pd_events p) l = Returns r"
    by (rule exE [OF wait_on_returns [OF assms]])
  have "settles (bind_op (client_unsubscribe (pd_subscription p)) (\<lambda>_.
      bind_op (pending_drop env p) (\<lambda>_. of_result outcome)))" for outcome :: "('t, ClientError) result"
    unfolding pending_drop_def client_unsubscribe_def by (auto intro: settles_intros)
  moreover have "settles (bind_op (pending_drop env p) (\<lambda>_. of_result outcome))" for outcome :: "('t, ClientError) result"
    unfolding pending_drop_def client_unsubscribe_def by (auto intro: settles_intros)
  ultimately show "fst (pending_wait codec env de p l) \<noteq> Panics \<and> fst (pending_wait codec env de p l) \<noteq> Diverges"
    using r by (cases r) (simp_all add: pending_wait_def settles_def)
qed

text \<open>Waiting for a wallet notification looks at the clock only between notifications, so there it is the
  timeout that has to fire.\<close>

lemma timed_next_returns:
  assumes "i \<le> k" "snd (timer k)"
  shows "\<exists>r i'. timed_next step timer stream i = Some (r, i') \<and> i \<le> i' \<and> (r \<noteq> None \<longrightarrow> i < i')"
  using assms(1)
proof (induction rule: inc_induct)
  case base
  show ?case by (subst timed_next.simps) (simp add: assms(2))
next
  case (step i)
  then obtain r i' where "timed_next step timer stream (Suc i) = Some (r, i')" "Suc i \<le> i'" by blast
  then show ?case
    by (subst timed_next.simps) (auto split: arrival.split option.split)
qed

lemma wait_for_loop_returns:
  assumes "\<And>j. k \<le> j \<Longrightarrow> deadline \<le> fst (timer j) \<and> snd (timer j)"
  shows "\<exists>r. wait_for_loop want step deadline timer stream i = Some r"
proof (induction "k - i" arbitrary: i rule: less_induct)
  case less
  show ?case
  proof (cases "k \<le> i")
    case True
    then show ?thesis using assms by (subst wait_for_loop.simps) simp
  next
    case False
    then obtain r i' where returned: "timed_next step timer stream i = Some (r, i')" "r \<noteq> None \<longrightarrow> i < i'"
      using timed_next_returns [of i k timer step stream] assms by (meson le_refl nat_le_linear)
    with False less [of i'] have "r \<noteq> None \<longrightarrow> (\<exists>r. wait_for_loop want step deadline timer stream i' = Some r)"
      by auto
    with returned show ?thesis
      by (subst wait_for_loop.simps) (auto split: option.split)
  qed
qed

definition timeout_fires :: "cenv \<Rightarrow> nat \<Rightarrow> bool" where
  "timeout_fires env d \<longleftrightarrow>
     (\<forall>acts. cl_instant env acts + d \<le> cl_instant_max env \<and>
        (\<exists>k. \<forall>j\<ge>k. cl_instant env acts + d \<le> fst (cl_timer env acts j) \<and> snd (cl_timer env acts j)))"

lemma wait_for_returns:
  assumes "timeout_fires env d"
  shows "\<exists>r. wait_for codec env ns want d l = Returns r"
proof -
  let ?d = "cl_instant env (lk_acts l) + d" and ?t = "cl_timer env (lk_acts l)"
  from assms obtain k where max: "?d \<le> cl_instant_max env" and "\<And>j. k \<le> j \<Longrightarrow> ?d \<le> fst (?t j) \<and> snd (?t j)"
    by (fastforce simp: timeout_fires_def)
  then obtain r i where "wait_for_loop (\<lambda>n. wn_type n = want) (next_step codec env (ns_wallet ns)) ?d ?t
      (ns_stream ns) (ns_position ns) = Some (r, i)"
    using wait_for_loop_returns [of k ?d ?t "\<lambda>n. wn_type n = want" "next_step codec env (ns_wallet ns)"
        "ns_stream ns" "ns_position ns"] by auto
  with max show ?thesis by (simp add: wait_for_def instant_add_def)
qed

text \<open>A client for the witnesses: everything is accepted, nothing is encrypted, the clock ticks once a round.\<close>

definition demo_signed :: "EventBuilder \<Rightarrow> Event" where
  "demo_signed eb = \<lparr>ev_id = 9, ev_pubkey = 3, ev_created_at = 50, ev_kind = eb_kind eb,
     ev_tags = built_tags eb 3, ev_content = eb_content eb\<rparr>"

definition demo_client_env :: "stream \<Rightarrow> cenv" where
  "demo_client_env stream =
     \<lparr>cl_add_relay = \<lambda>_ _. True, cl_subscribe = \<lambda>_ _. Some ''sub'', cl_stream = \<lambda>_. stream,
      cl_send_event = \<lambda>_ _. True, cl_public_key = Some 3, cl_encrypt = \<lambda>_ _ t. Some t,
      cl_decrypt = \<lambda>_ t. Some t, cl_sign = \<lambda>_ eb. Some (demo_signed eb), cl_timestamp = \<lambda>_. 50,
      cl_instant = \<lambda>_. 0, cl_timer = \<lambda>_ i. (i, 100 \<le> i), cl_instant_max = 1000, cl_runtime = True\<rparr>"

definition demo_client :: NostrNodeControl where
  "demo_client = nnc_with_timeout 100 (nnc_new \<lparr>uri_service = 1, uri_relays = [''wss://r'']\<rparr>)"

definition demo_pending :: "stream \<Rightarrow> Pending" where
  "demo_pending stream = \<lparr>pd_events = stream, pd_subscription = ''sub'', pd_request_id = 9, pd_service = 1,
     pd_timeout = 100\<rparr>"

lemma demo_pending_simps [simp]:
  "pd_events (demo_pending stream) = stream" "pd_subscription (demo_pending stream) = ''sub''"
  "pd_request_id (demo_pending stream) = 9" "pd_service (demo_pending stream) = 1"
  "pd_timeout (demo_pending stream) = 100"
  by (simp_all add: demo_pending_def)

lemma demo_clock [simp]: "clock_runs (demo_client_env stream) 100" "timeout_fires (demo_client_env stream) 100"
  by (auto simp: clock_runs_def timeout_fires_def demo_client_env_def)

text \<open>C10: every call ends. Whatever the relays deliver, silence, endless other traffic or a stream that has closed,
  a client whose clock gets to the deadline returns a result or an error from every request and every wait of
  both protocols: none hangs, and none panics as long as the deadline is an instant the platform can hold.\<close>

theorem calls_end:
  "(clock_runs env (nc_timeout c) \<longrightarrow> settles (nnc_send codec env c request) \<and>
      settles (nnc_call codec env c en de m params) \<and> settles (nnc_begin codec env c en m params)) \<and>
   (clock_runs env (wc_timeout w) \<longrightarrow> settles (wallet_send codec env w wm v)) \<and>
   (clock_runs env (pd_timeout p) \<longrightarrow> settles (pending_wait codec env de' p)) \<and>
   (timeout_fires env d \<longrightarrow> (\<exists>r. wait_for codec env ns want d l = Returns r))"
proof (intro conjI impI)
  assume clock: "clock_runs env (nc_timeout c)"
  note defs = op_defs await_response_def accepted_response_def
  show send: "settles (nnc_send codec env c request)" for request
    unfolding nnc_send_def defs by (intro settles_intros clock)
  show "settles (nnc_call codec env c en de m params)"
    unfolding nnc_call_def defs by (intro settles_intros send)
  show "settles (nnc_begin codec env c en m params)"
    unfolding nnc_begin_def defs by (intro settles_intros clock)
next
  show "settles (wallet_send codec env w wm v)" if "clock_runs env (wc_timeout w)"
    unfolding wallet_send_def wallet_await_def op_defs by (intro settles_intros that)
qed (fact settles_pending_wait wait_for_returns)+

theorem calls_end_witness:
  "(let env = demo_client_env (\<lambda>_. Closed); w = wallet_with_timeout 100 (wallet_connect_new (\<lambda>_. 3)
        \<lparr>wu_wallet = 1, wu_relays = [], wu_secret = ()\<rparr>)
    in settles (nnc_send demo_codec env demo_client \<lparr>rq_method = ListPeers, rq_params = JObj []\<rparr>) \<and>
       settles (wallet_send demo_codec env w GetInfo (JObj [])) \<and>
       settles (pending_wait demo_codec env de_ChannelClosed (demo_pending (\<lambda>_. Closed))) \<and>
       (\<exists>r. wait_for demo_codec env \<lparr>ns_stream = \<lambda>_. Closed, ns_position = 0, ns_wallet = 1\<rparr> PaymentReceived 100
          link_new = Returns r))"
  using calls_end [of "demo_client_env (\<lambda>_. Closed)" demo_client demo_codec
      "\<lparr>rq_method = ListPeers, rq_params = JObj []\<rparr>" en_ListPeersRequest de_ListPeersResponse ListPeers
      ListPeersRequest "wallet_with_timeout 100 (wallet_connect_new (\<lambda>_. 3)
        \<lparr>wu_wallet = 1, wu_relays = [], wu_secret = ()\<rparr>)" GetInfo "JObj []" "demo_pending (\<lambda>_. Closed)"
      de_ChannelClosed 100 "\<lparr>ns_stream = \<lambda>_. Closed, ns_position = 0, ns_wallet = 1\<rparr>" PaymentReceived link_new]
  by (simp add: demo_client_def nnc_with_timeout_def wallet_with_timeout_def Let_def)

section \<open>Whose events decide\<close>

lemma wait_on_cong:
  "(\<And>d timer. await_loop body timed_out d timer stream 0 = await_loop body timed_out d timer stream' 0) \<Longrightarrow>
    wait_on env timeout body timed_out stream l = wait_on env timeout body timed_out stream' l"
  by (simp add: wait_on_def split: option.split)

lemma wait_on_not_Fails [simp]: "wait_on env timeout body timed_out stream l \<noteq> Fails e"
  by (simp add: wait_on_def split: option.split)

lemma wait_on_Returns:
  "wait_on env timeout body timed_out stream l = Returns r \<longleftrightarrow>
     cl_instant env (lk_acts l) + timeout \<le> cl_instant_max env \<and>
     await_loop body timed_out (cl_instant env (lk_acts l) + timeout) (cl_timer env (lk_acts l)) stream 0 = Some r"
  by (auto simp: wait_on_def instant_add_def split: option.splits)

lemma wait_then_result:
  "bind_op (\<lambda>l. (wait_on env timeout body timed_out stream l, l)) of_result l = (Returns r, l') \<longleftrightarrow>
     wait_on env timeout body timed_out stream l = Returns (Inr r) \<and> l' = l"
  by (auto simp: bind_op_def of_result_def split: run.splits sum.splits)

text \<open>C4: only the service answers. A response a call returns came, before the deadline, in an event that the
  service's own key signed, of the response kind, naming this request, and is what that event decrypts and
  parses to; and removing everything that anybody else published from the stream changes nothing about the
  outcome, on either protocol.\<close>

theorem only_the_service_answers:
  "(await_response codec env c i events l = (Returns r, l') \<longrightarrow>
      (\<exists>k e. events k = Item (NEvent e) \<and> ev_pubkey e = nnc_service c \<and> ev_kind e = CONTROL_RESPONSE_KIND \<and>
         names_request i e \<and>
         Option.bind (cl_decrypt env (nnc_service c) (ev_content e))
           (\<lambda>t. Option.bind (parse codec t) de_Response) = Some r)) \<and>
   await_response codec env c i events l = await_response codec env c i (only_from (nnc_service c) events) l \<and>
   wallet_await codec env w i events l = wallet_await codec env w i (only_from (wc_wallet w) events) l"
proof (intro conjI impI)
  assume "await_response codec env c i events l = (Returns r, l')"
  then have loop: "await_loop (response_body codec env (nnc_service c) i) (Inl (TimedOut (nc_timeout c)))
      (cl_instant env (lk_acts l) + nc_timeout c) (cl_timer env (lk_acts l)) events 0 = Some (Inr r)"
    by (simp add: await_response_def wait_then_result wait_on_Returns)
  from response.answered [OF this] obtain k e where "events k = Item (NEvent e)"
    "response_body codec env (nnc_service c) i e = Some (Inr r)" by auto
  then show "\<exists>k e. events k = Item (NEvent e) \<and> ev_pubkey e = nnc_service c \<and> ev_kind e = CONTROL_RESPONSE_KIND \<and>
      names_request i e \<and> Option.bind (cl_decrypt env (nnc_service c) (ev_content e))
        (\<lambda>t. Option.bind (parse codec t) de_Response) = Some r"
    by (intro exI [of _ k] exI [of _ e]) (auto simp: response_body_def split: if_splits option.splits)
next
  show "await_response codec env c i events l = await_response codec env c i (only_from (nnc_service c) events) l"
    unfolding await_response_def bind_op_def
    by (simp add: wait_on_cong [OF response.others_irrelevant, symmetric])
  show "wallet_await codec env w i events l = wallet_await codec env w i (only_from (wc_wallet w) events) l"
    unfolding wallet_await_def bind_op_def
    by (simp add: wait_on_cong [OF wallet_response.others_irrelevant, symmetric])
qed

theorem only_the_service_answers_witness:
  "\<exists>e. ev_pubkey e = nnc_service demo_client \<and> names_request 9 e"
proof -
  let ?r = "response_ok ListPeers (JObj [])"
  let ?e = "\<lparr>ev_id = 77, ev_pubkey = 1, ev_created_at = 1, ev_kind = CONTROL_RESPONSE_KIND,
      ev_tags = [tag_event 9], ev_content = ''x''\<rparr>"
  let ?codec = "demo_codec\<lparr>parse := \<lambda>_. Some (en_Response (render demo_codec) ?r)\<rparr>"
  have "de_Response (en_Response (render demo_codec) ?r) = Some ?r"
    by (simp add: de_Response_def en_Response_def codec_simps response_ok_def opt_value_wf_def method_from_str_def)
  then have "await_response ?codec (demo_client_env (\<lambda>_. Silent)) demo_client 9 (\<lambda>_. Item (NEvent ?e)) link_new =
      (Returns ?r, link_new)"
    by (simp add: await_response_def wait_then_result wait_on_Returns await_loop_round verdict_def expired_def
        accepted_def response_body_def demo_client_def demo_client_env_def nnc_service_def nnc_with_timeout_def
        nnc_new_def names_request_def tag_event_def)
  from only_the_service_answers [THEN conjunct1, THEN mp, OF this] show ?thesis by blast
qed

text \<open>C40: a forged outcome ends the wait. \<open>wait\<close> does not ask who signed an event: the first of the notification kind that names the
  request, wherever it comes in the stream, is decrypted as if it came from the service. If it is in time and what it
  carries does not decrypt so, as is the case for whatever a stranger wrote, the wait for a channel to open or close
  is over with a signer's error, whatever the stream yields afterwards, the genuine outcome included.\<close>

theorem forged_outcome_ends_wait:
  assumes "pd_events p k = Item (NEvent e)" "ev_kind e = NOTIFICATION_KIND" "names_request (pd_request_id p) e"
    and "cl_decrypt env (pd_service p) (ev_content e) = None"
    and "\<And>j e'. j < k \<Longrightarrow> pd_events p j = Item (NEvent e') \<Longrightarrow> ev_kind e' = NOTIFICATION_KIND \<Longrightarrow>
      \<not> names_request (pd_request_id p) e'"
    and "cl_instant env (lk_acts l) + pd_timeout p \<le> cl_instant_max env"
    and "\<And>j. j \<le> k \<Longrightarrow> \<not> expired (cl_instant env (lk_acts l) + pd_timeout p) (cl_timer env (lk_acts l)) (pd_events p) j"
  shows "fst (pending_wait codec env de p l) = Fails SignerErr"
proof -
  let ?body = "outcome_body codec env de (pd_service p) (pd_request_id p)"
  have body: "?body e = Some (Question SignerErr)"
    using assms(2-4) by (simp add: outcome_body_def)
  have earlier: "?body e' = None" if "j < k" "pd_events p j = Item (NEvent e')" for j e'
    using assms(5) [OF that] by (auto simp: outcome_body_def)
  have "await_loop ?body timed_out (cl_instant env (lk_acts l) + pd_timeout p) (cl_timer env (lk_acts l)) (pd_events p) 0 =
      Some (Question SignerErr)" for timed_out
    by (rule outcome.heard [where stream = "pd_events p" and k = k, OF assms(1) body]) (use assms(7) earlier in auto)
  then have "wait_on env (pd_timeout p) ?body (Break (Inl (TimedOut (pd_timeout p)))) (pd_events p) l =
      Returns (Question SignerErr)"
    using assms(6) by (simp add: wait_on_Returns)
  then show ?thesis
    by (simp add: pending_wait_def bind_op_def pending_drop_def client_unsubscribe_def call_client_def try_op_def
        return_op_def of_result_def)
qed

text \<open>A stranger's event after one of another kind, and an event of the service after it.\<close>

theorem forged_outcome_ends_wait_witness:
  "fst (pending_wait demo_codec ((demo_client_env (\<lambda>_. Silent))\<lparr>cl_decrypt := \<lambda>_ t. if t = ''junk'' then None else Some t\<rparr>)
     de_ChannelClosed
     (demo_pending (\<lambda>j. Item (NEvent \<lparr>ev_id = 77, ev_pubkey = if j = 1 then 666 else 1, ev_created_at = 1,
        ev_kind = if j = 0 then 1 else NOTIFICATION_KIND, ev_tags = [[''e'', to_hex 9]],
        ev_content = if j = 1 then ''junk'' else ''good''\<rparr>))) link_new) = Fails SignerErr"
  by (rule forged_outcome_ends_wait [where k = 1])
    (auto simp: demo_client_env_def names_request_def expired_def kind_defs le_Suc_eq)

text \<open>A wait for an outcome leaves nothing behind. However it ends, outcome, error, timeout or panic, the
  subscription it was opened for is unsubscribed, by \<open>wait\<close> itself or when the handle is dropped, and nothing else
  is asked of the relays.\<close>

lemma outcome_wait_unsubscribes:
  assumes "pending_wait codec env de p l = (r, l')" "r \<noteq> Diverges" "cl_runtime env"
  shows "lk_acts l' = lk_acts l @ [Unsubscribe (pd_subscription p)] \<or>
    lk_acts l' = lk_acts l @ [Unsubscribe (pd_subscription p), Unsubscribe (pd_subscription p)]"
  using assms
  by (auto simp: pending_wait_def bind_op_def pending_drop_def client_unsubscribe_def call_client_def try_op_def
      of_result_def split: run.splits leave.splits sum.splits)

end
