(* ===== verification/Messages.thy ===== *)
theory Messages
  imports NncMethods NwcMethods
begin

text \<open>
  What holds of the messages of both protocols together: every name and every message is read back as it
  was written.
\<close>

text \<open>Names never fail to parse and never change. Every string is a method and a notification type of both
  protocols, spelt exactly as it came; distinct strings stay distinct; the named variants are what their
  own spelling parses to.\<close>

lemma wire_names_faithful:
  "method_as_str (method_from_str s) = s \<and> wallet_method_as_str (wallet_method_from_str s) = s \<and>
   notification_as_str (notification_from_str s) = s \<and>
   wallet_notification_as_str (wallet_notification_from_str s) = s \<and>
   map (method_from_str \<circ> method_as_str) method_ALL = method_ALL \<and>
   map (wallet_method_from_str \<circ> wallet_method_as_str) wallet_method_ALL = wallet_method_ALL \<and>
   (method_from_str s = UnknownMethod s) = (s \<notin> method_as_str ` set method_ALL) \<and>
   (wallet_method_from_str s = UnknownWalletMethod s) = (s \<notin> wallet_method_as_str ` set wallet_method_ALL)"
  by (simp add: control_method.as_str_from_str wallet_method.as_str_from_str notification.as_str_from_str
      wallet_notification.as_str_from_str control_method.from_str_unknown_iff wallet_method.from_str_unknown_iff
      map_idI control_method.from_str_as_str wallet_method.from_str_as_str)

text \<open>C36: messages survive the wire. Every request and response of the sixteen NIP-XX methods and of the
  twenty-four NIP-47 methods is read back as it was written; where a type can hold a value that another value is written
  as, that one is excluded.\<close>

theorem messages_round_trip:
  "(\<forall>r. de_ListChannelsRequest (en_ListChannelsRequest r) = Some r) \<and>
   (\<forall>r. wf_ListChannelsResponse r \<longrightarrow> de_ListChannelsResponse (en_ListChannelsResponse r) = Some r) \<and>
   (\<forall>r. de_OpenChannelRequest (en_OpenChannelRequest r) = Some r) \<and>
   (\<forall>r. de_OpenChannelResponse (en_OpenChannelResponse r) = Some r) \<and>
   (\<forall>r. de_CloseChannelRequest (en_CloseChannelRequest r) = Some r) \<and>
   (\<forall>r. de_CloseChannelResponse (en_CloseChannelResponse r) = Some r) \<and>
   (\<forall>r. de_ListPeersRequest (en_ListPeersRequest r) = Some r) \<and>
   (\<forall>r. de_ListPeersResponse (en_ListPeersResponse r) = Some r) \<and>
   (\<forall>r. de_ConnectPeerRequest (en_ConnectPeerRequest r) = Some r) \<and>
   (\<forall>r. de_ConnectPeerResponse (en_ConnectPeerResponse r) = Some r) \<and>
   (\<forall>r. de_DisconnectPeerRequest (en_DisconnectPeerRequest r) = Some r) \<and>
   (\<forall>r. de_DisconnectPeerResponse (en_DisconnectPeerResponse r) = Some r) \<and>
   (\<forall>r. de_GetChannelFeesRequest (en_GetChannelFeesRequest r) = Some r) \<and>
   (\<forall>r. wf_GetChannelFeesResponse r \<longrightarrow> de_GetChannelFeesResponse (en_GetChannelFeesResponse r) = Some r) \<and>
   (\<forall>r. de_SetChannelFeesRequest (en_SetChannelFeesRequest r) = Some r) \<and>
   (\<forall>r. de_SetChannelFeesResponse (en_SetChannelFeesResponse r) = Some r) \<and>
   (\<forall>r. de_GetForwardingHistoryRequest (en_GetForwardingHistoryRequest r) = Some r) \<and>
   (\<forall>r. de_GetForwardingHistoryResponse (en_GetForwardingHistoryResponse r) = Some r) \<and>
   (\<forall>r. de_GetPendingHtlcsRequest (en_GetPendingHtlcsRequest r) = Some r) \<and>
   (\<forall>r. de_GetPendingHtlcsResponse (en_GetPendingHtlcsResponse r) = Some r) \<and>
   (\<forall>r. de_QueryRoutesRequest (en_QueryRoutesRequest r) = Some r) \<and>
   (\<forall>r. wf_QueryRoutesResponse r \<longrightarrow> de_QueryRoutesResponse (en_QueryRoutesResponse r) = Some r) \<and>
   (\<forall>r. de_ListNetworkNodesRequest (en_ListNetworkNodesRequest r) = Some r) \<and>
   (\<forall>r. wf_ListNetworkNodesResponse r \<longrightarrow> de_ListNetworkNodesResponse (en_ListNetworkNodesResponse r) = Some r) \<and>
   (\<forall>r. de_GetNetworkStatsRequest (en_GetNetworkStatsRequest r) = Some r) \<and>
   (\<forall>r. de_GetNetworkStatsResponse (en_GetNetworkStatsResponse r) = Some r) \<and>
   (\<forall>r. de_GetNetworkNodeRequest (en_GetNetworkNodeRequest r) = Some r) \<and>
   (\<forall>r. wf_NetworkNode r \<longrightarrow> de_NetworkNode (en_NetworkNode r) = Some r) \<and>
   (\<forall>r. de_GetNetworkChannelRequest (en_GetNetworkChannelRequest r) = Some r) \<and>
   (\<forall>r. de_GetNetworkChannelResponse (en_GetNetworkChannelResponse r) = Some r) \<and>
   (\<forall>r. de_SignMessageRequest (en_SignMessageRequest r) = Some r) \<and>
   (\<forall>r. de_SignMessageResponse (en_SignMessageResponse r) = Some r) \<and>
   (\<forall>r. wf_PayInvoiceRequest r \<longrightarrow> de_PayInvoiceRequest (en_PayInvoiceRequest r) = Some r) \<and>
   (\<forall>r. de_PayInvoiceResponse (en_PayInvoiceResponse r) = Some r) \<and>
   (\<forall>r. wf_MakeInvoiceRequest r \<longrightarrow> de_MakeInvoiceRequest (en_MakeInvoiceRequest r) = Some r) \<and>
   (\<forall>r. wf_Transaction r \<longrightarrow> de_Transaction (en_Transaction r) = Some r) \<and>
   (\<forall>r. de_LookupInvoiceRequest (en_LookupInvoiceRequest r) = Some r) \<and>
   (\<forall>r. de_GetBalanceRequest (en_GetBalanceRequest r) = Some r) \<and>
   (\<forall>r. de_GetBalanceResponse (en_GetBalanceResponse r) = Some r) \<and>
   (\<forall>r. de_GetInfoRequest (en_GetInfoRequest r) = Some r) \<and>
   (\<forall>r. de_GetInfoResponse (en_GetInfoResponse r) = Some r) \<and>
   (\<forall>r. de_PayOnchainRequest (en_PayOnchainRequest r) = Some r) \<and>
   (\<forall>r. de_PayOnchainResponse (en_PayOnchainResponse r) = Some r) \<and>
   (\<forall>r. de_MakeHoldInvoiceRequest (en_MakeHoldInvoiceRequest r) = Some r) \<and>
   (\<forall>r. wf_MakeHoldInvoiceResponse r \<longrightarrow> de_MakeHoldInvoiceResponse (en_MakeHoldInvoiceResponse r) = Some r) \<and>
   (\<forall>r. de_SettleHoldInvoiceRequest (en_SettleHoldInvoiceRequest r) = Some r) \<and>
   (\<forall>r. de_SettleHoldInvoiceResponse (en_SettleHoldInvoiceResponse r) = Some r) \<and>
   (\<forall>r. de_CancelHoldInvoiceRequest (en_CancelHoldInvoiceRequest r) = Some r) \<and>
   (\<forall>r. de_CancelHoldInvoiceResponse (en_CancelHoldInvoiceResponse r) = Some r) \<and>
   (\<forall>r. de_QuotePaymentRequest (en_QuotePaymentRequest r) = Some r) \<and>
   (\<forall>r. de_QuotePaymentResponse (en_QuotePaymentResponse r) = Some r) \<and>
   (\<forall>r. de_PayKeysendRequest (en_PayKeysendRequest r) = Some r) \<and>
   (\<forall>r. de_PayKeysendResponse (en_PayKeysendResponse r) = Some r) \<and>
   (\<forall>r. de_ListTransactionsRequest (en_ListTransactionsRequest r) = Some r) \<and>
   (\<forall>r. wf_ListTransactionsResponse r \<longrightarrow> de_ListTransactionsResponse (en_ListTransactionsResponse r) = Some r) \<and>
   (\<forall>r. de_MakeNewAddressRequest (en_MakeNewAddressRequest r) = Some r) \<and>
   (\<forall>r. de_MakeNewAddressResponse (en_MakeNewAddressResponse r) = Some r) \<and>
   (\<forall>r. de_LookupAddressRequest (en_LookupAddressRequest r) = Some r) \<and>
   (\<forall>r. de_LookupAddressResponse (en_LookupAddressResponse r) = Some r) \<and>
   (\<forall>r. de_ListAddressesRequest (en_ListAddressesRequest r) = Some r) \<and>
   (\<forall>r. de_ListAddressesResponse (en_ListAddressesResponse r) = Some r) \<and>
   (\<forall>r. de_EstimateOnchainFeesRequest (en_EstimateOnchainFeesRequest r) = Some r) \<and>
   (\<forall>r. wf_EstimateOnchainFeesResponse r \<longrightarrow> de_EstimateOnchainFeesResponse (en_EstimateOnchainFeesResponse r) = Some r) \<and>
   (\<forall>r. wf_ListInvoicesRequest r \<longrightarrow> de_ListInvoicesRequest (en_ListInvoicesRequest r) = Some r) \<and>
   (\<forall>r. wf_ListInvoicesResponse r \<longrightarrow> de_ListInvoicesResponse (en_ListInvoicesResponse r) = Some r) \<and>
   (\<forall>r. wf_PayRequest r \<longrightarrow> de_PayRequest (en_PayRequest r) = Some r) \<and>
   (\<forall>r. de_PayResponse (en_PayResponse r) = Some r) \<and>
   (\<forall>r. wf_ReceiveRequest r \<longrightarrow> de_ReceiveRequest (en_ReceiveRequest r) = Some r) \<and>
   (\<forall>r. de_ReceiveResponse (en_ReceiveResponse r) = Some r) \<and>
   (\<forall>r. wf_MakeOfferRequest r \<longrightarrow> de_MakeOfferRequest (en_MakeOfferRequest r) = Some r) \<and>
   (\<forall>r. de_MakeOfferResponse (en_MakeOfferResponse r) = Some r) \<and>
   (\<forall>r. wf_LookupPaymentRequest r \<longrightarrow> de_LookupPaymentRequest (en_LookupPaymentRequest r) = Some r) \<and>
   (\<forall>r. wf_LookupPaymentResponse r \<longrightarrow> de_LookupPaymentResponse (en_LookupPaymentResponse r) = Some r) \<and>
   (\<forall>r. de_PayOfferRequest (en_PayOfferRequest r) = Some r) \<and>
   (\<forall>r. de_PayOfferResponse (en_PayOfferResponse r) = Some r) \<and>
   (\<forall>r. de_ListOffersRequest (en_ListOffersRequest r) = Some r) \<and>
   (\<forall>r. de_ListOffersResponse (en_ListOffersResponse r) = Some r) \<and>
   (\<forall>r. de_DisableOfferRequest (en_DisableOfferRequest r) = Some r) \<and>
   (\<forall>r. de_DisableOfferResponse (en_DisableOfferResponse r) = Some r)"
  by (simp add: codec_simps)

theorem messages_round_trip_witness:
  "de_ListChannelsResponse (en_ListChannelsResponse \<lparr>list_channels_rs_channels = [\<lparr>channel_id = ''c1'',
     channel_short_channel_id = None, channel_peer_pubkey = ''02ab'', channel_state = Some (CS_Unknown ''odd''),
     channel_is_private = True, channel_capacity = Some 5, channel_local_balance = None,
     channel_remote_balance = None, channel_funding_txid = None, channel_extra = [(''note'', JNull)]\<rparr>]\<rparr>) =
   Some \<lparr>list_channels_rs_channels = [\<lparr>channel_id = ''c1'',
     channel_short_channel_id = None, channel_peer_pubkey = ''02ab'', channel_state = Some (CS_Unknown ''odd''),
     channel_is_private = True, channel_capacity = Some 5, channel_local_balance = None,
     channel_remote_balance = None, channel_funding_txid = None, channel_extra = [(''note'', JNull)]\<rparr>]\<rparr>"
  by (rule messages_round_trip [THEN conjunct2, THEN conjunct1, rule_format])
    (simp add: wf_ListChannelsResponse_def wf_Channel_def wf_ChannelState_def channel_state_variant_def extra_wf_def)

text \<open>The check that keeps a Nostr key from passing for a Lightning \<open>node_id\<close> is not made on the wire.
  \<open>NodeId::parse\<close> refuses every Nostr public key, but reading a \<open>sign_message\<close> response accepts one as a
  \<open>NodeId\<close> like any other string.\<close>

lemma node_id_unchecked_on_the_wire:
  "NodeId_parse (to_hex pk) = Inl InvalidNodeId \<and>
   de_SignMessageResponse (JObj [(''message'', JStr m), (''signature'', JStr s), (''pubkey'', JStr (to_hex pk))]) =
     Some \<lparr>sign_message_rs_message = m, sign_message_rs_signature = s,
       sign_message_rs_pubkey = NodeId (to_hex pk)\<rparr>"
  by (simp add: NodeId_parse_def de_SignMessageResponse_def struct_entries_def req_def de_string_def de_NodeId_def)

end
