(* ===== verification/Session.thy ===== *)
theory Session
  imports Calls Messages
begin

text \<open>
  A client and a service together: what one side hands to the relay client is read with the definitions of the
  other. What lies between them is assumed only as far as it is documented: a signed event is what was built,
  NIP-44 opens what the other end sealed, the relay client broadcasts to every stream taken before.
\<close>

section \<open>Between the two\<close>

text \<open>\<open>EventBuilder::sign\<close>: the builder's kind, content and tags under the signer's key, with an id and a time.\<close>

definition signed_by :: "PublicKey \<Rightarrow> EventBuilder \<Rightarrow> Event \<Rightarrow> bool" where
  "signed_by pk eb e \<longleftrightarrow> ev_pubkey e = pk \<and> ev_kind e = eb_kind eb \<and> ev_content e = eb_content eb \<and>
     ev_tags e = built_tags eb pk"

text \<open>NIP-44 between client \<open>me\<close> and service \<open>srv\<close>: each opens what the other sealed for it.\<close>

definition sealed :: "cenv \<Rightarrow> env \<Rightarrow> PublicKey \<Rightarrow> PublicKey \<Rightarrow> bool" where
  "sealed cenv senv me srv \<longleftrightarrow>
     (\<forall>acts t c. cl_encrypt cenv acts srv t = Some c \<longrightarrow> nip44_decrypt senv me c = Some t) \<and>
     (\<forall>t c. nip44_encrypt senv me t = Some c \<longrightarrow> cl_decrypt cenv srv c = Some t)"

text \<open>The relay client takes whatever it is asked.\<close>

definition accepting :: "cenv \<Rightarrow> bool" where
  "accepting env \<longleftrightarrow> (\<forall>acts url. cl_add_relay env acts url) \<and> (\<forall>acts f. cl_subscribe env acts f \<noteq> None) \<and>
     (\<forall>acts e. cl_send_event env acts e)"

text \<open>The broadcast: event \<open>e\<close>, published in answer to \<open>q\<close>, is yielded in time by every stream taken before \<open>q\<close>
  was handed over; nothing is said of streams taken later. And nothing else the service's key signs names \<open>q\<close>.\<close>

definition answers_once :: "cenv \<Rightarrow> nat \<Rightarrow> PublicKey \<Rightarrow> Event \<Rightarrow> Event \<Rightarrow> bool" where
  "answers_once env timeout srv q e \<longleftrightarrow>
     (\<forall>acts. cl_instant env acts + timeout \<le> cl_instant_max env) \<and>
     (\<forall>acts later. SendEvent q \<notin> set acts \<longrightarrow>
        (\<exists>k. cl_stream env acts k = Item (NEvent e) \<and>
          (\<forall>j\<le>k. \<not> expired (cl_instant env later + timeout) (cl_timer env later) (cl_stream env acts) j))) \<and>
     (\<forall>acts j e'. cl_stream env acts j = Item (NEvent e') \<and> ev_pubkey e' = srv \<and> names_request (ev_id q) e' \<longrightarrow> e' = e)"

lemma accepting_boot:
  assumes "accepting env"
  shows "\<exists>new. bootstrap env relays l = (Returns (), l\<lparr>lk_connected := True, lk_acts := lk_acts l @ new\<rparr>) \<and> booting new"
proof -
  have relays: "\<exists>new. add_relays env rs l = (Returns (), l\<lparr>lk_acts := lk_acts l @ new\<rparr>) \<and> booting new" for rs l
  proof (induction rs arbitrary: l)
    case Nil
    then show ?case by (auto simp: return_op_def booting_def intro!: exI [of _ "[]"])
  next
    case (Cons r rs)
    from Cons [of "l\<lparr>lk_acts := lk_acts l @ [AddRelay r]\<rparr>"] obtain new where
      "add_relays env rs (l\<lparr>lk_acts := lk_acts l @ [AddRelay r]\<rparr>) =
        (Returns (), l\<lparr>lk_acts := lk_acts l @ AddRelay r # new\<rparr>)" "booting new"
      by auto
    with assms show ?case
      by (intro exI [of _ "AddRelay r # new"])
        (auto simp: bind_op_def client_add_relay_def call_client_def try_op_def accepting_def booting_def)
  qed
  show ?thesis
  proof (cases "lk_connected l")
    case True
    then have "l = l\<lparr>lk_connected := True\<rparr>" by (cases l) simp
    with True show ?thesis by (intro exI [of _ "[]"]) (simp add: bootstrap_def booting_def)
  next
    case False
    from relays [of relays l] obtain new where
      "add_relays env relays l = (Returns (), l\<lparr>lk_acts := lk_acts l @ new\<rparr>)" "booting new" by blast
    with False show ?thesis
      by (intro exI [of _ "new @ [Connect]"])
        (auto simp: bootstrap_def bind_op_def client_connect_def call_client_def try_op_def set_connected_def booting_def)
  qed
qed

text \<open>With everything accepted, a request goes out and what remains is the wait, on a stream taken before.\<close>

lemma nnc_send_waits:
  assumes "accepting env" "cl_public_key env = Some me"
    and "\<And>acts. cl_encrypt env acts (nnc_service c) (print codec (en_Request request)) = Some cipher"
    and "\<And>acts. cl_sign env acts (request_builder CONTROL_REQUEST_KIND (nnc_service c) cipher) = Some q"
  shows "\<exists>new f. nnc_send codec env c request l =
    await_response codec env c (ev_id q) (cl_stream env (lk_acts l @ new @ [Subscribe f]))
      (l\<lparr>lk_connected := True, lk_acts := lk_acts l @ new @ [Subscribe f, TakeStream, SendEvent q]\<rparr>) \<and> booting new"
proof -
  from accepting_boot [OF assms(1)] obtain new where
    boot: "bootstrap env (uri_relays (nc_uri c)) l = (Returns (), l\<lparr>lk_connected := True, lk_acts := lk_acts l @ new\<rparr>)"
    and new: "booting new" by blast
  let ?l = "l\<lparr>lk_connected := True, lk_acts := lk_acts l @ new\<rparr>"
  let ?f = "response_filter CONTROL_RESPONSE_KIND env me ?l"
  obtain i where "cl_subscribe env (lk_acts l @ new) ?f = Some i"
    using assms(1) unfolding accepting_def by (metis not_None_eq)
  with assms boot new show ?thesis
    by (intro exI [of _ new] exI [of _ ?f])
      (simp add: nnc_send_def bind_op_def boot signer_public_key_def op_defs call_client_def try_op_def
        signer_encrypt_def sign_event_def accepting_def)
qed

context authored_wait
begin

lemma hears_answer:
  assumes "answers_once env timeout author q e" "ev_id q = request" "SendEvent q \<notin> set acts" "body e = Some r"
  shows "wait_on env timeout body timed_out (cl_stream env acts) l = Returns r"
proof -
  let ?s = "cl_stream env acts" and ?d = "cl_instant env (lk_acts l) + timeout" and ?t = "cl_timer env (lk_acts l)"
  let ?k = "LEAST k. ?s k = Item (NEvent e)"
  from assms(1,3) obtain k where k: "?s k = Item (NEvent e)" "\<And>j. j \<le> k \<Longrightarrow> \<not> expired ?d ?t ?s j"
    and max: "?d \<le> cl_instant_max env"
    unfolding answers_once_def by blast
  have "await_loop body timed_out ?d ?t ?s 0 = Some r"
  proof (rule heard [OF LeastI assms(4)])
    show "?s k = Item (NEvent e)" by (fact k(1))
    show "\<not> expired ?d ?t ?s j" if "j \<le> ?k" for j
      using k that Least_le [of "\<lambda>k. ?s k = Item (NEvent e)" k] by (meson le_trans)
    show "body e' = None" if "j < ?k" "?s j = Item (NEvent e')" for j e'
    proof (rule ccontr)
      assume "body e' \<noteq> None"
      then have "ev_pubkey e' = author" "names_request (ev_id q) e'"
        using body_author body_names assms(2) by auto
      with assms(1) that(2) have "e' = e" unfolding answers_once_def by blast
      with that not_less_Least [OF that(1)] show False by simp
    qed
  qed simp
  with max show ?thesis by (simp add: wait_on_Returns)
qed

end

section \<open>What the service does with a request\<close>

text \<open>A request the client sealed is the request the service reads.\<close>

lemma request_read:
  assumes "signed_by me (request_builder kind srv cipher) q" "nip44_decrypt senv me cipher = Some (print codec v)"
    and "parse codec (print codec v) = Some v" "de_Request v = Some r"
  shows "request_of codec senv q = Some r" "ev_kind q = kind" "ev_pubkey q = me"
  using assms by (auto simp: signed_by_def request_builder_def request_of_def)

lemma de_Request_new: "de_Request (en_Request (request_new en (method_from_str s) params)) =
    Some (request_new en (method_from_str s) params)"
  by (simp add: de_en_Request request_new_def value_wf_norm_value control_method.as_str_from_str)

definition response_for :: "Method \<Rightarrow> (Value, NncError) result \<Rightarrow> Response" where
  "response_for m result = (case result of Inr v \<Rightarrow> response_ok m v | Inl e \<Rightarrow> response_err m e)"

text \<open>The event the service sends back on a request its pipeline has decided.\<close>

lemma service_replies:
  assumes "ev_kind q = kind" "kind = WALLET_REQUEST_KIND \<or> kind = CONTROL_REQUEST_KIND"
    and "request_of codec senv q = Some r" "handler_for sv kind = Some h"
    and "fst (handle_op (op_of senv h q r s) (st_usage s, st_node s)) = result"
    and "st_sent (on_event codec senv sv q s) = st_sent s @ [eb]"
    and "\<forall>e. result = Inl e \<longrightarrow> plain_code (err_code e)"
  shows "nip44_encrypt senv (ev_pubkey q) (print codec (en_Response (render codec) (response_for (rq_method r) result))) =
      Some (eb_content eb)"
    and "eb_kind eb = (if kind = WALLET_REQUEST_KIND then WALLET_RESPONSE_KIND else CONTROL_RESPONSE_KIND)"
    and "eb_tags eb = [tag_public_key (ev_pubkey q), tag_event (ev_id q)]"
    and "de_Response (en_Response (render codec) (response_for (rq_method r) result)) =
      Some (rendered (render codec) (response_for (rq_method r) result))"
proof -
  obtain response s' where a: "answer codec senv sv q kind s = (response, s')" by fastforce
  then have response: "response = response_for (rq_method r) result"
    using assms(3-5) by (cases rule: answer_cases [of codec senv sv q kind s]) (auto simp: response_for_def)
  have "st_sent (on_event codec senv sv q s) = st_sent s @ fst (reply codec senv q kind response)"
    using assms(1,2) a answer_frame [OF a] by (auto simp: on_event_def Let_def kind_defs)
  with assms(6) have "fst (reply codec senv q kind response) = [eb]" by simp
  then show "nip44_encrypt senv (ev_pubkey q) (print codec (en_Response (render codec) (response_for (rq_method r) result))) =
      Some (eb_content eb)"
    and "eb_kind eb = (if kind = WALLET_REQUEST_KIND then WALLET_RESPONSE_KIND else CONTROL_RESPONSE_KIND)"
    and "eb_tags eb = [tag_public_key (ev_pubkey q), tag_event (ev_id q)]"
    by (auto simp: reply_def send_def response split: option.splits)
  show "de_Response (en_Response (render codec) (response_for (rq_method r) result)) =
      Some (rendered (render codec) (response_for (rq_method r) result))"
    using answer_reads_back [OF a] assms(7)
    by (auto simp: response response_for_def response_ok_def response_err_def split: sum.splits)
qed

lemma reply_names_request:
  assumes "signed_by srv eb e" "eb_tags eb = [tag_public_key pk, tag_event i]"
  shows "names_request i e"
  using assms by (auto simp: signed_by_def built_tags_def names_request_def tag_public_key_def tag_event_def)

section \<open>A client and a service, for the witnesses\<close>

text \<open>Text is one word for the request and one for everything else; client 7 talks to node 1.\<close>

definition pair_codec :: "Value \<Rightarrow> Value \<Rightarrow> codec" where
  "pair_codec rq rs =
     demo_codec\<lparr>parse := \<lambda>t. Some (if t = ''request'' then rq else rs),
       print := \<lambda>v. if v = rq then ''request'' else ''response''\<rparr>"

definition demo_event :: "EventId \<Rightarrow> PublicKey \<Rightarrow> EventBuilder \<Rightarrow> Event" where
  "demo_event i pk eb = \<lparr>ev_id = i, ev_pubkey = pk, ev_created_at = 60, ev_kind = eb_kind eb,
     ev_tags = built_tags eb pk, ev_content = eb_content eb\<rparr>"

definition demo_side :: "stream \<Rightarrow> cenv" where
  "demo_side stream = (demo_client_env stream)\<lparr>cl_public_key := Some 7, cl_sign := \<lambda>_ eb. Some (demo_event 9 7 eb)\<rparr>"

definition demo_reply :: "u16 \<Rightarrow> EventBuilder" where
  "demo_reply kind = \<lparr>eb_kind = kind, eb_content = ''response'', eb_tags = [tag_public_key 7, tag_event 9]\<rparr>"

definition demo_at_rest :: "nat State" where
  "demo_at_rest = \<lparr>st_grants = demo_grants, st_subs = subs_new 1, st_usage = usage_new,
     st_delivery = delivery_default, st_connected = {||}, st_node = 0, st_sent = []\<rparr>"

lemma demo_event_simps [simp]:
  "ev_id (demo_event i pk eb) = i" "ev_pubkey (demo_event i pk eb) = pk" "ev_kind (demo_event i pk eb) = eb_kind eb"
  "ev_content (demo_event i pk eb) = eb_content eb" "ev_created_at (demo_event i pk eb) = 60" "signed_by pk eb (demo_event i pk eb)"
  by (simp_all add: demo_event_def signed_by_def)

lemma demo_side_simps [simp]:
  "accepting (demo_side stream)" "cl_public_key (demo_side stream) = Some 7" "sealed (demo_side stream) demo_env me srv"
  "cl_encrypt (demo_side stream) acts srv text = Some text" "cl_decrypt (demo_side stream) srv text = Some text"
  "cl_sign (demo_side stream) acts eb = Some (demo_event 9 7 eb)" "cl_instant (demo_side stream) acts = 0"
  "cl_timer (demo_side stream) acts i = (i, 100 \<le> i)" "cl_instant_max (demo_side stream) = 1000"
  by (simp_all add: demo_side_def demo_client_env_def accepting_def sealed_def demo_env_def)

lemma demo_answers_once:
  "answers_once (demo_side (\<lambda>_. Item (NEvent e))) 100 srv q e"
  by (auto simp: answers_once_def demo_side_def demo_client_env_def expired_def intro!: exI [of _ 0])

lemma pair_codec_simps [simp]:
  "parse (pair_codec rq rs) ''request'' = Some rq" "parse (pair_codec rq rs) ''response'' = Some rs"
  "print (pair_codec rq rs) rq = ''request''" "rq \<noteq> rs \<Longrightarrow> print (pair_codec rq rs) rs = ''response''"
  "render (pair_codec rq rs) = render demo_codec" "render demo_codec (Msg t) = t"
  by (simp_all add: pair_codec_def demo_codec_def)

lemma demo_service_simps [simp]:
  "sv_control (service_control ctl sv) = Some ctl" "sv_wallet (service_wallet w sv) = Some w"
  by (simp_all add: service_control_def service_wallet_def)

lemma not_implemented_simps [simp]:
  "plain_code EC_NotImplemented" "err_code (not_implemented name) = EC_NotImplemented"
  "err_message (not_implemented name) = Msg (name @ '' is not implemented'')"
  by (simp_all add: not_implemented_def nnc_error_def plain_code_def)

section \<open>A call and its answer\<close>

lemma response_accepted:
  assumes "signed_by srv eb e" "eb_kind eb = CONTROL_RESPONSE_KIND" "eb_tags eb = [tag_public_key pk, tag_event i]"
    and "cl_decrypt env srv (eb_content eb) = Some (print codec v)" "parse codec (print codec v) = Some v"
    and "de_Response v = Some r"
  shows "response_body codec env srv i e = Some (Inr r)"
  using assms reply_names_request [OF assms(1,3)]
  by (auto simp: response_body_def signed_by_def)

lemma nnc_send_answered:
  assumes "accepting env" "cl_public_key env = Some me"
    and "\<And>acts. cl_encrypt env acts (nnc_service c) (print codec (en_Request request)) = Some cipher"
    and "\<And>acts. cl_sign env acts (request_builder CONTROL_REQUEST_KIND (nnc_service c) cipher) = Some q"
    and "answers_once env (nc_timeout c) (nnc_service c) q e" "SendEvent q \<notin> set (lk_acts l)"
    and "response_body codec env (nnc_service c) (ev_id q) e = Some (Inr r)"
  shows "\<exists>l'. nnc_send codec env c request l = (Returns r, l')"
proof -
  from nnc_send_waits [OF assms(1-4)] obtain new f where
    send: "nnc_send codec env c request l =
      await_response codec env c (ev_id q) (cl_stream env (lk_acts l @ new @ [Subscribe f]))
        (l\<lparr>lk_connected := True, lk_acts := lk_acts l @ new @ [Subscribe f, TakeStream, SendEvent q]\<rparr>)"
    and "booting new" by blast
  then have "SendEvent q \<notin> set (lk_acts l @ new @ [Subscribe f])"
    using assms(6) by (auto simp: booting_def)
  from response.hears_answer [OF assms(5) refl this assms(7)] show ?thesis
    unfolding send by (simp add: await_response_def bind_op_def of_result_def)
qed

lemma control_call_answered:
  assumes "accepting env" "cl_public_key env = Some me" "sealed env senv me (nnc_service c)"
    and "\<And>acts. cl_encrypt env acts (nnc_service c) (print codec (en_Request (request_new en m params))) = Some cipher"
    and "\<And>acts. cl_sign env acts (request_builder CONTROL_REQUEST_KIND (nnc_service c) cipher) = Some q"
    and "signed_by me (request_builder CONTROL_REQUEST_KIND (nnc_service c) cipher) q"
    and "parse codec (print codec (en_Request (request_new en m params))) = Some (en_Request (request_new en m params))"
    and "m = method_from_str name" "sv_control sv = Some ctl"
    and "handle (HControl ctl) (st_grants s) me (Some (ev_id q)) m (norm_value (en params)) (clock senv)
      (st_usage s) (st_node s) = (result, u', n')"
    and "\<forall>x. result = Inl x \<longrightarrow> plain_code (err_code x)"
    and "st_sent (on_event codec senv sv q s) = st_sent s @ [eb]" "signed_by (nnc_service c) eb e"
    and "parse codec (print codec (en_Response (render codec) (response_for m result))) =
      Some (en_Response (render codec) (response_for m result))"
    and "answers_once env (nc_timeout c) (nnc_service c) q e" "SendEvent q \<notin> set (lk_acts l)"
  shows "fst (nnc_call codec env c en de m params l) =
    (case result of
       Inl x \<Rightarrow> Fails (Refused (nnc_error (err_code x) (render codec (err_message x))))
     | Inr v \<Rightarrow> (case de v of Some r \<Rightarrow> Returns r | None \<Rightarrow> Fails (ResultErr Malformed)))"
proof -
  let ?r = "request_new en m params" and ?resp = "response_for m result"
  have "nip44_decrypt senv me cipher = Some (print codec (en_Request ?r))"
    using assms(3,4) by (auto simp: sealed_def)
  note read = request_read [OF assms(6) this assms(7) de_Request_new [of en name params, folded assms(8)]]
  have "handler_for sv CONTROL_REQUEST_KIND = Some (HControl ctl)"
    using assms(9) by (simp add: handler_for_def kind_defs)
  note replies = service_replies [OF read(2) disjI2 [OF refl] read(1) this _ assms(12,11)]
  have h: "fst (handle_op (op_of senv (HControl ctl) q ?r s) (st_usage s, st_node s)) = result"
    using assms(10) by (simp add: handle_op_def op_of_def request_new_def read(3))
  have m: "rq_method ?r = m" by (simp add: request_new_def)
  from assms(3) replies(1) [OF h] have "cl_decrypt env (nnc_service c) (eb_content eb) =
      Some (print codec (en_Response (render codec) ?resp))"
    by (simp add: sealed_def m read(3))
  from response_accepted [OF assms(13) _ replies(3) [OF h] this assms(14)] replies(2,4) [OF h]
  have "response_body codec env (nnc_service c) (ev_id q) e = Some (Inr (rendered (render codec) ?resp))"
    by (simp add: m kind_defs)
  from nnc_send_answered [OF assms(1,2,4,5,15,16) this] show ?thesis
    by (auto simp: nnc_call_def bind_op_def accepted_response_def of_result_def rendered_def response_for_def
        response_ok_def response_err_def result_as_def ok_or_def split: sum.splits option.splits)
qed

text \<open>C5: a call returns what the node answered. When a client calls a control method and the service receives
  that request and sends one reply, the service's pipeline was run on exactly the method, parameters and
  controller of the call, and the call returns the result the pipeline gave, read back as the method's own type,
  or fails with the very error the pipeline refused with; it does not time out. Nothing is assumed of what else is
  on the relays but that nobody else holds the service's key.\<close>

theorem control_call_round_trip:
  assumes "accepting env" "cl_public_key env = Some me" "sealed env senv me (nnc_service c)"
    and "\<And>acts. cl_encrypt env acts (nnc_service c) (print codec (en_Request (request_new en m params))) = Some cipher"
    and "\<And>acts. cl_sign env acts (request_builder CONTROL_REQUEST_KIND (nnc_service c) cipher) = Some q"
    and "signed_by me (request_builder CONTROL_REQUEST_KIND (nnc_service c) cipher) q"
    and "parse codec (print codec (en_Request (request_new en m params))) = Some (en_Request (request_new en m params))"
    and "m = method_from_str name" "sv_control sv = Some ctl"
    and "handle (HControl ctl) (st_grants s) me (Some (ev_id q)) m (norm_value (en params)) (clock senv)
      (st_usage s) (st_node s) = (result, u', n')"
    and "\<forall>x. result = Inl x \<longrightarrow> plain_code (err_code x)"
    and "st_sent (on_event codec senv sv q s) = st_sent s @ [eb]" "signed_by (nnc_service c) eb e"
    and "parse codec (print codec (en_Response (render codec) (response_for m result))) =
      Some (en_Response (render codec) (response_for m result))"
    and "answers_once env (nc_timeout c) (nnc_service c) q e" "SendEvent q \<notin> set (lk_acts l)"
  shows "fst (nnc_call codec env c en de m params l) =
    (case result of
       Inl x \<Rightarrow> Fails (Refused (nnc_error (err_code x) (render codec (err_message x))))
     | Inr v \<Rightarrow> (case de v of Some r \<Rightarrow> Returns r | None \<Rightarrow> Fails (ResultErr Malformed)))"
  using assms by (rule control_call_answered)

theorem control_call_round_trip_witness:
  "\<exists>codec. fst (nnc_call codec
      (demo_side (\<lambda>_. Item (NEvent (demo_event 77 1 (demo_reply CONTROL_RESPONSE_KIND))))) demo_client
      en_ListPeersRequest de_ListPeersResponse ListPeers ListPeersRequest link_new) =
    Fails (Refused (nnc_error EC_NotImplemented ''list_peers is not implemented''))"
proof -
  let ?req = "en_Request (request_new en_ListPeersRequest ListPeers ListPeersRequest)"
  let ?result = "Inl (not_implemented ''list_peers'')"
  let ?resp = "en_Response (render demo_codec) (response_for ListPeers ?result)"
  let ?codec = "pair_codec ?req ?resp"
  let ?e = "demo_event 77 1 (demo_reply CONTROL_RESPONSE_KIND)"
  let ?q = "demo_event 9 7 (request_builder CONTROL_REQUEST_KIND 1 ''request'')"
  let ?sv = "service_control (control_defaults []) (service_new [] [2]) :: (nat, unit) Service"
  have ne: "?req \<noteq> ?resp"
    by (simp add: en_Request_def en_Response_def en_fields_simps response_for_def response_err_def)
  have m: "method_from_str ''list_peers'' = ListPeers" by (simp add: method_from_str_def)
  have client: "nnc_service demo_client = 1" "nc_timeout demo_client = 100"
    by (simp_all add: demo_client_def nnc_service_def nnc_with_timeout_def nnc_new_def)
  have handled: "handle (HControl (control_defaults [] :: (nat, unit) ControlService)) g 7 i ListPeers v now u n =
      (?result, u, n)" for g i v now u n
    by (simp add: handle_def implements_def control_defaults_def Let_def)
  have "request_of ?codec demo_env ?q = Some (request_new en_ListPeersRequest ListPeers ListPeersRequest)"
    using de_Request_new [of en_ListPeersRequest "''list_peers''"]
    by (simp add: request_of_def demo_env_def pair_codec_def request_builder_def m)
  then have sent: "st_sent (on_event ?codec demo_env ?sv ?q demo_at_rest) = st_sent demo_at_rest @ [demo_reply CONTROL_RESPONSE_KIND]"
    using ne handled
    by (cases rule: answer_cases [of ?codec demo_env ?sv ?q CONTROL_REQUEST_KIND demo_at_rest])
      (auto simp: on_event_def Let_def kind_defs request_builder_def demo_at_rest_def reply_def send_def
        demo_reply_def handle_op_def op_of_def request_new_def response_for_def handler_for_def service_control_def
        demo_env_def)
  have "fst (nnc_call ?codec (demo_side (\<lambda>_. Item (NEvent ?e))) demo_client en_ListPeersRequest
      de_ListPeersResponse ListPeers ListPeersRequest link_new) =
    Fails (Refused (nnc_error EC_NotImplemented ''list_peers is not implemented''))"
    by (subst control_call_round_trip [where me = 7 and senv = demo_env and cipher = "''request''" and q = ?q and
          name = "''list_peers''" and sv = ?sv and ctl = "control_defaults []" and s = demo_at_rest and
          result = ?result and u' = "st_usage demo_at_rest" and n' = "st_node demo_at_rest" and
          eb = "demo_reply CONTROL_RESPONSE_KIND" and e = ?e])
      (simp_all add: client ne m handled sent demo_answers_once link_new_def)
  then show ?thesis by blast
qed

text \<open>The same for the wallet client, which reads the response as a JSON value.\<close>

lemma wallet_send_waits:
  assumes "accepting env"
    and "\<And>acts. cl_encrypt env acts (wc_wallet c) (print codec (wallet_payload wm v)) = Some cipher"
    and "\<And>acts. cl_sign env acts (request_builder WALLET_REQUEST_KIND (wc_wallet c) cipher) = Some q"
  shows "\<exists>new f. wallet_send codec env c wm v l =
    wallet_await codec env c (ev_id q) (cl_stream env (lk_acts l @ new @ [Subscribe f]))
      (l\<lparr>lk_connected := True, lk_acts := lk_acts l @ new @ [Subscribe f, TakeStream, SendEvent q]\<rparr>) \<and> booting new"
proof -
  from accepting_boot [OF assms(1)] obtain new where
    boot: "bootstrap env (wu_relays (wc_uri c)) l = (Returns (), l\<lparr>lk_connected := True, lk_acts := lk_acts l @ new\<rparr>)"
    and new: "booting new" by blast
  let ?l = "l\<lparr>lk_connected := True, lk_acts := lk_acts l @ new\<rparr>"
  let ?f = "response_filter WALLET_RESPONSE_KIND env (wc_public_key c) ?l"
  obtain i where "cl_subscribe env (lk_acts l @ new) ?f = Some i"
    using assms(1) unfolding accepting_def by (metis not_None_eq)
  with assms boot new show ?thesis
    by (intro exI [of _ new] exI [of _ ?f])
      (simp add: wallet_send_def bind_op_def boot op_defs call_client_def try_op_def signer_encrypt_def
        sign_event_def accepting_def)
qed

lemma wallet_send_answered:
  assumes "accepting env"
    and "\<And>acts. cl_encrypt env acts (wc_wallet c) (print codec (wallet_payload wm v)) = Some cipher"
    and "\<And>acts. cl_sign env acts (request_builder WALLET_REQUEST_KIND (wc_wallet c) cipher) = Some q"
    and "answers_once env (wc_timeout c) (wc_wallet c) q e" "SendEvent q \<notin> set (lk_acts l)"
    and "wallet_body codec env (wc_wallet c) (ev_id q) e = Some r"
  shows "\<exists>l'. wallet_send codec env c wm v l = ((case r of Inr x \<Rightarrow> Returns x | Inl x \<Rightarrow> Fails x), l')"
proof -
  from wallet_send_waits [OF assms(1-3)] obtain new f where
    send: "wallet_send codec env c wm v l =
      wallet_await codec env c (ev_id q) (cl_stream env (lk_acts l @ new @ [Subscribe f]))
        (l\<lparr>lk_connected := True, lk_acts := lk_acts l @ new @ [Subscribe f, TakeStream, SendEvent q]\<rparr>)"
    and "booting new" by blast
  then have "SendEvent q \<notin> set (lk_acts l @ new @ [Subscribe f])"
    using assms(5) by (auto simp: booting_def)
  from wallet_response.hears_answer [OF assms(4) refl this assms(6)] show ?thesis
    unfolding send by (simp add: wallet_await_def bind_op_def of_result_def)
qed

lemma wallet_verdict_response:
  assumes "\<forall>v. result = Inr v \<longrightarrow> value_wf v" "\<forall>x. result = Inl x \<longrightarrow> plain_code (err_code x)"
  shows "wallet_verdict (norm_value (en_Response rd (response_for m result))) =
    (case result of Inr v \<Rightarrow> Inr v | Inl x \<Rightarrow> Inl (Refused (nnc_error (err_code x) (rd (err_message x)))))"
proof (cases result)
  case (Inr v)
  then have "norm_value (en_Response rd (response_for m result)) =
      JObj [(''result_type'', JStr (method_as_str m)), (''result'', v)]"
    using assms(1) by (simp add: response_for_def response_ok_def en_Response_def en_fields_simps obj_of_distinct
        norm_value_wf)
  with Inr show ?thesis by (simp add: wallet_verdict_def value_get_def)
next
  case (Inl x)
  then have "norm_value (en_Response rd (response_for m result)) =
      JObj [(''result_type'', JStr (method_as_str m)), (''error'', en_NncError rd x)]"
    by (simp add: response_for_def response_err_def en_Response_def en_NncError_def en_fields_simps obj_of_distinct
        en_ErrorCode_display)
  moreover have "de_NncError (en_NncError rd x) = Some (nnc_error (err_code x) (rd (err_message x)))"
    using assms(2) Inl by (intro de_en_NncError) (auto simp: plain_code_def)
  ultimately show ?thesis
    using Inl by (simp add: wallet_verdict_def value_get_def codec_simps)
qed

lemma de_Request_wallet:
  "value_wf v \<Longrightarrow> de_Request (wallet_payload wm v) =
     Some \<lparr>rq_method = method_from_str (wallet_method_as_str wm), rq_params = v\<rparr>"
  by (simp add: de_Request_def wallet_payload_def struct_entries_def req_def dflt_def codec_simps)

lemma wallet_response_accepted:
  assumes "signed_by srv eb e" "eb_kind eb = WALLET_RESPONSE_KIND" "eb_tags eb = [tag_public_key pk, tag_event i]"
    and "cl_decrypt env srv (eb_content eb) = Some (print codec v)" "parse codec (print codec v) = Some v"
  shows "wallet_body codec env srv i e = Some (wallet_verdict (norm_value v))"
  using assms reply_names_request [OF assms(1,3)]
  by (auto simp: wallet_body_def signed_by_def de_value_def)

lemma wallet_call_answered:
  assumes "accepting env" "sealed env senv (wc_public_key c) (wc_wallet c)" "value_wf v"
    and "\<And>acts. cl_encrypt env acts (wc_wallet c) (print codec (wallet_payload wm v)) = Some cipher"
    and "\<And>acts. cl_sign env acts (request_builder WALLET_REQUEST_KIND (wc_wallet c) cipher) = Some q"
    and "signed_by (wc_public_key c) (request_builder WALLET_REQUEST_KIND (wc_wallet c) cipher) q"
    and "parse codec (print codec (wallet_payload wm v)) = Some (wallet_payload wm v)"
    and "sv_wallet sv = Some w" "m = method_from_str (wallet_method_as_str wm)"
    and "handle (HWallet w) (st_grants s) (wc_public_key c) (Some (ev_id q)) m v (clock senv) (st_usage s) (st_node s) =
      (result, u', n')"
    and "\<forall>x. result = Inl x \<longrightarrow> plain_code (err_code x)"
    and "st_sent (on_event codec senv sv q s) = st_sent s @ [eb]" "signed_by (wc_wallet c) eb e"
    and "parse codec (print codec (en_Response (render codec) (response_for m result))) =
      Some (en_Response (render codec) (response_for m result))"
    and "answers_once env (wc_timeout c) (wc_wallet c) q e" "SendEvent q \<notin> set (lk_acts l)"
  shows "fst (wallet_call codec env c de wm v l) =
    (case result of
       Inl x \<Rightarrow> Fails (Refused (nnc_error (err_code x) (render codec (err_message x))))
     | Inr x \<Rightarrow> (case de x of Some r \<Rightarrow> Returns r | None \<Rightarrow> Fails (ResultErr Malformed)))"
proof -
  let ?r = "\<lparr>rq_method = m, rq_params = v\<rparr>" and ?resp = "response_for m result"
  have "nip44_decrypt senv (wc_public_key c) cipher = Some (print codec (wallet_payload wm v))"
    using assms(2,4) by (auto simp: sealed_def)
  note read = request_read [OF assms(6) this assms(7) de_Request_wallet [OF assms(3), of wm, folded assms(9)]]
  have "handler_for sv WALLET_REQUEST_KIND = Some (HWallet w)"
    using assms(8) by (simp add: handler_for_def)
  note replies = service_replies [OF read(2) disjI1 [OF refl] read(1) this _ assms(12,11)]
  have h: "fst (handle_op (op_of senv (HWallet w) q ?r s) (st_usage s, st_node s)) = result"
    using assms(10) by (simp add: handle_op_def op_of_def read(3))
  have wf: "\<forall>x. result = Inr x \<longrightarrow> value_wf x"
    using handle_op_value [of "op_of senv (HWallet w) q ?r s" "(st_usage s, st_node s)"] h by auto
  from assms(2) replies(1) [OF h] have "cl_decrypt env (wc_wallet c) (eb_content eb) =
      Some (print codec (en_Response (render codec) ?resp))"
    by (simp add: sealed_def read(3))
  from wallet_response_accepted [OF assms(13) _ replies(3) [OF h] this assms(14)] replies(2) [OF h]
  have "wallet_body codec env (wc_wallet c) (ev_id q) e =
      Some (wallet_verdict (norm_value (en_Response (render codec) ?resp)))"
    by simp
  from wallet_send_answered [OF assms(1,4,5,15,16) this] wallet_verdict_response [OF wf assms(11), of "render codec" m]
  show ?thesis
    by (auto simp: wallet_call_def bind_op_def of_result_def decode_def ok_or_def split: sum.splits option.splits)
qed

text \<open>C19: likewise for a wallet: what the nine methods of the wallet client return is what the node's pipeline
  answered to that method with those parameters, for the key the connection URI carries.\<close>

theorem wallet_call_round_trip:
  assumes "accepting env" "sealed env senv (wc_public_key c) (wc_wallet c)" "value_wf v"
    and "\<And>acts. cl_encrypt env acts (wc_wallet c) (print codec (wallet_payload wm v)) = Some cipher"
    and "\<And>acts. cl_sign env acts (request_builder WALLET_REQUEST_KIND (wc_wallet c) cipher) = Some q"
    and "signed_by (wc_public_key c) (request_builder WALLET_REQUEST_KIND (wc_wallet c) cipher) q"
    and "parse codec (print codec (wallet_payload wm v)) = Some (wallet_payload wm v)"
    and "sv_wallet sv = Some w" "m = method_from_str (wallet_method_as_str wm)"
    and "handle (HWallet w) (st_grants s) (wc_public_key c) (Some (ev_id q)) m v (clock senv) (st_usage s) (st_node s) =
      (result, u', n')"
    and "\<forall>x. result = Inl x \<longrightarrow> plain_code (err_code x)"
    and "st_sent (on_event codec senv sv q s) = st_sent s @ [eb]" "signed_by (wc_wallet c) eb e"
    and "parse codec (print codec (en_Response (render codec) (response_for m result))) =
      Some (en_Response (render codec) (response_for m result))"
    and "answers_once env (wc_timeout c) (wc_wallet c) q e" "SendEvent q \<notin> set (lk_acts l)"
  shows "fst (wallet_call codec env c de wm v l) =
    (case result of
       Inl x \<Rightarrow> Fails (Refused (nnc_error (err_code x) (render codec (err_message x))))
     | Inr x \<Rightarrow> (case de x of Some r \<Rightarrow> Returns r | None \<Rightarrow> Fails (ResultErr Malformed)))"
  using assms by (rule wallet_call_answered)

theorem wallet_call_round_trip_witness:
  "\<exists>codec. fst (wallet_call codec
      (demo_side (\<lambda>_. Item (NEvent (demo_event 77 1 (demo_reply WALLET_RESPONSE_KIND)))))
      \<lparr>wc_uri = \<lparr>wu_wallet = 1, wu_relays = [''wss://r''], wu_secret = ()\<rparr>, wc_public_key = 7, wc_timeout = 100\<rparr>
      de_GetBalanceResponse GetBalance (JObj []) link_new) =
    Returns \<lparr>get_balance_rs_balance = 100, get_balance_rs_lightning_balance = None,
      get_balance_rs_onchain_balance_sats = None\<rparr>"
proof -
  let ?b = "\<lparr>get_balance_rs_balance = 100, get_balance_rs_lightning_balance = None,
      get_balance_rs_onchain_balance_sats = None\<rparr> :: GetBalanceResponse"
  let ?c = "\<lparr>wc_uri = \<lparr>wu_wallet = 1, wu_relays = [''wss://r''], wu_secret = ()\<rparr>, wc_public_key = 7, wc_timeout = 100\<rparr>"
  let ?req = "wallet_payload GetBalance (JObj [])"
  let ?result = "Inr (to_value en_GetBalanceResponse ?b)"
  let ?m = "UnknownMethod ''get_balance''"
  let ?resp = "en_Response (render demo_codec) (response_for ?m ?result)"
  let ?codec = "pair_codec ?req ?resp"
  let ?e = "demo_event 77 1 (demo_reply WALLET_RESPONSE_KIND)"
  let ?q = "demo_event 9 7 (request_builder WALLET_REQUEST_KIND 1 ''request'')"
  let ?sv = "service_wallet demo_wallet (service_new [] [2])"
  have ne: "?req \<noteq> ?resp"
    by (simp add: wallet_payload_def en_Response_def en_fields_simps response_for_def response_ok_def)
  have m: "method_from_str ''get_balance'' = ?m" by (simp add: method_from_str_def)
  have now: "clock demo_env = 100" by (simp add: demo_env_def)
  obtain u' where handled: "handle (HWallet demo_wallet) demo_grants 7 (Some 9) ?m (JObj []) 100 usage_new 0 =
      (?result, u', 1)"
    using handle_entitled [of "HWallet demo_wallet" ?m demo_grants 7 demo_profile
        "demo_rule 2" "JObj []" usage_new 100 "Some 9" 0 "prepared_new 4 ()" 0 "demo_rule 10"]
    by (auto simp: demo_steps demo_authorize demo_left demo_execute prepared_new_def demo_profile_def)
  have "request_of ?codec demo_env ?q = Some \<lparr>rq_method = ?m, rq_params = JObj []\<rparr>"
    using de_Request_wallet [of "JObj []" GetBalance]
    by (simp add: request_of_def demo_env_def request_builder_def m)
  then have sent: "st_sent (on_event ?codec demo_env ?sv ?q demo_at_rest) = st_sent demo_at_rest @ [demo_reply WALLET_RESPONSE_KIND]"
    using ne handled
    by (cases rule: answer_cases [of ?codec demo_env ?sv ?q WALLET_REQUEST_KIND demo_at_rest])
      (auto simp: on_event_def Let_def kind_defs request_builder_def demo_at_rest_def reply_def send_def
        demo_reply_def handle_op_def op_of_def response_for_def handler_for_def demo_env_def)
  have de: "de_GetBalanceResponse (to_value en_GetBalanceResponse ?b) = Some ?b"
    by (simp add: to_value_def en_GetBalanceResponse_def en_fields_simps obj_of_distinct en_u64_def
        de_GetBalanceResponse_def struct_entries_def req_def opt_def de_u64_def)
  have rest: "st_grants demo_at_rest = demo_grants" "st_usage demo_at_rest = usage_new" "st_node demo_at_rest = 0"
    by (simp_all add: demo_at_rest_def)
  have "fst (wallet_call ?codec (demo_side (\<lambda>_. Item (NEvent ?e))) ?c de_GetBalanceResponse GetBalance (JObj []) link_new) =
      Returns ?b"
    by (subst wallet_call_round_trip [where senv = demo_env and cipher = "''request''" and q = ?q and
          sv = ?sv and w = demo_wallet and m = ?m and s = demo_at_rest and result = ?result and u' = u' and n' = 1 and
          eb = "demo_reply WALLET_RESPONSE_KIND" and e = ?e])
      (simp_all add: wc_wallet_def ne m now handled sent rest demo_answers_once link_new_def de)
  then show ?thesis by blast
qed

section \<open>A timeout too long\<close>

text \<open>A timeout can be too long. When the deadline is past the last instant the platform can hold, as with
  \<open>Duration::MAX\<close>, a call panics, and does so after it has handed its request over: the command goes out and its
  caller never learns what became of it.\<close>

lemma overlong_timeout_panics:
  assumes "accepting env" "cl_public_key env = Some me"
    and "\<And>acts. cl_encrypt env acts (nnc_service c) (print codec (en_Request request)) = Some cipher"
    and "\<And>acts. cl_sign env acts (request_builder CONTROL_REQUEST_KIND (nnc_service c) cipher) = Some q"
    and "\<And>acts. cl_instant_max env < cl_instant env acts + nc_timeout c"
  shows "\<exists>l'. nnc_send codec env c request l = (Panics, l') \<and> last (lk_acts l') = SendEvent q"
proof -
  from nnc_send_waits [OF assms(1-4)] obtain new f where
    "nnc_send codec env c request l =
      await_response codec env c (ev_id q) (cl_stream env (lk_acts l @ new @ [Subscribe f]))
        (l\<lparr>lk_connected := True, lk_acts := lk_acts l @ new @ [Subscribe f, TakeStream, SendEvent q]\<rparr>)"
    by blast
  moreover have "\<not> cl_instant env acts + nc_timeout c \<le> cl_instant_max env" for acts
    using assms(5) [of acts] by simp
  ultimately show ?thesis
    by (simp add: await_response_def bind_op_def wait_on_def instant_add_def)
qed

end
