(* ===== verification/Notices.thy ===== *)
theory Notices
  imports Session
begin

text \<open>
  Subscriptions and notifications between a client and a service: what a published subscription does at the
  service, which of a client's readers a notification reaches, and where the readers go wrong.
\<close>

section \<open>Subscribing\<close>

text \<open>The event either client publishes, as the service judges it.\<close>

lemma subscription_applied:
  assumes "signed_by me (subscription_builder srv content) q" "me \<noteq> srv"
    and "nip44_decrypt senv me content = Some (print codec (en_vec JStr names))"
    and "parse codec (print codec (en_vec JStr names)) = Some (en_vec JStr names)"
    and "s_node (st_subs s) = Some srv" "is_ok (resolve (st_grants s) me)" "\<not> stale q (st_subs s)"
  shows "st_subs (on_event codec senv sv q s) = subscribe_with q names (st_subs s)"
    and "st_grants (on_event codec senv sv q s) = st_grants s"
proof -
  have "ev_tags q = [tag_identifier (to_hex srv), tag_public_key srv]" "ev_kind q = SUBSCRIPTION_KIND"
    "ev_pubkey q = me" "ev_content q = content"
    using assms(1,2) by (auto simp: signed_by_def subscription_builder_def built_tags_def tag_identifier_def
        tag_public_key_def)
  then have "sub_admitted srv (st_grants s) q" "types_of (nip44_decrypt senv) (parse codec) q = Some names"
    using assms(3,4,6)
    by (auto simp: sub_admitted_def types_of_def tag_identifier_def tag_public_key_def slice_get_def codec_simps)
  then have "apply_sub (nip44_decrypt senv) (parse codec) q (st_grants s) (st_subs s) =
      (Inr (length names), subscribe_with q names (st_subs s))"
    using assms(5,7) by (simp add: apply_sub_ok_iff)
  then show "st_subs (on_event codec senv sv q s) = subscribe_with q names (st_subs s)"
    "st_grants (on_event codec senv sv q s) = st_grants s"
    using \<open>ev_kind q = SUBSCRIPTION_KIND\<close> by (simp_all add: on_event_def mirror_def kind_defs)
qed

lemma subscribed_receives:
  "should_receive (subscribe_with q names subs) pk ty grants \<longleftrightarrow>
     (if pk = ev_pubkey q
      then ty \<in> set names \<and> (\<exists>g. resolve grants pk = Inr g \<and> allows_notification (vg_profile g) ty)
      else should_receive subs pk ty grants)"
  by (auto simp: should_receive_iff subscribe_with_def)

lemma set_subscription_sends:
  assumes "accepting env"
    and "\<And>acts. cl_encrypt env acts (nnc_service c) (print codec (en_vec (JStr \<circ> notification_as_str) types)) = Some content"
    and "\<And>acts. cl_sign env acts (subscription_builder (nnc_service c) content) = Some q"
  shows "\<exists>new. set_subscription codec env c types l =
    (Returns (), l\<lparr>lk_connected := True, lk_acts := lk_acts l @ new @ [SendEvent q]\<rparr>) \<and> booting new"
proof -
  from accepting_boot [OF assms(1)] obtain new where
    "bootstrap env (uri_relays (nc_uri c)) l = (Returns (), l\<lparr>lk_connected := True, lk_acts := lk_acts l @ new\<rparr>)"
    and "booting new" by blast
  with assms show ?thesis
    by (intro exI [of _ new])
      (simp add: set_subscription_def bind_op_def op_defs call_client_def try_op_def signer_encrypt_def
        sign_event_def accepting_def)
qed

text \<open>C20: a subscription takes effect as asked. \<open>set_subscription\<close> publishes one event; when the service receives
  it and a grant for that client is in force and nothing newer is on record, the client is from then on sent
  exactly the types it asked for that its grant permits, an empty list ending all of them, and nobody else's
  deliveries change.\<close>

theorem subscription_takes_effect:
  assumes "accepting env" "sealed env senv me (nnc_service c)" "me \<noteq> nnc_service c"
    and "\<And>acts. cl_encrypt env acts (nnc_service c) (print codec (en_vec (JStr \<circ> notification_as_str) types)) = Some content"
    and "\<And>acts. cl_sign env acts (subscription_builder (nnc_service c) content) = Some q"
    and "signed_by me (subscription_builder (nnc_service c) content) q"
    and "parse codec (print codec (en_vec (JStr \<circ> notification_as_str) types)) =
      Some (en_vec (JStr \<circ> notification_as_str) types)"
    and "s_node (st_subs s) = Some (nnc_service c)" "resolve (st_grants s) me = Inr g" "\<not> stale q (st_subs s)"
  shows "(\<exists>l'. set_subscription codec env c types l = (Returns (), l') \<and> last (lk_acts l') = SendEvent q) \<and>
    should_receive (st_subs (on_event codec senv sv q s)) pk ty (st_grants (on_event codec senv sv q s)) =
      (if pk = me then ty \<in> notification_as_str ` set types \<and> allows_notification (vg_profile g) ty
       else should_receive (st_subs s) pk ty (st_grants s))"
proof -
  have vec: "en_vec (JStr \<circ> notification_as_str) types = en_vec JStr (map notification_as_str types)"
    by (simp add: en_vec_def)
  have "nip44_decrypt senv me content = Some (print codec (en_vec JStr (map notification_as_str types)))"
    using assms(2,4) by (auto simp: sealed_def vec)
  note applied = subscription_applied [OF assms(6,3) this assms(7) [unfolded vec] assms(8) _ assms(10), of sv]
  obtain new where "set_subscription codec env c types l =
      (Returns (), l\<lparr>lk_connected := True, lk_acts := lk_acts l @ new @ [SendEvent q]\<rparr>)"
    using set_subscription_sends [OF assms(1,4,5), of l] by blast
  moreover have "ev_pubkey q = me" using assms(6) by (simp add: signed_by_def)
  ultimately show ?thesis
    using applied assms(9) by (auto simp: subscribed_receives is_ok_def)
qed

theorem subscription_takes_effect_witness:
  "\<exists>codec. should_receive (st_subs (on_event codec demo_env (service_new [] [2] :: (nat, unit) Service)
       (demo_event 9 7 (subscription_builder 1 ''request'')) (demo_at_rest\<lparr>st_grants := notify_grants 7\<rparr>)))
     7 ''payment_sent'' (st_grants (on_event codec demo_env (service_new [] [2] :: (nat, unit) Service)
       (demo_event 9 7 (subscription_builder 1 ''request'')) (demo_at_rest\<lparr>st_grants := notify_grants 7\<rparr>)))"
proof -
  let ?types = "[UnknownNotification ''payment_sent'']"
  let ?codec = "pair_codec (en_vec (JStr \<circ> notification_as_str) ?types) JNull"
  have client: "nnc_service demo_client = 1"
    by (simp add: demo_client_def nnc_service_def nnc_with_timeout_def nnc_new_def)
  have "allows_notification (vg_profile (notify_grant 2)) ''payment_sent''" by (simp add: allows_notification_iff)
  then show ?thesis
    using subscription_takes_effect [of "demo_side (\<lambda>_. Silent)" demo_env 7 demo_client ?codec ?types "''request''"
        "demo_event 9 7 (subscription_builder 1 ''request'')" "demo_at_rest\<lparr>st_grants := notify_grants 7\<rparr>"
        "notify_grant 2" link_new "service_new [] [2] :: (nat, unit) Service" 7 "''payment_sent''"]
    by (auto simp: client demo_at_rest_def subs_new_def stale_def intro!: exI [of _ ?codec])
qed

section \<open>Which reader a notification reaches\<close>

lemma coordinate_inject: "coordinate k pk ident = coordinate k pk' ident \<longleftrightarrow> pk = pk'"
  by (auto simp: coordinate_def)

definition read_back :: "Notification \<Rightarrow> Notification" where
  "read_back n = n\<lparr>nt_type := notification_from_str (notification_as_str (nt_type n))\<rparr>"

lemma notify_event:
  assumes "notify codec senv to ntf cause = ([eb], r)" "get_public_key senv = Some srv" "signed_by srv eb e"
  shows "nip44_encrypt senv to (print codec (dl_json ntf)) = Some (ev_content e)"
    and "ev_kind e = dl_kind ntf" "ev_pubkey e = srv"
    and "names_request i e \<longleftrightarrow> cause_request_id cause = Some i"
    and "list_ex (\<lambda>t. tag_is t ''a'' (coordinate SUBSCRIPTION_KIND me (to_hex srv))) (ev_tags e) \<longleftrightarrow>
      is_subscription cause \<and> to = me"
    and "list_ex (\<lambda>t. tag_is t ''p'' (to_hex to)) (ev_tags e) \<longleftrightarrow> to \<noteq> srv"
proof -
  obtain cipher where cipher: "nip44_encrypt senv to (print codec (dl_json ntf)) = Some cipher"
    using assms(1) by (cases "nip44_encrypt senv to (print codec (dl_json ntf))") (auto simp: notify_def)
  from assms(1) notify_sends [OF assms(2) cipher, of cause]
  have eb: "eb = \<lparr>eb_kind = dl_kind ntf, eb_content = cipher, eb_tags = tag_public_key to # cause_tags srv to cause\<rparr>"
    by (auto simp: send_def)
  then show "nip44_encrypt senv to (print codec (dl_json ntf)) = Some (ev_content e)"
    "ev_kind e = dl_kind ntf" "ev_pubkey e = srv"
    using cipher assms(3) by (simp_all add: signed_by_def)
  have tags: "ev_tags e = (if to = srv then [] else [tag_public_key to]) @ cause_tags srv to cause"
    using assms(3) eb
    by (auto simp: signed_by_def built_tags_def tag_public_key_def tag_event_def tag_coordinate_def cause_tags_def
        split: Cause.splits)
  show "names_request i e \<longleftrightarrow> cause_request_id cause = Some i"
    by (cases cause) (auto simp: names_request_def tags cause_tags_def tag_public_key_def tag_event_def tag_coordinate_def)
  show "list_ex (\<lambda>t. tag_is t ''a'' (coordinate SUBSCRIPTION_KIND me (to_hex srv))) (ev_tags e) \<longleftrightarrow>
      is_subscription cause \<and> to = me"
    by (cases cause) (auto simp: tags cause_tags_def tag_public_key_def tag_event_def tag_coordinate_def coordinate_inject)
  show "list_ex (\<lambda>t. tag_is t ''p'' (to_hex to)) (ev_tags e) \<longleftrightarrow> to \<noteq> srv"
    by (cases cause) (auto simp: tags cause_tags_def tag_public_key_def tag_event_def tag_coordinate_def)
qed

lemma routed:
  assumes "notify codec senv to (deliverable_nnc n) cause = ([eb], r)" "get_public_key senv = Some srv"
    and "signed_by srv eb e" "sealed env senv to srv" "value_wf (nt_payload n)"
    and "parse codec (print codec (en_Notification n)) = Some (en_Notification n)"
  shows "outcome_body codec env de srv i e =
      (if cause_request_id cause = Some i then Some (Break (ok_or (de (nt_payload n)) JsonErr)) else None)"
    and "listen_body codec env me srv e =
      (if is_subscription cause \<and> to = me then Some (Inr (read_back n)) else None)"
proof -
  note ev = notify_event [OF assms(1-3)]
  have "cl_decrypt env srv (ev_content e) = Some (print codec (en_Notification n))"
    using ev(1) assms(4) by (simp add: sealed_def deliverable_nnc_def)
  moreover have "de_Notification (en_Notification n) = Some (read_back n)"
    using de_en_Notification [OF assms(5)] by (simp add: read_back_def)
  moreover have "ev_kind e = NOTIFICATION_KIND" using ev(2) by (simp add: deliverable_nnc_def)
  ultimately show "outcome_body codec env de srv i e =
      (if cause_request_id cause = Some i then Some (Break (ok_or (de (nt_payload n)) JsonErr)) else None)"
    and "listen_body codec env me srv e = (if is_subscription cause \<and> to = me then Some (Inr (read_back n)) else None)"
    using assms(6) ev(3-5)
    by (auto simp: outcome_body_def as_typed_def read_back_def listen_body_def scan_tags_iff list_ex_iff tag_is_def
        split: if_splits)
qed

text \<open>The node tells client 7 how command 9 went.\<close>

definition demo_notice :: EventBuilder where
  "demo_notice = \<lparr>eb_kind = NOTIFICATION_KIND, eb_content = ''request'',
     eb_tags = tag_public_key 7 # cause_tags 1 7 (Both 9)\<rparr>"

lemma demo_notify:
  "notify (pair_codec (en_Notification n) rs) demo_env 7 (deliverable_nnc n) (Both 9) = ([demo_notice], Inr ())"
  by (subst notify_sends [where me = 1 and c = "''request''"])
    (simp_all add: deliverable_nnc_def send_def demo_env_def demo_notice_def)

lemma demo_env_key [simp]: "get_public_key demo_env = Some 1"
  by (simp add: demo_env_def)

text \<open>C16: a notification reaches the readers its cause names, and no other. Of what the service sends to \<open>to\<close>,
  the handle of command \<open>i\<close> takes exactly what names \<open>i\<close> as its cause, so that of two commands under way each gets
  its own outcome; the listener of client \<open>me\<close> takes exactly what was sent to \<open>me\<close> for its subscription, and leaves
  what only answers a command to the handle. Both read the notification that was sent.\<close>

theorem notification_routing:
  assumes "notify codec senv to (deliverable_nnc n) cause = ([eb], r)" "get_public_key senv = Some srv"
    and "signed_by srv eb e" "sealed env senv to srv" "value_wf (nt_payload n)"
    and "parse codec (print codec (en_Notification n)) = Some (en_Notification n)"
  shows "outcome_body codec env de srv i e =
      (if cause_request_id cause = Some i then Some (Break (ok_or (de (nt_payload n)) JsonErr)) else None) \<and>
    listen_body codec env me srv e =
      (if is_subscription cause \<and> to = me then Some (Inr (read_back n)) else None)"
  using routed [OF assms] by blast

theorem notification_routing_witness:
  "\<exists>codec. listen_body codec (demo_side (\<lambda>_. Silent)) 7 1 (demo_event 77 1 demo_notice) =
    Some (Inr \<lparr>nt_type = ChannelClosed, nt_payload = JObj []\<rparr>)"
  using notification_routing [OF demo_notify, where n = "\<lparr>nt_type = ChannelClosed, nt_payload = JObj []\<rparr>" and
      srv = 1 and e = "demo_event 77 1 demo_notice" and env = "demo_side (\<lambda>_. Silent)" and de = de_ChannelOpened and
      i = 9 and me = 7]
  by (auto simp: read_back_def notification_from_str_def)

text \<open>C17: an asynchronous command gets its outcome. When the service notifies the outcome of the command a handle
  stands for, and that is the first event the handle's stream yields which names the command, in time, awaiting
  the handle returns the payload that was sent, read as the command's own type.\<close>

theorem outcome_resolves_handle:
  assumes "notify codec senv to (deliverable_nnc n) cause = ([eb], r)" "get_public_key senv = Some (pd_service p)"
    and "signed_by (pd_service p) eb e" "sealed env senv to (pd_service p)" "value_wf (nt_payload n)"
    and "parse codec (print codec (en_Notification n)) = Some (en_Notification n)"
    and "cause_request_id cause = Some (pd_request_id p)" "pd_events p k = Item (NEvent e)"
    and "cl_instant env (lk_acts l) + pd_timeout p \<le> cl_instant_max env"
    and "\<forall>j\<le>k. \<not> expired (cl_instant env (lk_acts l) + pd_timeout p) (cl_timer env (lk_acts l)) (pd_events p) j"
    and "\<forall>j<k. \<forall>e'. pd_events p j = Item (NEvent e') \<longrightarrow> \<not> names_request (pd_request_id p) e'"
  shows "fst (pending_wait codec env de p l) =
    (case de (nt_payload n) of Some t \<Rightarrow> Returns t | None \<Rightarrow> Fails JsonErr)"
proof -
  have "outcome_body codec env de (pd_service p) (pd_request_id p) e = Some (Break (ok_or (de (nt_payload n)) JsonErr))"
    using routed(1) [OF assms(1-6), of de "pd_request_id p"] assms(7) by simp
  from outcome.heard [where stream = "pd_events p" and k = k and i = 0 and
      timed_out = "Break (Inl (TimedOut (pd_timeout p)))", OF assms(8) this] assms(9-11)
  have "wait_on env (pd_timeout p) (outcome_body codec env de (pd_service p) (pd_request_id p))
      (Break (Inl (TimedOut (pd_timeout p)))) (pd_events p) l = Returns (Break (ok_or (de (nt_payload n)) JsonErr))"
    by (auto simp: wait_on_Returns outcome_body_def)
  then show ?thesis
    by (auto simp: pending_wait_def bind_op_def pending_drop_def client_unsubscribe_def call_client_def try_op_def
        return_op_def of_result_def ok_or_def split: option.split)
qed

definition demo_closed :: ChannelClosed where
  "demo_closed = \<lparr>closed_id = ''c1'', closed_short_channel_id = None, closed_peer_pubkey = Some ''02ab'',
     closed_capacity = Some 5, closed_closing_txid = None, closed_close_type = CT_Breach\<rparr>"

definition demo_closing :: Notification where
  "demo_closing = notification_new en_ChannelClosed ChannelClosed demo_closed"

lemma demo_closing_payload: "nt_payload demo_closing = en_ChannelClosed demo_closed"
  by (simp add: demo_closing_def notification_new_def norm_value_wf)

theorem outcome_resolves_handle_witness:
  "\<exists>codec. fst (pending_wait codec (demo_side (\<lambda>_. Silent)) de_ChannelClosed
      (demo_pending (\<lambda>_. Item (NEvent (demo_event 77 1 demo_notice)))) link_new) = Returns demo_closed"
proof -
  have "de_ChannelClosed (en_ChannelClosed demo_closed) = Some demo_closed"
    by (rule de_en_ChannelClosed) (simp add: demo_closed_def wf_CloseType_def)
  then show ?thesis
    using outcome_resolves_handle [OF demo_notify, of "demo_pending (\<lambda>_. Item (NEvent (demo_event 77 1 demo_notice)))"
        "demo_event 77 1 demo_notice" "demo_side (\<lambda>_. Silent)" demo_closing JNull 0 link_new de_ChannelClosed]
    by (auto simp: demo_closing_payload expired_def)
qed

text \<open>A close is taken for an opening. The handle of a command reads whatever payload names the command,
  without looking at the notification's type, and the payload of \<open>channel_closed\<close>, when it names the peer, reads as
  that of \<open>channel_opened\<close>: told of a close, the handle of an \<open>open_channel\<close> reports the channel as opened.\<close>

lemma close_taken_for_opening:
  assumes "notify codec senv to (deliverable_nnc n) cause = ([eb], r)" "get_public_key senv = Some srv"
    and "signed_by srv eb e" "sealed env senv to srv"
    and "parse codec (print codec (en_Notification n)) = Some (en_Notification n)"
    and "n = notification_new en_ChannelClosed ChannelClosed c" "closed_peer_pubkey c = Some peer"
    and "cause_request_id cause = Some i"
  shows "\<exists>ch. outcome_body codec env de_ChannelOpened srv i e = Some (Break (Inr \<lparr>opened_channel = ch\<rparr>)) \<and>
    channel_id ch = closed_id c \<and> channel_peer_pubkey ch = peer"
proof -
  have "\<exists>ch. de_ChannelOpened (en_ChannelClosed c) = Some \<lparr>opened_channel = ch\<rparr> \<and>
      channel_id ch = closed_id c \<and> channel_peer_pubkey ch = peer"
    using assms(7)
    by (cases "closed_short_channel_id c"; cases "closed_capacity c"; cases "closed_closing_txid c")
      (simp_all add: de_ChannelOpened_def de_Channel_def flat_entries_def en_ChannelClosed_def en_fields_simps
        req_def opt_def dflt_def codec_simps en_u64_def de_u64_def)
  moreover have "nt_payload n = en_ChannelClosed c" "value_wf (nt_payload n)"
    using assms(6) by (simp_all add: notification_new_def norm_value_wf)
  ultimately show ?thesis
    using routed(1) [OF assms(1-4) _ assms(5), of de_ChannelOpened i] assms(8) by auto
qed

section \<open>Wallet notifications\<close>

lemma next_loop_skip:
  assumes "\<And>j. j < k \<Longrightarrow> (\<exists>item. stream (i + j) = Item item \<and> step item = None)"
  shows "next_loop step stream i = next_loop step stream (i + k)"
  using assms
proof (induction k)
  case (Suc k)
  then have "next_loop step stream i = next_loop step stream (i + k)" by simp
  also have "\<dots> = next_loop step stream (i + Suc k)"
    using Suc.prems [of k] by (subst next_loop.simps) auto
  finally show ?case .
qed simp

text \<open>A notification the wallet client cannot decrypt looks like the end of the stream. \<open>next\<close> is documented to
  return \<open>None\<close> when the stream has ended; it also does when an event from the wallet fails to decrypt, and
  \<open>wait_for\<close> then gives up before its time, though the very next \<open>next\<close> would have returned a notification.\<close>

lemma undecryptable_ends_wallet_stream:
  assumes "ns_stream ns (ns_position ns) = Item (NEvent bad)" "ev_kind bad = WALLET_NOTIFICATION_KIND"
    and "ev_pubkey bad = ns_wallet ns" "cl_decrypt env (ns_wallet ns) (ev_content bad) = None"
    and "ns_stream ns (Suc (ns_position ns)) = Item (NEvent good)" "ev_kind good = WALLET_NOTIFICATION_KIND"
    and "ev_pubkey good = ns_wallet ns" "cl_decrypt env (ns_wallet ns) (ev_content good) = Some plain"
    and "Option.bind (parse codec plain) de_WalletNotification = Some n"
    and "cl_instant env (lk_acts l) + d \<le> cl_instant_max env"
    and "\<not> expired (cl_instant env (lk_acts l) + d) (cl_timer env (lk_acts l)) (ns_stream ns) (ns_position ns)"
  shows "\<exists>ns'. notifications_next codec env ns = Some (None, ns') \<and>
    wait_for codec env ns (wn_type n) d l = Returns (None, ns') \<and>
    map_option fst (notifications_next codec env ns') = Some (Some n)"
proof -
  let ?step = "next_step codec env (ns_wallet ns)"
  have bad: "?step (NEvent bad) = Some None" and good: "?step (NEvent good) = Some (Some n)"
    using assms by (simp_all add: next_step_def)
  have "next_loop ?step (ns_stream ns) (ns_position ns) = Some (None, Suc (ns_position ns))"
    using bad assms(1) by (subst next_loop.simps) simp
  moreover have "next_loop ?step (ns_stream ns) (Suc (ns_position ns)) = Some (Some n, Suc (Suc (ns_position ns)))"
    using good assms(5) by (subst next_loop.simps) simp
  moreover have "timed_next ?step (cl_timer env (lk_acts l)) (ns_stream ns) (ns_position ns) =
      Some (Some None, Suc (ns_position ns))"
    using bad assms(1,11) by (subst timed_next.simps) (simp add: expired_def)
  then have "wait_for_loop (\<lambda>x. wn_type x = wn_type n) ?step (cl_instant env (lk_acts l) + d) (cl_timer env (lk_acts l))
      (ns_stream ns) (ns_position ns) = Some (None, Suc (ns_position ns))"
    using assms(11) by (subst wait_for_loop.simps) (simp add: expired_def)
  ultimately show ?thesis
    using assms(10) by (simp add: notifications_next_def wait_for_def instant_add_def)
qed

text \<open>C32: a wallet notification is received as it was sent. Whatever else passes on the stream before it that the
  wallet did not sign, \<open>next\<close> returns the notification the service sent to this client, by whichever route, and
  leaves the stream right behind it.\<close>

theorem wallet_notification_received:
  assumes "notify codec senv to (deliverable_nwc n) cause = ([eb], r)" "get_public_key senv = Some (ns_wallet ns)"
    and "signed_by (ns_wallet ns) eb e" "sealed env senv to (ns_wallet ns)" "value_wf (wn_payload n)"
    and "parse codec (print codec (en_WalletNotification n)) = Some (en_WalletNotification n)"
    and "ns_stream ns (ns_position ns + k) = Item (NEvent e)"
    and "\<forall>j<k. \<exists>item. ns_stream ns (ns_position ns + j) = Item item \<and> (\<forall>e'. item = NEvent e' \<longrightarrow> ev_pubkey e' \<noteq> ns_wallet ns)"
  shows "notifications_next codec env ns =
    Some (Some (n\<lparr>wn_type := wallet_notification_from_str (wallet_notification_as_str (wn_type n))\<rparr>),
      ns\<lparr>ns_position := Suc (ns_position ns + k)\<rparr>)"
proof -
  let ?step = "next_step codec env (ns_wallet ns)"
  let ?n = "n\<lparr>wn_type := wallet_notification_from_str (wallet_notification_as_str (wn_type n))\<rparr>"
  note ev = notify_event [OF assms(1-3)]
  have "cl_decrypt env (ns_wallet ns) (ev_content e) = Some (print codec (en_WalletNotification n))"
    using ev(1) assms(4) by (simp add: sealed_def deliverable_nwc_def)
  moreover have "de_WalletNotification (en_WalletNotification n) = Some ?n"
    using assms(5) by (simp add: de_WalletNotification_def en_WalletNotification_def codec_simps)
  ultimately have taken: "?step (NEvent e) = Some (Some ?n)"
    using assms(6) ev(2,3) by (simp add: next_step_def deliverable_nwc_def)
  have "\<exists>item. ns_stream ns (ns_position ns + j) = Item item \<and> ?step item = None" if "j < k" for j
    using assms(8) that by (fastforce simp: next_step_def split: ClientNotification.split)
  then have "next_loop ?step (ns_stream ns) (ns_position ns) = next_loop ?step (ns_stream ns) (ns_position ns + k)"
    by (rule next_loop_skip)
  also have "\<dots> = Some (Some ?n, Suc (ns_position ns + k))"
    using taken assms(7) by (subst next_loop.simps) simp
  finally have "next_loop ?step (ns_stream ns) (ns_position ns) = Some (Some ?n, Suc (ns_position ns + k))" .
  then show ?thesis by (simp add: notifications_next_def)
qed

theorem wallet_notification_received_witness:
  "\<exists>codec env ns. map_option fst (notifications_next codec env ns) =
    Some (Some \<lparr>wn_type = PaymentSent, wn_payload = JObj []\<rparr>)"
proof -
  let ?n = "\<lparr>wn_type = PaymentSent, wn_payload = JObj []\<rparr> :: WalletNotification"
  let ?codec = "pair_codec (en_WalletNotification ?n) JNull"
  let ?eb = "demo_notice\<lparr>eb_kind := WALLET_NOTIFICATION_KIND\<rparr>"
  let ?ns = "\<lparr>ns_stream = \<lambda>i. if i = 0 then Item NMessage else Item (NEvent (demo_event 77 1 ?eb)),
    ns_position = 0, ns_wallet = 1\<rparr>"
  have "notify ?codec demo_env 7 (deliverable_nwc ?n) (Both 9) = ([?eb], Inr ())"
    by (subst notify_sends [where me = 1 and c = "''request''"])
      (simp_all add: deliverable_nwc_def send_def demo_env_def demo_notice_def)
  from wallet_notification_received [OF this, of ?ns "demo_event 77 1 ?eb" "demo_side (\<lambda>_. Silent)" 1]
  have "map_option fst (notifications_next ?codec (demo_side (\<lambda>_. Silent)) ?ns) = Some (Some ?n)"
    by (simp add: wallet_notification_from_str_def)
  then show ?thesis by blast
qed

section \<open>What the relays let through\<close>

lemma reply_event:
  assumes "reply codec senv q kind response = ([eb], r)" "signed_by srv eb e"
  shows "ev_kind e = (if kind = WALLET_REQUEST_KIND then WALLET_RESPONSE_KIND else CONTROL_RESPONSE_KIND)"
    and "ev_tags e = (if ev_pubkey q = srv then [] else [tag_public_key (ev_pubkey q)]) @ [tag_event (ev_id q)]"
  using assms
  by (auto simp: reply_def send_def signed_by_def built_tags_def tag_public_key_def tag_event_def
      split: option.splits if_splits)

text \<open>C31: what the service sends passes the filter the client opened. A reply to a client's request matches the
  filter of the call exactly when it is stamped no earlier than the client's clock was when it subscribed, so a
  service whose clock is behind answers into nothing; a notification matches the filter of a command's outcome
  exactly when it names that command, and is never too old for it.\<close>

theorem answers_pass_the_filters:
  assumes "reply codec senv q kind response = ([eb], r)" "signed_by srv eb e" "ev_pubkey q = me" "me \<noteq> srv"
    and "notify codec senv me (deliverable_nnc n) cause = ([eb'], r')" "get_public_key senv = Some srv"
    and "signed_by srv eb' e'"
  shows "match_event (response_filter
        (if kind = WALLET_REQUEST_KIND then WALLET_RESPONSE_KIND else CONTROL_RESPONSE_KIND) env me l) e =
      (cl_timestamp env (lk_acts l) \<le> ev_created_at e) \<and>
    match_event (outcome_filter me i) e' = (cause_request_id cause = Some i)"
proof
  show "match_event (response_filter
        (if kind = WALLET_REQUEST_KIND then WALLET_RESPONSE_KIND else CONTROL_RESPONSE_KIND) env me l) e =
      (cl_timestamp env (lk_acts l) \<le> ev_created_at e)"
    using reply_event [OF assms(1,2)] assms(3,4)
    by (auto simp: match_event_def response_filter_def tag_public_key_def)
  note ev = notify_event [OF assms(5-7)]
  show "match_event (outcome_filter me i) e' = (cause_request_id cause = Some i)"
    using ev(2,4,6) assms(4) by (simp add: match_event_def outcome_filter_def deliverable_nnc_def)
qed

theorem answers_pass_the_filters_witness:
  "\<exists>codec. \<not> match_event (response_filter CONTROL_RESPONSE_KIND (demo_side (\<lambda>_. Silent)\<lparr>cl_timestamp := \<lambda>_. 61\<rparr>) 7 link_new)
      (demo_event 77 1 (demo_reply CONTROL_RESPONSE_KIND)) \<and>
    match_event (outcome_filter 7 9) (demo_event 77 1 demo_notice)"
proof -
  let ?n = "\<lparr>nt_type = ChannelClosed, nt_payload = JObj []\<rparr>"
  let ?resp = "response_err ListPeers (not_implemented [])"
  let ?codec = "pair_codec (en_Notification ?n) (en_Response (render demo_codec) ?resp)"
  have "en_Notification ?n \<noteq> en_Response (render demo_codec) ?resp"
    by (simp add: en_Notification_def en_Response_def en_fields_simps response_err_def)
  then have "reply ?codec demo_env (demo_event 9 7 (request_builder CONTROL_REQUEST_KIND 1 [])) CONTROL_REQUEST_KIND
      ?resp = ([demo_reply CONTROL_RESPONSE_KIND], Inr ())"
    by (simp add: reply_def send_def demo_env_def demo_reply_def kind_defs)
  moreover have other: "CONTROL_REQUEST_KIND \<noteq> WALLET_REQUEST_KIND" by (simp add: kind_defs)
  ultimately have sent: "reply ?codec demo_env (demo_event 9 7 (request_builder CONTROL_REQUEST_KIND 1 []))
      CONTROL_REQUEST_KIND ?resp = ([demo_reply CONTROL_RESPONSE_KIND], Inr ())" by blast
  from answers_pass_the_filters [OF sent, of 1 "demo_event 77 1 (demo_reply CONTROL_RESPONSE_KIND)" 7 ?n "Both 9"
      demo_notice "Inr ()" "demo_event 77 1 demo_notice" "demo_side (\<lambda>_. Silent)\<lparr>cl_timestamp := \<lambda>_. 61\<rparr>" link_new 9]
  have "\<not> match_event (response_filter CONTROL_RESPONSE_KIND (demo_side (\<lambda>_. Silent)\<lparr>cl_timestamp := \<lambda>_. 61\<rparr>) 7
      link_new) (demo_event 77 1 (demo_reply CONTROL_RESPONSE_KIND)) \<and>
    match_event (outcome_filter 7 9) (demo_event 77 1 demo_notice)"
    using demo_notify [of ?n "en_Response (render demo_codec) ?resp"] other by simp
  then show ?thesis by blast
qed

end
