(* ===== verification/Texts.thy ===== *)
theory Texts
  imports Session
begin

text \<open>
  What the errors of the crate say: the \<open>Display\<close> of \<open>NncError\<close> (\<^verbatim>\<open>src/nnc/error.rs\<close>), \<open>ResultError\<close>
  (\<^verbatim>\<open>src/nnc/mod.rs\<close>), the two URI errors, the service's error and the errors of both clients. Strings are UTF-8
  bytes. The wording of library errors is a parameter \<open>told\<close>, by the error it belongs to; durations are printed
  as the standard library's \<open>Debug\<close> does.
\<close>

section \<open>Durations\<close>

text \<open>\<open>fmt_decimal\<close> without a precision: the fraction's digits up to the last that is not zero.\<close>

fun fraction_digits :: "nat \<Rightarrow> nat \<Rightarrow> string" where
  "fraction_digits part divisor =
     (if part = 0 \<or> divisor = 0 then []
      else char_of (48 + part div divisor) # fraction_digits (part mod divisor) (divisor div 10))"

declare fraction_digits.simps [simp del]

definition fmt_decimal :: "nat \<Rightarrow> nat \<Rightarrow> nat \<Rightarrow> string \<Rightarrow> string" where
  "fmt_decimal whole part divisor suffix =
     dec_digits whole @ (if part = 0 then [] else CHR ''.'' # fraction_digits part divisor) @ suffix"

definition duration_debug :: "nat \<Rightarrow> string" where
  "duration_debug nanos =
     (if 10 ^ 9 \<le> nanos then fmt_decimal (nanos div 10 ^ 9) (nanos mod 10 ^ 9) (10 ^ 8) ''s''
      else if 10 ^ 6 \<le> nanos then fmt_decimal (nanos div 10 ^ 6) (nanos mod 10 ^ 6) (10 ^ 5) ''ms''
      else if 10 ^ 3 \<le> nanos
        then fmt_decimal (nanos div 10 ^ 3) (nanos mod 10 ^ 3) (10 ^ 2) [char_of (194 :: nat), char_of (181 :: nat), CHR ''s'']
      else fmt_decimal nanos 0 1 ''ns'')"

lemma default_timeouts_printed:
  "duration_debug DEFAULT_TIMEOUT = ''30s''" "duration_debug DEFAULT_OUTCOME_TIMEOUT = ''3600s''"
  "duration_debug (1500 * 10 ^ 6) = ''1.5s''" "duration_debug (20 * 10 ^ 6 + 4000) = ''20.004ms''"
  by (simp_all add: duration_debug_def fmt_decimal_def DEFAULT_TIMEOUT_def DEFAULT_OUTCOME_TIMEOUT_def
      dec_digits.simps fraction_digits.simps char_of_def bit_Suc_0_iff)

section \<open>Errors\<close>

definition nnc_error_display :: "(message \<Rightarrow> string) \<Rightarrow> NncError \<Rightarrow> string" where
  "nnc_error_display rd e = error_code_display (err_code e) @ '': '' @ rd (err_message e)"

fun result_error_display :: "(message \<Rightarrow> string) \<Rightarrow> string \<Rightarrow> ResultError \<Rightarrow> string" where
  "result_error_display rd told (Failed e) = nnc_error_display rd e"
| "result_error_display rd told Empty = ''response carried neither result nor error''"
| "result_error_display rd told Malformed = ''result does not match its type: '' @ told"

text \<open>\<open>told\<close> is the library's own text, where the error carries one.\<close>

definition quote :: char where
  "quote = char_of (39 :: nat)"

definition dash :: string where
  "dash = [CHR '' '', char_of (226 :: nat), char_of (128 :: nat), char_of (148 :: nat), CHR '' '']"

fun client_error_display :: "(message \<Rightarrow> string) \<Rightarrow> string \<Rightarrow> ClientError \<Rightarrow> string" where
  "client_error_display rd told (Refused e) =
     (if err_code e = EC_Unauthorized
      then nnc_error_display rd e @ dash @ ''the node service has no grant for this client'' @ [quote] @
        ''s pubkey. In NNC a connection URI is not a credential: the owner must publish a kind 30198 grant naming it.''
      else nnc_error_display rd e)"
| "client_error_display rd told (TimedOut d) = ''no answer within '' @ duration_debug d"
| "client_error_display rd told (ResultErr e) = result_error_display rd told e"
| "client_error_display rd told RelayErr = ''relay: '' @ told"
| "client_error_display rd told SignerErr = ''signer: '' @ told"
| "client_error_display rd told JsonErr = ''json: '' @ told"

fun wallet_error_display :: "(message \<Rightarrow> string) \<Rightarrow> string \<Rightarrow> ClientError \<Rightarrow> string" where
  "wallet_error_display rd told (Refused e) = ''the wallet refused: '' @ nnc_error_display rd e"
| "wallet_error_display rd told (TimedOut d) = ''no response within '' @ duration_debug d"
| "wallet_error_display rd told (ResultErr e) = result_error_display rd told e"
| "wallet_error_display rd told RelayErr = ''relay: '' @ told"
| "wallet_error_display rd told SignerErr = ''signer: '' @ told"
| "wallet_error_display rd told JsonErr = ''json: '' @ told"

fun service_error_display :: "string \<Rightarrow> ServiceError \<Rightarrow> string" where
  "service_error_display told Relay = ''relay: '' @ told"
| "service_error_display told Signer = ''signer: '' @ told"

fun uri_error_display :: "UriError \<Rightarrow> string" where
  "uri_error_display (WrongScheme s) = ''expected '' @ SCHEME @ ''://, got '' @ s"
| "uri_error_display BadServiceKey = ''the node service pubkey is missing or malformed''"
| "uri_error_display NoRelay = ''no relay parameter''"
| "uri_error_display CarriesSecret =
     ''this URI carries a secret, so it is an NWC URI'' @ dash @ ''an NNC client signs with its own key''"

fun wallet_uri_error_display :: "WalletUriError \<Rightarrow> string" where
  "wallet_uri_error_display WU_Scheme = ''not a nostr+walletconnect:// uri''"
| "wallet_uri_error_display WU_Wallet = ''the wallet pubkey is missing or malformed''"
| "wallet_uri_error_display WU_NoRelay = ''a uri must name at least one relay''"
| "wallet_uri_error_display WU_Secret = ''the secret is missing or malformed''"

fun invalid_node_id_display :: "InvalidNodeId \<Rightarrow> string" where
  "invalid_node_id_display InvalidNodeId =
     ''not a Lightning node_id: expected 66 hex characters beginning 02 or 03''"

section \<open>What a client without a grant reads\<close>

text \<open>The refusal the pipeline gives a controller without a grant arrives at the client as what it is, and the
  client's text of it tells what is missing.\<close>

lemma ungranted_client_is_told:
  assumes "accepting env" "cl_public_key env = Some me" "sealed env senv me (nnc_service c)"
    and "\<And>acts. cl_encrypt env acts (nnc_service c) (print codec (en_Request (request_new en m params))) = Some cipher"
    and "\<And>acts. cl_sign env acts (request_builder CONTROL_REQUEST_KIND (nnc_service c) cipher) = Some q"
    and "signed_by me (request_builder CONTROL_REQUEST_KIND (nnc_service c) cipher) q"
    and "parse codec (print codec (en_Request (request_new en m params))) = Some (en_Request (request_new en m params))"
    and "m = method_from_str name" "sv_control sv = Some ctl"
    and "implements (HControl ctl) (method_as_str m)" "resolve (st_grants s) me = Inl Unauthorized"
    and "st_sent (on_event codec senv sv q s) = st_sent s @ [eb]" "signed_by (nnc_service c) eb e"
    and "parse codec (print codec (en_Response (render codec) (response_err m (deny Unauthorized)))) =
      Some (en_Response (render codec) (response_err m (deny Unauthorized)))"
    and "answers_once env (nc_timeout c) (nnc_service c) q e" "SendEvent q \<notin> set (lk_acts l)"
    and "\<And>t. render codec (Msg t) = t"
  shows "\<exists>x. fst (nnc_call codec env c en de m params l) = Fails x \<and>
    client_error_display (render codec) told x =
      ''UNAUTHORIZED: no grant applies to this controller'' @ dash @ ''the node service has no grant for this client'' @
        [quote] @ ''s pubkey. In NNC a connection URI is not a credential: the owner must publish a kind 30198 grant naming it.''"
proof -
  have handled: "handle (HControl ctl) (st_grants s) me (Some (ev_id q)) m (norm_value (en params)) (clock senv)
      (st_usage s) (st_node s) = (Inl (deny Unauthorized), st_usage s, st_node s)"
    using assms(10,11) by (simp add: handle_def Let_def authorize_def)
  have plain: "\<forall>x. (Inl (deny Unauthorized) :: (Value, NncError) result) = Inl x \<longrightarrow> plain_code (err_code x)"
    by (simp add: nnc_error_def plain_code_def)
  have "fst (nnc_call codec env c en de m params l) =
      Fails (Refused (nnc_error EC_Unauthorized ''no grant applies to this controller''))"
    using control_call_answered [OF assms(1-9) handled plain assms(12,13) _ assms(15,16), of de] assms(14,17)
    by (simp add: response_for_def nnc_error_def)
  then show ?thesis
    by (intro exI conjI) (assumption, simp add: nnc_error_display_def nnc_error_def assms(17))
qed

end
