(* ===== verification/Monitor.thy ===== *)
theory Monitor
  imports Transport
begin

text \<open>
  What the service promises, without its machinery: a reference monitor. Its state is the events received so far,
  one account for every controller's quota and for its rate under every method name, and the node. Grants are not
  stored; the one in force is read off the events. The service with its stores, hash maps keyed by hex text and the
  mirror refines it, step by step, with the same answers.
\<close>

section \<open>The monitor\<close>

record 'n monitor =
  mo_events :: "Event list"
  mo_rate :: "PublicKey \<times> string \<Rightarrow> Bucket option"
  mo_quota :: "PublicKey \<Rightarrow> Bucket option"
  mo_node :: 'n

text \<open>The grant in force: the newest an owner issued for the controller, else the newest for everybody else.\<close>

definition in_force ::
  "(string \<Rightarrow> Value option) \<Rightarrow> PublicKey \<Rightarrow> PublicKey list \<Rightarrow> Event list \<Rightarrow> PublicKey \<Rightarrow> VerifiedGrant option" where
  "in_force rd me owners es pk =
     (case newest (filter (admitted me owners (to_hex pk)) es) of
        Some e \<Rightarrow> Some (verified_of rd e)
      | None \<Rightarrow> map_option (verified_of rd) (newest (filter (admitted me owners OTHERS) es)))"

definition permitted ::
  "('n, 's) Handler \<Rightarrow> VerifiedGrant option \<Rightarrow> string \<Rightarrow> (UsageProfile \<times> RateLimitRule option, Denied) result" where
  "permitted h grant name =
     (case grant of
        None \<Rightarrow> Inl Unauthorized
      | Some vg \<Rightarrow>
          map_sum id (Pair (vg_profile vg))
            ((case handler_protocol h of Wallet \<Rightarrow> allows_wallet | Control \<Rightarrow> allows_control) (vg_profile vg) name))"

text \<open>An account that was never used counts as full; no rule means no limit. An account is looked at before it is
  paid from, which is what opens it.\<close>

definition covers :: "RateLimitRule option \<Rightarrow> u64 \<Rightarrow> u64 \<Rightarrow> Bucket option \<Rightarrow> bool" where
  "covers rule cost now b =
     (cost = 0 \<or> (case rule of None \<Rightarrow> True | Some r \<Rightarrow> cost \<le> balance_at (held_or_full r now b) now r))"

definition seen :: "RateLimitRule option \<Rightarrow> u64 \<Rightarrow> u64 \<Rightarrow> Bucket option \<Rightarrow> Bucket option" where
  "seen rule cost now b =
     (if cost = 0 then b else case rule of None \<Rightarrow> b | Some r \<Rightarrow> Some (held_or_full r now b))"

definition paid :: "RateLimitRule option \<Rightarrow> u64 \<Rightarrow> u64 \<Rightarrow> Bucket option \<Rightarrow> Bucket option" where
  "paid rule cost now b =
     (if cost = 0 then b
      else case rule of
        None \<Rightarrow> b
      | Some r \<Rightarrow> let x = held_or_full r now b in Some (x\<lparr>balance := balance_at x now r - cost, since := now\<rparr>))"

definition set_rate :: "PublicKey \<times> string \<Rightarrow> Bucket option \<Rightarrow> 'n monitor \<Rightarrow> 'n monitor" where
  "set_rate k b st = st\<lparr>mo_rate := (mo_rate st)(k := b)\<rparr>"

definition set_quota :: "PublicKey \<Rightarrow> Bucket option \<Rightarrow> 'n monitor \<Rightarrow> 'n monitor" where
  "set_quota c b st = st\<lparr>mo_quota := (mo_quota st)(c := b)\<rparr>"

definition monitor_request ::
  "(string \<Rightarrow> Value option) \<Rightarrow> PublicKey \<Rightarrow> PublicKey list \<Rightarrow> ('n, 's) Handler \<Rightarrow> PublicKey \<Rightarrow> EventId option \<Rightarrow>
     Method \<Rightarrow> Value \<Rightarrow> u64 \<Rightarrow> 'n monitor \<Rightarrow> (Value, NncError) result \<times> 'n monitor" where
  "monitor_request rd me owners h c rid m params now st =
     (let name = method_as_str m;
          caller = \<lparr>caller_controller = c, caller_request_id = rid\<rparr>;
          rate = mo_rate st (c, name);
          spent = mo_quota st c
      in if \<not> implements h name then (Inl (not_implemented name), st)
      else case permitted h (in_force rd me owners (mo_events st) c) name of
        Inl d \<Rightarrow> (Inl (deny d), st)
      | Inr (profile, rule) \<Rightarrow>
      (case validate h m params of
        Inl e \<Rightarrow> (Inl e, st)
      | Inr _ \<Rightarrow>
      if \<not> covers rule 1 now rate then (Inl (rate_limited name), set_rate (c, name) (seen rule 1 now rate) st)
      else let st1 = set_rate (c, name) (paid rule 1 now rate) st in
      (case prepare h name params caller (mo_node st) of
        (Inl e, n1) \<Rightarrow> (Inl e, st1\<lparr>mo_node := n1\<rparr>)
      | (Inr p, n1) \<Rightarrow>
      (let cost = cost_sats p; q = quota profile; st2 = set_quota c (seen q cost now spent) st1 in
       if \<not> covers q cost now spent then (Inl (quota_exceeded cost), st2\<lparr>mo_node := n1\<rparr>)
       else
      (case execute h m params caller n1 of
        (Inl e, n2) \<Rightarrow> (Inl e, st2\<lparr>mo_node := n2\<rparr>)
      | (Inr v, n2) \<Rightarrow> (Inr v, (set_quota c (paid q cost now spent) st1)\<lparr>mo_node := n2\<rparr>))))))"

text \<open>An event is noted; a request that can be read and has a handler is decided. A tick only brings events.\<close>

definition monitor_event ::
  "codec \<Rightarrow> env \<Rightarrow> ('n, 's) Service \<Rightarrow> PublicKey \<Rightarrow> Event \<Rightarrow> 'n monitor \<Rightarrow>
     (Value, NncError) result option \<times> 'n monitor" where
  "monitor_event codec env sv me e st =
     (if ev_kind e = WALLET_REQUEST_KIND \<or> ev_kind e = CONTROL_REQUEST_KIND
      then
        (case (request_of codec env e, handler_for sv (ev_kind e)) of
           (Some r, Some h) \<Rightarrow>
             map_prod Some id (monitor_request (parse codec) me (sv_owners sv) h (ev_pubkey e) (Some (ev_id e))
               (rq_method r) (rq_params r) (clock env) st)
         | _ \<Rightarrow> (None, st))
      else (None, st))"

definition noting :: "Event list \<Rightarrow> 'n monitor \<Rightarrow> 'n monitor" where
  "noting es st = st\<lparr>mo_events := mo_events st @ es\<rparr>"

definition monitor_step ::
  "codec \<Rightarrow> env \<Rightarrow> ('n, 's) Service \<Rightarrow> PublicKey \<Rightarrow> input \<Rightarrow> Event list \<Rightarrow> 'n monitor \<Rightarrow> 'n monitor" where
  "monitor_step codec env sv me i es st =
     noting es (case i of INotification (Some (NEvent e)) \<Rightarrow> snd (monitor_event codec env sv me e st) | _ \<Rightarrow> st)"

section \<open>The service refines it\<close>

definition rates :: "Usage \<Rightarrow> PublicKey \<times> string \<Rightarrow> Bucket option" where
  "rates u k = fmlookup (u_rate u) (to_hex (fst k), snd k)"

definition quotas :: "Usage \<Rightarrow> PublicKey \<Rightarrow> Bucket option" where
  "quotas u c = fmlookup (u_quota u) (to_hex c)"

definition view :: "Event list \<Rightarrow> Usage \<Rightarrow> 'n \<Rightarrow> 'n monitor" where
  "view es u n = \<lparr>mo_events = es, mo_rate = rates u, mo_quota = quotas u, mo_node = n\<rparr>"

lemma view_simps [simp]:
  "mo_events (view es u n) = es" "mo_rate (view es u n) = rates u" "mo_quota (view es u n) = quotas u"
  "mo_node (view es u n) = n" "(view es u n)\<lparr>mo_node := n'\<rparr> = view es u n'"
  "noting es' (view es u n) = view (es @ es') u n"
  by (simp_all add: view_def noting_def)

lemma set_view:
  "rates u' = (rates u)(k := b) \<Longrightarrow> quotas u' = quotas u \<Longrightarrow> set_rate k b (view es u n) = view es u' n"
  "quotas u' = (quotas u)(c := d) \<Longrightarrow> rates u' = rates u \<Longrightarrow> set_quota c d (view es u n) = view es u' n"
  by (simp_all add: set_rate_def set_quota_def view_def)

lemma withdraw_covered:
  "cost \<le> balance_at b now r \<Longrightarrow>
     fst (withdraw b cost now r) = b\<lparr>balance := balance_at b now r - cost, since := now\<rparr>"
  by (simp add: withdraw_def Let_def leD)

lemma rate_step_view:
  assumes "rate_step u c name rule now = (ok, u1)"
  shows "ok = covers rule 1 now (rates u (c, name))"
    and "rates u1 = (rates u)((c, name) := (if ok then paid else seen) rule 1 now (rates u (c, name)))"
    and "quotas u1 = quotas u"
proof -
  have step: "fst (rate_step u c name rule now) = ok" "snd (rate_step u c name rule now) = u1" using assms by simp_all
  show ok: "ok = covers rule 1 now (rates u (c, name))"
    using rate_step_bucket(2) [of u c name rule now] step(1)
    by (simp add: covers_def rates_def can_withdraw_def split: option.splits)
  show "rates u1 = (rates u)((c, name) := (if ok then paid else seen) rule 1 now (rates u (c, name)))"
  proof
    fix k
    note bucket = rate_step_bucket(1) [of u c name rule now "fst k" "snd k", unfolded step(2)]
    show "rates u1 k = ((rates u)((c, name) := (if ok then paid else seen) rule 1 now (rates u (c, name)))) k"
    proof (cases rule)
      case None
      with bucket show ?thesis by (simp add: rates_def seen_def paid_def)
    next
      case (Some r)
      then have "ok \<longleftrightarrow> 1 \<le> balance_at (held_or_full r now (rates u (c, name))) now r"
        using ok by (simp add: covers_def)
      with Some bucket show ?thesis
        by (cases k) (simp add: rates_def seen_def paid_def Let_def can_withdraw_def withdraw_covered)
    qed
  qed
  show "quotas u1 = quotas u" using rate_step_fst_quota [OF assms] by (simp add: quotas_def fun_eq_iff)
qed

lemma quota_step_view:
  assumes "quota_step u c cost q now = (ok, u2)"
  shows "ok = covers q cost now (quotas u c)" "quotas u2 = (quotas u)(c := seen q cost now (quotas u c))"
    "rates u2 = rates u"
proof -
  show "ok = covers q cost now (quotas u c)"
  proof (cases q)
    case (Some r)
    have "ok = (if cost > 0 then fst (quota_allows u c cost r now) else True)"
      using assms by (simp add: quota_step_def Some split: if_splits)
    then show ?thesis by (simp add: Some covers_def quotas_def allowed_iff can_withdraw_def word_gt_0)
  qed (use assms in \<open>simp add: quota_step_def covers_def split: if_splits\<close>)
  show "quotas u2 = (quotas u)(c := seen q cost now (quotas u c))"
    using quota_step_after [OF assms]
    by (auto simp: fun_eq_iff quotas_def seen_def word_gt_0 split: option.splits)
  show "rates u2 = rates u" using quota_step_fst_rate [OF assms] by (simp add: rates_def fun_eq_iff)
qed

lemma seen_simps:
  "covers q cost now (seen q cost now b) = covers q cost now b" "paid q cost now (seen q cost now b) = paid q cost now b"
  by (simp_all add: covers_def seen_def paid_def split: option.split)

lemma commit_view:
  assumes "covers q cost now (quotas u c)"
  shows "quotas (commit u c cost q now) = (quotas u)(c := paid q cost now (quotas u c))"
    and "rates (commit u c cost q now) = rates u"
  using assms
  by (auto simp: fun_eq_iff quotas_def rates_def commit_bucket paid_def covers_def withdraw_def Let_def word_gt_0
      not_less split: option.splits)

lemma permitted_authorize:
  "resolve g c = ok_or grant Unauthorized \<Longrightarrow> permitted h grant name = authorize h g c name"
  by (cases grant; cases "handler_protocol h")
    (auto simp: permitted_def authorize_def Let_def map_sum_def split: sum.splits)

text \<open>One request through the pipeline is one request decided by the monitor.\<close>

lemma handle_view:
  assumes "resolve g c = ok_or (in_force rd me owners es c) Unauthorized"
    and "handle h g c rid m params now u n = (r, u', n')"
  shows "monitor_request rd me owners h c rid m params now (view es u n) = (r, view es u' n')"
proof -
  note d = monitor_request_def [of rd me owners h c rid m params now "view es u n"]
    permitted_authorize [OF assms(1)]
  show ?thesis
  proof (cases rule: handle_cases [of h m g c rid params now u n])
    case (throttled profile rule u1)
    note rate = rate_step_view [OF throttled(4)]
    with throttled assms(2) show ?thesis by (simp add: d Let_def set_view(1) [of u1])
  next
    case (unprepared profile rule u1 e n1)
    note rate = rate_step_view [OF unprepared(4)]
    with unprepared assms(2) show ?thesis by (simp add: d Let_def set_view(1) [of u1])
  next
    case (over_quota profile rule u1 p n1 u2)
    note rate = rate_step_view [OF over_quota(4)] and quot = quota_step_view [OF over_quota(6)]
    with over_quota assms(2) show ?thesis by (simp add: d Let_def set_view(1) [of u1] set_view(2) [of u2])
  next
    case (ran profile rule u1 p n1 u2 r2 n2)
    note rate = rate_step_view [OF ran(4)] and quot = quota_step_view [OF ran(6)]
    let ?u3 = "commit u2 c (cost_sats p) (quota profile) now"
    have "covers (quota profile) (cost_sats p) now (quotas u2 c)" using quot(1,2) by (simp add: seen_simps)
    from commit_view [OF this] have "quotas ?u3 = (quotas u1)(c := paid (quota profile) (cost_sats p) now (quotas u1 c))"
      "rates ?u3 = rates u1"
      using quot(2,3) by (simp_all add: seen_simps)
    with rate quot ran assms(2) show ?thesis
      by (cases r2) (simp_all add: d Let_def set_view(1) [of u1] set_view(2) [of u2] set_view(2) [of ?u3])
  qed (use assms(2) in \<open>simp_all add: d Let_def\<close>)
qed

text \<open>The answer to a decided request, and one event at the service.\<close>

definition answered :: "codec \<Rightarrow> env \<Rightarrow> ('n, 's) Service \<Rightarrow> Event \<Rightarrow> 'n State \<Rightarrow> (Value, NncError) result \<Rightarrow> bool" where
  "answered codec env sv e s result \<longleftrightarrow>
     (\<exists>r. request_of codec env e = Some r \<and>
        fst (answer codec env sv e (ev_kind e) s) =
          (case result of Inr v \<Rightarrow> response_ok (rq_method r) v | Inl x \<Rightarrow> response_err (rq_method r) x))"

lemma on_event_view:
  fixes env :: env and e :: Event
  assumes "\<And>c. resolve (st_grants s) c = ok_or (in_force (parse codec) me (sv_owners sv) hist c) Unauthorized"
  defines "out \<equiv> monitor_event codec env sv me e (view hist (st_usage s) (st_node s))"
  shows "snd out = view hist (st_usage (on_event codec env sv e s)) (st_node (on_event codec env sv e s))"
    and "fst out = Some result \<Longrightarrow> answered codec env sv e s result"
proof -
  have "snd out = view hist (st_usage (on_event codec env sv e s)) (st_node (on_event codec env sv e s)) \<and>
      (fst out = Some result \<longrightarrow> answered codec env sv e s result)"
  proof (cases "ev_kind e = WALLET_REQUEST_KIND \<or> ev_kind e = CONTROL_REQUEST_KIND")
    case True
    then have kinds: "ev_kind e \<noteq> GRANT_KIND" "ev_kind e \<noteq> SUBSCRIPTION_KIND" by (auto simp: kind_defs)
    show ?thesis
    proof (cases rule: answer_cases [of codec env sv e "ev_kind e" s])
      case (refused x m)
      with True kinds show ?thesis
        by (auto simp: out_def monitor_event_def on_event_def Let_def split: option.splits)
    next
      case (handled request h r)
      obtain u' n' where run: "handle h (st_grants s) (ev_pubkey e) (Some (ev_id e)) (rq_method request)
          (rq_params request) (clock env) (st_usage s) (st_node s) = (r, u', n')"
        using handled(3) by (cases "handle h (st_grants s) (ev_pubkey e) (Some (ev_id e)) (rq_method request)
          (rq_params request) (clock env) (st_usage s) (st_node s)") (simp add: handle_op_def op_of_def)
      from handle_view [OF assms(1) this] True kinds handled run show ?thesis
        by (simp add: out_def monitor_event_def on_event_def answered_def Let_def handle_op_def op_of_def split_def)
    qed
  next
    case False
    then show ?thesis by (simp add: out_def monitor_event_def on_event_def Let_def)
  qed
  then show "snd out = view hist (st_usage (on_event codec env sv e s)) (st_node (on_event codec env sv e s))"
    "fst out = Some result \<Longrightarrow> answered codec env sv e s result" by blast+
qed

text \<open>C8: the service refines the reference monitor. In every reachable state, with the events it has received, each
  step of the service is the monitor's step on what the state shows: the same node, the same accounts of every
  controller, under the grant the events put in force and no other store; and a request that can be read and has
  a handler is answered with the monitor's decision.\<close>

theorem service_refines_monitor:
  assumes "reachable codec sv me n hist s" "loop_step codec env sv i s = Some s'"
  shows "view (hist @ absorbed s i) (st_usage s') (st_node s') =
      monitor_step codec env sv me i (absorbed s i) (view hist (st_usage s) (st_node s)) \<and>
    (\<forall>e result. i = INotification (Some (NEvent e)) \<longrightarrow>
       fst (monitor_event codec env sv me e (view hist (st_usage s) (st_node s))) = Some result \<longrightarrow>
       (\<exists>r. request_of codec env e = Some r \<and>
          fst (answer codec env sv e (ev_kind e) s) =
            (case result of Inr v \<Rightarrow> response_ok (rq_method r) v | Inl x \<Rightarrow> response_err (rq_method r) x)))"
proof -
  have "resolve (st_grants s) c = ok_or (in_force (parse codec) me (sv_owners sv) hist c) Unauthorized" for c
    unfolding reachable_grants [OF assms(1)] in_force_def resolve_get_raw apply_grants_newest
    by (simp split: option.split)
  note event = on_event_view [OF this]
  have "view (hist @ absorbed s i) (st_usage s') (st_node s') =
      monitor_step codec env sv me i (absorbed s i) (view hist (st_usage s) (st_node s))"
    using assms(2)
    by (cases "(codec, env, sv, i, s)" rule: loop_step.cases)
      (auto simp: monitor_step_def event refresh_frame Let_def split: if_splits)
  with event(2) show ?thesis unfolding answered_def by blast
qed

theorem service_refines_monitor_witness:
  "mo_node (monitor_step demo_codec demo_env (demo_service [2]) 1 (INotification (Some (NEvent demo_request)))
     [demo_request] (view demo_stored (st_usage (demo_state [2])) 0)) = 1"
proof -
  let ?i = "INotification (Some (NEvent demo_request))"
  have "loop_step demo_codec demo_env (demo_service [2]) ?i (demo_state [2]) =
      Some (on_event demo_codec demo_env (demo_service [2]) demo_request (demo_state [2]))" by simp
  from service_refines_monitor [OF demo_reachable this]
  have "view (demo_stored @ [demo_request])
      (st_usage (on_event demo_codec demo_env (demo_service [2]) demo_request (demo_state [2]))) 1 =
    monitor_step demo_codec demo_env (demo_service [2]) 1 ?i [demo_request]
      (view demo_stored (st_usage (demo_state [2])) 0)"
    by (simp only: absorbed.simps demo_acts demo_node)
  from arg_cong [OF this, of mo_node] show ?thesis by simp
qed

end
