(* ===== verification/JsonText.thy ===== *)
theory JsonText
  imports Nostr Json
begin

text \<open>
  JSON as text: \<open>serde_json::to_string\<close> and \<open>serde_json::from_str\<close> for a tree, from the vendored
  \<^verbatim>\<open>serde_json/src/ser.rs\<close> (the compact formatter), \<^verbatim>\<open>de.rs\<close> and \<^verbatim>\<open>read.rs\<close> (the reader over a string).
  Text is UTF-8 bytes. Objects keep the entries they were written with, repeated keys too.

  Floating point is a parameter in both directions: \<open>fmt\<close> prints an \<open>f64\<close>; \<open>float_tail\<close> continues a number that
  turned out not to be an integer, from its sign, the digits read so far and the text that follows, and says what
  it read and how many bytes of that text it took. Errors are \<^const>\<open>None\<close>; their wording is not modelled.

  A typed read (\<open>from_str\<close> into a struct) is composed elsewhere as reading the whole tree and then decoding it. The crate's own
  readers do not build the tree: a field the struct does not know is skipped (\<open>ignore_value\<close>), without the depth limit and
  without decoding its strings. So there are texts the program accepts and the composition refuses; the difference
  lies only in what stands under such fields, and the messages the crate writes to itself have none of that depth.

  The reader is three mutually recursive functions whose calls are nested in the text that is left; that they
  end follows from what is left being shorter each time.
\<close>

section \<open>Writing\<close>

definition escape_char :: "char \<Rightarrow> string" where
  "escape_char c =
     (let n = of_char c :: nat
      in if n = 8 then [CHR 0x5C, CHR ''b'']
         else if n = 9 then [CHR 0x5C, CHR ''t'']
         else if n = 10 then [CHR 0x5C, CHR ''n'']
         else if n = 12 then [CHR 0x5C, CHR ''f'']
         else if n = 13 then [CHR 0x5C, CHR ''r'']
         else if n = 34 then [CHR 0x5C, CHR 0x22]
         else if n = 92 then [CHR 0x5C, CHR 0x5C]
         else if n < 32 then [CHR 0x5C, CHR ''u'', CHR ''0'', CHR ''0'', hex_digit (n div 16), hex_digit (n mod 16)]
         else [c])"

definition print_str :: "string \<Rightarrow> string" where
  "print_str s = CHR 0x22 # concat (map escape_char s) @ [CHR 0x22]"

fun commas :: "string list \<Rightarrow> string" where
  "commas [] = []"
| "commas [x] = x"
| "commas (x # xs) = x @ CHR '','' # commas xs"

fun print_number :: "(f64 \<Rightarrow> string) \<Rightarrow> json_number \<Rightarrow> string" where
  "print_number fmt (PosInt n) = dec_digits (unat n)"
| "print_number fmt (NegInt n) = CHR ''-'' # dec_digits (nat (- sint n))"
| "print_number fmt (Float b) = fmt b"

fun print_value :: "(f64 \<Rightarrow> string) \<Rightarrow> Value \<Rightarrow> string" where
  "print_value fmt JNull = ''null''"
| "print_value fmt (JBool b) = (if b then ''true'' else ''false'')"
| "print_value fmt (JNum n) = print_number fmt n"
| "print_value fmt (JStr s) = print_str s"
| "print_value fmt (JArr vs) = ''['' @ commas (map (print_value fmt) vs) @ '']''"
| "print_value fmt (JObj kvs) = ''{'' @ commas (map (\<lambda>(k, v). print_str k @ '':'' @ print_value fmt v) kvs) @ ''}''"

section \<open>Reading: strings\<close>

definition is_ws :: "char \<Rightarrow> bool" where
  "is_ws c \<longleftrightarrow> c \<in> {CHR '' '', CHR 0x0A, CHR 0x09, CHR 0x0D}"

definition skip_ws :: "string \<Rightarrow> string" where
  "skip_ws cs = dropWhile is_ws cs"

fun decode_hex_escape :: "string \<Rightarrow> (nat \<times> string) option" where
  "decode_hex_escape (a # b # c # d # rest) =
     (case (hex_val a, hex_val b, hex_val c, hex_val d) of
        (Some w, Some x, Some y, Some z) \<Rightarrow> Some (((16 * w + x) * 16 + y) * 16 + z, rest)
      | _ \<Rightarrow> None)"
| "decode_hex_escape _ = None"

definition push_codepoint :: "nat \<Rightarrow> string" where
  "push_codepoint n =
     (if n < 0x80 then [char_of n]
      else if n < 0x800 then [char_of (0xC0 + n div 64), char_of (0x80 + n mod 64)]
      else if n < 0x10000 then
        [char_of (0xE0 + n div 4096), char_of (0x80 + n div 64 mod 64), char_of (0x80 + n mod 64)]
      else
        [char_of (0xF0 + n div 262144), char_of (0x80 + n div 4096 mod 64), char_of (0x80 + n div 64 mod 64),
         char_of (0x80 + n mod 64)])"

definition parse_unicode_escape :: "string \<Rightarrow> (string \<times> string) option" where
  "parse_unicode_escape cs =
     (case decode_hex_escape cs of
        None \<Rightarrow> None
      | Some (n, rest) \<Rightarrow>
          if 0xDC00 \<le> n \<and> n \<le> 0xDFFF then None
          else if n < 0xD800 \<or> 0xDBFF < n then Some (push_codepoint n, rest)
          else
            (case rest of
               a # b # rest2 \<Rightarrow>
                 if a = CHR 0x5C \<and> b = CHR ''u'' then
                   (case decode_hex_escape rest2 of
                      None \<Rightarrow> None
                    | Some (n2, rest3) \<Rightarrow>
                        if n2 < 0xDC00 \<or> 0xDFFF < n2 then None
                        else Some (push_codepoint ((n - 0xD800) * 1024 + (n2 - 0xDC00) + 0x10000), rest3))
                 else None
             | _ \<Rightarrow> None))"

fun parse_escape :: "string \<Rightarrow> (string \<times> string) option" where
  "parse_escape [] = None"
| "parse_escape (c # cs) =
     (if c = CHR 0x22 then Some ([CHR 0x22], cs)
      else if c = CHR 0x5C then Some ([CHR 0x5C], cs)
      else if c = CHR ''/'' then Some (''/'', cs)
      else if c = CHR ''b'' then Some ([CHR 0x08], cs)
      else if c = CHR ''f'' then Some ([CHR 0x0C], cs)
      else if c = CHR ''n'' then Some ([CHR 0x0A], cs)
      else if c = CHR ''r'' then Some ([CHR 0x0D], cs)
      else if c = CHR ''t'' then Some ([CHR 0x09], cs)
      else if c = CHR ''u'' then parse_unicode_escape cs
      else None)"

lemma decode_hex_escape_shorter: "decode_hex_escape cs = Some (n, rest) \<Longrightarrow> length rest < length cs"
  by (induction cs rule: decode_hex_escape.induct) (auto split: option.splits)

lemma parse_unicode_escape_shorter:
  assumes "parse_unicode_escape cs = Some (out, rest)"
  shows "length rest < length cs"
proof -
  obtain n r where hex: "decode_hex_escape cs = Some (n, r)"
    using assms by (cases "decode_hex_escape cs") (auto simp: parse_unicode_escape_def)
  with assms decode_hex_escape_shorter [OF hex] show ?thesis
    by (auto simp: parse_unicode_escape_def split: if_splits list.splits option.splits
        dest!: decode_hex_escape_shorter)
qed

lemma parse_escape_shorter: "parse_escape cs = Some (out, rest) \<Longrightarrow> length rest < length cs"
  by (cases cs) (auto split: if_splits dest: parse_unicode_escape_shorter)

text \<open>The opening quote has been read.\<close>

function parse_str :: "string \<Rightarrow> (string \<times> string) option" where
  "parse_str [] = None"
| "parse_str (c # cs) =
     (if c = CHR 0x22 then Some ([], cs)
      else if c = CHR 0x5C then
        (case parse_escape cs of
           None \<Rightarrow> None
         | Some (out, rest) \<Rightarrow> map_option (\<lambda>(s, r). (out @ s, r)) (parse_str rest))
      else if (of_char c :: nat) < 32 then None
      else map_option (\<lambda>(s, r). (c # s, r)) (parse_str cs))"
  by pat_completeness auto
termination
  by (relation "measure length") (auto dest: parse_escape_shorter)

section \<open>Reading: numbers\<close>

type_synonym float_tail = "bool \<Rightarrow> nat \<Rightarrow> string \<Rightarrow> (f64 \<times> nat) option"

definition is_digit :: "char \<Rightarrow> bool" where
  "is_digit c \<longleftrightarrow> 48 \<le> (of_char c :: nat) \<and> (of_char c :: nat) \<le> 57"

definition digit_of :: "char \<Rightarrow> nat" where
  "digit_of c = of_char c - 48"

definition read_float :: "float_tail \<Rightarrow> bool \<Rightarrow> nat \<Rightarrow> string \<Rightarrow> (Value \<times> string) option" where
  "read_float float_tail positive significand cs =
     map_option (\<lambda>(b, taken). (en_f64 b, drop taken cs)) (float_tail positive significand cs)"

definition parse_number :: "float_tail \<Rightarrow> bool \<Rightarrow> nat \<Rightarrow> string \<Rightarrow> (Value \<times> string) option" where
  "parse_number float_tail positive significand cs =
     (if cs \<noteq> [] \<and> hd cs \<in> {CHR ''.'', CHR ''e'', CHR ''E''} then read_float float_tail positive significand cs
      else if positive then Some (JNum (PosInt (of_nat significand)), cs)
      else if significand = 0 \<or> 2 ^ 63 < significand
        then Some (en_f64 (f64_of_nat significand + 2 ^ 63), cs)
      else Some (JNum (NegInt (- of_nat significand)), cs))"

fun parse_digits :: "float_tail \<Rightarrow> bool \<Rightarrow> nat \<Rightarrow> string \<Rightarrow> (Value \<times> string) option" where
  "parse_digits float_tail positive significand [] = parse_number float_tail positive significand []"
| "parse_digits float_tail positive significand (c # cs) =
     (if is_digit c then
        if 2 ^ 64 \<le> significand * 10 + digit_of c then read_float float_tail positive significand (c # cs)
        else parse_digits float_tail positive (significand * 10 + digit_of c) cs
      else parse_number float_tail positive significand (c # cs))"

fun parse_integer :: "float_tail \<Rightarrow> bool \<Rightarrow> string \<Rightarrow> (Value \<times> string) option" where
  "parse_integer float_tail positive [] = None"
| "parse_integer float_tail positive (c # cs) =
     (if c = CHR ''0'' then
        if cs \<noteq> [] \<and> is_digit (hd cs) then None else parse_number float_tail positive 0 cs
      else if is_digit c then parse_digits float_tail positive (digit_of c) cs
      else None)"

lemma parse_number_not_longer: "parse_number ft p n cs = Some (v, rest) \<Longrightarrow> length rest \<le> length cs"
  by (auto simp: parse_number_def read_float_def split: if_splits)

lemma parse_digits_not_longer: "parse_digits ft p n cs = Some (v, rest) \<Longrightarrow> length rest \<le> length cs"
  by (induction ft p n cs rule: parse_digits.induct)
    (auto simp: read_float_def split: if_splits dest: parse_number_not_longer)

lemma parse_integer_shorter: "parse_integer ft p cs = Some (v, rest) \<Longrightarrow> length rest < length cs"
  by (cases cs) (auto split: if_splits dest: parse_number_not_longer parse_digits_not_longer)

section \<open>Reading: values\<close>

text \<open>\<open>depth\<close> is \<open>remaining_depth\<close>. \<open>parse_elems\<close> stands at the first byte of an element, \<open>parse_entries\<close> at the quote
  that opens a key.\<close>

lemma skip_ws_not_longer: "length (skip_ws cs) \<le> length cs"
  by (simp add: skip_ws_def length_dropWhile_le)

lemma parse_str_shorter: "parse_str cs = Some (s, rest) \<Longrightarrow> length rest < length cs"
proof (induction cs arbitrary: s rest rule: parse_str.induct)
  case (2 c cs)
  then show ?case by (fastforce split: if_splits option.splits dest: parse_escape_shorter)
qed simp

lemma strip_prefix_shorter: "strip_prefix p cs = Some rest \<Longrightarrow> length rest \<le> length cs"
  by (induction p cs rule: strip_prefix.induct) (auto split: if_splits)

function parse_value :: "float_tail \<Rightarrow> nat \<Rightarrow> string \<Rightarrow> (Value \<times> string) option"
  and parse_elems :: "float_tail \<Rightarrow> nat \<Rightarrow> string \<Rightarrow> (Value list \<times> string) option"
  and parse_entries :: "float_tail \<Rightarrow> nat \<Rightarrow> string \<Rightarrow> ((string \<times> Value) list \<times> string) option" where
  "parse_value ft depth cs =
     (case skip_ws cs of
        [] \<Rightarrow> None
      | c # cs1 \<Rightarrow>
          if c = CHR ''n'' then map_option (Pair JNull) (strip_prefix ''ull'' cs1)
          else if c = CHR ''t'' then map_option (Pair (JBool True)) (strip_prefix ''rue'' cs1)
          else if c = CHR ''f'' then map_option (Pair (JBool False)) (strip_prefix ''alse'' cs1)
          else if c = CHR ''-'' then parse_integer ft False cs1
          else if is_digit c then parse_integer ft True (c # cs1)
          else if c = CHR 0x22 then map_option (\<lambda>(s, rest). (JStr s, rest)) (parse_str cs1)
          else if c = CHR ''['' then
            if depth \<le> 1 then None
            else
              (case skip_ws cs1 of
                 [] \<Rightarrow> None
               | d # cs2 \<Rightarrow>
                   if d = CHR '']'' then Some (JArr [], cs2)
                   else map_option (\<lambda>(vs, rest). (JArr vs, rest)) (parse_elems ft (depth - 1) (d # cs2)))
          else if c = CHR ''{'' then
            if depth \<le> 1 then None
            else
              (case skip_ws cs1 of
                 [] \<Rightarrow> None
               | d # cs2 \<Rightarrow>
                   if d = CHR ''}'' then Some (JObj [], cs2)
                   else if d = CHR 0x22 then
                     map_option (\<lambda>(kvs, rest). (JObj kvs, rest)) (parse_entries ft (depth - 1) (d # cs2))
                   else None)
          else None)"
| "parse_elems ft depth cs =
     (case parse_value ft depth cs of
        None \<Rightarrow> None
      | Some (v, rest) \<Rightarrow>
          (case skip_ws rest of
             [] \<Rightarrow> None
           | c # rest1 \<Rightarrow>
               if c = CHR '']'' then Some ([v], rest1)
               else if c = CHR '','' then
                 (case skip_ws rest1 of
                    [] \<Rightarrow> None
                  | d # rest2 \<Rightarrow>
                      if d = CHR '']'' then None
                      else map_option (\<lambda>(vs, r). (v # vs, r)) (parse_elems ft depth (d # rest2)))
               else None))"
| "parse_entries ft depth cs =
     (case parse_str (tl cs) of
        None \<Rightarrow> None
      | Some (k, rest) \<Rightarrow>
          (case skip_ws rest of
             [] \<Rightarrow> None
           | c # rest1 \<Rightarrow>
               if c \<noteq> CHR '':'' then None
               else
                 (case parse_value ft depth rest1 of
                    None \<Rightarrow> None
                  | Some (v, rest2) \<Rightarrow>
                      (case skip_ws rest2 of
                         [] \<Rightarrow> None
                       | d # rest3 \<Rightarrow>
                           if d = CHR ''}'' then Some ([(k, v)], rest3)
                           else if d = CHR '','' then
                             (case skip_ws rest3 of
                                [] \<Rightarrow> None
                              | e # rest4 \<Rightarrow>
                                  if e = CHR 0x22 then
                                    map_option (\<lambda>(kvs, r). ((k, v) # kvs, r)) (parse_entries ft depth (e # rest4))
                                  else None)
                           else None))))"
  by pat_completeness auto

lemma skip_ws_length: "skip_ws cs = c # rest \<Longrightarrow> length rest < length cs"
  using skip_ws_not_longer [of cs] by simp

lemma parse_shorter:
  "parse_value_parse_elems_parse_entries_dom (Inl (ft, depth, cs)) \<Longrightarrow>
     parse_value ft depth cs = Some (v, rest) \<Longrightarrow> length rest < length cs"
  "parse_value_parse_elems_parse_entries_dom (Inr (Inl (ft, depth, cs))) \<Longrightarrow>
     parse_elems ft depth cs = Some (vs, rest) \<Longrightarrow> length rest < length cs"
  "parse_value_parse_elems_parse_entries_dom (Inr (Inr (ft, depth, cs))) \<Longrightarrow>
     parse_entries ft depth cs = Some (kvs, rest) \<Longrightarrow> length rest < length cs"
proof (induction ft depth cs and ft depth cs and ft depth cs arbitrary: v rest and vs rest and kvs rest
    rule: parse_value_parse_elems_parse_entries.pinduct)
  case (1 ft depth cs)
  show ?case
  proof (cases "skip_ws cs")
    case Nil
    with 1 show ?thesis by (simp add: parse_value.psimps)
  next
    case (Cons c cs1)
    note shorter = skip_ws_length [OF Cons]
    show ?thesis
    proof (cases "skip_ws cs1")
      case Nil
      with 1(1,4) Cons shorter show ?thesis
        by (auto simp: parse_value.psimps simp del: parse_integer.simps split: if_splits
            dest: strip_prefix_shorter parse_integer_shorter parse_str_shorter)
    next
      case ws: (Cons d cs2)
      have elems: "length rest \<le> length cs2"
        if "c = CHR ''[''" "\<not> depth \<le> 1" "d \<noteq> CHR '']''" "parse_elems ft (depth - 1) (d # cs2) = Some (vs, rest)"
        for vs rest
        using 1(2) [OF Cons _ _ _ _ _ _ that(1,2) ws that(3,4)] that(1) by (simp add: is_digit_def)
      have entries: "length rest \<le> length cs2"
        if "c = CHR ''{''" "\<not> depth \<le> 1" "d = CHR 0x22" "parse_entries ft (depth - 1) (d # cs2) = Some (kvs, rest)"
        for kvs rest
        using 1(3) [OF Cons _ _ _ _ _ _ _ that(1,2) ws _ that(3,4)] that(1,3) by (simp add: is_digit_def)
      from 1(1,4) Cons ws shorter skip_ws_length [OF ws] show ?thesis
        by (auto simp: parse_value.psimps simp del: parse_integer.simps split: if_splits
            dest: strip_prefix_shorter parse_integer_shorter parse_str_shorter dest!: elems entries)
    qed
  qed
next
  case (2 ft depth cs)
  then show ?case
    by (auto simp: parse_elems.psimps split: list.splits if_splits option.splits dest!: skip_ws_length) (fastforce)+
next
  case (3 ft depth cs)
  then show ?case
    by (auto simp: parse_entries.psimps split: list.splits if_splits option.splits
        dest!: skip_ws_length parse_str_shorter) (fastforce)+
qed

termination parse_value
proof (relation "measure (\<lambda>x. case x of
    Inl (_, _, cs) \<Rightarrow> 2 * length cs
  | Inr (Inl (_, _, cs)) \<Rightarrow> 2 * length cs + 1
  | Inr (Inr (_, _, cs)) \<Rightarrow> 2 * length cs + 1)")
qed (auto dest!: skip_ws_length parse_shorter parse_str_shorter)

declare parse_value.simps [simp del] parse_elems.simps [simp del] parse_entries.simps [simp del]

text \<open>\<open>from_str\<close>: one value, and nothing but whitespace behind it.\<close>

definition from_str :: "float_tail \<Rightarrow> string \<Rightarrow> Value option" where
  "from_str ft text =
     (case parse_value ft 128 text of
        Some (v, rest) \<Rightarrow> if skip_ws rest = [] then Some v else None
      | None \<Rightarrow> None)"

section \<open>What is written is read back\<close>

text \<open>How deeply a tree is nested, and that its numbers are integers.\<close>

fun nesting :: "Value \<Rightarrow> nat" where
  "nesting (JArr vs) = Suc (foldr max (map nesting vs) 0)"
| "nesting (JObj kvs) = Suc (foldr max (map (\<lambda>(k, v). nesting v) kvs) 0)"
| "nesting v = 0"

fun integral :: "Value \<Rightarrow> bool" where
  "integral (JNum (PosInt n)) = True"
| "integral (JNum (NegInt n)) = (sint n < 0)"
| "integral (JNum (Float b)) = False"
| "integral (JArr vs) = list_all integral vs"
| "integral (JObj kvs) = list_all (\<lambda>(k, v). integral v) kvs"
| "integral v = True"

lemma foldr_max_less [simp]: "foldr max ns 0 < (d :: nat) \<longleftrightarrow> 0 < d \<and> (\<forall>n \<in> set ns. n < d)"
  by (induction ns) auto

lemma nesting_less:
  "nesting (JArr vs) < d \<longleftrightarrow> 1 < d \<and> (\<forall>v \<in> set vs. nesting v < d - 1)"
  "nesting (JObj kvs) < d \<longleftrightarrow> 1 < d \<and> (\<forall>(k, v) \<in> set kvs. nesting v < d - 1)"
  using foldr_max_less [of "map nesting vs" "d - 1"] foldr_max_less [of "map (\<lambda>(k, v). nesting v) kvs" "d - 1"]
  by (auto simp del: foldr_max_less)

text \<open>Strings.\<close>

lemma of_char_eq: "(of_char c :: nat) = n \<Longrightarrow> c = char_of n"
  by (metis char_of_char)

lemma parse_escaped_char: "parse_str (escape_char c @ rest) = map_option (\<lambda>(s, r). (c # s, r)) (parse_str rest)"
proof -
  let ?n = "of_char c :: nat"
  consider "?n \<in> {8, 9, 10, 12, 13, 34, 92}" | "?n < 32" "?n \<notin> {8, 9, 10, 12, 13, 34, 92}"
    | "32 \<le> ?n" "?n \<notin> {34, 92}" by fastforce
  then show ?thesis
  proof cases
    case 1
    then have "c \<in> {CHR 0x08, CHR 0x09, CHR 0x0A, CHR 0x0C, CHR 0x0D, CHR 0x22, CHR 0x5C}"
      by (auto dest!: of_char_eq simp: char_of_def bit_Suc_0_iff)
    then show ?thesis by (elim insertE emptyE) (simp_all add: escape_char_def Let_def)
  next
    case 2
    have "hex_val (CHR ''0'') = Some 0" by (simp add: hex_val_def)
    with 2 show ?thesis
      by (simp add: escape_char_def Let_def parse_unicode_escape_def hex_val_digit push_codepoint_def)
  next
    case 3
    moreover from 3 have "c \<noteq> CHR 0x22" "c \<noteq> CHR 0x5C" by auto
    ultimately show ?thesis by (simp add: escape_char_def Let_def)
  qed
qed

lemma parse_printed_str: "parse_str (concat (map escape_char s) @ CHR 0x22 # rest) = Some (s, rest)"
  by (induction s) (simp_all add: parse_escaped_char)

text \<open>Numbers.\<close>

definition stops :: "string \<Rightarrow> bool" where
  "stops rest \<longleftrightarrow> rest = [] \<or> \<not> is_digit (hd rest) \<and> hd rest \<notin> {CHR ''.'', CHR ''e'', CHR ''E''}"

definition digits_value :: "nat \<Rightarrow> string \<Rightarrow> nat" where
  "digits_value = foldl (\<lambda>n c. n * 10 + digit_of c)"

lemma digits_value_ge: "n \<le> digits_value n ds"
proof (induction ds arbitrary: n)
  case (Cons c ds)
  from Cons [of "n * 10 + digit_of c"] show ?case by (simp add: digits_value_def)
qed (simp add: digits_value_def)

lemma is_digit_char: "d < 10 \<Longrightarrow> is_digit (char_of (48 + d)) \<and> digit_of (char_of (48 + d) :: char) = d"
  by (simp add: is_digit_def digit_of_def)

lemma dec_digits_value: "list_all is_digit (dec_digits n) \<and> digits_value 0 (dec_digits n) = n"
proof (induction n rule: dec_digits.induct)
  case (1 n)
  show ?case
  proof (cases "n < 10")
    case True
    then show ?thesis using is_digit_char [of n] by (simp add: dec_digits.simps digits_value_def)
  next
    case False
    then show ?thesis
      using 1 is_digit_char [of "n mod 10"] by (subst (1 2) dec_digits.simps) (simp add: digits_value_def)
  qed
qed

lemma dec_digits_head: "0 < n \<Longrightarrow> \<exists>c ds. dec_digits n = c # ds \<and> c \<noteq> CHR ''0''"
proof (induction n rule: dec_digits.induct)
  case (1 n)
  show ?case
  proof (cases "n < 10")
    case True
    have "char_of (48 + n) \<noteq> CHR ''0''"
    proof
      assume "char_of (48 + n) = CHR ''0''"
      then have "(of_char (char_of (48 + n) :: char) :: nat) = 48" by simp
      with True 1(2) show False by simp
    qed
    with True show ?thesis by (simp add: dec_digits.simps)
  next
    case False
    then have "0 < n div 10" by auto
    with 1(1) [OF False this] False show ?thesis by (subst dec_digits.simps) auto
  qed
qed

lemma parse_digits_run:
  assumes "list_all is_digit ds" "digits_value n ds < 2 ^ 64" "stops rest"
  shows "parse_digits ft p n (ds @ rest) = parse_number ft p (digits_value n ds) rest"
  using assms
proof (induction ds arbitrary: n)
  case Nil
  then show ?case by (cases rest) (auto simp: digits_value_def stops_def)
next
  case (Cons c ds)
  have "digits_value n (c # ds) = digits_value (n * 10 + digit_of c) ds" by (simp add: digits_value_def)
  with Cons digits_value_ge [of "n * 10 + digit_of c" ds] show ?case by simp
qed

lemma parse_printed_digits:
  assumes "n < 2 ^ 64" "stops rest"
  shows "parse_integer ft p (dec_digits n @ rest) = parse_number ft p n rest"
proof (cases "n = 0")
  case True
  have "dec_digits 0 = ''0''" by (simp add: dec_digits.simps char_of_def bit_Suc_0_iff)
  with True assms(2) show ?thesis by (cases rest) (auto simp: stops_def)
next
  case False
  then obtain c ds where digits: "dec_digits n = c # ds" "c \<noteq> CHR ''0''"
    using dec_digits_head by blast
  with dec_digits_value [of n] have "list_all is_digit (c # ds)" "digits_value (digit_of c) ds = n"
    by (simp_all add: digits_value_def)
  with digits assms parse_digits_run [of ds "digit_of c" rest ft p] show ?thesis by simp
qed

text \<open>Values.\<close>

lemma printed_head:
  assumes "integral v"
  shows "\<exists>c cs. print_value fmt v = c # cs \<and> \<not> is_ws c \<and> c \<noteq> CHR '']''"
proof -
  have digit: "\<exists>c cs. dec_digits n = c # cs \<and> \<not> is_ws c \<and> c \<noteq> CHR '']''" for n
  proof -
    obtain c cs where "dec_digits n = c # cs" by (cases "dec_digits n") (simp_all add: dec_digits.simps split: if_splits)
    moreover with dec_digits_value [of n] have "is_digit c" by simp
    then have "\<not> is_ws c \<and> c \<noteq> CHR '']''" by (auto simp: is_ws_def is_digit_def)
    ultimately show ?thesis by blast
  qed
  show ?thesis
    using assms
  proof (cases v)
    case (JNum n)
    with assms digit show ?thesis by (cases n) (auto simp: is_ws_def)
  qed (auto simp: is_ws_def print_str_def)
qed

lemma skip_ws_other: "\<not> is_ws c \<Longrightarrow> skip_ws (c # cs) = c # cs"
  by (simp add: skip_ws_def)

lemma skip_ws_printed: "integral v \<Longrightarrow> skip_ws (print_value fmt v @ rest) = print_value fmt v @ rest"
  using printed_head [of v fmt] by (auto simp: skip_ws_def)

lemma stops_simps [simp]: "stops []" "stops (CHR '','' # cs)" "stops (CHR '']'' # cs)" "stops (CHR ''}'' # cs)"
  by (simp_all add: stops_def is_digit_def)

lemma skip_ws_simps [simp]:
  "skip_ws (CHR '','' # cs) = CHR '','' # cs" "skip_ws (CHR '']'' # cs) = CHR '']'' # cs"
  "skip_ws (CHR ''}'' # cs) = CHR ''}'' # cs" "skip_ws (CHR '':'' # cs) = CHR '':'' # cs"
  "skip_ws (CHR 0x22 # cs) = CHR 0x22 # cs" "skip_ws [] = []"
  by (simp_all add: skip_ws_def is_ws_def)

lemma parse_printed_elems:
  assumes "vs \<noteq> []" "\<And>v rest. v \<in> set vs \<Longrightarrow> stops rest \<Longrightarrow> parse_value ft d (print_value fmt v @ rest) = Some (v, rest)"
    and "list_all integral vs"
  shows "parse_elems ft d (commas (map (print_value fmt) vs) @ CHR '']'' # rest) = Some (vs, rest)"
  using assms
proof (induction vs rule: list_nonempty_induct)
  case (single v)
  then show ?case by (simp add: parse_elems.simps)
next
  case (cons v vs)
  obtain w ws where vs: "vs = w # ws" using cons.hyps by (cases vs) auto
  have tail: "commas (print_value fmt v # map (print_value fmt) vs) = print_value fmt v @ CHR '','' # commas (map (print_value fmt) vs)"
    by (simp add: vs)
  obtain c cs where head: "commas (map (print_value fmt) vs) @ CHR '']'' # rest = c # cs" "\<not> is_ws c" "c \<noteq> CHR '']''"
    using printed_head [of w fmt] cons.prems(2) by (cases ws) (auto simp: vs)
  have "parse_elems ft d (c # cs) = Some (vs, rest)"
    using cons.IH cons.prems by (simp flip: head(1))
  with cons.prems(1) [of v "CHR '','' # c # cs"] head show ?case
    by (subst parse_elems.simps) (simp add: tail skip_ws_other)
qed

lemma parse_printed_entries:
  assumes "kvs \<noteq> []" "\<And>k v rest. (k, v) \<in> set kvs \<Longrightarrow> stops rest \<Longrightarrow>
      parse_value ft d (print_value fmt v @ rest) = Some (v, rest)"
  shows "parse_entries ft d (commas (map (\<lambda>(k, v). print_str k @ '':'' @ print_value fmt v) kvs) @ CHR ''}'' # rest) =
    Some (kvs, rest)"
  using assms
proof (induction kvs rule: list_nonempty_induct)
  case (single kv)
  obtain k v where "kv = (k, v)" by (cases kv)
  with single show ?case
    using parse_printed_str [of k "CHR '':'' # print_value fmt v @ CHR ''}'' # rest"]
    by (simp add: parse_entries.simps print_str_def)
next
  case (cons kv kvs)
  obtain k v where kv: "kv = (k, v)" by (cases kv)
  obtain k' v' kvs' where kvs: "kvs = (k', v') # kvs'" using cons.hyps by (cases kvs) auto
  let ?more = "commas (map (\<lambda>(k, v). print_str k @ '':'' @ print_value fmt v) kvs) @ CHR ''}'' # rest"
  obtain cs where more: "?more = CHR 0x22 # cs" by (cases kvs') (auto simp: kvs print_str_def)
  have whole: "commas (map (\<lambda>(k, v). print_str k @ '':'' @ print_value fmt v) (kv # kvs)) @ CHR ''}'' # rest =
      print_str k @ CHR '':'' # print_value fmt v @ CHR '','' # ?more"
    by (simp add: kv kvs)
  have "parse_entries ft d ?more = Some (kvs, rest)"
    by (rule cons.IH) (rule cons.prems, auto)
  with cons.prems [of k v "CHR '','' # CHR 0x22 # cs"] more show ?case
    using parse_printed_str [of k "CHR '':'' # print_value fmt v @ CHR '','' # ?more"]
    unfolding whole by (subst parse_entries.simps) (simp add: print_str_def kv)
qed

lemma parse_printed_number:
  assumes "integral (JNum n)" "stops rest"
  shows "parse_value ft d (print_value fmt (JNum n) @ rest) = Some (JNum n, rest)"
proof (cases n)
  case (PosInt m)
  obtain c ds where digits: "dec_digits (unat m) = c # ds" "is_digit c"
    using dec_digits_value [of "unat m"] printed_head [of "JNum (PosInt m)" fmt] by auto
  then have "c \<notin> {CHR ''n'', CHR ''t'', CHR ''f'', CHR ''-''}" by (auto simp: is_digit_def)
  moreover have "parse_integer ft True (dec_digits (unat m) @ rest) = Some (JNum (PosInt m), rest)"
    using assms(2) unsigned_less [of m, where ?'a = nat]
    by (subst parse_printed_digits) (auto simp: parse_number_def stops_def)
  ultimately show ?thesis
    using skip_ws_printed [of "JNum (PosInt m)" fmt rest] digits
    by (simp add: PosInt parse_value.simps del: parse_integer.simps)
next
  case (NegInt m)
  let ?k = "nat (- sint m)"
  have neg: "sint m < 0" using assms(1) NegInt by simp
  moreover have "- (2 ^ 63) \<le> sint m" using sint_greater_eq [of m] by simp
  ultimately have k: "0 < ?k" "?k \<le> 2 ^ 63" by (simp_all add: nat_le_iff)
  have "- of_nat ?k = m" using neg by simp
  with k assms(2) have "parse_integer ft False (dec_digits ?k @ rest) = Some (JNum (NegInt m), rest)"
    by (subst parse_printed_digits) (auto simp: parse_number_def stops_def)
  then show ?thesis
    by (simp add: NegInt parse_value.simps skip_ws_def is_ws_def del: parse_integer.simps)
qed (use assms(1) in simp)

lemma parse_printed_value:
  assumes "integral v" "nesting v < d" "stops rest"
  shows "parse_value ft d (print_value fmt v @ rest) = Some (v, rest)"
  using assms
proof (induction v arbitrary: d rest)
  case (JNum n)
  then show ?case by (intro parse_printed_number) simp_all
next
  case (JArr vs)
  show ?case
  proof (cases "vs = []")
    case True
    with JArr.prems show ?thesis by (simp add: parse_value.simps skip_ws_def is_ws_def is_digit_def)
  next
    case False
    then obtain v ws where vs: "vs = v # ws" by (cases vs) auto
    let ?text = "commas (map (print_value fmt) vs) @ CHR '']'' # rest"
    have "integral v" using JArr.prems(1) vs by simp
    from printed_head [OF this, of fmt] obtain c cs where head: "?text = c # cs" "\<not> is_ws c" "c \<noteq> CHR '']''"
      by (cases ws) (auto simp: vs)
    have "parse_elems ft (d - 1) ?text = Some (vs, rest)"
      using False JArr.prems by (intro parse_printed_elems JArr.IH) (auto simp: list_all_iff nesting_less simp del: nesting.simps)
    with head JArr.prems(2) show ?thesis
      by (simp add: parse_value.simps skip_ws_def is_ws_def is_digit_def)
  qed
next
  case (JObj kvs)
  show ?case
  proof (cases "kvs = []")
    case True
    with JObj.prems show ?thesis by (simp add: parse_value.simps skip_ws_def is_ws_def is_digit_def)
  next
    case False
    then obtain k v es where kvs: "kvs = (k, v) # es" by (cases kvs) auto
    let ?text = "commas (map (\<lambda>(k, v). print_str k @ '':'' @ print_value fmt v) kvs) @ CHR ''}'' # rest"
    obtain cs where head: "?text = CHR 0x22 # cs" by (cases es) (auto simp: kvs print_str_def)
    have "parse_entries ft (d - 1) ?text = Some (kvs, rest)"
      using False JObj.prems by (intro parse_printed_entries JObj.IH) (auto simp: list_all_iff nesting_less simp del: nesting.simps)
    with head JObj.prems(2) show ?thesis
      by (simp add: parse_value.simps skip_ws_def is_ws_def is_digit_def)
  qed
qed (simp_all add: parse_value.simps skip_ws_def is_ws_def print_str_def parse_printed_str is_digit_def)

lemma from_str_printed:
  assumes "integral v" "nesting v < 128"
  shows "from_str ft (print_value fmt v) = Some v"
  using parse_printed_value [OF assms, of "[]"] by (simp add: from_str_def)

section \<open>How deep the reader goes\<close>

text \<open>Whatever the text, the tree read from it is nested less deeply than the depth the reader was given.\<close>

lemma nesting_number: "parse_number ft p n cs = Some (v, rest) \<Longrightarrow> nesting v = 0"
  by (auto simp: parse_number_def read_float_def en_f64_def split: if_splits)

lemma nesting_digits: "parse_digits ft p n cs = Some (v, rest) \<Longrightarrow> nesting v = 0"
  by (induction ft p n cs rule: parse_digits.induct)
    (auto simp: read_float_def en_f64_def split: if_splits dest: nesting_number)

lemma nesting_scalar: "parse_integer ft p cs = Some (v, rest) \<Longrightarrow> nesting v = 0"
  by (cases cs) (auto split: if_splits dest: nesting_number nesting_digits)

lemma parse_entries_cases:
  assumes "parse_entries ft depth cs = Some (kvs, rest)"
  obtains (last) k r r1 v r2 where "parse_str (tl cs) = Some (k, r)" "skip_ws r = CHR '':'' # r1"
      "parse_value ft depth r1 = Some (v, r2)" "skip_ws r2 = CHR ''}'' # rest" "kvs = [(k, v)]"
  | (more) k r r1 v r2 r3 r4 es where "parse_str (tl cs) = Some (k, r)" "skip_ws r = CHR '':'' # r1"
      "parse_value ft depth r1 = Some (v, r2)" "skip_ws r2 = CHR '','' # r3" "skip_ws r3 = CHR 0x22 # r4"
      "parse_entries ft depth (CHR 0x22 # r4) = Some (es, rest)" "kvs = (k, v) # es"
  using assms by (subst (asm) parse_entries.simps) (auto split: option.splits list.splits if_splits)

lemma parse_nesting:
  "parse_value ft depth cs = Some (v, rest) \<Longrightarrow> 0 < depth \<Longrightarrow> nesting v < depth"
  "parse_elems ft depth cs = Some (vs, rest) \<Longrightarrow> 0 < depth \<Longrightarrow> \<forall>v \<in> set vs. nesting v < depth"
  "parse_entries ft depth cs = Some (kvs, rest) \<Longrightarrow> 0 < depth \<Longrightarrow> \<forall>(k, v) \<in> set kvs. nesting v < depth"
proof (induction ft depth cs and ft depth cs and ft depth cs arbitrary: v rest and vs rest and kvs rest
    rule: parse_value_parse_elems_parse_entries.induct)
  case (1 ft depth cs)
  note res = 1(3) [unfolded parse_value.simps [of ft depth cs]]
  show ?case
  proof (cases "skip_ws cs")
    case Nil
    with res show ?thesis by simp
  next
    case (Cons c cs1)
    show ?thesis
    proof (cases "skip_ws cs1")
      case Nil
      with res Cons 1(4) show ?thesis
        by (auto simp del: parse_integer.simps split: if_splits dest!: nesting_scalar)
    next
      case ws: (Cons d cs2)
      have elems: "\<forall>v \<in> set vs. nesting v < depth - 1"
        if "c = CHR ''[''" "\<not> depth \<le> 1" "d \<noteq> CHR '']''" "parse_elems ft (depth - 1) (d # cs2) = Some (vs, rest)"
        for vs rest
        using 1(1) [OF Cons _ _ _ _ _ _ that(1,2) ws that(3,4)] that(1,2) by (simp add: is_digit_def)
      have entries: "\<forall>(k, v) \<in> set kvs. nesting v < depth - 1"
        if "c = CHR ''{''" "\<not> depth \<le> 1" "d = CHR 0x22" "parse_entries ft (depth - 1) (d # cs2) = Some (kvs, rest)"
        for kvs rest
        using 1(2) [OF Cons _ _ _ _ _ _ _ that(1,2) ws _ that(3,4)] that(1,2,3) by (simp add: is_digit_def)
      from res Cons ws 1(4) show ?thesis
        by (auto simp: nesting_less simp del: parse_integer.simps nesting.simps(1,2) split: if_splits
            dest!: nesting_scalar elems entries)
    qed
  qed
next
  case (2 ft depth cs)
  have first: "nesting w < depth" if "parse_value ft depth cs = Some (w, r)" for w r
    using 2(1) [OF that 2(4)] .
  have others: "\<forall>w \<in> set ws. nesting w < depth"
    if "parse_value ft depth cs = Some (w, r)" "skip_ws r = CHR '','' # r1" "skip_ws r1 = d # r2" "d \<noteq> CHR '']''"
      "parse_elems ft depth (d # r2) = Some (ws, q)" for w r r1 d r2 ws q
    using 2(2) [OF that(1) refl that(2) _ refl that(3,4,5) 2(4)] by simp
  from 2(3,4) show ?case
    by (subst (asm) parse_elems.simps)
      (auto split: list.splits if_splits option.splits, (fact first | fastforce dest: first others)+)
next
  case (3 ft depth cs)
  from 3(3) show ?case
  proof (cases rule: parse_entries_cases)
    case (last k r r1 v r2)
    with 3(1) [OF last(1) refl last(2) _ last(3) 3(4)] show ?thesis by simp
  next
    case (more k r r1 v r2 r3 r4 es)
    with 3(1) [OF more(1) refl more(2) _ more(3) 3(4)]
      3(2) [OF more(1) refl more(2) _ more(3) refl more(4) _ refl more(5) refl more(6) 3(4)]
    show ?thesis by simp
  qed
qed

lemma from_str_nesting: "from_str ft t = Some w \<Longrightarrow> nesting w < 128"
  using parse_nesting(1) [of ft 128] by (auto simp: from_str_def split: option.splits if_splits)

end
