(* ===== verification/Wire.thy ===== *)
theory Wire
  imports Session JsonText
begin

text \<open>
  The two ends over the text they really exchange: \<open>codec\<close>, so far any pair of functions, is the JSON writer and
  reader of \<open>JsonText\<close>. What the round trips of \<open>Session\<close> asked of the codec holds for every message whose numbers
  are integers and that is nested less than 128 deep, which is as deep as the reader goes.
\<close>

definition json_codec :: "float_tail \<Rightarrow> (f64 \<Rightarrow> string) \<Rightarrow> (message \<Rightarrow> string) \<Rightarrow> codec" where
  "json_codec ft fmt rd = \<lparr>parse = from_str ft, print = print_value fmt, render = rd\<rparr>"

lemma json_codec_simps [simp]:
  "parse (json_codec ft fmt rd) = from_str ft" "print (json_codec ft fmt rd) = print_value fmt"
  "render (json_codec ft fmt rd) = rd"
  by (simp_all add: json_codec_def)

text \<open>A tree that survives as text when wrapped once more.\<close>

definition fits :: "Value \<Rightarrow> bool" where
  "fits v \<longleftrightarrow> integral v \<and> nesting v < 127"

lemma set_en_fields: "(k, v) \<in> set (en_fields fvs) \<longleftrightarrow> (k, Some v) \<in> set fvs"
  by (induction fvs) (auto simp: en_fields_def List.map_filter_def split: option.splits)

lemma from_str_en_fields:
  assumes "\<And>k v. (k, Some v) \<in> set fvs \<Longrightarrow> fits v"
  shows "from_str ft (print_value fmt (JObj (en_fields fvs))) = Some (JObj (en_fields fvs))"
  using assms
  by (intro from_str_printed) (auto simp: nesting_less fits_def set_en_fields list_all_iff simp del: nesting.simps)

lemma fits_str [simp]: "fits (JStr s)"
  by (simp add: fits_def)

lemma fits_NncError [simp]: "fits (en_NncError rd e)"
proof -
  have "integral (en_ErrorCode c) \<and> nesting (en_ErrorCode c) = 0" for c by (cases c) simp_all
  then show ?thesis
    by (auto simp: fits_def en_NncError_def nesting_less set_en_fields list_all_iff simp del: nesting.simps(1,2))
qed

lemma request_as_text: "fits (rq_params r) \<Longrightarrow> from_str ft (print_value fmt (en_Request r)) = Some (en_Request r)"
  unfolding en_Request_def by (rule from_str_en_fields) auto

lemma response_as_text:
  "(\<And>v. rs_result r = Some v \<Longrightarrow> fits v) \<Longrightarrow>
     from_str ft (print_value fmt (en_Response rd r)) = Some (en_Response rd r)"
  unfolding en_Response_def by (cases "rs_error r"; rule from_str_en_fields) auto

lemma result_as_text:
  assumes "\<forall>v. result = Inr v \<longrightarrow> fits v"
  shows "from_str ft (print_value fmt (en_Response rd (response_for m result))) =
    Some (en_Response rd (response_for m result))"
  using assms by (intro response_as_text) (auto simp: response_for_def response_ok_def response_err_def split: sum.splits)

lemma notification_as_text:
  "fits (nt_payload n) \<Longrightarrow> from_str ft (print_value fmt (en_Notification n)) = Some (en_Notification n)"
  unfolding en_Notification_def by (rule from_str_en_fields) auto

lemma types_as_text:
  "from_str ft (print_value fmt (en_vec (JStr \<circ> f) types)) = Some (en_vec (JStr \<circ> f) types)"
  by (intro from_str_printed) (auto simp: en_vec_def nesting_less list_all_iff simp del: nesting.simps(1,2))

text \<open>C23: a control call works over JSON text. With the crate's own writer and reader between them, a call whose
  parameters have integer numbers and are nested less than 127 deep arrives at the service as that method and those
  parameters, and returns the result the pipeline gave, if that is likewise, or fails with the refusal it gave.\<close>

theorem control_call_over_json:
  assumes "accepting env" "cl_public_key env = Some me" "sealed env senv me (nnc_service c)"
    and "\<And>acts. cl_encrypt env acts (nnc_service c) (print_value fmt (en_Request (request_new en m params))) = Some cipher"
    and "\<And>acts. cl_sign env acts (request_builder CONTROL_REQUEST_KIND (nnc_service c) cipher) = Some q"
    and "signed_by me (request_builder CONTROL_REQUEST_KIND (nnc_service c) cipher) q"
    and "m = method_from_str name" "sv_control sv = Some ctl" "fits (norm_value (en params))"
    and "handle (HControl ctl) (st_grants s) me (Some (ev_id q)) m (norm_value (en params)) (clock senv)
      (st_usage s) (st_node s) = (result, u', n')"
    and "\<forall>x. result = Inl x \<longrightarrow> plain_code (err_code x)" "\<forall>v. result = Inr v \<longrightarrow> fits v"
    and "st_sent (on_event (json_codec ft fmt rd) senv sv q s) = st_sent s @ [eb]" "signed_by (nnc_service c) eb e"
    and "answers_once env (nc_timeout c) (nnc_service c) q e" "SendEvent q \<notin> set (lk_acts l)"
  shows "fst (nnc_call (json_codec ft fmt rd) env c en de m params l) =
    (case result of
       Inl x \<Rightarrow> Fails (Refused (nnc_error (err_code x) (rd (err_message x))))
     | Inr v \<Rightarrow> (case de v of Some r \<Rightarrow> Returns r | None \<Rightarrow> Fails (ResultErr Malformed)))"
proof -
  have request: "from_str ft (print_value fmt (en_Request (request_new en m params))) =
      Some (en_Request (request_new en m params))"
    using assms(9) by (intro request_as_text) (simp add: request_new_def)
  show ?thesis
    using control_call_answered [of env me senv c "json_codec ft fmt rd" en m params cipher q name sv ctl s result u' n'
        eb e l de, unfolded json_codec_simps, OF assms(1-6) request assms(7,8,10,11,13,14)
        result_as_text [OF assms(12)] assms(15,16)] .
qed

theorem control_call_over_json_witness:
  "\<exists>content. fst (nnc_call (json_codec (\<lambda>_ _ _. None) (\<lambda>_. []) (render demo_codec))
      (demo_side (\<lambda>_. Item (NEvent (demo_event 77 1 ((demo_reply CONTROL_RESPONSE_KIND)\<lparr>eb_content := content\<rparr>)))))
      demo_client en_ListPeersRequest de_ListPeersResponse ListPeers ListPeersRequest link_new) =
    Fails (Refused (nnc_error EC_NotImplemented ''list_peers is not implemented''))"
proof -
  let ?req = "en_Request (request_new en_ListPeersRequest ListPeers ListPeersRequest)"
  let ?result = "Inl (not_implemented ''list_peers'') :: (Value, NncError) result"
  let ?codec = "json_codec (\<lambda>_ _ _. None) (\<lambda>_. []) (render demo_codec)"
  let ?content = "print_value (\<lambda>_. []) (en_Response (render demo_codec) (response_for ListPeers ?result))"
  let ?eb = "(demo_reply CONTROL_RESPONSE_KIND)\<lparr>eb_content := ?content\<rparr>"
  let ?e = "demo_event 77 1 ?eb"
  let ?q = "demo_event 9 7 (request_builder CONTROL_REQUEST_KIND 1 (print_value (\<lambda>_. []) ?req))"
  let ?sv = "service_control (control_defaults []) (service_new [] [2]) :: (nat, unit) Service"
  have m: "method_from_str ''list_peers'' = ListPeers" by (simp add: method_from_str_def)
  have client: "nnc_service demo_client = 1" "nc_timeout demo_client = 100"
    by (simp_all add: demo_client_def nnc_service_def nnc_with_timeout_def nnc_new_def)
  have fits: "fits (norm_value (en_ListPeersRequest ListPeersRequest))"
    by (simp add: fits_def en_ListPeersRequest_def en_fields_simps obj_of_def)
  have handled: "handle (HControl (control_defaults [] :: (nat, unit) ControlService)) g 7 i ListPeers v now u n =
      (?result, u, n)" for g i v now u n
    by (simp add: handle_def implements_def control_defaults_def Let_def)
  have "request_of ?codec demo_env ?q = Some (request_new en_ListPeersRequest ListPeers ListPeersRequest)"
    using de_Request_new [of en_ListPeersRequest "''list_peers''"] request_as_text [of "request_new en_ListPeersRequest ListPeers
        ListPeersRequest" "\<lambda>_ _ _. None" "\<lambda>_. []"] fits
    by (simp add: request_of_def demo_env_def request_builder_def m request_new_def)
  then have sent: "st_sent (on_event ?codec demo_env ?sv ?q demo_at_rest) = st_sent demo_at_rest @ [?eb]"
    using handled
    by (cases rule: answer_cases [of ?codec demo_env ?sv ?q CONTROL_REQUEST_KIND demo_at_rest])
      (auto simp: on_event_def Let_def kind_defs request_builder_def demo_at_rest_def reply_def send_def
        demo_reply_def handle_op_def op_of_def request_new_def response_for_def handler_for_def service_control_def
        demo_env_def)
  have "fst (nnc_call ?codec (demo_side (\<lambda>_. Item (NEvent ?e))) demo_client en_ListPeersRequest
      de_ListPeersResponse ListPeers ListPeersRequest link_new) =
    Fails (Refused (nnc_error EC_NotImplemented ''list_peers is not implemented''))"
    by (subst control_call_over_json [where me = 7 and senv = demo_env and q = ?q and
          cipher = "print_value (\<lambda>_. []) ?req" and
          name = "''list_peers''" and sv = ?sv and ctl = "control_defaults []" and s = demo_at_rest and
          result = ?result and u' = "st_usage demo_at_rest" and n' = "st_node demo_at_rest" and eb = ?eb and e = ?e])
      (simp_all add: client m fits handled sent demo_answers_once link_new_def)
  then show ?thesis by blast
qed

text \<open>The same for a wallet call.\<close>

lemma wallet_payload_as_text: "fits v \<Longrightarrow> from_str ft (print_value fmt (wallet_payload wm v)) = Some (wallet_payload wm v)"
  by (intro from_str_printed) (auto simp: wallet_payload_def nesting_less fits_def simp del: nesting.simps(1,2))

lemma wallet_call_over_json:
  assumes "accepting env" "sealed env senv (wc_public_key c) (wc_wallet c)" "value_wf v" "fits v"
    and "\<And>acts. cl_encrypt env acts (wc_wallet c) (print_value fmt (wallet_payload wm v)) = Some cipher"
    and "\<And>acts. cl_sign env acts (request_builder WALLET_REQUEST_KIND (wc_wallet c) cipher) = Some q"
    and "signed_by (wc_public_key c) (request_builder WALLET_REQUEST_KIND (wc_wallet c) cipher) q"
    and "sv_wallet sv = Some w" "m = method_from_str (wallet_method_as_str wm)"
    and "handle (HWallet w) (st_grants s) (wc_public_key c) (Some (ev_id q)) m v (clock senv) (st_usage s) (st_node s) =
      (result, u', n')"
    and "\<forall>x. result = Inl x \<longrightarrow> plain_code (err_code x)" "\<forall>x. result = Inr x \<longrightarrow> fits x"
    and "st_sent (on_event (json_codec ft fmt rd) senv sv q s) = st_sent s @ [eb]" "signed_by (wc_wallet c) eb e"
    and "answers_once env (wc_timeout c) (wc_wallet c) q e" "SendEvent q \<notin> set (lk_acts l)"
  shows "fst (wallet_call (json_codec ft fmt rd) env c de wm v l) =
    (case result of
       Inl x \<Rightarrow> Fails (Refused (nnc_error (err_code x) (rd (err_message x))))
     | Inr x \<Rightarrow> (case de x of Some r \<Rightarrow> Returns r | None \<Rightarrow> Fails (ResultErr Malformed)))"
  using wallet_call_answered [of env senv c v "json_codec ft fmt rd" wm cipher q sv w m s result u' n' eb e l de,
      unfolded json_codec_simps, OF assms(1-3,5-7) wallet_payload_as_text [OF assms(4)] assms(8-11,13,14)
      result_as_text [OF assms(12)] assms(15,16)] .

end
