(* ===== verification/Conformance.thy ===== *)
theory Conformance
  imports Pipeline Outcomes NwcClient
begin

text \<open>
  The examples of the two specifications, as \<^verbatim>\<open>vectors/nnc.json\<close> and \<^verbatim>\<open>vectors/nwc.json\<close> publish them, against the
  crate's readers: every request passes the pipeline's validation, every response reads as the response type of its method,
  every notification as its payload type, and what the documents show survives being read and written again
  (\<open>check_round_trip\<close> of \<^verbatim>\<open>tests/nwc_vectors.rs\<close>, here for both protocols and every example).
\<close>

section \<open>Checks\<close>

text \<open>Equality of trees up to the order of entries, and what the tests ask of a type: it drops and changes nothing
  that the document shows.\<close>

fun contained :: "Value \<Rightarrow> Value \<Rightarrow> bool" where
  "contained (JObj kvs) w =
     (case w of
        JObj kws \<Rightarrow> list_all (\<lambda>(k, x). case map_of kws k of Some y \<Rightarrow> contained x y | None \<Rightarrow> False) kvs
      | _ \<Rightarrow> False)"
| "contained (JArr vs) w =
     (case w of
        JArr ws \<Rightarrow> length vs = length ws \<and> list_all (\<lambda>(f, y). f y) (zip (map (\<lambda>x y. contained x y) vs) ws)
      | _ \<Rightarrow> False)"
| "contained v w = (v = w)"

definition same :: "Value \<Rightarrow> Value \<Rightarrow> bool" where
  "same v w \<longleftrightarrow> contained v w \<and> contained w v"

definition check_round_trip :: "Value \<Rightarrow> Value \<Rightarrow> bool" where
  "check_round_trip doc back =
     (case (doc, back) of
        (JObj kvs, JObj kws) \<Rightarrow>
          list_all (\<lambda>(k, want). case map_of kws k of Some got \<Rightarrow> same want got | None \<Rightarrow> False) kvs
      | _ \<Rightarrow> False)"

definition reads :: "(Value \<Rightarrow> 'a option) \<Rightarrow> ('a \<Rightarrow> Value) \<Rightarrow> Value \<Rightarrow> bool" where
  "reads de en v = (case de v of Some x \<Rightarrow> check_round_trip v (en x) | None \<Rightarrow> False)"

text \<open>The response type of each method, the one dispatch writes. For a wallet these are more than the nine calls its client has
  typed.\<close>

definition control_result_reads :: "Method \<Rightarrow> Value \<Rightarrow> bool" where
  "control_result_reads m v =
     (case m of
        ListChannels \<Rightarrow> reads de_ListChannelsResponse en_ListChannelsResponse v
      | OpenChannel \<Rightarrow> reads de_OpenChannelResponse en_OpenChannelResponse v
      | CloseChannel \<Rightarrow> reads de_CloseChannelResponse en_CloseChannelResponse v
      | ListPeers \<Rightarrow> reads de_ListPeersResponse en_ListPeersResponse v
      | ConnectPeer \<Rightarrow> reads de_ConnectPeerResponse en_ConnectPeerResponse v
      | DisconnectPeer \<Rightarrow> reads de_DisconnectPeerResponse en_DisconnectPeerResponse v
      | GetChannelFees \<Rightarrow> reads de_GetChannelFeesResponse en_GetChannelFeesResponse v
      | SetChannelFees \<Rightarrow> reads de_SetChannelFeesResponse en_SetChannelFeesResponse v
      | GetForwardingHistory \<Rightarrow> reads de_GetForwardingHistoryResponse en_GetForwardingHistoryResponse v
      | GetPendingHtlcs \<Rightarrow> reads de_GetPendingHtlcsResponse en_GetPendingHtlcsResponse v
      | QueryRoutes \<Rightarrow> reads de_QueryRoutesResponse en_QueryRoutesResponse v
      | ListNetworkNodes \<Rightarrow> reads de_ListNetworkNodesResponse en_ListNetworkNodesResponse v
      | GetNetworkStats \<Rightarrow> reads de_GetNetworkStatsResponse en_GetNetworkStatsResponse v
      | GetNetworkNode \<Rightarrow> reads de_NetworkNode en_NetworkNode v
      | GetNetworkChannel \<Rightarrow> reads de_GetNetworkChannelResponse en_GetNetworkChannelResponse v
      | SignMessage \<Rightarrow> reads de_SignMessageResponse en_SignMessageResponse v
      | UnknownMethod _ \<Rightarrow> False)"

definition wallet_result_reads :: "WalletMethod \<Rightarrow> Value \<Rightarrow> bool" where
  "wallet_result_reads m v =
     (case m of
        PayInvoice \<Rightarrow> reads de_PayInvoiceResponse en_PayInvoiceResponse v
      | MakeInvoice \<Rightarrow> reads de_Transaction en_Transaction v
      | LookupInvoice \<Rightarrow> reads de_Transaction en_Transaction v
      | GetBalance \<Rightarrow> reads de_GetBalanceResponse en_GetBalanceResponse v
      | GetInfo \<Rightarrow> reads de_GetInfoResponse en_GetInfoResponse v
      | MakeHoldInvoice \<Rightarrow> reads de_MakeHoldInvoiceResponse en_MakeHoldInvoiceResponse v
      | CancelHoldInvoice \<Rightarrow> reads de_CancelHoldInvoiceResponse en_CancelHoldInvoiceResponse v
      | SettleHoldInvoice \<Rightarrow> reads de_SettleHoldInvoiceResponse en_SettleHoldInvoiceResponse v
      | PayKeysend \<Rightarrow> reads de_PayKeysendResponse en_PayKeysendResponse v
      | ListTransactions \<Rightarrow> reads de_ListTransactionsResponse en_ListTransactionsResponse v
      | LookupPayment \<Rightarrow> reads de_LookupPaymentResponse en_LookupPaymentResponse v
      | MakeOffer \<Rightarrow> reads de_MakeOfferResponse en_MakeOfferResponse v
      | Pay \<Rightarrow> reads de_PayResponse en_PayResponse v
      | Receive \<Rightarrow> reads de_ReceiveResponse en_ReceiveResponse v
      | PayOnchain \<Rightarrow> reads de_PayOnchainResponse en_PayOnchainResponse v
      | MakeNewAddress \<Rightarrow> reads de_MakeNewAddressResponse en_MakeNewAddressResponse v
      | LookupAddress \<Rightarrow> reads de_LookupAddressResponse en_LookupAddressResponse v
      | ListAddresses \<Rightarrow> reads de_ListAddressesResponse en_ListAddressesResponse v
      | EstimateOnchainFees \<Rightarrow> reads de_EstimateOnchainFeesResponse en_EstimateOnchainFeesResponse v
      | ListInvoices \<Rightarrow> reads de_ListInvoicesResponse en_ListInvoicesResponse v
      | PayOffer \<Rightarrow> reads de_PayOfferResponse en_PayOfferResponse v
      | ListOffers \<Rightarrow> reads de_ListOffersResponse en_ListOffersResponse v
      | DisableOffer \<Rightarrow> reads de_DisableOfferResponse en_DisableOfferResponse v
      | QuotePayment \<Rightarrow> reads de_QuotePaymentResponse en_QuotePaymentResponse v
      | UnknownWalletMethod _ \<Rightarrow> False)"

text \<open>An example of a method: its name, its request and its response.\<close>

definition envelope_reads :: "string \<Rightarrow> Value \<Rightarrow> (Value \<Rightarrow> bool) \<Rightarrow> bool" where
  "envelope_reads name response result_reads =
     (case de_Response response of
        Some r \<Rightarrow> method_as_str (rs_result_type r) = name \<and> rs_error r = None \<and>
          (case rs_result r of Some v \<Rightarrow> result_reads v | None \<Rightarrow> False)
      | None \<Rightarrow> False)"

definition control_example_ok :: "string \<times> Value \<times> Value \<Rightarrow> bool" where
  "control_example_ok x =
     (case x of (name, request, response) \<Rightarrow>
        (case de_Request request of
           Some q \<Rightarrow> rq_method q = method_from_str name \<and> rq_method q \<in> set method_ALL \<and>
             is_ok (validate_control (rq_method q) (rq_params q)) \<and>
             envelope_reads name response (control_result_reads (rq_method q))
         | None \<Rightarrow> False))"

definition wallet_example_ok :: "string \<times> Value \<times> Value \<Rightarrow> bool" where
  "wallet_example_ok x =
     (case x of (name, request, response) \<Rightarrow>
        (case de_Request request of
           Some q \<Rightarrow>
             let m = wallet_method_from_str (method_as_str (rq_method q))
             in m = wallet_method_from_str name \<and> m \<in> set wallet_method_ALL \<and>
               is_ok (validate_wallet m (rq_params q)) \<and> envelope_reads name response (wallet_result_reads m)
         | None \<Rightarrow> False))"

definition control_notification_ok :: "string \<times> Value \<Rightarrow> bool" where
  "control_notification_ok x =
     (case de_Notification (snd x) of
        Some n \<Rightarrow> nt_type n = notification_from_str (fst x) \<and>
          (case nt_type n of
             NncWire.ChannelOpened \<Rightarrow> reads de_ChannelOpened en_ChannelOpened (nt_payload n)
           | NncWire.ChannelClosed \<Rightarrow> reads de_ChannelClosed en_ChannelClosed (nt_payload n)
           | UnknownNotification _ \<Rightarrow> False)
      | None \<Rightarrow> False)"

definition wallet_notification_ok :: "string \<times> Value \<Rightarrow> bool" where
  "wallet_notification_ok x =
     (case de_WalletNotification (snd x) of
        Some n \<Rightarrow> wn_type n = wallet_notification_from_str (fst x) \<and>
          (case wn_type n of
             NwcWire.HoldInvoiceAccepted \<Rightarrow> reads de_HoldInvoiceAccepted en_HoldInvoiceAccepted (wn_payload n)
           | PaymentReceived \<Rightarrow> reads de_Transaction en_Transaction (wn_payload n)
           | PaymentSent \<Rightarrow> reads de_Transaction en_Transaction (wn_payload n)
           | UnknownWalletNotification _ \<Rightarrow> False)
      | None \<Rightarrow> False)"

section \<open>The published examples\<close>

definition control_examples :: "(string \<times> Value \<times> Value) list" where
  "control_examples = [
     (''list_channels'',
      JObj [(''method'', JStr ''list_channels''), (''params'', JObj [])],
      JObj [(''result'', JObj [(''channels'', JArr [JObj [(''capacity'', JNum (PosInt 1000000)),
      (''funding_output_index'', JNum (PosInt 0)), (''funding_txid'', JStr ''abc123...''), (''id'', JStr
      ''abc123''), (''is_private'', JBool False), (''local_balance'', JNum (PosInt 500000)), (''peer_pubkey'',
      JStr ''02abc...''), (''remote_balance'', JNum (PosInt 500000)), (''short_channel_id'', JStr
      ''800000x1x0''), (''state'', JStr ''active'')]])]), (''result_type'', JStr ''list_channels'')]),
     (''open_channel'',
      JObj [(''method'', JStr ''open_channel''), (''params'', JObj [(''amount_sats'', JNum (PosInt 1000000)),
      (''close_address'', JStr ''bc1q...''), (''host'', JStr ''10.0.0.1:9735''), (''notify'', JBool True),
      (''private'', JBool False), (''pubkey'', JStr ''02abc...''), (''push_amount'', JNum (PosInt 0))])],
      JObj [(''result'', JObj []), (''result_type'', JStr ''open_channel'')]),
     (''close_channel'',
      JObj [(''method'', JStr ''close_channel''), (''params'', JObj [(''close_address'', JStr ''bc1q...''),
      (''force'', JBool False), (''id'', JStr ''abc123''), (''notify'', JBool True)])],
      JObj [(''result'', JObj []), (''result_type'', JStr ''close_channel'')]),
     (''list_peers'',
      JObj [(''method'', JStr ''list_peers''), (''params'', JObj [])],
      JObj [(''result'', JObj [(''peers'', JArr [JObj [(''address'', JStr ''10.0.0.1:9735''), (''alias'', JStr
      ''ACINQ''), (''connected'', JBool True), (''num_channels'', JNum (PosInt 2)), (''pubkey'', JStr
      ''02abc...'')]])]), (''result_type'', JStr ''list_peers'')]),
     (''connect_peer'',
      JObj [(''method'', JStr ''connect_peer''), (''params'', JObj [(''host'', JStr ''10.0.0.1:9735''),
      (''pubkey'', JStr ''02abc...'')])],
      JObj [(''result'', JObj []), (''result_type'', JStr ''connect_peer'')]),
     (''disconnect_peer'',
      JObj [(''method'', JStr ''disconnect_peer''), (''params'', JObj [(''pubkey'', JStr ''02abc...'')])],
      JObj [(''result'', JObj []), (''result_type'', JStr ''disconnect_peer'')]),
     (''get_channel_fees'',
      JObj [(''method'', JStr ''get_channel_fees''), (''params'', JObj [(''id'', JStr ''abc123'')])],
      JObj [(''result'', JObj [(''fees'', JArr [JObj [(''base_fee'', JNum (PosInt 1000)), (''fee_rate'', JNum
      (PosInt 1)), (''id'', JStr ''abc123''), (''max_htlc'', JNum (PosInt 500000000)), (''min_htlc'', JNum
      (PosInt 1000)), (''peer_pubkey'', JStr ''02abc...''), (''short_channel_id'', JStr ''800000x1x0'')]])]),
      (''result_type'', JStr ''get_channel_fees'')]),
     (''set_channel_fees'',
      JObj [(''method'', JStr ''set_channel_fees''), (''params'', JObj [(''base_fee'', JNum (PosInt 1000)),
      (''fee_rate'', JNum (PosInt 1)), (''id'', JStr ''abc123''), (''max_htlc'', JNum (PosInt 500000000)),
      (''min_htlc'', JNum (PosInt 1000))])],
      JObj [(''result'', JObj []), (''result_type'', JStr ''set_channel_fees'')]),
     (''get_forwarding_history'',
      JObj [(''method'', JStr ''get_forwarding_history''), (''params'', JObj [(''from'', JNum (PosInt
      1693876973)), (''limit'', JNum (PosInt 50)), (''offset'', JNum (PosInt 0)), (''until'', JNum (PosInt
      1703225078))])],
      JObj [(''result'', JObj [(''forwards'', JArr [JObj [(''fee_earned'', JNum (PosInt 10)),
      (''incoming_amount'', JNum (PosInt 10000)), (''incoming_channel_id'', JStr ''abc123''),
      (''outgoing_amount'', JNum (PosInt 9990)), (''outgoing_channel_id'', JStr ''def456''), (''settled_at'',
      JNum (PosInt 1703225000))]])]), (''result_type'', JStr ''get_forwarding_history'')]),
     (''get_pending_htlcs'',
      JObj [(''method'', JStr ''get_pending_htlcs''), (''params'', JObj [])],
      JObj [(''result'', JObj [(''htlcs'', JArr [JObj [(''amount'', JNum (PosInt 10000)), (''channel_id'', JStr
      ''abc123''), (''direction'', JStr ''incoming''), (''expiry_height'', JNum (PosInt 800100)),
      (''hash_lock'', JStr ''abcdef...'')]])]), (''result_type'', JStr ''get_pending_htlcs'')]),
     (''query_routes'',
      JObj [(''method'', JStr ''query_routes''), (''params'', JObj [(''amount'', JNum (PosInt 100000)),
      (''destination'', JStr ''02abc...''), (''max_routes'', JNum (PosInt 3))])],
      JObj [(''result'', JObj [(''routes'', JArr [JObj [(''hops'', JArr [JObj [(''expiry'', JNum (PosInt 20)),
      (''fee'', JNum (PosInt 50)), (''pubkey'', JStr ''02abc...''), (''short_channel_id'', JStr
      ''800000x1x0'')]]), (''total_fee'', JNum (PosInt 150)), (''total_time_lock'', JNum (PosInt 40))]])]),
      (''result_type'', JStr ''query_routes'')]),
     (''list_network_nodes'',
      JObj [(''method'', JStr ''list_network_nodes''), (''params'', JObj [(''limit'', JNum (PosInt 50)),
      (''offset'', JNum (PosInt 0))])],
      JObj [(''result'', JObj [(''nodes'', JArr [JObj [(''addresses'', JArr [JStr ''10.0.0.1:9735'']),
      (''alias'', JStr ''ACINQ''), (''color'', JStr ''#3399ff''), (''last_update'', JNum (PosInt 1703225000)),
      (''num_channels'', JNum (PosInt 150)), (''pubkey'', JStr ''02abc...''), (''total_capacity'', JNum (PosInt
      50000000000))]])]), (''result_type'', JStr ''list_network_nodes'')]),
     (''get_network_stats'',
      JObj [(''method'', JStr ''get_network_stats''), (''params'', JObj [])],
      JObj [(''result'', JObj [(''avg_channel_size'', JNum (PosInt 7692307692)), (''max_channel_size'', JNum
      (PosInt 1000000000000)), (''num_channels'', JNum (PosInt 65000)), (''num_nodes'', JNum (PosInt 15000)),
      (''total_capacity'', JNum (PosInt 500000000000000))]), (''result_type'', JStr ''get_network_stats'')]),
     (''get_network_node'',
      JObj [(''method'', JStr ''get_network_node''), (''params'', JObj [(''pubkey'', JStr ''02abc...'')])],
      JObj [(''result'', JObj [(''addresses'', JArr [JStr ''10.0.0.1:9735'']), (''alias'', JStr ''ACINQ''),
      (''color'', JStr ''#3399ff''), (''features'', JObj []), (''last_update'', JNum (PosInt 1703225000)),
      (''num_channels'', JNum (PosInt 150)), (''pubkey'', JStr ''02abc...''), (''total_capacity'', JNum (PosInt
      50000000000))]), (''result_type'', JStr ''get_network_node'')]),
     (''get_network_channel'',
      JObj [(''method'', JStr ''get_network_channel''), (''params'', JObj [(''short_channel_id'', JStr
      ''800000x1x0'')])],
      JObj [(''result'', JObj [(''capacity'', JNum (PosInt 1000000000)), (''node1_policy'', JObj [(''base_fee'',
      JNum (PosInt 1000)), (''disabled'', JBool False), (''fee_rate'', JNum (PosInt 1)), (''last_update'', JNum
      (PosInt 1703225000)), (''max_htlc'', JNum (PosInt 500000000)), (''min_htlc'', JNum (PosInt 1000)),
      (''time_lock_delta'', JNum (PosInt 40))]), (''node1_pubkey'', JStr ''02abc...''), (''node2_policy'', JObj
      [(''base_fee'', JNum (PosInt 500)), (''disabled'', JBool False), (''fee_rate'', JNum (PosInt 2)),
      (''last_update'', JNum (PosInt 1703224000)), (''max_htlc'', JNum (PosInt 500000000)), (''min_htlc'', JNum
      (PosInt 1000)), (''time_lock_delta'', JNum (PosInt 40))]), (''node2_pubkey'', JStr ''03def...''),
      (''short_channel_id'', JStr ''800000x1x0'')]), (''result_type'', JStr ''get_network_channel'')]),
     (''sign_message'',
      JObj [(''method'', JStr ''sign_message''), (''params'', JObj [(''message'', JStr ''I am node
      02abc...'')])],
      JObj [(''result'', JObj [(''message'', JStr ''I am node 02abc...''), (''pubkey'', JStr ''02abc...''),
      (''signature'', JStr ''d9tibmnic9t5...'')]), (''result_type'', JStr ''sign_message'')])]"

definition control_notification_examples :: "(string \<times> Value) list" where
  "control_notification_examples = [
     (''channel_opened'',
      JObj [(''notification'', JObj [(''capacity'', JNum (PosInt 1000000)), (''funding_txid'', JStr
      ''abc123...''), (''id'', JStr ''abc123''), (''is_private'', JBool False), (''local_balance'', JNum (PosInt
      1000000)), (''peer_pubkey'', JStr ''02abc...''), (''remote_balance'', JNum (PosInt 0)),
      (''short_channel_id'', JStr ''800000x1x0'')]), (''notification_type'', JStr ''channel_opened'')]),
     (''channel_closed'',
      JObj [(''notification'', JObj [(''capacity'', JNum (PosInt 1000000)), (''close_type'', JStr
      ''cooperative''), (''closing_txid'', JStr ''def456...''), (''id'', JStr ''abc123''), (''peer_pubkey'',
      JStr ''02abc...''), (''short_channel_id'', JStr ''800000x1x0'')]), (''notification_type'', JStr
      ''channel_closed'')])]"

definition wallet_examples :: "(string \<times> Value \<times> Value) list" where
  "wallet_examples = [
     (''pay_invoice'',
      JObj [(''method'', JStr ''pay_invoice''), (''params'', JObj [(''amount'', JNum (PosInt 123)),
      (''invoice'', JStr ''lnbc50n1...''), (''metadata'', JObj [])])],
      JObj [(''result'', JObj [(''fees_paid'', JNum (PosInt 123)), (''preimage'', JStr
      ''0123456789abcdef...'')]), (''result_type'', JStr ''pay_invoice'')]),
     (''make_invoice'',
      JObj [(''method'', JStr ''make_invoice''), (''params'', JObj [(''amount'', JNum (PosInt 123)),
      (''description'', JStr ''string''), (''description_hash'', JStr ''string''), (''expiry'', JNum (PosInt
      213)), (''metadata'', JObj [])])],
      JObj [(''result'', JObj [(''amount'', JNum (PosInt 123)), (''created_at'', JNum (PosInt 0)),
      (''description'', JStr ''string''), (''description_hash'', JStr ''string''), (''expires_at'', JNum (PosInt
      0)), (''fees_paid'', JNum (PosInt 123)), (''invoice'', JStr ''string''), (''metadata'', JObj []),
      (''payment_hash'', JStr ''string''), (''preimage'', JStr ''string''), (''state'', JStr ''pending''),
      (''type'', JStr ''incoming'')]), (''result_type'', JStr ''make_invoice'')]),
     (''lookup_invoice'',
      JObj [(''method'', JStr ''lookup_invoice''), (''params'', JObj [(''invoice'', JStr ''lnbc50n1...''),
      (''payment_hash'', JStr ''31afdf1..'')])],
      JObj [(''result'', JObj [(''amount'', JNum (PosInt 123)), (''created_at'', JNum (PosInt 0)),
      (''description'', JStr ''string''), (''description_hash'', JStr ''string''), (''expires_at'', JNum (PosInt
      0)), (''fees_paid'', JNum (PosInt 123)), (''invoice'', JStr ''string''), (''metadata'', JObj []),
      (''payment_hash'', JStr ''string''), (''preimage'', JStr ''string''), (''settled_at'', JNum (PosInt 0)),
      (''state'', JStr ''pending''), (''type'', JStr ''incoming'')]), (''result_type'', JStr
      ''lookup_invoice'')]),
     (''get_balance'',
      JObj [(''method'', JStr ''get_balance''), (''params'', JObj [])],
      JObj [(''result'', JObj [(''balance'', JNum (PosInt 10000))]), (''result_type'', JStr ''get_balance'')]),
     (''get_info'',
      JObj [(''method'', JStr ''get_info''), (''params'', JObj [])],
      JObj [(''result'', JObj [(''alias'', JStr ''string''), (''block_hash'', JStr ''hex string''),
      (''block_height'', JNum (PosInt 1)), (''color'', JStr ''hex string''), (''extensions'', JArr [JStr ''02'',
      JStr ''03'', JStr ''04'', JStr ''06'', JStr ''07'', JStr ''08'']), (''methods'', JArr [JStr
      ''pay_invoice'', JStr ''get_balance'', JStr ''make_invoice'', JStr ''lookup_invoice'', JStr
      ''get_info'']), (''network'', JStr ''string''), (''pubkey'', JStr ''hex string'')]), (''result_type'',
      JStr ''get_info'')]),
     (''make_hold_invoice'',
      JObj [(''method'', JStr ''make_hold_invoice''), (''params'', JObj [(''amount'', JNum (PosInt 123)),
      (''description'', JStr ''string''), (''description_hash'', JStr ''string''), (''expiry'', JNum (PosInt
      213)), (''min_cltv_expiry_delta'', JNum (PosInt 144)), (''payment_hash'', JStr ''string'')])],
      JObj [(''result'', JObj [(''amount'', JNum (PosInt 123)), (''created_at'', JNum (PosInt 0)),
      (''description'', JStr ''string''), (''description_hash'', JStr ''string''), (''expires_at'', JNum (PosInt
      0)), (''invoice'', JStr ''string''), (''metadata'', JObj []), (''payment_hash'', JStr ''string''),
      (''type'', JStr ''incoming'')]), (''result_type'', JStr ''make_hold_invoice'')]),
     (''cancel_hold_invoice'',
      JObj [(''method'', JStr ''cancel_hold_invoice''), (''params'', JObj [(''payment_hash'', JStr
      ''string'')])],
      JObj [(''result'', JObj []), (''result_type'', JStr ''cancel_hold_invoice'')]),
     (''settle_hold_invoice'',
      JObj [(''method'', JStr ''settle_hold_invoice''), (''params'', JObj [(''preimage'', JStr ''string'')])],
      JObj [(''result'', JObj []), (''result_type'', JStr ''settle_hold_invoice'')]),
     (''pay_keysend'',
      JObj [(''method'', JStr ''pay_keysend''), (''params'', JObj [(''amount'', JNum (PosInt 123)),
      (''preimage'', JStr ''0123456789abcdef...''), (''pubkey'', JStr ''03...''), (''tlv_records'', JArr [JObj
      [(''type'', JNum (PosInt 5482373484)), (''value'', JStr ''0123456789abcdef'')]])])],
      JObj [(''result'', JObj [(''fees_paid'', JNum (PosInt 123)), (''preimage'', JStr
      ''0123456789abcdef...'')]), (''result_type'', JStr ''pay_keysend'')]),
     (''list_transactions'',
      JObj [(''method'', JStr ''list_transactions''), (''params'', JObj [(''from'', JNum (PosInt 1693876973)),
      (''limit'', JNum (PosInt 10)), (''offset'', JNum (PosInt 0)), (''type'', JStr ''incoming''), (''unpaid'',
      JBool True), (''until'', JNum (PosInt 1703225078))])],
      JObj [(''result'', JObj [(''total_count'', JNum (PosInt 42)), (''transactions'', JArr [JObj [(''amount'',
      JNum (PosInt 123)), (''created_at'', JNum (PosInt 0)), (''description'', JStr ''string''),
      (''description_hash'', JStr ''string''), (''expires_at'', JNum (PosInt 0)), (''fees_paid'', JNum (PosInt
      123)), (''invoice'', JStr ''string''), (''metadata'', JObj []), (''payment_hash'', JStr ''string''),
      (''preimage'', JStr ''string''), (''settled_at'', JNum (PosInt 0)), (''state'', JStr ''pending''),
      (''type'', JStr ''incoming'')]])]), (''result_type'', JStr ''list_transactions'')]),
     (''lookup_payment'',
      JObj [(''method'', JStr ''lookup_payment''), (''params'', JObj [(''invoice'', JStr ''lnbc50n1...''),
      (''payment_hash'', JStr ''31afdf1..'')])],
      JObj [(''result'', JObj [(''amount'', JNum (PosInt 123000)), (''created_at'', JNum (PosInt 0)),
      (''details'', JObj []), (''expires_at'', JNum (PosInt 0)), (''failure_reason'', JStr ''string''),
      (''fees_paid'', JNum (PosInt 1000)), (''metadata'', JObj []), (''payment_type'', JStr
      ''extension_defined_type''), (''settled_at'', JNum (PosInt 0)), (''state'', JStr ''settled''),
      (''transaction_id'', JStr ''wallet-scoped-id''), (''type'', JStr ''outgoing''), (''updated_at'', JNum
      (PosInt 0))]), (''result_type'', JStr ''lookup_payment'')]),
     (''make_offer'',
      JObj [(''method'', JStr ''make_offer''), (''params'', JObj [(''amount'', JNum (PosInt 123000)),
      (''description'', JStr ''string''), (''expires_at'', JNum (PosInt 0)), (''issuer'', JStr ''example.com''),
      (''metadata'', JObj []), (''single_use'', JBool False)])],
      JObj [(''result'', JObj [(''amount'', JNum (PosInt 123000)), (''created_at'', JNum (PosInt 0)),
      (''description'', JStr ''string''), (''expires_at'', JNum (PosInt 0)), (''issuer'', JStr ''example.com''),
      (''offer'', JStr ''lno1...''), (''offer_id'', JStr ''0123456789abcdef...''), (''single_use'', JBool
      False)]), (''result_type'', JStr ''make_offer'')]),
     (''lookup_payment'',
      JObj [(''method'', JStr ''lookup_payment''), (''params'', JObj [(''lookup'', JObj [(''offer_id'', JStr
      ''0123456789abcdef...''), (''payment_hash'', JStr ''31afdf1c...'')]), (''payment_type'', JStr
      ''bolt12'')])],
      JObj [(''result'', JObj [(''amount'', JNum (PosInt 123000)), (''created_at'', JNum (PosInt 0)),
      (''details'', JObj [(''description'', JStr ''string''), (''invoice'', JStr ''lni1...''),
      (''invoice_request'', JStr ''lnr1...''), (''issuer'', JStr ''example.com''), (''offer'', JStr
      ''lno1...''), (''offer_id'', JStr ''0123456789abcdef...''), (''payer_note'', JStr ''string''),
      (''payer_proof'', JStr ''lnp1...''), (''payment_hash'', JStr ''31afdf1c...''), (''preimage'', JStr
      ''0123456789abcdef...''), (''quantity'', JNum (PosInt 1))]), (''expires_at'', JNum (PosInt 0)),
      (''failure_reason'', JStr ''string''), (''fees_paid'', JNum (PosInt 1000)), (''metadata'', JObj []),
      (''payment_type'', JStr ''bolt12''), (''settled_at'', JNum (PosInt 0)), (''state'', JStr ''settled''),
      (''transaction_id'', JStr ''wallet-scoped-id''), (''type'', JStr ''incoming''), (''updated_at'', JNum
      (PosInt 0))]), (''result_type'', JStr ''lookup_payment'')]),
     (''pay'',
      JObj [(''method'', JStr ''pay''), (''params'', JObj [(''amount'', JNum (PosInt 123000)), (''max_fee'',
      JNum (PosInt 1000)), (''metadata'', JObj []), (''payer_note'', JStr ''string''), (''payment'', JStr
      ''bitcoin:?lno=lno1...'')])],
      JObj [(''result'', JObj [(''amount'', JNum (PosInt 123000)), (''created_at'', JNum (PosInt 0)),
      (''failure_reason'', JStr ''string''), (''fees_paid'', JNum (PosInt 1000)), (''instruction_type'', JStr
      ''bolt12''), (''payer_proof'', JStr ''lnp1...''), (''payment_hash'', JStr ''string''), (''preimage'', JStr
      ''string''), (''settled_at'', JNum (PosInt 0)), (''state'', JStr ''settled''), (''transaction_id'', JStr
      ''string''), (''txid'', JStr ''string'')]), (''result_type'', JStr ''pay'')]),
     (''receive'',
      JObj [(''method'', JStr ''receive''), (''params'', JObj [(''amount'', JNum (PosInt 123000)),
      (''description'', JStr ''string''), (''metadata'', JObj [])])],
      JObj [(''result'', JObj [(''bip321'', JStr ''bitcoin:?lightning=lnbc...&lno=lno1...''),
      (''transaction_id'', JStr ''string'')]), (''result_type'', JStr ''receive'')]),
     (''pay_onchain'',
      JObj [(''method'', JStr ''pay_onchain''), (''params'', JObj [(''address'', JStr ''bc1q...''),
      (''amount_sats'', JNum (PosInt 50000)), (''feerate'', JNum (PosInt 5))])],
      JObj [(''result'', JObj [(''fee_sats'', JNum (PosInt 250)), (''txid'', JStr ''abc123...'')]),
      (''result_type'', JStr ''pay_onchain'')]),
     (''make_new_address'',
      JObj [(''method'', JStr ''make_new_address''), (''params'', JObj [(''type'', JStr ''p2wpkh'')])],
      JObj [(''result'', JObj [(''address'', JStr ''bc1q...''), (''type'', JStr ''p2wpkh'')]), (''result_type'',
      JStr ''make_new_address'')]),
     (''lookup_address'',
      JObj [(''method'', JStr ''lookup_address''), (''params'', JObj [(''address'', JStr ''bc1q...'')])],
      JObj [(''result'', JObj [(''address'', JStr ''bc1q...''), (''total_received_sats'', JNum (PosInt 100000)),
      (''transactions'', JArr [JObj [(''amount_sats'', JNum (PosInt 100000)), (''confirmations'', JNum (PosInt
      6)), (''timestamp'', JNum (PosInt 1703225000)), (''txid'', JStr ''abc123...'')]]), (''type'', JStr
      ''p2wpkh'')]), (''result_type'', JStr ''lookup_address'')]),
     (''list_addresses'',
      JObj [(''method'', JStr ''list_addresses''), (''params'', JObj [(''limit'', JNum (PosInt 10)),
      (''offset'', JNum (PosInt 0))])],
      JObj [(''result'', JObj [(''addresses'', JArr [JObj [(''address'', JStr ''bc1q...''), (''created_at'',
      JNum (PosInt 1703225000)), (''total_received_sats'', JNum (PosInt 100000)), (''type'', JStr
      ''p2wpkh'')]])]), (''result_type'', JStr ''list_addresses'')]),
     (''estimate_onchain_fees'',
      JObj [(''method'', JStr ''estimate_onchain_fees''), (''params'', JObj [])],
      JObj [(''result'', JObj [(''fees'', JObj [(''1'', JNum (Float 0x4039000000000000)), (''144'', JNum (Float
      0x3FF0000000000000)), (''6'', JNum (Float 0x4018000000000000))])]), (''result_type'', JStr
      ''estimate_onchain_fees'')]),
     (''list_invoices'',
      JObj [(''method'', JStr ''list_invoices''), (''params'', JObj [(''from'', JNum (PosInt 1693876973)),
      (''limit'', JNum (PosInt 10)), (''offset'', JNum (PosInt 0)), (''state'', JStr ''pending''), (''until'',
      JNum (PosInt 1703225078))])],
      JObj [(''result'', JObj [(''invoices'', JArr [JObj [(''amount'', JNum (PosInt 123)), (''created_at'', JNum
      (PosInt 1693876973)), (''description'', JStr ''string''), (''expires_at'', JNum (PosInt 1693880573)),
      (''invoice'', JStr ''lnbc50n1...''), (''payment_hash'', JStr ''string''), (''preimage'', JStr ''string''),
      (''settled_at'', JNum (PosInt 1693877000)), (''state'', JStr ''pending'')]])]), (''result_type'', JStr
      ''list_invoices'')]),
     (''pay_offer'',
      JObj [(''method'', JStr ''pay_offer''), (''params'', JObj [(''amount'', JNum (PosInt 123000)), (''offer'',
      JStr ''lno1...''), (''payer_note'', JStr ''string'')])],
      JObj [(''result'', JObj [(''fees_paid'', JNum (PosInt 1000)), (''preimage'', JStr
      ''0123456789abcdef...''), (''transaction_id'', JStr ''wallet-scoped-id'')]), (''result_type'', JStr
      ''pay_offer'')]),
     (''list_offers'',
      JObj [(''method'', JStr ''list_offers''), (''params'', JObj [(''active_only'', JBool True), (''limit'',
      JNum (PosInt 10)), (''offset'', JNum (PosInt 0))])],
      JObj [(''result'', JObj [(''offers'', JArr [JObj [(''active'', JBool True), (''amount'', JNum (PosInt
      123000)), (''created_at'', JNum (PosInt 1703225000)), (''description'', JStr ''string''), (''expires_at'',
      JNum (PosInt 1703311400)), (''issuer'', JStr ''example.com''), (''num_payments_received'', JNum (PosInt
      5)), (''offer'', JStr ''lno1...''), (''offer_id'', JStr ''0123456789abcdef...''), (''single_use'', JBool
      False), (''total_received'', JNum (PosInt 615000))]])]), (''result_type'', JStr ''list_offers'')]),
     (''disable_offer'',
      JObj [(''method'', JStr ''disable_offer''), (''params'', JObj [(''offer_id'', JStr
      ''0123456789abcdef...'')])],
      JObj [(''result'', JObj []), (''result_type'', JStr ''disable_offer'')]),
     (''quote_payment'',
      JObj [(''method'', JStr ''quote_payment''), (''params'', JObj [(''amount'', JNum (PosInt 123000)),
      (''invoice'', JStr ''lnbc...'')])],
      JObj [(''result'', JObj [(''amount'', JNum (PosInt 123000)), (''cltv_expiry_delta'', JNum (PosInt 144)),
      (''fee_msat'', JNum (PosInt 1200)), (''route_found'', JBool True)]), (''result_type'', JStr
      ''quote_payment'')])]"

definition wallet_notification_examples :: "(string \<times> Value) list" where
  "wallet_notification_examples = [
     (''payment_received'',
      JObj [(''notification'', JObj [(''amount'', JNum (PosInt 123)), (''created_at'', JNum (PosInt 0)),
      (''description'', JStr ''string''), (''description_hash'', JStr ''string''), (''expires_at'', JNum (PosInt
      0)), (''fees_paid'', JNum (PosInt 123)), (''invoice'', JStr ''string''), (''metadata'', JObj []),
      (''payment_hash'', JStr ''string''), (''preimage'', JStr ''string''), (''settled_at'', JNum (PosInt 0)),
      (''state'', JStr ''settled''), (''type'', JStr ''incoming'')]), (''notification_type'', JStr
      ''payment_received'')]),
     (''payment_sent'',
      JObj [(''notification'', JObj [(''amount'', JNum (PosInt 123)), (''created_at'', JNum (PosInt 0)),
      (''description'', JStr ''string''), (''description_hash'', JStr ''string''), (''expires_at'', JNum (PosInt
      0)), (''fees_paid'', JNum (PosInt 123)), (''invoice'', JStr ''string''), (''metadata'', JObj []),
      (''payment_hash'', JStr ''string''), (''preimage'', JStr ''string''), (''settled_at'', JNum (PosInt 0)),
      (''state'', JStr ''settled''), (''type'', JStr ''outgoing'')]), (''notification_type'', JStr
      ''payment_sent'')]),
     (''hold_invoice_accepted'',
      JObj [(''notification'', JObj [(''amount'', JNum (PosInt 123)), (''created_at'', JNum (PosInt 0)),
      (''description'', JStr ''string''), (''description_hash'', JStr ''string''), (''expires_at'', JNum (PosInt
      0)), (''invoice'', JStr ''string''), (''metadata'', JObj []), (''payment_hash'', JStr ''string''),
      (''settle_deadline'', JNum (PosInt 0)), (''state'', JStr ''accepted''), (''type'', JStr ''incoming'')]),
      (''notification_type'', JStr ''hold_invoice_accepted'')])]"

section \<open>All of them read\<close>

text \<open>The bound of a \<open>u32\<close>, compared as words.\<close>

lemma de_u32_code [code]:
  "de_u32 v = (case v of JNum (PosInt n) \<Rightarrow> if n < 0x100000000 then Some (ucast n) else None | _ \<Rightarrow> None)"
  by (auto simp: de_u32_def word_less_nat_alt split: Value.split json_number.split)

lemma f64_finite_code [code]: "f64_finite b \<longleftrightarrow> take_bit 11 (drop_bit 52 b) \<noteq> 0x7FF"
  by (simp add: f64_finite_def word_unat_eq_iff unsigned_take_bit_eq unsigned_drop_bit_eq drop_bit_eq_div take_bit_eq_mod
      unat_div_distrib unat_mod_distrib)

text \<open>The crate reads every published example, a check on fixed inputs. Each method has one; each request is one the
  pipeline accepts for the method it is shown under, each response a success that reads as the response type and is
  written again with everything the document shows, and each notification reads as the payload of its type, likewise.\<close>

lemma published_examples_read:
  "list_all control_example_ok control_examples \<and>
   list_all control_notification_ok control_notification_examples \<and>
   list_all wallet_example_ok wallet_examples \<and>
   list_all wallet_notification_ok wallet_notification_examples \<and>
   set method_ALL \<subseteq> set (map (method_from_str \<circ> fst) control_examples) \<and>
   set wallet_method_ALL \<subseteq> set (map (wallet_method_from_str \<circ> fst) wallet_examples)"
  by (intro conjI) code_simp+

end
