(* ===== verification/JsonPretty.thy ===== *)
theory JsonPretty
  imports JsonText
begin

text \<open>
  \<open>serde_json::to_string_pretty\<close>, from \<open>PrettyFormatter\<close> of the vendored \<^verbatim>\<open>serde_json/src/ser.rs\<close>: one element per
  line, two spaces for each level, and nothing between the brackets of an empty array or object. The reader takes
  it back as it takes back the compact form, because blanks between the parts make no difference to it.
\<close>

definition line_start :: "nat \<Rightarrow> string" where
  "line_start d = CHR 0x0A # replicate (2 * d) CHR '' ''"

definition bracketed :: "char \<Rightarrow> char \<Rightarrow> nat \<Rightarrow> string list \<Rightarrow> string" where
  "bracketed opening closing d parts =
     opening # commas (map (\<lambda>p. line_start (Suc d) @ p) parts) @ (if parts = [] then [] else line_start d) @ [closing]"

fun print_pretty :: "(f64 \<Rightarrow> string) \<Rightarrow> nat \<Rightarrow> Value \<Rightarrow> string" where
  "print_pretty fmt d (JArr vs) = bracketed CHR ''['' CHR '']'' d (map (print_pretty fmt (Suc d)) vs)"
| "print_pretty fmt d (JObj kvs) =
     bracketed CHR ''{'' CHR ''}'' d (map (\<lambda>(k, v). print_str k @ '': '' @ print_pretty fmt (Suc d) v) kvs)"
| "print_pretty fmt d v = print_value fmt v"

definition to_string_pretty :: "(f64 \<Rightarrow> string) \<Rightarrow> Value \<Rightarrow> string" where
  "to_string_pretty fmt v = print_pretty fmt 0 v"

section \<open>Blanks make no difference\<close>

definition blank :: "string \<Rightarrow> bool" where
  "blank w \<longleftrightarrow> list_all is_ws w"

lemma blank_simps [simp]: "blank []" "blank (line_start d)" "blank ('' '')"
  by (simp_all add: blank_def line_start_def is_ws_def list_all_iff)

lemma skip_ws_blank: "blank w \<Longrightarrow> skip_ws (w @ t) = skip_ws t"
  by (simp add: blank_def skip_ws_def dropWhile_append2 list_all_iff)

lemma skip_ws_twice [simp]: "skip_ws (skip_ws t) = skip_ws t"
  by (simp add: skip_ws_def)

lemma parse_value_skip: "skip_ws s = skip_ws t \<Longrightarrow> parse_value ft d s = parse_value ft d t"
  by (simp add: parse_value.simps)

lemma parse_elems_skip: "skip_ws s = skip_ws t \<Longrightarrow> parse_elems ft d s = parse_elems ft d t"
  by (subst (1 2) parse_elems.simps) (simp add: parse_value_skip [of s t])

lemma stops_blank: "blank w \<Longrightarrow> stops (w @ closing # rest) \<longleftrightarrow> w \<noteq> [] \<or> stops (closing # rest)"
  by (cases w) (auto simp: blank_def stops_def is_ws_def is_digit_def)

text \<open>Text that reads as a value wherever it stands.\<close>

definition reads_as :: "float_tail \<Rightarrow> nat \<Rightarrow> string \<Rightarrow> Value \<Rightarrow> bool" where
  "reads_as ft d t v \<longleftrightarrow>
     (\<forall>rest. stops rest \<longrightarrow> parse_value ft d (t @ rest) = Some (v, rest)) \<and>
     (\<exists>c cs. skip_ws t = c # cs \<and> c \<noteq> CHR '']'' \<and> (\<forall>rest. skip_ws (t @ rest) = c # cs @ rest))"

lemma reads_as_blank: "blank w \<Longrightarrow> reads_as ft d t v \<Longrightarrow> reads_as ft d (w @ t) v"
  using parse_value_skip [OF skip_ws_blank [of w]] by (simp add: reads_as_def skip_ws_blank)

lemma parse_laid_elems:
  assumes "ts \<noteq> []" "list_all2 (reads_as ft d) ts vs" "blank w"
  shows "parse_elems ft d (commas ts @ w @ CHR '']'' # rest) = Some (vs, rest)"
  using assms(1,2)
proof (induction ts arbitrary: vs rule: list_nonempty_induct)
  case (single t)
  then obtain v where v: "vs = [v]" "reads_as ft d t v" by (auto simp: list_all2_Cons1)
  have "stops (w @ CHR '']'' # rest)" using assms(3) by (simp add: stops_blank)
  with v assms(3) show ?case by (simp add: parse_elems.simps reads_as_def skip_ws_blank)
next
  case (cons t ts)
  then obtain v vs' where vs: "vs = v # vs'" "reads_as ft d t v" "list_all2 (reads_as ft d) ts vs'"
    by (auto simp: list_all2_Cons1)
  obtain u us where ts: "ts = u # us" using cons.hyps by (cases ts) auto
  let ?more = "commas ts @ w @ CHR '']'' # rest"
  have whole: "commas (t # ts) @ w @ CHR '']'' # rest = t @ CHR '','' # ?more" by (simp add: ts)
  obtain v2 where "reads_as ft d u v2" using vs(3) ts by (auto simp: list_all2_Cons1)
  then obtain c cs where head: "skip_ws ?more = c # cs" "c \<noteq> CHR '']''"
    unfolding reads_as_def ts by (cases us) auto
  have "parse_elems ft d (c # cs) = parse_elems ft d ?more" by (rule parse_elems_skip) (metis head(1) skip_ws_twice)
  with cons.IH [OF vs(3)] vs(2) head show ?case
    unfolding whole vs(1) by (subst parse_elems.simps) (simp add: reads_as_def)
qed

definition entry_as :: "float_tail \<Rightarrow> nat \<Rightarrow> string \<Rightarrow> string \<times> Value \<Rightarrow> bool" where
  "entry_as ft d t kv \<longleftrightarrow>
     (\<exists>w t'. blank w \<and> t = w @ print_str (fst kv) @ CHR '':'' # t' \<and> reads_as ft d t' (snd kv))"

lemma entry_as_blank: "blank w \<Longrightarrow> entry_as ft d t kv \<Longrightarrow> entry_as ft d (w @ t) kv"
proof -
  assume "blank w" "entry_as ft d t kv"
  then obtain w' t' where "blank w'" "t = w' @ print_str (fst kv) @ CHR '':'' # t'" "reads_as ft d t' (snd kv)"
    by (auto simp: entry_as_def)
  with \<open>blank w\<close> show ?thesis
    unfolding entry_as_def by (intro exI [of _ "w @ w'"] exI [of _ t']) (simp add: blank_def)
qed

lemma parse_laid_entries:
  assumes "ts \<noteq> []" "list_all2 (entry_as ft d) ts kvs" "blank w"
  shows "parse_entries ft d (skip_ws (commas ts @ w @ CHR ''}'' # rest)) = Some (kvs, rest)"
  using assms(1,2)
proof (induction ts arbitrary: kvs rule: list_nonempty_induct)
  case (single t)
  then obtain k v w1 t' where kv: "kvs = [(k, v)]" "t = w1 @ print_str k @ CHR '':'' # t'" "blank w1" "reads_as ft d t' v"
    by (auto simp: list_all2_Cons1 entry_as_def)
  have "stops (w @ CHR ''}'' # rest)" using assms(3) by (simp add: stops_blank)
  with kv assms(3) show ?case
    using parse_printed_str [of k "CHR '':'' # t' @ w @ CHR ''}'' # rest"]
    by (simp add: parse_entries.simps reads_as_def skip_ws_blank print_str_def)
next
  case (cons t ts)
  then obtain k v kvs' where es: "kvs = (k, v) # kvs'" "entry_as ft d t (k, v)" "list_all2 (entry_as ft d) ts kvs'"
    by (auto simp: list_all2_Cons1)
  then obtain w1 t' where t: "t = w1 @ print_str k @ CHR '':'' # t'" "blank w1" "reads_as ft d t' v"
    by (auto simp: entry_as_def)
  obtain u us where ts: "ts = u # us" using cons.hyps by (cases ts) auto
  let ?more = "commas ts @ w @ CHR ''}'' # rest"
  have whole: "commas (t # ts) @ w @ CHR ''}'' # rest = w1 @ print_str k @ CHR '':'' # t' @ CHR '','' # ?more"
    by (simp add: ts t(1))
  obtain kv2 where "entry_as ft d u kv2" using es(3) ts by (auto simp: list_all2_Cons1)
  then obtain cs where head: "skip_ws ?more = CHR 0x22 # cs"
    unfolding entry_as_def ts by (cases us) (auto simp: skip_ws_blank print_str_def)
  with cons.IH [OF es(3)] t(2,3) show ?case
    using parse_printed_str [of k "CHR '':'' # t' @ CHR '','' # ?more"]
    unfolding whole es(1) by (simp add: parse_entries.simps [of ft d "CHR 0x22 # _"] reads_as_def skip_ws_blank print_str_def)
qed

section \<open>What is written is read back\<close>

lemma list_all2_print:
  "(\<And>x. x \<in> set xs \<Longrightarrow> P (f x) x) \<Longrightarrow> list_all2 P (map f xs) xs"
  by (simp add: list_all2_map1 list_all2_same)

lemma scalar_reads_as:
  assumes "integral v" "nesting v < d"
  shows "reads_as ft d (print_value fmt v) v"
  using parse_printed_value [OF assms] printed_head [OF assms(1), of fmt]
  by (auto simp: reads_as_def skip_ws_def)

lemma commas_head: "\<exists>y. commas (t # ts) @ x = t @ y"
  by (cases ts) auto

lemma array_reads_as:
  assumes "list_all2 (reads_as ft (d - 1)) ts vs" "1 < d"
  shows "reads_as ft d (bracketed CHR ''['' CHR '']'' i ts) (JArr vs)"
proof (cases ts)
  case Nil
  with assms show ?thesis
    by (simp add: reads_as_def bracketed_def parse_value.simps skip_ws_def is_ws_def is_digit_def)
next
  case (Cons t us)
  let ?ts = "map (\<lambda>p. line_start (Suc i) @ p) ts"
  let ?text = "\<lambda>rest. commas ?ts @ line_start i @ CHR '']'' # rest"
  have "list_all2 (reads_as ft (d - 1)) ?ts vs"
    unfolding list_all2_map1 by (rule list_all2_mono [OF assms(1)]) (simp add: reads_as_blank)
  then have elems: "parse_elems ft (d - 1) (?text rest) = Some (vs, rest)" for rest
    using Cons by (intro parse_laid_elems) simp_all
  obtain v where t: "reads_as ft (d - 1) t v" using assms(1) Cons by (auto simp: list_all2_Cons1)
  have head: "\<exists>c cs. skip_ws (?text rest) = c # cs \<and> c \<noteq> CHR '']''" for rest
  proof -
    obtain y where "?text rest = line_start (Suc i) @ t @ y"
      using commas_head [of "line_start (Suc i) @ t"] Cons by (metis append_assoc list.simps(9))
    with t show ?thesis by (auto simp: reads_as_def skip_ws_blank)
  qed
  have "parse_value ft d (CHR ''['' # ?text rest) = Some (JArr vs, rest)" for rest
  proof -
    obtain c cs where cs: "skip_ws (?text rest) = c # cs" "c \<noteq> CHR '']''" using head by blast
    then have "parse_elems ft (d - 1) (c # cs) = Some (vs, rest)"
      using elems [of rest] parse_elems_skip [of "c # cs" "?text rest"] by (metis skip_ws_twice)
    with cs assms(2) show ?thesis
      by (subst parse_value.simps) (simp add: skip_ws_other is_ws_def is_digit_def)
  qed
  with Cons show ?thesis by (simp add: reads_as_def bracketed_def skip_ws_other is_ws_def)
qed

lemma object_reads_as:
  assumes "list_all2 (entry_as ft (d - 1)) ts kvs" "1 < d"
  shows "reads_as ft d (bracketed CHR ''{'' CHR ''}'' i ts) (JObj kvs)"
proof (cases ts)
  case Nil
  with assms show ?thesis
    by (simp add: reads_as_def bracketed_def parse_value.simps skip_ws_def is_ws_def is_digit_def)
next
  case (Cons t us)
  let ?ts = "map (\<lambda>p. line_start (Suc i) @ p) ts"
  let ?text = "\<lambda>rest. commas ?ts @ line_start i @ CHR ''}'' # rest"
  have "list_all2 (entry_as ft (d - 1)) ?ts kvs"
    unfolding list_all2_map1 by (rule list_all2_mono [OF assms(1)]) (rule entry_as_blank, simp_all)
  then have entries: "parse_entries ft (d - 1) (skip_ws (?text rest)) = Some (kvs, rest)" for rest
    using Cons by (intro parse_laid_entries) simp_all
  obtain kv where t: "entry_as ft (d - 1) t kv" using assms(1) Cons by (auto simp: list_all2_Cons1)
  have head: "\<exists>cs. skip_ws (?text rest) = CHR 0x22 # cs" for rest
  proof -
    obtain y where "?text rest = line_start (Suc i) @ t @ y"
      using commas_head [of "line_start (Suc i) @ t"] Cons by (metis append_assoc list.simps(9))
    with t show ?thesis by (auto simp: entry_as_def skip_ws_blank print_str_def)
  qed
  have "parse_value ft d (CHR ''{'' # ?text rest) = Some (JObj kvs, rest)" for rest
    using head [of rest] entries [of rest] assms(2)
    by (subst parse_value.simps) (auto simp: skip_ws_other is_ws_def is_digit_def)
  with Cons show ?thesis by (simp add: reads_as_def bracketed_def skip_ws_other is_ws_def)
qed

lemma pretty_reads_as: "integral v \<Longrightarrow> nesting v < d \<Longrightarrow> reads_as ft d (print_pretty fmt i v) v"
proof (induction v arbitrary: d i)
  case (JArr vs)
  then show ?case
    by (auto simp: nesting_less list_all_iff simp del: nesting.simps intro!: array_reads_as list_all2_print)
next
  case (JObj kvs)
  have "entry_as ft (d - 1) (print_str k @ '': '' @ print_pretty fmt (Suc i) v) (k, v)" if "(k, v) \<in> set kvs" for k v
  proof -
    have "integral v" "nesting v < d - 1"
      using JObj.prems that by (auto simp: nesting_less list_all_iff simp del: nesting.simps)
    with JObj.IH that have "reads_as ft (d - 1) (print_pretty fmt (Suc i) v) v" by fastforce
    from reads_as_blank [OF blank_simps(3) this] show ?thesis
      unfolding entry_as_def by (intro exI [of _ "[]"] exI [of _ "'' '' @ _"]) simp
  qed
  then have "list_all2 (entry_as ft (d - 1)) (map (\<lambda>(k, v). print_str k @ '': '' @ print_pretty fmt (Suc i) v) kvs) kvs"
    by (intro list_all2_print) auto
  with JObj.prems show ?case by (auto simp: nesting_less simp del: nesting.simps intro!: object_reads_as)
qed (use scalar_reads_as in \<open>simp_all only: print_pretty.simps\<close>)

lemma from_str_pretty:
  assumes "integral v" "nesting v < 128"
  shows "from_str ft (to_string_pretty fmt v) = Some v"
proof -
  have "parse_value ft 128 (print_pretty fmt 0 v @ []) = Some (v, [])"
    using pretty_reads_as [OF assms, of ft fmt 0] unfolding reads_as_def by (metis stops_simps(1))
  then show ?thesis by (simp add: from_str_def to_string_pretty_def)
qed

text \<open>C22: JSON text is read back as the tree it was written from, exactly as far as the reader goes. A tree whose
  numbers are integers, with any strings in it, escapes and multi-byte characters included, and any repeated keys,
  is read back from its text, in the compact and in the indented form, as itself if and only if it is nested less
  than 128 deep; whatever a text holds, no deeper tree comes out of it.\<close>

theorem json_text_round_trip:
  "(integral v \<longrightarrow>
     (from_str ft (print_value fmt v) = Some v \<longleftrightarrow> nesting v < 128) \<and>
     (from_str ft (to_string_pretty fmt v) = Some v \<longleftrightarrow> nesting v < 128)) \<and>
   (from_str ft t = Some w \<longrightarrow> nesting w < 128)"
  using from_str_printed from_str_pretty from_str_nesting by blast

theorem json_text_round_trip_witness:
  "from_str (\<lambda>_ _ _. None) (to_string_pretty (\<lambda>_. []) (JObj [(''a'', JArr [JNum (PosInt 7), JStr [CHR 0x0A]])])) =
     Some (JObj [(''a'', JArr [JNum (PosInt 7), JStr [CHR 0x0A]])])"
  using json_text_round_trip [of "JObj [(''a'', JArr [JNum (PosInt 7), JStr [CHR 0x0A]])]"] by simp

end
