(* ===== verification/Vectors.thy ===== *)
theory Vectors
  imports JsonPretty "HOL-Library.Sublist"
begin

text \<open>
  The two programs that produce the test vectors from the specifications, \<^verbatim>\<open>examples/generate_nnc_vectors.rs\<close> and
  \<^verbatim>\<open>examples/generate_nwc_vectors.rs\<close>: splitting a document at its headings, finding the fenced block a label
  introduces, turning it from jsonc into JSON, and collecting the entries. Files and their contents are arguments;
  reading JSON text is an argument too, \<open>parse\<close>, so that the reader of \<open>JsonText\<close> can be put in its place. The
  second program panics on a labelled block that is not JSON; there \<^const>\<open>None\<close> outermost is a panic. Objects
  list their entries in the order the programs insert them, which carries no meaning.

  Text is UTF-8 bytes. The characters the programs look for are ASCII and so are never part of another one.
\<close>

section \<open>What the standard library does with strings\<close>

text \<open>\<open>s.split_once(pat)\<close> for a string pattern.\<close>

fun split_once_str :: "string \<Rightarrow> string \<Rightarrow> (string \<times> string) option" where
  "split_once_str pat [] = (if pat = [] then Some ([], []) else None)"
| "split_once_str pat (c # cs) =
     (case strip_prefix pat (c # cs) of
        Some rest \<Rightarrow> Some ([], rest)
      | None \<Rightarrow> map_option (\<lambda>(a, b). (c # a, b)) (split_once_str pat cs))"

lemma split_once_str_Some: "split_once_str pat s = Some (a, b) \<Longrightarrow> s = a @ pat @ b"
  by (induction pat s arbitrary: a rule: split_once_str.induct)
    (auto simp: strip_prefix_Some split: if_splits option.splits)

text \<open>\<open>s.split(pat)\<close>; the programs' patterns are never empty.\<close>

function split_str :: "string \<Rightarrow> string \<Rightarrow> string list" where
  "split_str pat s =
     (if pat = [] then [s]
      else
        (case split_once_str pat s of
           None \<Rightarrow> [s]
         | Some (a, b) \<Rightarrow> a # split_str pat b))"
  by pat_completeness auto
termination
  by (relation "measure (\<lambda>(pat, s). length s)") (auto dest!: split_once_str_Some)

declare split_str.simps [simp del]

definition second :: "'a list \<Rightarrow> 'a option" where
  "second xs = (case xs of _ # x # _ \<Rightarrow> Some x | _ \<Rightarrow> None)"

text \<open>\<open>s.lines()\<close>, \<open>join("\n")\<close>, \<open>s.replace(a, b)\<close>.\<close>

definition newline :: char where
  "newline = CHR 0x0A"

definition strip_cr :: "string \<Rightarrow> string" where
  "strip_cr l = (if l \<noteq> [] \<and> last l = CHR 0x0D then butlast l else l)"

definition str_lines :: "string \<Rightarrow> string list" where
  "str_lines s =
     (let parts = split_on newline s
      in map strip_cr (butlast parts) @ (if last parts = [] then [] else [last parts]))"

fun join_with :: "string \<Rightarrow> string list \<Rightarrow> string" where
  "join_with sep [] = []"
| "join_with sep [x] = x"
| "join_with sep (x # xs) = x @ sep @ join_with sep xs"

definition replace_str :: "string \<Rightarrow> string \<Rightarrow> string \<Rightarrow> string" where
  "replace_str pat by_what s = join_with by_what (split_str pat s)"

text \<open>\<open>char::is_whitespace\<close>, by the encodings of the characters it holds for, and \<open>trim\<close>.\<close>

definition whites :: "string list" where
  "whites =
     [[CHR 0x09], [CHR 0x0A], [CHR 0x0B], [CHR 0x0C], [CHR 0x0D], [CHR 0x20], [CHR 0xC2, CHR 0x85],
      [CHR 0xC2, CHR 0xA0], [CHR 0xE1, CHR 0x9A, CHR 0x80], [CHR 0xE2, CHR 0x80, CHR 0xA8],
      [CHR 0xE2, CHR 0x80, CHR 0xA9], [CHR 0xE2, CHR 0x80, CHR 0xAF], [CHR 0xE2, CHR 0x81, CHR 0x9F],
      [CHR 0xE3, CHR 0x80, CHR 0x80], [CHR 0xE2, CHR 0x80, CHR 0x80], [CHR 0xE2, CHR 0x80, CHR 0x81],
      [CHR 0xE2, CHR 0x80, CHR 0x82], [CHR 0xE2, CHR 0x80, CHR 0x83], [CHR 0xE2, CHR 0x80, CHR 0x84],
      [CHR 0xE2, CHR 0x80, CHR 0x85], [CHR 0xE2, CHR 0x80, CHR 0x86], [CHR 0xE2, CHR 0x80, CHR 0x87],
      [CHR 0xE2, CHR 0x80, CHR 0x88], [CHR 0xE2, CHR 0x80, CHR 0x89], [CHR 0xE2, CHR 0x80, CHR 0x8A]]"

function skip_any :: "string list \<Rightarrow> string \<Rightarrow> string" where
  "skip_any ws s =
     (case find (\<lambda>w. w \<noteq> [] \<and> strip_prefix w s \<noteq> None) ws of
        None \<Rightarrow> s
      | Some w \<Rightarrow> skip_any ws (drop (length w) s))"
  by pat_completeness auto
termination
  by (relation "measure (\<lambda>(ws, s). length s)") (auto simp: find_Some_iff strip_prefix_Some)

declare skip_any.simps [simp del]

definition skip_white :: "string \<Rightarrow> string" where
  "skip_white s = skip_any whites s"

definition trim :: "string \<Rightarrow> string" where
  "trim s = rev (skip_any (map rev whites) (rev (skip_white s)))"

section \<open>From jsonc to JSON\<close>

text \<open>A comment is cut off unless an odd number of quotes stands before it.\<close>

definition strip_comment :: "string \<Rightarrow> string" where
  "strip_comment l =
     (case split_once_str ''//'' l of
        Some (before, _) \<Rightarrow> if even (count_list before CHR 0x22) then before else l
      | None \<Rightarrow> l)"

definition uncomment :: "string \<Rightarrow> string" where
  "uncomment inner = join_with [newline] (map strip_comment (str_lines inner))"

definition closes :: "string \<Rightarrow> bool" where
  "closes s = (case skip_white s of c # _ \<Rightarrow> c = CHR ''}'' \<or> c = CHR '']'' | [] \<Rightarrow> False)"

fun nwc_trailing_commas :: "string \<Rightarrow> string" where
  "nwc_trailing_commas [] = []"
| "nwc_trailing_commas (c # cs) =
     (if c = CHR '','' \<and> closes cs then nwc_trailing_commas cs else c # nwc_trailing_commas cs)"

text \<open>The first program makes a pass before that one, in which it keeps the index of the last comma in \<open>pending\<close>.\<close>

definition first_pass :: "char \<Rightarrow> nat option \<times> nat \<times> string \<Rightarrow> nat option \<times> nat \<times> string" where
  "first_pass c st =
     (case st of (pending, i, out) \<Rightarrow>
        (if c = CHR '','' then Some i else if skip_white [c] = [] then pending else None, i + 1, out @ [c]))"

definition nnc_trailing_commas :: "string \<Rightarrow> string" where
  "nnc_trailing_commas s = nwc_trailing_commas (snd (snd (fold first_pass s (None, 0, []))))"

section \<open>The first program\<close>

text \<open>\<open>sections\<close>: the name is up to the closing backtick, which begins the body.\<close>

definition nnc_sections :: "string \<Rightarrow> string \<Rightarrow> (string \<times> string) list" where
  "nnc_sections doc marker =
     List.map_filter (\<lambda>chunk. map_option (\<lambda>(name, rest). (name, CHR 0x60 # rest)) (split_once CHR 0x60 chunk))
       (tl (split_str marker doc))"

definition nnc_labelled_block :: "(string \<Rightarrow> Value option) \<Rightarrow> string \<Rightarrow> string \<Rightarrow> Value option" where
  "nnc_labelled_block parse body label =
     do {
       after \<leftarrow> second (split_str label body);
       fenced \<leftarrow> second (split_str ''```'' after);
       inner \<leftarrow> (case strip_prefix ''jsonc'' fenced of Some x \<Rightarrow> Some x | None \<Rightarrow> strip_prefix ''json'' fenced);
       parse (nnc_trailing_commas
         (replace_str [CHR '','', newline, CHR '']''] [newline, CHR '']'']
           (replace_str [CHR '','', newline, CHR ''}''] [newline, CHR ''}''] (uncomment inner))))
     }"

definition some_entry :: "string \<Rightarrow> Value option \<Rightarrow> (string \<times> Value) list" where
  "some_entry k v = (case v of None \<Rightarrow> [] | Some j \<Rightarrow> [(k, j)])"

definition nnc_method_vector :: "(string \<Rightarrow> Value option) \<Rightarrow> string \<times> string \<Rightarrow> Value option" where
  "nnc_method_vector parse section =
     (case section of (name, body) \<Rightarrow>
        let request = nnc_labelled_block parse body ''Request:'';
            response = nnc_labelled_block parse body ''Response:''
        in if request \<noteq> None \<or> response \<noteq> None
           then Some (JObj ([(''name'', JStr name), (''kind'', JStr ''method'')] @
             some_entry ''request'' request @ some_entry ''response'' response))
           else None)"

definition nnc_notification_vector :: "(string \<Rightarrow> Value option) \<Rightarrow> string \<times> string \<Rightarrow> Value option" where
  "nnc_notification_vector parse section =
     (case section of (name, body) \<Rightarrow>
        if strip_prefix ''channel_'' name = None then None
        else map_option (\<lambda>j. JObj [(''name'', JStr name), (''kind'', JStr ''notification''), (''notification'', j)])
          (nnc_labelled_block parse body ''Notification:''))"

definition nnc_vectors :: "(string \<Rightarrow> Value option) \<Rightarrow> string \<Rightarrow> string \<Rightarrow> Value" where
  "nnc_vectors parse path doc =
     JObj [(''note'', JStr (''Generated from XX.md by examples/generate_nnc_vectors.rs. '' @
         ''Each entry is JSON the specification itself shows.'')),
       (''source'', JStr path),
       (''vectors'', JArr (
          List.map_filter (nnc_method_vector parse) (nnc_sections doc (''#### '' @ [CHR 0x60])) @
          List.map_filter (nnc_notification_vector parse) (nnc_sections doc (''### '' @ [CHR 0x60]))))]"

text \<open>\<open>main\<close>: the arguments after the program's name; without one, or without the file, nothing is printed.\<close>

definition nnc_main ::
  "(string \<Rightarrow> Value option) \<Rightarrow> (f64 \<Rightarrow> string) \<Rightarrow> (string \<Rightarrow> string option) \<Rightarrow> string list \<Rightarrow> string option" where
  "nnc_main parse fmt read_file args =
     (case args of
        [] \<Rightarrow> None
      | path # _ \<Rightarrow>
          map_option (\<lambda>doc. to_string_pretty fmt (nnc_vectors parse path doc) @ [newline]) (read_file path))"

section \<open>The second program\<close>

definition heading :: "string \<Rightarrow> string option" where
  "heading line =
     (let rest = (case strip_prefix (''### '' @ [CHR 0x60]) line of
                    Some r \<Rightarrow> Some r | None \<Rightarrow> strip_prefix (''## '' @ [CHR 0x60]) line)
      in case rest of
           None \<Rightarrow> None
         | Some r \<Rightarrow> let name = takeWhile (\<lambda>c. c \<noteq> CHR 0x60) r in if name \<noteq> [] then Some name else None)"

fun gather :: "(string \<times> string) list \<Rightarrow> (string \<times> string) option \<Rightarrow> string list \<Rightarrow> (string \<times> string) list" where
  "gather out current [] = (case current of Some done \<Rightarrow> out @ [done] | None \<Rightarrow> out)"
| "gather out current (line # lines) =
     (case heading line of
        Some name \<Rightarrow>
          gather (case current of Some done \<Rightarrow> out @ [done] | None \<Rightarrow> out) (Some (name, [])) lines
      | None \<Rightarrow> gather out (map_option (\<lambda>(n, body). (n, body @ line @ [newline])) current) lines)"

definition nwc_sections :: "string \<Rightarrow> (string \<times> string) list" where
  "nwc_sections doc = gather [] None (str_lines doc)"

text \<open>The label introduces the first line that begins with it, less its colon, and ends in one.\<close>

definition introduces :: "string \<Rightarrow> string \<Rightarrow> bool" where
  "introduces label line \<longleftrightarrow>
     (let l = trim line in strip_prefix label l \<noteq> None \<and> l \<noteq> [] \<and> last l = CHR '':'')"

definition trim_colons :: "string \<Rightarrow> string" where
  "trim_colons label = rev (dropWhile (\<lambda>c. c = CHR '':'') (rev label))"

definition nwc_labelled_block :: "(string \<Rightarrow> Value option) \<Rightarrow> string \<Rightarrow> string \<Rightarrow> Value option option" where
  "nwc_labelled_block parse body label =
     (case dropWhile (\<lambda>l. \<not> introduces (trim_colons label) l) (str_lines body) of
        [] \<Rightarrow> Some None
      | _ # after \<Rightarrow>
          (case do {
              fenced \<leftarrow> second (split_str ''```'' (join_with [newline] after));
              find_first \<leftarrow> find (\<lambda>tag. strip_prefix tag fenced \<noteq> None) [''yaml'', ''jsonc'', ''json''];
              strip_prefix find_first fenced
            } of
             None \<Rightarrow> Some None
           | Some inner \<Rightarrow>
               (case parse (nwc_trailing_commas
                   (replace_str ''blocknumber'' ''0'' (replace_str ''unixtimestamp'' ''0'' (uncomment inner)))) of
                  Some v \<Rightarrow> Some (Some v)
                | None \<Rightarrow> None)))"

definition nwc_vector :: "(string \<Rightarrow> Value option) \<Rightarrow> string \<Rightarrow> string \<times> string \<Rightarrow> Value option option" where
  "nwc_vector parse path section =
     (case section of (name, body) \<Rightarrow>
        do {
          request \<leftarrow> nwc_labelled_block parse body ''Request:'';
          response \<leftarrow> nwc_labelled_block parse body ''Response:'';
          notification \<leftarrow> nwc_labelled_block parse body ''Notification:'';
          Some (if request \<noteq> None \<or> response \<noteq> None \<or> notification \<noteq> None
            then Some (JObj ([(''name'', JStr name), (''source'', JStr path)] @ some_entry ''request'' request @
              some_entry ''response'' response @ some_entry ''notification'' notification @
              [(''kind'', JStr (if notification \<noteq> None then ''notification'' else ''method''))]))
            else None)
        })"

definition nwc_vectors :: "(string \<Rightarrow> Value option) \<Rightarrow> (string \<times> string) list \<Rightarrow> Value option" where
  "nwc_vectors parse files =
     map_option
       (\<lambda>vs. JObj [
          (''note'', JStr (''Generated from the NWC specifications by examples/generate_nwc_vectors.rs. '' @
             ''Each entry is JSON a specification itself shows, except that the bare token '' @ [CHR 0x60] @
             ''unixtimestamp'' @ [CHR 0x60] @ '' is substituted with 0 because it is a placeholder rather than a value.'')),
          (''sources'', JArr (map (JStr \<circ> fst) files)),
          (''vectors'', JArr (List.map_filter id vs))])
       (those (concat (map (\<lambda>(path, doc). map (nwc_vector parse path) (nwc_sections doc)) files)))"

definition nwc_main ::
  "(string \<Rightarrow> Value option) \<Rightarrow> (f64 \<Rightarrow> string) \<Rightarrow> (string \<Rightarrow> string option) \<Rightarrow> string list \<Rightarrow> string option" where
  "nwc_main parse fmt read_file paths =
     (if paths = [] then None
      else
        do {
          files \<leftarrow> those (map (\<lambda>path. map_option (Pair path) (read_file path)) paths);
          doc_out \<leftarrow> nwc_vectors parse files;
          Some (to_string_pretty fmt doc_out @ [newline])
        })"

section \<open>The two programs' repairs are the same\<close>

lemma first_pass_copies: "snd (snd (fold first_pass s (pending, i, out))) = out @ s"
  by (induction s arbitrary: pending i out) (simp_all add: first_pass_def)

text \<open>The two generators repair a block in the same way: what the first keeps in its first pass is never used.\<close>

lemma generators_agree: "nnc_trailing_commas s = nwc_trailing_commas s"
  by (simp add: nnc_trailing_commas_def first_pass_copies)

section \<open>Sections\<close>

text \<open>What the sections of a list of lines are: under every heading, the lines up to the next one.\<close>

definition unlines :: "string list \<Rightarrow> string" where
  "unlines ls = concat (map (\<lambda>l. l @ [newline]) ls)"

definition under :: "string list \<Rightarrow> string" where
  "under lines = unlines (takeWhile (\<lambda>l. heading l = None) lines)"

fun headed :: "string list \<Rightarrow> (string \<times> string) list" where
  "headed [] = []"
| "headed (l # ls) = (case heading l of None \<Rightarrow> headed ls | Some name \<Rightarrow> (name, under ls) # headed ls)"

lemma gather_headed:
  "gather out current ls =
     out @ (case current of None \<Rightarrow> [] | Some (n, body) \<Rightarrow> [(n, body @ under ls)]) @ headed ls"
  by (induction ls arbitrary: out current) (auto simp: under_def unlines_def split: option.splits)

text \<open>The second generator takes every section once. Its sections are the headings of the document in their
  order, each with exactly the lines between it and the next.\<close>

lemma sections_complete: "nwc_sections doc = headed (str_lines doc)"
  by (simp add: nwc_sections_def gather_headed)

section \<open>A block is read as what it shows\<close>

text \<open>Text without the pattern is one piece.\<close>

lemma split_once_str_None: "split_once_str pat s = None \<longleftrightarrow> \<not> sublist pat s"
proof (induction pat s rule: split_once_str.induct)
  case (2 pat c cs)
  have "sublist pat (c # cs) \<longleftrightarrow> (\<exists>r. strip_prefix pat (c # cs) = Some r) \<or> sublist pat cs"
    by (auto simp: sublist_Cons_right prefix_def strip_prefix_Some)
  with 2 show ?case by (auto split: option.splits)
qed simp

lemma split_str_absent: "\<not> sublist pat s \<Longrightarrow> split_str pat s = [s]"
  by (subst split_str.simps) (simp add: split_once_str_None [symmetric])

lemma replace_str_absent: "\<not> sublist pat s \<Longrightarrow> replace_str pat w s = s"
  by (simp add: replace_str_def split_str_absent)

lemma split_once_str_first:
  assumes "pat \<noteq> []" "\<not> sublist pat (a @ butlast pat)"
  shows "split_once_str pat (a @ pat @ b) = Some (a, b)"
  using assms(2)
proof (induction a)
  case Nil
  from assms(1) obtain p ps where "pat = p # ps" by (cases pat) auto
  then show ?case using strip_prefix_append [of pat b] by simp
next
  case (Cons c a)
  have "strip_prefix pat (c # a @ pat @ b) = None"
  proof (rule ccontr)
    assume "strip_prefix pat (c # a @ pat @ b) \<noteq> None"
    then obtain r where "(c # a) @ pat @ b = pat @ r" by (auto simp: strip_prefix_Some)
    moreover have "pat @ b = butlast pat @ [last pat] @ b"
      using append_butlast_last_id [OF assms(1)] by (metis append_assoc)
    ultimately have "(c # a @ butlast pat) @ [last pat] @ b = pat @ r" by simp
    moreover have "length pat \<le> length (c # a @ butlast pat)" using assms(1) by simp
    ultimately have "take (length pat) (c # a @ butlast pat) = pat"
      by (metis append_eq_conv_conj take_append diff_is_0_eq take_0 append_Nil2)
    then have "sublist pat (c # a @ butlast pat)" by (metis sublist_take)
    with Cons.prems show False by simp
  qed
  with Cons show ?case by (simp add: sublist_Cons_right)
qed

lemma second_piece:
  assumes "pat \<noteq> []" "\<not> sublist pat (a @ butlast pat)" "split_once_str pat b = Some (x, y) \<or> b = x \<and> \<not> sublist pat b"
  shows "second (split_str pat (a @ pat @ b)) = Some x"
  using assms split_once_str_first [OF assms(1,2), of b]
  by (subst split_str.simps, subst split_str.simps) (auto simp: second_def split_once_str_None [symmetric])

text \<open>The closing of a block, for a one-line text between two line ends.\<close>

lemma uncomment_line:
  assumes "newline \<notin> set p" "CHR 0x0D \<notin> set p"
  shows "uncomment (newline # p @ [newline]) = newline # strip_comment p"
proof -
  have "split_on newline (newline # p @ [newline]) = [[], p, []]"
    using split_on_append [OF assms(1), of "[]"] by simp
  moreover have "strip_cr p = p" using assms(2) last_in_set [of p] by (metis strip_cr_def)
  moreover have "strip_comment [] = []" by (simp add: strip_comment_def)
  ultimately show ?thesis by (simp add: uncomment_def str_lines_def Let_def strip_cr_def)
qed

text \<open>Two readings of printed text. In the first, slashes stand only after an odd number of quotes; in the second, a
  comma is followed by something that is neither blank nor a closing bracket before the next closing bracket.\<close>

fun slashes_quoted :: "bool \<Rightarrow> string \<Rightarrow> bool" where
  "slashes_quoted inside [] = True"
| "slashes_quoted inside (c # cs) =
     (if c = CHR 0x22 then slashes_quoted (\<not> inside) cs else (c = CHR ''/'' \<longrightarrow> inside) \<and> slashes_quoted inside cs)"

definition blank_byte :: "char \<Rightarrow> bool" where
  "blank_byte c \<longleftrightarrow> c \<in> \<Union> (set ` set whites)"

definition closer :: "char \<Rightarrow> bool" where
  "closer c \<longleftrightarrow> c = CHR ''}'' \<or> c = CHR '']''"

definition after_comma :: "bool \<Rightarrow> char \<Rightarrow> bool" where
  "after_comma armed c \<longleftrightarrow> c = CHR '','' \<or> armed \<and> blank_byte c"

fun commas_followed :: "bool \<Rightarrow> string \<Rightarrow> bool" where
  "commas_followed armed [] = True"
| "commas_followed armed (c # cs) = (\<not> (armed \<and> closer c) \<and> commas_followed (after_comma armed c) cs)"

lemma slashes_quoted_append:
  "slashes_quoted i (a @ b) \<longleftrightarrow> slashes_quoted i a \<and> slashes_quoted (i = even (count_list a CHR 0x22)) b"
proof (induction a arbitrary: i)
  case (Cons c a)
  show ?case by (cases i; cases "c = CHR 0x22") (simp_all add: Cons.IH)
qed simp

lemma strip_comment_quoted:
  assumes "slashes_quoted False p"
  shows "strip_comment p = p"
proof (cases "split_once_str ''//'' p")
  case (Some ab)
  obtain a b where ab: "ab = (a, b)" by (cases ab)
  with Some have "p = a @ CHR ''/'' # CHR ''/'' # b" by (auto dest: split_once_str_Some)
  with assms have "odd (count_list a CHR 0x22)" by (simp add: slashes_quoted_append)
  with Some ab show ?thesis by (simp add: strip_comment_def)
qed (simp add: strip_comment_def)

lemma commas_followed_append:
  "commas_followed m (a @ b) \<longleftrightarrow> commas_followed m a \<and> commas_followed (foldl after_comma m a) b"
  by (induction a arbitrary: m) auto

lemma skip_any_cases: "skip_any ws s = s \<or> (\<exists>w \<in> set ws. \<exists>r. w \<noteq> [] \<and> s = w @ r \<and> skip_any ws s = skip_any ws r)"
proof (cases "find (\<lambda>w. w \<noteq> [] \<and> strip_prefix w s \<noteq> None) ws")
  case (Some w)
  then obtain r where "w \<in> set ws" "w \<noteq> []" "s = w @ r" by (auto simp: find_Some_iff strip_prefix_Some)
  with Some show ?thesis by (subst (2) skip_any.simps) auto
qed (subst skip_any.simps, simp)

lemma commas_followed_blank:
  "set w \<subseteq> Collect blank_byte \<Longrightarrow> commas_followed True (w @ r) \<Longrightarrow> commas_followed True r"
  by (induction w) (auto simp: after_comma_def)

lemma commas_followed_open: "commas_followed True cs \<Longrightarrow> \<not> closes cs"
proof (induction cs rule: measure_induct_rule [of length])
  case (less cs)
  show ?case
  proof (cases "skip_white cs = cs")
    case True
    with less.prems show ?thesis by (cases cs) (auto simp: closes_def closer_def)
  next
    case False
    then obtain w r where w: "w \<in> set whites" "w \<noteq> []" "cs = w @ r" "skip_white cs = skip_white r"
      using skip_any_cases [of whites cs] by (auto simp: skip_white_def)
    have "set w \<subseteq> Collect blank_byte" using w(1) by (auto simp only: blank_byte_def)
    then have "commas_followed True r" using less.prems w(3) by (auto intro: commas_followed_blank)
    with less.IH [of r] w show ?thesis by (simp add: closes_def)
  qed
qed

lemma trailing_commas_followed: "commas_followed m p \<Longrightarrow> nwc_trailing_commas p = p"
  by (induction p arbitrary: m) (auto simp: after_comma_def dest: commas_followed_open)

text \<open>Strings the repairs leave alone: no quote, no backtick, and not both a comma and a closing bracket.\<close>

definition plain_str :: "string \<Rightarrow> bool" where
  "plain_str s \<longleftrightarrow> CHR 0x22 \<notin> set s \<and> CHR 0x60 \<notin> set s \<and> (CHR '','' \<notin> set s \<or> \<not> list_ex closer s)"

fun plain :: "Value \<Rightarrow> bool" where
  "plain (JStr s) = plain_str s"
| "plain (JArr vs) = list_all plain vs"
| "plain (JObj kvs) = list_all (\<lambda>(k, v). plain_str k \<and> plain v) kvs"
| "plain v = True"

definition escape_bytes :: "char set" where
  "escape_bytes = set (CHR 0x5C # ''bfnrtu'' @ hex_chars)"

lemma escape_char_set:
  assumes "x \<in> set (escape_char c)"
  shows "x = c \<and> 32 \<le> (of_char x :: nat) \<or> x \<in> escape_bytes"
proof -
  let ?n = "of_char c :: nat"
  have zero: "CHR ''0'' \<in> set hex_chars" by (simp add: hex_chars_def)
  have quote: "c = CHR 0x22" if "?n = 34" using of_char_eq [OF that] by (simp add: char_of_def bit_Suc_0_iff)
  show ?thesis
  proof (cases "?n \<in> {8, 9, 10, 12, 13, 34, 92}")
    case True
    then have "set (escape_char c) \<subseteq> escape_bytes \<union> {c}"
      by (elim insertE emptyE) (simp_all add: escape_char_def escape_bytes_def quote)
    moreover have "?n \<in> {34, 92} \<or> c \<notin> set (escape_char c)"
      using True by (elim insertE emptyE) (auto simp: escape_char_def)
    ultimately show ?thesis using assms by auto
  next
    case False
    then show ?thesis
    proof (cases "?n < 32")
      case True
      then have "hex_digit (?n div 16) \<in> set hex_chars" "hex_digit (?n mod 16) \<in> set hex_chars"
        by (simp_all add: hex_digit_in_chars)
      with True False zero assms show ?thesis by (auto simp: escape_char_def Let_def escape_bytes_def)
    qed (use False assms in \<open>simp add: escape_char_def Let_def\<close>)
  qed
qed

lemma escaped_plain:
  assumes "plain_str s" "x \<in> set (concat (map escape_char s))"
  shows "x \<noteq> CHR 0x22 \<and> x \<noteq> CHR 0x60 \<and> 32 \<le> (of_char x :: nat) \<and>
    (x = CHR '','' \<longrightarrow> x \<in> set s) \<and> (closer x \<longrightarrow> list_ex closer s)"
proof -
  obtain c where c: "c \<in> set s" "x \<in> set (escape_char c)" using assms(2) by auto
  have bytes: "\<forall>b \<in> escape_bytes. b \<notin> {CHR 0x22, CHR 0x60, CHR '',''} \<and> \<not> closer b \<and> 32 \<le> (of_char b :: nat)"
    by (simp add: escape_bytes_def hex_chars_def closer_def)
  from escape_char_set [OF c(2)] show ?thesis
  proof
    assume "x = c \<and> 32 \<le> (of_char x :: nat)"
    with assms(1) c(1) show ?thesis by (auto simp: plain_str_def list_ex_iff)
  next
    assume "x \<in> escape_bytes"
    with bytes show ?thesis by auto
  qed
qed

lemma slashes_inside: "CHR 0x22 \<notin> set t \<Longrightarrow> slashes_quoted True t"
  by (induction t) auto

lemma commas_alone: "\<not> list_ex closer t \<Longrightarrow> commas_followed m t"
  by (induction t arbitrary: m) auto

lemma closers_alone: "CHR '','' \<notin> set t \<Longrightarrow> commas_followed False t"
  by (induction t) (auto simp: after_comma_def)

lemma blank_byte_code: "blank_byte c \<Longrightarrow> (of_char c :: nat) \<in> {9..13} \<union> {32} \<union> {128..}"
proof -
  have "\<forall>w \<in> set whites. \<forall>b \<in> set w. (of_char b :: nat) \<in> {9..13} \<union> {32} \<union> {128..}"
    by (simp add: whites_def)
  then show "blank_byte c \<Longrightarrow> ?thesis" unfolding blank_byte_def by blast
qed

lemma not_blank [simp]:
  "\<not> blank_byte CHR 0x22" "\<not> blank_byte CHR ''-''" "\<not> blank_byte CHR ''[''" "\<not> blank_byte CHR ''{''"
  "\<not> blank_byte CHR '']''" "\<not> blank_byte CHR ''}''" "\<not> blank_byte CHR '':''"
  "is_digit c \<Longrightarrow> \<not> blank_byte c"
  by (auto dest!: blank_byte_code simp: is_digit_def)

text \<open>A piece of text the repairs leave alone whatever stands around it.\<close>

definition settled :: "string \<Rightarrow> bool" where
  "settled t \<longleftrightarrow> slashes_quoted False t \<and> even (count_list t CHR 0x22) \<and>
     (\<forall>m. commas_followed m t \<and> \<not> foldl after_comma m t) \<and>
     (\<forall>c \<in> set t. c \<noteq> CHR 0x60 \<and> 32 \<le> (of_char c :: nat))"

lemma settled_append: "settled a \<Longrightarrow> settled b \<Longrightarrow> settled (a @ b)"
  by (auto simp: settled_def slashes_quoted_append commas_followed_append)

lemma settled_str:
  assumes "plain_str s"
  shows "settled (print_str s)"
proof -
  let ?t = "concat (map escape_char s)"
  note * = escaped_plain [OF assms]
  have quotes: "CHR 0x22 \<notin> set ?t" using * by blast
  then have "count_list ?t CHR 0x22 = 0" by (rule count_notin)
  moreover have "commas_followed False ?t"
  proof (cases "CHR '','' \<in> set s")
    case True
    with assms have "\<not> list_ex closer s" by (simp add: plain_str_def)
    then have "\<not> list_ex closer ?t" unfolding list_ex_iff using * [unfolded list_ex_iff] by blast
    then show ?thesis by (rule commas_alone)
  next
    case False
    then show ?thesis using * by (intro closers_alone) blast
  qed
  moreover have "\<forall>c \<in> set ?t. c \<noteq> CHR 0x60 \<and> 32 \<le> (of_char c :: nat)" using * by blast
  ultimately show ?thesis
    using slashes_inside [OF quotes]
    by (simp add: settled_def print_str_def slashes_quoted_append commas_followed_append after_comma_def closer_def del: concat.simps)
qed

definition word_char :: "char \<Rightarrow> bool" where
  "word_char c \<longleftrightarrow> is_digit c \<or> c = CHR ''-'' \<or> 97 \<le> (of_char c :: nat) \<and> (of_char c :: nat) \<le> 122"

lemma word_char_cases:
  assumes "word_char c"
  shows "c \<noteq> CHR 0x22" "c \<noteq> CHR ''/''" "c \<noteq> CHR '',''" "\<not> closer c" "\<not> blank_byte c"
    "c \<noteq> CHR 0x60 \<and> 32 \<le> (of_char c :: nat)"
  using assms by (auto simp: word_char_def is_digit_def closer_def dest!: blank_byte_code)

lemma word_run:
  assumes "list_all word_char t"
  shows "slashes_quoted False t \<and> CHR 0x22 \<notin> set t \<and> commas_followed m t \<and> (t \<noteq> [] \<or> \<not> m \<longrightarrow> \<not> foldl after_comma m t)"
  using assms
proof (induction t arbitrary: m)
  case (Cons c t)
  then show ?case using word_char_cases [of c] by (simp add: after_comma_def)
qed simp

lemma settled_word: "t \<noteq> [] \<Longrightarrow> list_all word_char t \<Longrightarrow> settled t"
  using word_run [of t] by (simp add: settled_def count_notin list_all_iff word_char_cases(6))

lemma settled_digits: "settled (dec_digits n)" "settled (CHR ''-'' # dec_digits n)"
proof -
  have digits: "list_all word_char (dec_digits n)"
    using dec_digits_value [of n] by (auto simp: list_all_iff word_char_def)
  moreover have "dec_digits n \<noteq> []" by (subst dec_digits.simps) simp
  ultimately show "settled (dec_digits n)" by (intro settled_word)
  show "settled (CHR ''-'' # dec_digits n)"
    using digits by (intro settled_word) (auto simp: word_char_def)
qed

lemma settled_comma: "settled a \<Longrightarrow> settled b \<Longrightarrow> settled (a @ CHR '','' # b)"
  by (simp add: settled_def slashes_quoted_append commas_followed_append after_comma_def closer_def ball_Un)

lemma settled_commas: "ts \<noteq> [] \<Longrightarrow> list_all settled ts \<Longrightarrow> settled (commas ts)"
  by (induction ts rule: commas.induct) (simp_all add: settled_comma)

lemma settled_bracket:
  assumes "t = [] \<or> settled t"
  shows "settled (''['' @ t @ '']'')" "settled (''{'' @ t @ ''}'')"
  using assms
  by (auto simp: settled_def slashes_quoted_append commas_followed_append after_comma_def closer_def)

lemma settled_listing:
  assumes "list_all settled ts"
  shows "settled (''['' @ commas ts @ '']'')" "settled (''{'' @ commas ts @ ''}'')"
  using assms settled_commas [of ts] settled_bracket [of "commas ts"] by (cases ts; simp)+

lemma settled_value: "integral v \<Longrightarrow> plain v \<Longrightarrow> settled (print_value fmt v)"
proof (induction v)
  case (JNum n)
  then show ?case by (cases n) (simp_all add: settled_digits)
next
  case (JArr vs)
  then have "list_all settled (map (print_value fmt) vs)" by (auto simp: list_all_iff)
  from settled_listing(1) [OF this] show ?case by simp
next
  case (JObj kvs)
  have "settled (print_str k @ '':'' @ print_value fmt v)" if "(k, v) \<in> set kvs" for k v
  proof -
    have "settled '':''" by (simp add: settled_def after_comma_def closer_def)
    moreover have "plain_str k" "integral v" "plain v" using JObj.prems that by (auto simp: list_all_iff)
    moreover from this JObj.IH that have "settled (print_value fmt v)" by fastforce
    ultimately show ?thesis by (intro settled_append settled_str)
  qed
  then have "list_all settled (map (\<lambda>(k, v). print_str k @ '':'' @ print_value fmt v) kvs)"
    by (auto simp: list_all_iff)
  from settled_listing(2) [OF this] show ?case by simp
qed (auto intro!: settled_word simp: settled_str word_char_def)

text \<open>\<open>serde_json::from_str\<close> at the type \<open>Value\<close>, whose objects keep one entry for a key.\<close>

definition value_from_str :: "float_tail \<Rightarrow> string \<Rightarrow> Value option" where
  "value_from_str ft text = map_option norm_value (from_str ft text)"

text \<open>A value shown in a block: integer numbers, no key twice, nested less than 128 deep, with plain strings.\<close>

definition shown :: "Value \<Rightarrow> bool" where
  "shown v \<longleftrightarrow> integral v \<and> value_wf v \<and> plain v \<and> nesting v < 128"

lemma parse_value_newline: "parse_value ft d (newline # p) = parse_value ft d p"
  by (simp add: parse_value.simps skip_ws_def is_ws_def newline_def)

lemma value_from_str_shown: "shown v \<Longrightarrow> value_from_str ft (newline # print_value fmt v) = Some v"
  using from_str_printed [of v ft fmt]
  by (simp add: value_from_str_def shown_def norm_value_wf from_str_def parse_value_newline)

lemma settled_bytes:
  assumes "settled p"
  shows "newline \<notin> set p" "CHR 0x0D \<notin> set p" "CHR 0x60 \<notin> set p"
proof -
  have "(of_char newline :: nat) = 10" "(of_char CHR 0x0D :: nat) = 13" by (simp_all add: newline_def)
  then show "newline \<notin> set p" "CHR 0x0D \<notin> set p" using assms by (force simp: settled_def)+
  show "CHR 0x60 \<notin> set p" using assms by (auto simp: settled_def)
qed

lemma uncomment_settled: "settled p \<Longrightarrow> uncomment (newline # p @ [newline]) = newline # p"
  using uncomment_line [of p] settled_bytes [of p] strip_comment_quoted [of p] by (simp add: settled_def)

lemma trailing_commas_settled: "settled p \<Longrightarrow> nwc_trailing_commas (newline # p) = newline # p"
  using trailing_commas_followed [of False p] by (simp add: settled_def newline_def)

lemma fence_absent: "CHR 0x60 \<notin> set a \<Longrightarrow> \<not> sublist ''```'' (a @ butlast ''```'')"
proof
  assume "CHR 0x60 \<notin> set a" "sublist ''```'' (a @ butlast ''```'')"
  then obtain x y where "count_list (a @ ''``'') CHR 0x60 = count_list (x @ ''```'' @ y) CHR 0x60"
    unfolding sublist_def by (metis butlast.simps(2) list.distinct(1))
  with \<open>CHR 0x60 \<notin> set a\<close> show False by (simp add: count_list_append)
qed

lemma fenced_text:
  assumes "CHR 0x60 \<notin> set mid" "CHR 0x60 \<notin> set tag" "settled p"
  shows "second (split_str ''```'' (mid @ ''```'' @ tag @ newline # p @ newline # ''```'' @ post)) =
    Some (tag @ newline # p @ [newline])"
proof -
  let ?inner = "tag @ newline # p @ [newline]"
  have "CHR 0x60 \<notin> set ?inner" using assms settled_bytes(3) by (simp add: newline_def)
  then have "split_once_str ''```'' (?inner @ ''```'' @ post) = Some (?inner, post)"
    by (intro split_once_str_first fence_absent) simp_all
  then show ?thesis
    using second_piece [of "''```''" mid "?inner @ ''```'' @ post" ?inner post] fence_absent [OF assms(1)] by simp
qed

lemma nnc_block_read:
  assumes "shown v" "tag \<in> {''json'', ''jsonc''}" "CHR 0x60 \<notin> set mid"
    and "after = mid @ ''```'' @ tag @ newline # print_value fmt v @ newline # ''```'' @ post"
    and "label \<noteq> []" "\<not> sublist label (pre @ butlast label)" "\<not> sublist label after"
  shows "nnc_labelled_block (value_from_str ft) (pre @ label @ after) label = Some v"
proof -
  let ?p = "print_value fmt v"
  have p: "settled ?p" using assms(1) by (simp add: shown_def settled_value)
  have not_c: "newline \<noteq> CHR ''c''" by (simp add: newline_def)
  have "second (split_str ''```'' after) = Some (tag @ newline # ?p @ [newline])"
    unfolding assms(4) using assms(2) by (intro fenced_text assms(3) p) auto
  moreover have "second (split_str label (pre @ label @ after)) = Some after"
    using assms(7) by (intro second_piece assms(5,6)) auto
  moreover have "\<not> sublist [CHR '','', newline, c] (newline # ?p)" for c
  proof
    assume "sublist [CHR '','', newline, c] (newline # ?p)"
    then have "sublist [CHR '','', newline, c] ?p" by (auto simp: sublist_Cons_right newline_def)
    then have "newline \<in> set ?p" using set_mono_sublist by fastforce
    with settled_bytes(1) [OF p] show False by blast
  qed
  ultimately show ?thesis
    using assms(2) value_from_str_shown [OF assms(1), of ft fmt] p not_c
    by (auto simp: nnc_labelled_block_def first_pass_copies nnc_trailing_commas_def uncomment_settled replace_str_absent
        trailing_commas_settled simp del: nwc_trailing_commas.simps)
qed

definition line_wf :: "string \<Rightarrow> bool" where
  "line_wf l \<longleftrightarrow> newline \<notin> set l \<and> strip_cr l = l"

lemma split_on_unlines: "list_all line_wf ls \<Longrightarrow> split_on newline (unlines ls) = ls @ [[]]"
  by (induction ls) (simp_all add: unlines_def line_wf_def split_on_append)

lemma str_lines_unlines: "list_all line_wf ls \<Longrightarrow> str_lines (unlines ls) = ls"
  by (simp add: str_lines_def Let_def split_on_unlines butlast_append)
    (auto simp: list_all_iff line_wf_def intro!: map_idI)

lemma join_with_unlines: "ls2 \<noteq> [] \<Longrightarrow> join_with [newline] (ls1 @ ls2) = unlines ls1 @ join_with [newline] ls2"
proof (induction ls1)
  case (Cons l ls)
  then show ?case by (cases "ls @ ls2") (auto simp: unlines_def)
qed (simp add: unlines_def)

lemma join_with_after: "\<exists>post. join_with [newline] (l # ls) = l @ post"
  by (cases ls) auto

text \<open>C39: the second generator reads back what a document shows. Under a line that introduces a label, behind lines
  without a backtick, a fenced block that holds a value as JSON text is read as that value, whatever follows: the
  repairs for comments, placeholders and trailing commas leave it as it is. The value's numbers are integers, its
  strings hold no quote, no backtick, and not both a comma and a closing bracket; its text holds no placeholder.\<close>

theorem nwc_block_read:
  assumes "shown v" "tag \<in> {''yaml'', ''jsonc'', ''json''}"
    and "\<not> sublist ''unixtimestamp'' (print_value fmt v)" "\<not> sublist ''blocknumber'' (print_value fmt v)"
    and "list_all line_wf (pre @ intro # mid @ post)"
    and "list_all (\<lambda>l. \<not> introduces (trim_colons label) l) pre" "introduces (trim_colons label) intro"
    and "list_all (\<lambda>l. CHR 0x60 \<notin> set l) mid"
  shows "nwc_labelled_block (value_from_str ft)
    (unlines (pre @ intro # mid @ (''```'' @ tag) # print_value fmt v # ''```'' # post)) label = Some (Some v)"
proof -
  let ?p = "print_value fmt v" and ?is = "introduces (trim_colons label)"
  let ?block = "(''```'' @ tag) # ?p # ''```'' # post"
  have p: "settled ?p" using assms(1) by (simp add: shown_def settled_value)
  have cr: "strip_cr ?p = ?p" using settled_bytes(2) [OF p] by (metis last_in_set strip_cr_def)
  have "list_all line_wf ?block"
    using assms(2,5) settled_bytes(1) [OF p] cr by (auto simp: line_wf_def newline_def strip_cr_def)
  then have lines: "str_lines (unlines (pre @ intro # mid @ ?block)) = pre @ intro # mid @ ?block"
    using assms(5) by (intro str_lines_unlines) simp
  have found: "dropWhile (\<lambda>l. \<not> ?is l) (pre @ intro # mid @ ?block) = intro # mid @ ?block"
    using assms(6,7) by (simp add: dropWhile_append2 list_all_iff)
  obtain rest where "join_with [newline] (''```'' # post) = ''```'' @ rest" using join_with_after by blast
  then have joined: "join_with [newline] (mid @ ?block) =
      unlines mid @ ''```'' @ tag @ newline # ?p @ newline # ''```'' @ rest"
    by (simp add: join_with_unlines)
  have "second (split_str ''```'' (join_with [newline] (mid @ ?block))) = Some (tag @ newline # ?p @ [newline])"
    unfolding joined using assms(2,8) p
    by (intro fenced_text) (auto simp: unlines_def newline_def list_all_iff)
  moreover have "\<not> sublist ''unixtimestamp'' (newline # ?p)" "\<not> sublist ''blocknumber'' (newline # ?p)"
    using assms(3,4) by (simp_all add: sublist_Cons_right newline_def)
  moreover have "newline \<noteq> CHR ''c''" by (simp add: newline_def)
  ultimately show ?thesis
    unfolding nwc_labelled_block_def lines found list.case
    using assms(2) value_from_str_shown [OF assms(1), of ft fmt] p
    by (auto simp: uncomment_settled replace_str_absent trailing_commas_settled
        simp del: nwc_trailing_commas.simps)
qed

theorem nwc_block_read_witness:
  "nwc_labelled_block (value_from_str (\<lambda>_ _ _. None))
     (unlines [''Text.'', ''Request:'', ''```json'',
        print_value (\<lambda>_. []) (JObj [(''uri'', JStr ''wss://a, b'')]), ''```'', ''More.'']) ''Request:'' =
   Some (Some (JObj [(''uri'', JStr ''wss://a, b'')]))"
proof -
  let ?v = "JObj [(''uri'', JStr ''wss://a, b'')]" and ?label = "trim_colons ''Request:''"
  have absent: "\<not> sublist ''unixtimestamp'' (print_value (\<lambda>_. []) ?v)"
    "\<not> sublist ''blocknumber'' (print_value (\<lambda>_. []) ?v)"
    unfolding split_once_str_None [symmetric] by code_simp+
  have shown: "shown ?v" by (simp add: shown_def plain_str_def closer_def)
  have labels: "introduces ?label ''Request:''" "\<not> introduces ?label ''Text.''" by code_simp+
  show ?thesis
    using nwc_block_read [of ?v "''json''" "\<lambda>_. []" "[''Text.'']" "''Request:''" "[]" "[''More.'']" "''Request:''"
        "\<lambda>_ _ _. None", OF shown _ absent] labels
    by (simp add: line_wf_def newline_def strip_cr_def)
qed

text \<open>What either program prints is read by the tests as the value it printed.\<close>

lemma printed_file_reads:
  assumes "integral v" "value_wf v" "nesting v < 128"
  shows "value_from_str ft (to_string_pretty fmt v @ [newline]) = Some v"
proof -
  have "stops [newline]" by (simp add: stops_def is_digit_def newline_def)
  then have "parse_value ft 128 (print_pretty fmt 0 v @ [newline]) = Some (v, [newline])"
    using pretty_reads_as [OF assms(1,3), of ft fmt 0] unfolding reads_as_def by blast
  then show ?thesis
    using assms(2)
    by (simp add: value_from_str_def from_str_def to_string_pretty_def norm_value_wf skip_ws_def is_ws_def newline_def)
qed

section \<open>What the repairs do not leave alone\<close>

text \<open>A comma inside a string goes, too, when a closing bracket follows it: the value read is not the one shown.\<close>

lemma comma_in_string_lost:
  "value_from_str (\<lambda>_ _ _. None) (nwc_trailing_commas (print_value (\<lambda>_. []) (JStr ''[a,]''))) = Some (JStr ''[a]'')"
  by code_simp

text \<open>On a block that is not JSON the first program goes on without it, and the second stops.\<close>

lemma unreadable_block:
  "nnc_labelled_block (value_from_str (\<lambda>_ _ _. None)) (unlines [''Request:'', ''```json'', ''{]'', ''```'']) ''Request:'' = None"
  "nwc_labelled_block (value_from_str (\<lambda>_ _ _. None)) (unlines [''Request:'', ''```json'', ''{]'', ''```'']) ''Request:'' = None"
  by code_simp+

text \<open>A section of the first program ends at the next heading of its own level only, so the last method of a
  document takes the example of a later section that is not its own.\<close>

lemma section_overruns:
  "map (nnc_method_vector (value_from_str (\<lambda>_ _ _. None)))
     (nnc_sections (unlines [''#### `stop`'', ''### `Errors`'', ''Response:'', ''```json'', ''{}'', ''```'']) ''#### `'') =
   [Some (JObj [(''name'', JStr ''stop''), (''kind'', JStr ''method''), (''response'', JObj [])])]"
  by code_simp

end
