(* ===== verification/Names.thy ===== *)
theory Names
  imports NncWire NwcWire
begin

text \<open>
  Method and notification names as JSON values: the \<open>Serialize\<close> and \<open>Deserialize\<close> of \<open>Method\<close>, \<open>WalletMethod\<close>,
  \<open>NotificationType\<close> and \<open>WalletNotificationType\<close>, and their \<open>Display\<close>. The four are one contract (\<open>name_codec\<close>) over
  the spellings (\<open>wire_name\<close>); the envelopes of \<open>NncWire\<close> and \<open>NwcWire\<close> read and write their name field by it.
\<close>

section \<open>Serialising a name\<close>

definition en_Method :: "Method \<Rightarrow> Value" where
  "en_Method m = JStr (method_as_str m)"

definition de_Method :: "Value \<Rightarrow> Method option" where
  "de_Method v = Option.bind (de_string v) (\<lambda>s. Some (method_from_str s))"

definition en_WalletMethod :: "WalletMethod \<Rightarrow> Value" where
  "en_WalletMethod m = JStr (wallet_method_as_str m)"

definition de_WalletMethod :: "Value \<Rightarrow> WalletMethod option" where
  "de_WalletMethod v = Option.bind (de_string v) (\<lambda>s. Some (wallet_method_from_str s))"

definition en_NotificationType :: "NotificationType \<Rightarrow> Value" where
  "en_NotificationType t = JStr (notification_as_str t)"

definition de_NotificationType :: "Value \<Rightarrow> NotificationType option" where
  "de_NotificationType v = Option.bind (de_string v) (\<lambda>s. Some (notification_from_str s))"

definition en_WalletNotificationType :: "WalletNotificationType \<Rightarrow> Value" where
  "en_WalletNotificationType t = JStr (wallet_notification_as_str t)"

definition de_WalletNotificationType :: "Value \<Rightarrow> WalletNotificationType option" where
  "de_WalletNotificationType v = Option.bind (de_string v) (\<lambda>s. Some (wallet_notification_from_str s))"

section \<open>The contract\<close>

locale name_codec = wire_name as_str from_str all_known unknown
  for as_str :: "'m \<Rightarrow> string" and from_str all_known unknown +
  fixes en :: "'m \<Rightarrow> Value"
    and de :: "Value \<Rightarrow> 'm option"
  assumes written: "en m = JStr (as_str m)"
    and read: "de v = Option.bind (de_string v) (\<lambda>s. Some (from_str s))"
begin

text \<open>A name the crate knows is read back as itself; whatever is read is written again as it came, also a name the
  crate does not know; and every string is some name.\<close>

lemma known_round_trip: "m \<in> set all_known \<Longrightarrow> de (en m) = Some m"
  by (simp add: written read de_string_def from_str_as_str)

lemma read_back_verbatim: "de v = Some m \<Longrightarrow> en m = v"
  by (cases v) (auto simp: written read de_string_def as_str_from_str)

lemma every_string_is_a_name: "(\<exists>m. de v = Some m) \<longleftrightarrow> (\<exists>s. v = JStr s)"
  by (cases v) (auto simp: read de_string_def)

lemma unknown_reads_as_known: "de (en (unknown s)) = Some (from_str s)"
  by (simp add: written read de_string_def as_str_unknown)

end

interpretation method_codec: name_codec method_as_str method_from_str method_ALL UnknownMethod en_Method de_Method
  by unfold_locales (simp_all add: en_Method_def de_Method_def)

interpretation wallet_method_codec: name_codec wallet_method_as_str wallet_method_from_str wallet_method_ALL
  UnknownWalletMethod en_WalletMethod de_WalletMethod
  by unfold_locales (simp_all add: en_WalletMethod_def de_WalletMethod_def)

interpretation notification_codec: name_codec notification_as_str notification_from_str notification_ALL
  UnknownNotification en_NotificationType de_NotificationType
  by unfold_locales (simp_all add: en_NotificationType_def de_NotificationType_def)

interpretation wallet_notification_codec: name_codec wallet_notification_as_str wallet_notification_from_str
  wallet_notification_ALL UnknownWalletNotification en_WalletNotificationType de_WalletNotificationType
  by unfold_locales (simp_all add: en_WalletNotificationType_def de_WalletNotificationType_def)

section \<open>In the envelopes\<close>

lemma bind_req_string: "Option.bind (req de_string k es) (\<lambda>s. f (g s)) = Option.bind (req (\<lambda>v. Option.bind (de_string v) (\<lambda>s. Some (g s))) k es) f"
  by (simp add: req_def split: option.split bind_split)

lemma envelopes_use_names:
  "de_Request v = Option.bind (struct_entries [(''method'', False), (''params'', True)] v) (\<lambda>es.
     Option.bind (req de_Method ''method'' es) (\<lambda>m.
     Option.bind (dflt de_value JNull ''params'' es) (\<lambda>p. Some \<lparr>rq_method = m, rq_params = p\<rparr>)))"
  "en_Request r = JObj (en_fields [(''method'', Some (en_Method (rq_method r))), (''params'', Some (rq_params r))])"
  "de_Notification v = Option.bind (struct_entries [(''notification_type'', False), (''notification'', False)] v) (\<lambda>es.
     Option.bind (req de_NotificationType ''notification_type'' es) (\<lambda>t.
     Option.bind (req de_value ''notification'' es) (\<lambda>p. Some \<lparr>nt_type = t, nt_payload = p\<rparr>)))"
  "de_WalletNotification v = Option.bind (struct_entries [(''notification_type'', False), (''notification'', False)] v) (\<lambda>es.
     Option.bind (req de_WalletNotificationType ''notification_type'' es) (\<lambda>t.
     Option.bind (req de_value ''notification'' es) (\<lambda>p. Some \<lparr>wn_type = t, wn_payload = p\<rparr>)))"
  by (simp_all add: de_Request_def de_Method_def [abs_def] en_Request_def en_Method_def de_Notification_def
      de_NotificationType_def [abs_def] de_WalletNotification_def de_WalletNotificationType_def [abs_def]
      bind_req_string [symmetric])

end
