(* ===== verification/ClientParts.thy ===== *)
theory ClientParts
  imports Calls Uri
begin

text \<open>
  What the clients write out for themselves although the crate has it elsewhere: their own event kinds, the wallet client's own
  percent decoder, and the small operations of a handle. Each is tied to what the rest of the development uses in its place.
\<close>

section \<open>Event kinds\<close>

text \<open>The constants of \<^verbatim>\<open>nnc/client/mod.rs\<close> and of \<^verbatim>\<open>nwc/client/mod.rs\<close>. Nothing in the crate ties them to the ones the
  service listens to and answers with; they are equal, which is why the model of the clients uses the service's.\<close>

definition NNC_CLIENT_REQUEST_KIND :: u16 where "NNC_CLIENT_REQUEST_KIND = 23198"
definition NNC_CLIENT_RESPONSE_KIND :: u16 where "NNC_CLIENT_RESPONSE_KIND = 23199"
definition NNC_CLIENT_NOTIFICATION_KIND :: u16 where "NNC_CLIENT_NOTIFICATION_KIND = 23200"
definition NNC_CLIENT_SUBSCRIPTION_KIND :: u16 where "NNC_CLIENT_SUBSCRIPTION_KIND = 30199"
definition NWC_CLIENT_REQUEST_KIND :: u16 where "NWC_CLIENT_REQUEST_KIND = 23194"
definition NWC_CLIENT_RESPONSE_KIND :: u16 where "NWC_CLIENT_RESPONSE_KIND = 23195"
definition NWC_CLIENT_NOTIFICATION_KIND :: u16 where "NWC_CLIENT_NOTIFICATION_KIND = 23197"

lemma client_kinds_agree:
  "NNC_CLIENT_REQUEST_KIND = CONTROL_REQUEST_KIND" "NNC_CLIENT_RESPONSE_KIND = CONTROL_RESPONSE_KIND"
  "NNC_CLIENT_NOTIFICATION_KIND = NOTIFICATION_KIND" "NNC_CLIENT_SUBSCRIPTION_KIND = SUBSCRIPTION_KIND"
  "NWC_CLIENT_REQUEST_KIND = WALLET_REQUEST_KIND" "NWC_CLIENT_RESPONSE_KIND = WALLET_RESPONSE_KIND"
  "NWC_CLIENT_NOTIFICATION_KIND = WALLET_NOTIFICATION_KIND"
  by (simp_all add: kind_defs SUBSCRIPTION_KIND_def NNC_CLIENT_REQUEST_KIND_def NNC_CLIENT_RESPONSE_KIND_def
      NNC_CLIENT_NOTIFICATION_KIND_def NNC_CLIENT_SUBSCRIPTION_KIND_def NWC_CLIENT_REQUEST_KIND_def
      NWC_CLIENT_RESPONSE_KIND_def NWC_CLIENT_NOTIFICATION_KIND_def)

section \<open>The wallet client's percent decoder\<close>

text \<open>\<open>&s[i..j]\<close>: the bytes from \<open>i\<close> to \<open>j\<close>; a panic when either end is inside a character.\<close>

definition char_boundary :: "string \<Rightarrow> nat \<Rightarrow> bool" where
  "char_boundary s i \<longleftrightarrow> i = length s \<or> (i < length s \<and> \<not> is_continuation (s ! i))"

text \<open>The loop over the index, with the text written so far; \<open>None\<close> is a panic.\<close>

function percent_loop :: "string \<Rightarrow> nat \<Rightarrow> string \<Rightarrow> string option" where
  "percent_loop s i out =
     (if i < length s then
        if s ! i = CHR ''%'' \<and> i + 2 < length s then
          if char_boundary s (i + 1) \<and> char_boundary s (i + 3) then
            (case radix16 (s ! (i + 1)) (s ! (i + 2)) of
               Some c \<Rightarrow> percent_loop s (i + 3) (out @ push_byte c)
             | None \<Rightarrow> percent_loop s (i + 1) (out @ push_byte (of_char (s ! i))))
          else None
        else percent_loop s (i + 1) (out @ push_byte (of_char (s ! i)))
      else Some out)"
  by pat_completeness auto

termination percent_loop
  by (relation "measure (\<lambda>(s, i, out). length s - i)") auto

declare percent_loop.simps [simp del]

definition wallet_percent_decode :: "string \<Rightarrow> string option" where
  "wallet_percent_decode s = percent_loop s 0 []"

lemma percent_decode_triple:
  assumes "i + 2 < length s"
  shows "drop i s = s ! i # s ! (i + 1) # s ! (i + 2) # drop (i + 3) s"
  using assms by (simp add: Cons_nth_drop_Suc numeral_eq_Suc)

lemma percent_decode_step:
  assumes "i < length s" "\<not> (s ! i = CHR ''%'' \<and> i + 2 < length s)"
  shows "percent_decode (drop i s) = map_option ((@) (push_byte (of_char (s ! i)))) (percent_decode (drop (i + 1) s))"
proof (cases "i + 2 < length s")
  case True
  then have "drop (i + 1) s = s ! (i + 1) # s ! (i + 2) # drop (i + 3) s"
    by (simp add: Cons_nth_drop_Suc numeral_eq_Suc)
  with True assms(2) show ?thesis by (simp add: percent_decode_triple)
next
  case False
  with assms(1) consider "drop i s = [s ! i]" "drop (i + 1) s = []"
    | "drop i s = [s ! i, s ! (i + 1)]" "drop (i + 1) s = [s ! (i + 1)]"
    by (cases "i + 1 = length s") (simp_all add: Cons_nth_drop_Suc [symmetric])
  then show ?thesis by cases simp_all
qed

text \<open>It decodes exactly as the decoder of \<open>NodeControlUri\<close> does, panics included.\<close>

lemma percent_loop_eq: "percent_loop s i out = map_option ((@) out) (percent_decode (drop i s))"
proof (induction s i out rule: percent_loop.induct)
  case (1 s i out)
  show ?case
  proof (cases "i < length s \<and> s ! i = CHR ''%'' \<and> i + 2 < length s")
    case True
    then have "char_boundary s (i + 1) \<and> char_boundary s (i + 3) \<longleftrightarrow>
        \<not> (is_continuation (s ! (i + 1)) \<or> (drop (i + 3) s \<noteq> [] \<and> is_continuation (hd (drop (i + 3) s))))"
      by (auto simp: char_boundary_def hd_drop_conv_nth)
    moreover have "drop (i + 1) s = s ! (i + 1) # s ! (i + 2) # drop (i + 3) s"
      using True by (simp add: Cons_nth_drop_Suc numeral_eq_Suc)
    ultimately show ?thesis
      using 1 True percent_decode_triple [of i s]
      by (subst percent_loop.simps) (auto simp: option.map_comp comp_def split: option.split)
  next
    case False
    then show ?thesis
      using 1(3) percent_decode_step [of i s]
      by (subst percent_loop.simps) (auto simp: option.map_comp comp_def)
  qed
qed

lemma wallet_percent_decode_eq: "wallet_percent_decode = percent_decode"
proof
  show "wallet_percent_decode s = percent_decode s" for s
    by (cases "percent_decode s") (simp_all add: wallet_percent_decode_def percent_loop_eq)
qed

section \<open>Handles\<close>

definition pending_request_id :: "Pending \<Rightarrow> EventId" where
  "pending_request_id p = pd_request_id p"

definition pending_timeout :: "Pending \<Rightarrow> nat" where
  "pending_timeout p = pd_timeout p"

text \<open>\<open>IntoFuture\<close>: awaiting the handle itself.\<close>

definition pending_into_future :: "codec \<Rightarrow> cenv \<Rightarrow> (Value \<Rightarrow> 't option) \<Rightarrow> Pending \<Rightarrow> 't cop" where
  "pending_into_future codec env de p = pending_wait codec env de p"

text \<open>What a caller reads off the handle of a command: the id of the event that went out with the command, and the client's
  timeout for outcomes until it is given another.\<close>

lemma begun_handle:
  assumes "nnc_begin codec env c en m params l = (Returns p, l')"
  shows "\<exists>q. last (lk_acts l') = SendEvent q \<and> pending_request_id p = ev_id q \<and>
    pending_timeout p = nc_outcome_timeout c \<and> pending_timeout (pending_with_timeout d p) = d \<and>
    pending_request_id (pending_with_timeout d p) = ev_id q"
proof -
  have accepted: "accepted_response r l1 = (Returns r', l2) \<longleftrightarrow> rs_error r = None \<and> r' = r \<and> l2 = l1" for r r' l1 l2
    by (auto simp: accepted_response_def of_result_def split: option.splits)
  have awaited: "l2 = l1" if "await_response codec env c i events l1 = (Returns r, l2)" for i events r l1 l2
    using that by (simp add: await_response_def wait_then_result)
  show ?thesis
    using assms
    by (auto dest!: awaited simp: accepted nnc_begin_def bind_op_Returns op_defs call_client_Returns sign_event_def return_op_def
        pending_request_id_def pending_timeout_def pending_with_timeout_def)
qed

end
