(* ===== verification/Tasks.thy ===== *)
theory Tasks
  imports Calls
begin

text \<open>
  Tasks that share one \<open>Link\<close>. A task is the tree of its next steps, each of them atomic on the shared state; a pool runs any
  number of tasks under any schedule and keeps a trace of who called what. Assertions are of the rely and guarantee
  kind (\<open>assured\<close>): they speak of what the task did itself and of whether the client is known to have connected, which
  the steps of others do not undo, so that the invariant of the pool (\<open>pool_inv\<close>) holds task by task.

  A loop that waits is a task of rounds (\<open>Rounds\<close>), one step each and none of them promised to be the last. That a task
  ends is a liveness statement (\<open>pool_live\<close>): a task all of whose loops get to a deciding round (\<open>ends\<close>) is over under every infinite
  schedule that keeps coming back to it.
\<close>

section \<open>Tasks\<close>

text \<open>\<open>Ready\<close> takes one step on what is shared. \<open>Rounds k i\<close> is a loop before its \<open>i\<close>-th round, which goes on with the task it decides on, or
  with the next round; a round looks at nothing the tasks share.\<close>

datatype 'a task =
    Finished "'a run"
  | Ready "Link \<Rightarrow> 'a task \<times> Link"
  | Rounds "nat \<Rightarrow> 'a task option" nat

primrec bind_task :: "'a task \<Rightarrow> ('a \<Rightarrow> 'b task) \<Rightarrow> 'b task" where
  "bind_task (Finished r) f =
     (case r of
        Returns a \<Rightarrow> f a
      | Fails e \<Rightarrow> Finished (Fails e)
      | Panics \<Rightarrow> Finished Panics
      | Diverges \<Rightarrow> Finished Diverges)"
| "bind_task (Ready k) f = Ready (\<lambda>l. map_prod (\<lambda>t. bind_task t f) id (k l))"
| "bind_task (Rounds k i) f = Rounds (\<lambda>j. map_option (\<lambda>t. bind_task t f) (k j)) i"

definition atomic :: "'a cop \<Rightarrow> 'a task" where
  "atomic m = Ready (\<lambda>l. map_prod Finished id (m l))"

text \<open>The first round from the \<open>i\<close>-th that decides; there may be none.\<close>

partial_function (option) first_some :: "(nat \<Rightarrow> 'a option) \<Rightarrow> nat \<Rightarrow> 'a option" where
  "first_some k i = (case k i of Some x \<Rightarrow> Some x | None \<Rightarrow> first_some k (Suc i))"

lemma first_some_source:
  assumes "first_some k i = Some x"
  shows "\<exists>j\<ge>i. k j = Some x \<and> (\<forall>m. i \<le> m \<and> m < j \<longrightarrow> k m = None)"
proof (rule first_some.raw_induct [where P = "\<lambda>k i x. \<exists>j\<ge>i. k j = Some x \<and> (\<forall>m. i \<le> m \<and> m < j \<longrightarrow> k m = None)",
      OF _ assms])
  fix loop :: "(nat \<Rightarrow> 'a option) \<Rightarrow> nat \<Rightarrow> 'a option" and k i x
  assume IH: "\<And>k i x. loop k i = Some x \<Longrightarrow> \<exists>j\<ge>i. k j = Some x \<and> (\<forall>m. i \<le> m \<and> m < j \<longrightarrow> k m = None)"
    and eq: "(case k i of None \<Rightarrow> loop k (Suc i) | Some x \<Rightarrow> Some x) = Some x"
  show "\<exists>j\<ge>i. k j = Some x \<and> (\<forall>m. i \<le> m \<and> m < j \<longrightarrow> k m = None)"
  proof (cases "k i")
    case None
    with eq IH [of k "Suc i" x] obtain j where "Suc i \<le> j" "k j = Some x" "\<forall>m. Suc i \<le> m \<and> m < j \<longrightarrow> k m = None"
      by auto
    with None show ?thesis by (intro exI [of _ j]) (metis Suc_leD le_antisym not_less_eq_eq)
  qed (use eq in \<open>auto intro: exI [of _ i]\<close>)
qed

lemma first_some_here:
  assumes "i \<le> j" "k j = Some x" "\<And>m. i \<le> m \<Longrightarrow> m < j \<Longrightarrow> k m = None"
  shows "first_some k i = Some x"
  using assms
proof (induction rule: inc_induct)
  case base
  then show ?case by (simp add: first_some.simps)
next
  case (step m)
  then show ?case by (subst first_some.simps) simp
qed

lemma first_some_iff:
  "first_some k i = Some x \<longleftrightarrow> (\<exists>j\<ge>i. k j = Some x \<and> (\<forall>m. i \<le> m \<and> m < j \<longrightarrow> k m = None))"
  using first_some_source [of k i x] first_some_here [of i _ k x] by blast

lemma first_some_map: "first_some (\<lambda>j. map_option g (k j)) i = map_option g (first_some k i)"
proof (cases "first_some k i")
  case None
  have "first_some (\<lambda>j. map_option g (k j)) i \<noteq> Some y" for y
  proof
    assume "first_some (\<lambda>j. map_option g (k j)) i = Some y"
    then obtain j x where "i \<le> j" "k j = Some x" "\<forall>m. i \<le> m \<and> m < j \<longrightarrow> k m = None"
      by (auto simp: first_some_iff)
    then have "first_some k i = Some x" by (auto simp: first_some_iff)
    with None show False by simp
  qed
  then have "first_some (\<lambda>j. map_option g (k j)) i = None" by (metis not_None_eq)
  with None show ?thesis by simp
next
  case (Some x)
  then obtain j where "i \<le> j" "k j = Some x" "\<forall>m. i \<le> m \<and> m < j \<longrightarrow> k m = None"
    by (auto simp: first_some_iff)
  then have "first_some (\<lambda>j. map_option g (k j)) i = Some (g x)" by (auto simp: first_some_iff)
  with Some show ?thesis by simp
qed

lemma first_verdict: "first_some (verdict body timed_out deadline timer stream) i = await_loop body timed_out deadline timer stream i"
proof -
  have "first_some (verdict body timed_out deadline timer stream) i = Some r \<longleftrightarrow>
      await_loop body timed_out deadline timer stream i = Some r" for r
    by (simp add: first_some_iff await_loop_iff)
  then show ?thesis by (metis not_None_eq)
qed

text \<open>A task with nobody else about.\<close>

primrec run_task :: "'a task \<Rightarrow> 'a cop" where
  "run_task (Finished r) = Pair r"
| "run_task (Ready k) = (\<lambda>l. case map_prod run_task id (k l) of (m, l') \<Rightarrow> m l')"
| "run_task (Rounds k i) =
     (\<lambda>l. case first_some (\<lambda>j. map_option run_task (k j)) i of None \<Rightarrow> (Diverges, l) | Some m \<Rightarrow> m l)"

lemma run_atomic [simp]: "run_task (atomic m) = m"
proof
  show "run_task (atomic m) l = m l" for l by (cases "m l") (simp add: atomic_def)
qed

lemma run_bind [simp]: "run_task (bind_task t f) = bind_op (run_task t) (\<lambda>a. run_task (f a))"
proof (induction t)
  case (Finished r)
  then show ?case by (cases r) (simp_all add: bind_op_def fun_eq_iff)
next
  case (Ready k)
  show ?case
  proof
    fix l
    obtain t l' where k: "k l = (t, l')" by fastforce
    then have "run_task (bind_task t f) = bind_op (run_task t) (\<lambda>a. run_task (f a))"
      by (intro Ready.IH [of "(t, l')"]) (auto intro: range_eqI [of _ k l])
    with k show "run_task (bind_task (Ready k) f) l = bind_op (run_task (Ready k)) (\<lambda>a. run_task (f a)) l"
      by (simp add: bind_op_def)
  qed
next
  case (Rounds k i)
  have "map_option run_task (map_option (\<lambda>t. bind_task t f) (k j)) =
      map_option (\<lambda>m. bind_op m (\<lambda>a. run_task (f a))) (map_option run_task (k j))" for j
    using Rounds.IH [OF rangeI, of _ j] by (cases "k j") auto
  then show ?case
    by (simp only: bind_task.simps run_task.simps first_some_map [of "\<lambda>m. bind_op m (\<lambda>a. run_task (f a))"])
      (auto simp: fun_eq_iff bind_op_def split: option.split)
qed

text \<open>A wait as a task: a step reads the clock and sets the deadline, then the rounds of the loop.\<close>

definition wait_task ::
  "cenv \<Rightarrow> nat \<Rightarrow> (Event \<Rightarrow> ('a, ClientError) result option) \<Rightarrow> ('a, ClientError) result \<Rightarrow> stream \<Rightarrow> 'a task" where
  "wait_task env timeout body timed_out stream =
     Ready (\<lambda>l. (case instant_add (cl_instant_max env) (cl_instant env (lk_acts l)) timeout of
        None \<Rightarrow> Finished Panics
      | Some deadline \<Rightarrow>
          Rounds (\<lambda>j. map_option (\<lambda>r. case r of Inl e \<Rightarrow> Finished (Fails e) | Inr a \<Rightarrow> Finished (Returns a))
            (verdict body timed_out deadline (cl_timer env (lk_acts l)) stream j)) 0, l))"

lemma run_wait:
  fixes body :: "Event \<Rightarrow> ('a, ClientError) result option"
  shows "run_task (wait_task env timeout body timed_out stream) =
     bind_op (\<lambda>l. (wait_on env timeout body timed_out stream l, l)) of_result"
proof
  fix l
  have "first_some (\<lambda>j. map_option run_task (map_option g (verdict body timed_out deadline timer stream j))) i =
      map_option (\<lambda>r. run_task (g r)) (await_loop body timed_out deadline timer stream i)"
    for g :: "('a, ClientError) result \<Rightarrow> 'a task" and deadline timer i
    using first_some_map [of "\<lambda>r. run_task (g r)" "verdict body timed_out deadline timer stream" i]
    by (simp add: first_verdict option.map_comp comp_def)
  then show "run_task (wait_task env timeout body timed_out stream) l =
      bind_op (\<lambda>l. (wait_on env timeout body timed_out stream l, l)) of_result l"
    by (simp add: wait_task_def wait_on_def bind_op_def of_result_def split: option.split sum.split)
qed

section \<open>Tasks at work\<close>

text \<open>The tasks, what they share, and who made which call since the start.\<close>

record 'a pool =
  pl_tasks :: "'a task list"
  pl_link :: Link
  pl_trace :: "(nat \<times> act) list"

definition pool_new :: "Link \<Rightarrow> 'a task list \<Rightarrow> 'a pool" where
  "pool_new l ts = \<lparr>pl_tasks = ts, pl_link = l, pl_trace = []\<rparr>"

text \<open>The scheduler lets task \<open>i\<close> take its next step.\<close>

definition pool_step :: "nat \<Rightarrow> 'a pool \<Rightarrow> 'a pool" where
  "pool_step i p =
     (if i < length (pl_tasks p) then
        (case pl_tasks p ! i of
           Finished r \<Rightarrow> p
         | Ready k \<Rightarrow>
             (case k (pl_link p) of
                (t, l') \<Rightarrow>
                  \<lparr>pl_tasks = (pl_tasks p)[i := t], pl_link = l',
                   pl_trace = pl_trace p @ map (Pair i) (drop (length (lk_acts (pl_link p))) (lk_acts l'))\<rparr>)
         | Rounds k j \<Rightarrow>
             p\<lparr>pl_tasks := (pl_tasks p)[i := (case k j of None \<Rightarrow> Rounds k (Suc j) | Some t \<Rightarrow> t)]\<rparr>)
      else p)"

definition pool_run :: "nat list \<Rightarrow> 'a pool \<Rightarrow> 'a pool" where
  "pool_run schedule p = fold pool_step schedule p"

definition calls_of :: "nat \<Rightarrow> (nat \<times> act) list \<Rightarrow> act list" where
  "calls_of i trace = map snd (filter (\<lambda>x. fst x = i) trace)"

lemma calls_of_simps [simp]:
  "calls_of i [] = []" "calls_of i (xs @ ys) = calls_of i xs @ calls_of i ys"
  "calls_of i (map (Pair i) as) = as" "i \<noteq> j \<Longrightarrow> calls_of i (map (Pair j) as) = []"
  by (simp_all add: calls_of_def filter_map comp_def)

section \<open>What a task relies on and guarantees\<close>

definition opened :: "Link \<Rightarrow> bool" where
  "opened l \<longleftrightarrow> Connect \<in> set (lk_acts l)"

text \<open>The flag says so only once the client has connected.\<close>

definition coherent :: "Link \<Rightarrow> bool" where
  "coherent l \<longleftrightarrow> (lk_connected l \<longrightarrow> opened l)"

definition sends :: "act list \<Rightarrow> bool" where
  "sends new \<longleftrightarrow> \<not> unsent new"

text \<open>\<open>assured ready Q t on mine\<close>: whatever the others do between its steps, the task \<open>t\<close>, which has made the calls \<open>mine\<close> and
  knows that the client has connected if \<open>on\<close>, only adds calls, keeps the flag truthful, keeps its own calls
  orderly, hands over an event only once the client has connected, and returns only what satisfies \<open>Q\<close>.\<close>

primrec assured ::
  "(act list \<Rightarrow> bool) \<Rightarrow> ('a \<Rightarrow> bool \<Rightarrow> act list \<Rightarrow> bool) \<Rightarrow> 'a task \<Rightarrow> bool \<Rightarrow> act list \<Rightarrow> bool" where
  "assured ready Q (Finished r) = (\<lambda>on mine. case r of Returns a \<Rightarrow> Q a on mine | _ \<Rightarrow> True)"
| "assured ready Q (Ready k) = (\<lambda>on mine. \<forall>l. coherent l \<longrightarrow> (on \<longrightarrow> opened l) \<longrightarrow>
     (case map_prod (assured ready Q) id (k l) of
        (goes_on, l') \<Rightarrow>
          coherent l' \<and>
          (\<exists>new. lk_acts l' = lk_acts l @ new \<and> orderly ready (mine @ new) \<and> (sends new \<longrightarrow> opened l) \<and>
             goes_on (opened l') (mine @ new))))"
| "assured ready Q (Rounds k i) = (\<lambda>on mine. \<forall>j.
     case map_option (assured ready Q) (k j) of None \<Rightarrow> True | Some goes_on \<Rightarrow> goes_on on mine)"

lemma assured_rounds:
  "assured ready Q (Rounds k i) on mine \<longleftrightarrow> (\<forall>j t. k j = Some t \<longrightarrow> assured ready Q t on mine)"
  by (auto split: option.split)

declare assured.simps(3) [simp del]

lemma assured_bind [simp]:
  "assured ready R (bind_task t f) = assured ready (\<lambda>a. assured ready R (f a)) t"
proof (induction t)
  case (Finished r)
  then show ?case by (cases r) (simp_all add: fun_eq_iff)
next
  case (Ready k)
  have "map_prod (assured ready R) id (map_prod (\<lambda>t. bind_task t f) id (k l)) =
      map_prod (assured ready (\<lambda>a. assured ready R (f a))) id (k l)" for l
    using Ready.IH [OF rangeI, of _ l] by (cases "k l") simp
  then show ?case by (simp add: fun_eq_iff)
next
  case (Rounds k i)
  have "map_option (assured ready R) (map_option (\<lambda>t. bind_task t f) (k j)) =
      map_option (assured ready (\<lambda>a. assured ready R (f a))) (k j)" for j
    using Rounds.IH [OF rangeI, of _ j] by (cases "k j") auto
  then show ?case by (simp only: bind_task.simps assured.simps)
qed

lemma assured_step:
  assumes "assured ready Q (Ready k) on mine" "coherent l" "on \<longrightarrow> opened l" "k l = (t, l')"
  shows "coherent l' \<and> (\<exists>new. lk_acts l' = lk_acts l @ new \<and> orderly ready (mine @ new) \<and>
    (sends new \<longrightarrow> opened l) \<and> assured ready Q t (opened l') (mine @ new))"
  using assms(1) [unfolded assured.simps, THEN spec, of l] assms(2-) by simp

lemma assured_seq:
  "assured ready (\<lambda>a. assured ready R (f a)) t on mine \<Longrightarrow> assured ready R (bind_task t f) on mine"
  by simp

lemma case_first:
  "(case map_prod f id (map_prod g id x) of (y, z) \<Rightarrow> P y z) \<longleftrightarrow> (\<forall>u z. x = (u, z) \<longrightarrow> P (f (g u)) z)"
  by (cases x) simp

lemma assured_atomic:
  "assured ready Q (atomic m) on mine \<longleftrightarrow>
     (\<forall>l r l'. coherent l \<longrightarrow> (on \<longrightarrow> opened l) \<longrightarrow> m l = (r, l') \<longrightarrow>
        coherent l' \<and>
        (\<exists>new. lk_acts l' = lk_acts l @ new \<and> orderly ready (mine @ new) \<and> (sends new \<longrightarrow> opened l) \<and>
           (case r of Returns a \<Rightarrow> Q a (opened l') (mine @ new) | _ \<Rightarrow> True)))"
  by (simp add: atomic_def case_first)

lemma sends_simps [simp]: "\<not> sends []" "sends (a # acts) \<longleftrightarrow> (\<exists>q. a = SendEvent q) \<or> sends acts"
  by (auto simp: sends_def unsent_def)

text \<open>What each kind of step needs, read backwards like the rules of \<open>triple\<close>.\<close>

lemma assured_call:
  assumes "\<And>l. orderly ready (mine @ [a l])" "\<And>l. sends [a l] \<Longrightarrow> on"
    and "\<And>x l on'. ans l (lk_acts l) = Some x \<Longrightarrow> (on \<or> a l = Connect \<Longrightarrow> on') \<Longrightarrow> Q x on' (mine @ [a l])"
  shows "assured ready Q (atomic (\<lambda>l. call_client (a l) (ans l) l)) on mine"
proof -
  have "Q x (opened (l\<lparr>lk_acts := lk_acts l @ [a l]\<rparr>)) (mine @ [a l])"
    if "on \<longrightarrow> opened l" "ans l (lk_acts l) = Some x" for x l
    using that by (intro assms(3)) (auto simp: opened_def)
  then show ?thesis
    using assms(1,2) unfolding assured_atomic
    by (auto simp: call_client_def try_op_def coherent_def opened_def split: option.split)
qed

lemma assured_pure:
  assumes "orderly ready mine" "\<And>l. snd (m l) = l"
    and "\<And>x l on'. m l = (Returns x, l) \<Longrightarrow> coherent l \<Longrightarrow> (on \<Longrightarrow> on') \<Longrightarrow> opened l = on' \<Longrightarrow> Q x on' mine"
  shows "assured ready Q (atomic m) on mine"
  unfolding assured_atomic
proof (intro allI impI)
  fix l r l'
  assume l: "coherent l" "on \<longrightarrow> opened l" and m: "m l = (r, l')"
  with assms(2) [of l] have "l' = l" by simp
  moreover have "case r of Returns a \<Rightarrow> Q a (opened l) mine | _ \<Rightarrow> True"
    using l m \<open>l' = l\<close> by (auto intro: assms(3) split: run.split)
  ultimately show "coherent l' \<and> (\<exists>new. lk_acts l' = lk_acts l @ new \<and> orderly ready (mine @ new) \<and>
      (sends new \<longrightarrow> opened l) \<and> (case r of Returns a \<Rightarrow> Q a (opened l') (mine @ new) | _ \<Rightarrow> True))"
    using l assms(1) by (cases r) simp_all
qed

lemma assured_set_connected:
  assumes "orderly ready mine" on "Q () True mine"
  shows "assured ready Q (atomic set_connected) on mine"
  using assms by (auto simp: assured_atomic set_connected_def coherent_def opened_def)

text \<open>A wait makes no calls; what it returns is what its judgement accepted of an event of its stream.\<close>

lemma assured_wait:
  assumes "orderly ready mine" "\<And>a. timed_out \<noteq> Inr a"
    and "\<And>k e a on'. stream k = Item (NEvent e) \<Longrightarrow> body e = Some (Inr a) \<Longrightarrow> (on \<Longrightarrow> on') \<Longrightarrow> Q a on' mine"
  shows "assured ready Q (wait_task env timeout body timed_out stream) on mine"
proof -
  have "assured ready Q (case r of Inl e \<Rightarrow> Finished (Fails e) | Inr a \<Rightarrow> Finished (Returns a)) (opened l) mine"
    if "verdict body timed_out deadline timer stream j = Some r" "on \<longrightarrow> opened l" for r j deadline timer l
    using that assms(2) by (cases r)
      (auto simp: verdict_def accepted_def split: if_splits arrival.splits ClientNotification.splits intro!: assms(3))
  then have "assured ready Q (Rounds (\<lambda>j. map_option (\<lambda>r. case r of Inl e \<Rightarrow> Finished (Fails e) | Inr a \<Rightarrow> Finished (Returns a))
      (verdict body timed_out deadline timer stream j)) 0) (opened l) mine"
    if "on \<longrightarrow> opened l" for deadline timer l
    using that unfolding assured_rounds by blast
  with assms(1) show ?thesis
    unfolding wait_task_def by (auto split: option.split)
qed

section \<open>Any number of tasks\<close>

text \<open>What is true of the pool between any two steps: the flag is truthful, the log is what it was at the start
  followed by the traced calls, every traced event was handed over once the client had connected, and every task is assured.\<close>

definition pool_inv ::
  "(nat \<Rightarrow> act list \<Rightarrow> bool) \<Rightarrow> (nat \<Rightarrow> 'a \<Rightarrow> act list \<Rightarrow> bool) \<Rightarrow> Link \<Rightarrow> 'a pool \<Rightarrow> bool" where
  "pool_inv ready Q l0 p \<longleftrightarrow>
     coherent (pl_link p) \<and>
     lk_acts (pl_link p) = lk_acts l0 @ map snd (pl_trace p) \<and>
     (\<forall>pre i q post. pl_trace p = pre @ (i, SendEvent q) # post \<longrightarrow> Connect \<in> set (lk_acts l0 @ map snd pre)) \<and>
     (\<forall>i < length (pl_tasks p). orderly (ready i) (calls_of i (pl_trace p)) \<and>
        (\<exists>on. (on \<longrightarrow> opened (pl_link p)) \<and>
           assured (ready i) (\<lambda>a _. Q i a) (pl_tasks p ! i) on (calls_of i (pl_trace p))))"

lemma pool_inv_new:
  assumes "coherent l" "\<And>i. i < length ts \<Longrightarrow> assured (ready i) (\<lambda>a _. Q i a) (ts ! i) False []"
  shows "pool_inv ready Q l (pool_new l ts)"
  using assms by (auto simp: pool_inv_def pool_new_def)

lemma sent_where:
  assumes "xs @ map (Pair j) new = pre @ (i, SendEvent q) # post"
  shows "(\<exists>post'. xs = pre @ (i, SendEvent q) # post') \<or> (set xs \<subseteq> set pre \<and> sends new)"
proof -
  from assms consider us where "xs = pre @ us" "us @ map (Pair j) new = (i, SendEvent q) # post"
    | us where "pre = xs @ us" "map (Pair j) new = us @ (i, SendEvent q) # post"
    by (auto simp: append_eq_append_conv2)
  then show ?thesis
  proof cases
    case 1
    then show ?thesis by (cases us) (auto simp: sends_def unsent_def)
  next
    case 2
    have "(i, SendEvent q) \<in> set (map (Pair j) new)" unfolding 2(2) by simp
    then have "SendEvent q \<in> set new" by auto
    with 2 show ?thesis by (auto simp: sends_def unsent_def)
  qed
qed

lemma pool_inv_step: "pool_inv ready Q l0 p \<Longrightarrow> pool_inv ready Q l0 (pool_step i p)"
proof (cases "i < length (pl_tasks p)")
  case True
  assume inv: "pool_inv ready Q l0 p"
  let ?l = "pl_link p" and ?tr = "pl_trace p"
  show ?thesis
  proof (cases "pl_tasks p ! i")
    case (Ready k)
    obtain t l' where k: "k ?l = (t, l')" by fastforce
    from inv True obtain on where "assured (ready i) (\<lambda>a _. Q i a) (Ready k) on (calls_of i ?tr)"
      "on \<longrightarrow> opened ?l" "coherent ?l"
      unfolding pool_inv_def Ready [symmetric] by blast
    from assured_step [OF this(1,3,2) k] obtain new where new: "coherent l'" "lk_acts l' = lk_acts ?l @ new"
      "orderly (ready i) (calls_of i ?tr @ new)" "sends new \<longrightarrow> opened ?l"
      "assured (ready i) (\<lambda>a _. Q i a) t (opened l') (calls_of i ?tr @ new)" by blast
    have step: "pool_step i p = \<lparr>pl_tasks = (pl_tasks p)[i := t], pl_link = l', pl_trace = ?tr @ map (Pair i) new\<rparr>"
      using True Ready k new(2) by (simp add: pool_step_def)
    have "Connect \<in> set (lk_acts l0 @ map snd pre)"
      if "?tr @ map (Pair i) new = pre @ (j, SendEvent q) # post" for pre j q post
      using sent_where [OF that] inv new(4) by (auto simp: pool_inv_def opened_def)
    moreover have "orderly (ready j) (calls_of j (?tr @ map (Pair i) new)) \<and>
        (\<exists>on. (on \<longrightarrow> opened l') \<and> assured (ready j) (\<lambda>a _. Q j a) ((pl_tasks p)[i := t] ! j) on
          (calls_of j (?tr @ map (Pair i) new)))" if "j < length (pl_tasks p)" for j
    proof (cases "j = i")
      case False
      moreover have "opened ?l \<longrightarrow> opened l'" using new(2) by (simp add: opened_def)
      ultimately show ?thesis using inv that by (auto simp: pool_inv_def)
    qed (use new that in auto)
    ultimately show ?thesis
      using inv new unfolding step by (simp add: pool_inv_def comp_def)
  next
    case (Rounds k n)
    let ?t = "case k n of None \<Rightarrow> Rounds k (Suc n) | Some t \<Rightarrow> t"
    have t: "assured ready Q (Rounds k n) on mine \<Longrightarrow> assured ready Q ?t on mine" for ready Q on mine
      by (cases "k n") (auto simp: assured_rounds)
    have "\<exists>on. (on \<longrightarrow> opened ?l) \<and> assured (ready j) (\<lambda>a _. Q j a) ((pl_tasks p)[i := ?t] ! j) on (calls_of j ?tr)"
      if "j < length (pl_tasks p)" for j
    proof -
      from inv that obtain on where on: "on \<longrightarrow> opened ?l" "assured (ready j) (\<lambda>a _. Q j a) (pl_tasks p ! j) on (calls_of j ?tr)"
        unfolding pool_inv_def by blast
      then have "assured (ready j) (\<lambda>a _. Q j a) ((pl_tasks p)[i := ?t] ! j) on (calls_of j ?tr)"
        using Rounds that t [of "ready j" "\<lambda>a _. Q j a" on "calls_of j ?tr"] by (cases "j = i") simp_all
      with on(1) show ?thesis by blast
    qed
    moreover have "pool_step i p = p\<lparr>pl_tasks := (pl_tasks p)[i := ?t]\<rparr>"
      using True Rounds by (simp add: pool_step_def)
    ultimately show ?thesis using inv by (simp add: pool_inv_def)
  qed (use True inv in \<open>simp add: pool_step_def\<close>)
qed (simp add: pool_step_def)

lemma pool_inv_run: "pool_inv ready Q l0 p \<Longrightarrow> pool_inv ready Q l0 (pool_run schedule p)"
  unfolding pool_run_def by (induction schedule arbitrary: p) (simp_all add: pool_inv_step)

lemma length_pool_run [simp]: "length (pl_tasks (pool_run schedule p)) = length (pl_tasks p)"
  unfolding pool_run_def
proof (induction schedule arbitrary: p)
  case (Cons i schedule)
  have "length (pl_tasks (pool_step i p)) = length (pl_tasks p)"
    by (simp add: pool_step_def split: task.split prod.split)
  with Cons.IH show ?case by simp
qed simp

text \<open>What a pool that started assured shows of each task, whatever the schedule.\<close>

lemma pool_assured:
  assumes "coherent l" "\<And>i. i < length ts \<Longrightarrow> assured (ready i) (\<lambda>a _. Q i a) (ts ! i) False []" "i < length ts"
    and p: "p = pool_run schedule (pool_new l ts)"
  shows "orderly (ready i) (calls_of i (pl_trace p)) \<and>
    (\<forall>pre q post. pl_trace p = pre @ (i, SendEvent q) # post \<longrightarrow> Connect \<in> set (lk_acts l @ map snd pre)) \<and>
    (\<forall>a. pl_tasks p ! i = Finished (Returns a) \<longrightarrow> Q i a (calls_of i (pl_trace p)))"
proof -
  from assms(1,2) have "pool_inv ready Q l p"
    unfolding p by (intro pool_inv_run pool_inv_new) auto
  moreover have "i < length (pl_tasks p)" using assms(3) by (simp add: p pool_new_def)
  ultimately show ?thesis by (fastforce simp: pool_inv_def)
qed

section \<open>No task waits for another\<close>

text \<open>A task that neither hangs nor panics, whatever the others do in between: each of its loops has a deciding round ahead.\<close>

primrec ends :: "'a task \<Rightarrow> bool" where
  "ends (Finished r) \<longleftrightarrow> r \<noteq> Panics \<and> r \<noteq> Diverges"
| "ends (Ready k) \<longleftrightarrow> (\<forall>l. fst (map_prod ends id (k l)))"
| "ends (Rounds k i) \<longleftrightarrow> (\<exists>j\<ge>i. k j \<noteq> None) \<and> (\<forall>j. map_option ends (k j) \<noteq> Some False)"

lemma ends_bind: "ends t \<Longrightarrow> (\<And>a. ends (f a)) \<Longrightarrow> ends (bind_task t f)"
proof (induction t)
  case (Finished r)
  then show ?case by (cases r) simp_all
next
  case (Ready k)
  then show ?case using Ready.IH [OF rangeI fsts.intros] by simp
next
  case (Rounds k i)
  have "map_option ends (map_option (\<lambda>t. bind_task t f) (k j)) \<noteq> Some False" for j
    using Rounds.IH [OF rangeI, of _ j] Rounds.prems by (cases "k j") (auto dest: spec [of _ j])
  with Rounds.prems show ?case by simp
qed

lemma ends_atomic: "settles m \<Longrightarrow> ends (atomic m)"
  by (simp add: atomic_def settles_def)

lemma ends_wait:
  assumes "clock_runs env d"
  shows "ends (wait_task env d body timed_out stream)"
proof -
  have "\<exists>j. verdict body timed_out (cl_instant env acts + d) (cl_timer env acts) stream j \<noteq> None" for acts
    using assms by (auto simp: clock_runs_def verdict_def expired_def)
  then show ?thesis
    using assms by (auto simp: wait_task_def instant_add_def clock_runs_def split: sum.split)
qed

lemma pool_step_other: "i \<noteq> j \<Longrightarrow> pl_tasks (pool_step i p) ! j = pl_tasks p ! j"
  by (simp add: pool_step_def split: task.split prod.split)

text \<open>The pool after the first \<open>n\<close> steps of an infinite schedule.\<close>

definition pool_at :: "(nat \<Rightarrow> nat) \<Rightarrow> 'a pool \<Rightarrow> nat \<Rightarrow> 'a pool" where
  "pool_at sched p n = pool_run (map sched [0..<n]) p"

lemma pool_at_simps [simp]:
  "pool_at sched p (Suc n) = pool_step (sched n) (pool_at sched p n)"
  "length (pl_tasks (pool_at sched p n)) = length (pl_tasks p)"
  by (simp_all add: pool_at_def) (simp add: pool_run_def)

text \<open>Until its next turn a task is where it was; one that is over stays over.\<close>

lemma next_turn:
  assumes "\<forall>n. \<exists>m\<ge>n. sched m = i"
  obtains m where "n \<le> m" "sched m = i" "pl_tasks (pool_at sched p m) ! i = pl_tasks (pool_at sched p n) ! i"
proof -
  define m where "m = (LEAST m. n \<le> m \<and> sched m = i)"
  from assms obtain m0 where "n \<le> m0 \<and> sched m0 = i" by blast
  then have m: "n \<le> m \<and> sched m = i" unfolding m_def by (rule LeastI)
  have "pl_tasks (pool_at sched p m) ! i = pl_tasks (pool_at sched p n) ! i"
    using conjunct1 [OF m]
  proof (induction rule: dec_induct)
    case (step j)
    then have "sched j \<noteq> i" using not_less_Least [of j] unfolding m_def by blast
    with step show ?case by (simp add: pool_step_other)
  qed simp
  with m that show thesis by blast
qed

lemma stays_finished:
  assumes "pl_tasks (pool_at sched p n) ! i = Finished r" "n \<le> m"
  shows "pl_tasks (pool_at sched p m) ! i = Finished r"
  using assms(2)
proof (induction rule: dec_induct)
  case (step j)
  then show ?case by (cases "sched j = i") (simp_all add: pool_step_other, simp add: pool_step_def)
qed (rule assms(1))

lemma reaches_end:
  assumes fair: "\<forall>n. \<exists>m\<ge>n. sched m = i" and i: "i < length (pl_tasks p)"
  shows "ends t \<Longrightarrow> pl_tasks (pool_at sched p n) ! i = t \<Longrightarrow>
    \<exists>N r. pl_tasks (pool_at sched p N) ! i = Finished r \<and> r \<noteq> Panics \<and> r \<noteq> Diverges"
proof (induction t arbitrary: n)
  case (Finished r)
  then show ?case by auto
next
  case (Ready k)
  obtain m where m: "sched m = i" "pl_tasks (pool_at sched p m) ! i = Ready k"
    using next_turn [OF fair, of n p] Ready.prems(2) by metis
  let ?l = "pl_link (pool_at sched p m)"
  have "pl_tasks (pool_at sched p (Suc m)) ! i = fst (k ?l)"
    using m i by (simp add: pool_step_def split: prod.split)
  with Ready.IH [OF rangeI fsts.intros, of ?l "Suc m"] Ready.prems(1) show ?case by simp
next
  case (Rounds k j)
  from Rounds.prems(1) obtain d where "k (j + d) \<noteq> None"
    by (auto simp: le_iff_add)
  then show ?case using Rounds.prems
  proof (induction d arbitrary: j n)
    case 0
    then obtain t where t: "k j = Some t" by auto
    obtain m where m: "sched m = i" "pl_tasks (pool_at sched p m) ! i = Rounds k j"
      using next_turn [OF fair, of n p] 0(3) by metis
    have "pl_tasks (pool_at sched p (Suc m)) ! i = t"
      using m i t by (simp add: pool_step_def)
    moreover have "ends t" using 0(2) t by (auto dest: spec [of _ j])
    ultimately show ?case using t by (intro Rounds.IH [of "Some t" t "Suc m"]) (auto intro: range_eqI [of _ k j])
  next
    case (Suc d)
    obtain m where m: "sched m = i" "pl_tasks (pool_at sched p m) ! i = Rounds k j"
      using next_turn [OF fair, of n p] Suc.prems(3) by metis
    show ?case
    proof (cases "k j")
      case None
      have "pl_tasks (pool_at sched p (Suc m)) ! i = Rounds k (Suc j)"
        using m i None by (simp add: pool_step_def)
      moreover have "ends (Rounds k (Suc j))"
        using Suc.prems(1,2) by (auto intro: exI [of _ "Suc (j + d)"])
      ultimately show ?thesis using Suc.prems(1) by (intro Suc.IH [of "Suc j" "Suc m"]) (simp_all del: ends.simps)
    next
      case (Some t)
      have "pl_tasks (pool_at sched p (Suc m)) ! i = t"
        using m i Some by (simp add: pool_step_def)
      moreover have "ends t" using Suc.prems(2) Some by (auto dest: spec [of _ j])
      ultimately show ?thesis using Some by (intro Rounds.IH [of "Some t" t "Suc m"]) (auto intro: range_eqI [of _ k j])
    qed
  qed
qed

lemma pool_live:
  assumes "\<forall>n. \<exists>m\<ge>n. sched m = i" "i < length (pl_tasks p)" "ends (pl_tasks p ! i)"
  shows "\<exists>N r. r \<noteq> Panics \<and> r \<noteq> Diverges \<and>
    (\<forall>n\<ge>N. pl_tasks (pool_run (map sched [0..<n]) p) ! i = Finished r)"
proof -
  have "pl_tasks (pool_at sched p 0) ! i = pl_tasks p ! i" by (simp add: pool_at_def pool_run_def)
  from reaches_end [OF assms this] obtain N r
    where r: "r \<noteq> Panics" "r \<noteq> Diverges" and N: "pl_tasks (pool_at sched p N) ! i = Finished r" by blast
  have "pl_tasks (pool_run (map sched [0..<n]) p) ! i = Finished r" if "N \<le> n" for n
    using stays_finished [OF N that] by (simp add: pool_at_def)
  with r show ?thesis by blast
qed

end
