(* ===== verification/Concurrent.thy ===== *)
theory Concurrent
  imports Tasks
begin

text \<open>
  Several tasks calling through one client at the same time. \<open>send\<close> of either client and \<open>begin\<close> take \<open>&self\<close>, so
  calls interleave; what they share is the flag \<open>connected\<close> and the relay client. Here they are written as tasks (\<open>Tasks\<close>),
  one step for the load of the flag, one for its store and one for every call to the relay client or the signer. A
  wait reads the clock for its deadline in one step and then takes one step for every round of its loop, that is for every
  item of its stream, of which there may be any number.

  A task that runs alone is the operation of \<open>NncClient\<close> or \<open>NwcClient\<close> (\<open>run_nnc_send\<close>, \<open>run_nnc_begin\<close>, \<open>run_wallet_send\<close>).
  Any number of them on one client, under any schedule, keep to what each promises alone (\<open>concurrent_calls\<close>), and under every
  infinite schedule that keeps coming back to a call, the call ends (\<open>concurrent_calls_end\<close>). A call given up halfway, its future dropped, is a task that gets
  no further step, so what is shown of every schedule holds with such calls among the others.
\<close>

section \<open>The calls as tasks\<close>

definition load_connected :: "bool cop" where
  "load_connected l = (Returns (lk_connected l), l)"

fun add_relays_task :: "cenv \<Rightarrow> string list \<Rightarrow> unit task" where
  "add_relays_task env [] = Finished (Returns ())"
| "add_relays_task env (r # rs) = bind_task (atomic (client_add_relay env r)) (\<lambda>_. add_relays_task env rs)"

definition bootstrap_task :: "cenv \<Rightarrow> string list \<Rightarrow> unit task" where
  "bootstrap_task env relays =
     bind_task (atomic load_connected) (\<lambda>connected.
     if connected then Finished (Returns ())
     else
       bind_task (add_relays_task env relays) (\<lambda>_.
       bind_task (atomic client_connect) (\<lambda>_. atomic set_connected)))"

text \<open>The waits, round by round.\<close>

definition await_response_task :: "codec \<Rightarrow> cenv \<Rightarrow> NostrNodeControl \<Rightarrow> EventId \<Rightarrow> stream \<Rightarrow> Response task" where
  "await_response_task codec env c request_id events =
     wait_task env (nc_timeout c) (response_body codec env (nnc_service c) request_id) (Inl (TimedOut (nc_timeout c))) events"

definition wallet_await_task :: "codec \<Rightarrow> cenv \<Rightarrow> 'sk WalletConnect \<Rightarrow> EventId \<Rightarrow> stream \<Rightarrow> Value task" where
  "wallet_await_task codec env c request_id events =
     wait_task env (wc_timeout c) (wallet_body codec env (wc_wallet c) request_id) (Inl (TimedOut (wc_timeout c))) events"

text \<open>The part the two clients share: subscribe, encrypt, sign, take the stream, send, wait.\<close>

definition exchange_task ::
  "cenv \<Rightarrow> u16 \<Rightarrow> u16 \<Rightarrow> PublicKey \<Rightarrow> PublicKey \<Rightarrow> string \<Rightarrow> (EventId \<Rightarrow> stream \<Rightarrow> 'a task) \<Rightarrow> 'a task" where
  "exchange_task env request_kind response_kind me srv payload await =
     bind_task (atomic (\<lambda>l. client_subscribe_to env (response_filter response_kind env me l) l)) (\<lambda>_.
     bind_task (atomic (signer_encrypt env srv payload)) (\<lambda>ciphertext.
     bind_task (atomic (sign_event env (request_builder request_kind srv ciphertext))) (\<lambda>event.
     bind_task (atomic (client_notifications env)) (\<lambda>events.
     bind_task (atomic (client_send_event env event)) (\<lambda>_.
     await (ev_id event) events)))))"

definition nnc_send_task :: "codec \<Rightarrow> cenv \<Rightarrow> NostrNodeControl \<Rightarrow> Request \<Rightarrow> Response task" where
  "nnc_send_task codec env c request =
     bind_task (bootstrap_task env (uri_relays (nc_uri c))) (\<lambda>_.
     bind_task (atomic (signer_public_key env)) (\<lambda>me.
     exchange_task env CONTROL_REQUEST_KIND CONTROL_RESPONSE_KIND me (nnc_service c)
       (print codec (en_Request request)) (await_response_task codec env c)))"

text \<open>An asynchronous command up to its handle.\<close>

definition nnc_begin_task :: "codec \<Rightarrow> cenv \<Rightarrow> NostrNodeControl \<Rightarrow> Request \<Rightarrow> Pending task" where
  "nnc_begin_task codec env c request =
     bind_task (bootstrap_task env (uri_relays (nc_uri c))) (\<lambda>_.
     bind_task (atomic (signer_public_key env)) (\<lambda>me.
     bind_task (atomic (signer_encrypt env (nnc_service c) (print codec (en_Request request)))) (\<lambda>ciphertext.
     bind_task (atomic (sign_event env (request_builder CONTROL_REQUEST_KIND (nnc_service c) ciphertext))) (\<lambda>event.
     bind_task (atomic (\<lambda>l. client_subscribe_to env (response_filter CONTROL_RESPONSE_KIND env me l) l)) (\<lambda>_.
     bind_task (atomic (client_subscribe_to env (outcome_filter me (ev_id event)))) (\<lambda>outcome_sub.
     bind_task (atomic (client_notifications env)) (\<lambda>responses.
     bind_task (atomic (client_notifications env)) (\<lambda>outcomes.
     bind_task (atomic (client_send_event env event)) (\<lambda>_.
     bind_task (await_response_task codec env c (ev_id event) responses) (\<lambda>response.
     bind_task (atomic (accepted_response response)) (\<lambda>_.
     Finished (Returns (pending_new outcomes outcome_sub (ev_id event) (nnc_service c) (nc_outcome_timeout c))))))))))))))"

definition wallet_send_task :: "codec \<Rightarrow> cenv \<Rightarrow> 'sk WalletConnect \<Rightarrow> WalletMethod \<Rightarrow> Value \<Rightarrow> Value task" where
  "wallet_send_task codec env c m params =
     bind_task (bootstrap_task env (wu_relays (wc_uri c))) (\<lambda>_.
     exchange_task env WALLET_REQUEST_KIND WALLET_RESPONSE_KIND (wc_public_key c) (wc_wallet c)
       (print codec (wallet_payload m params)) (wallet_await_task codec env c))"

lemma run_add_relays: "run_task (add_relays_task env rs) = add_relays env rs"
proof (induction rs)
  case Nil
  show ?case by (rule ext) (simp add: return_op_def)
qed simp

lemma run_bootstrap: "run_task (bootstrap_task env relays) = bootstrap env relays"
  by (simp add: bootstrap_task_def bootstrap_def load_connected_def bind_op_def run_add_relays fun_eq_iff)

lemma run_await [simp]:
  "run_task (await_response_task codec env c i events) = await_response codec env c i events"
  "run_task (wallet_await_task codec env w i events) = wallet_await codec env w i events"
  by (simp_all add: await_response_task_def await_response_def wallet_await_task_def wallet_await_def run_wait)

lemma run_nnc_send: "run_task (nnc_send_task codec env c request) = nnc_send codec env c request"
  by (simp add: nnc_send_task_def nnc_send_def exchange_task_def run_bootstrap)

lemma run_nnc_begin: "run_task (nnc_begin_task codec env c (request_new en m params)) = nnc_begin codec env c en m params"
  by (simp add: nnc_begin_task_def nnc_begin_def run_bootstrap return_op_def [abs_def])

lemma run_wallet_send: "run_task (wallet_send_task codec env c m params) = wallet_send codec env c m params"
  by (simp add: wallet_send_task_def wallet_send_def exchange_task_def run_bootstrap)

section \<open>What the tasks guarantee\<close>

text \<open>Bootstrapping, from calls among which no event is handed over. It leaves the task knowing that the client has
  connected, whether it connected itself or found the flag set by another task.\<close>

lemma assured_add_relays:
  assumes "unsent mine" "\<And>mine' on'. unsent mine' \<Longrightarrow> (on \<Longrightarrow> on') \<Longrightarrow> Q () on' mine'"
  shows "assured ready Q (add_relays_task env rs) on mine"
  using assms
proof (induction rs arbitrary: on mine)
  case (Cons r rs)
  show ?case
    unfolding add_relays_task.simps assured_bind client_add_relay_def
    using Cons.prems by (intro assured_call Cons.IH orderly_unsent) (auto simp: unsent_def)
qed simp

lemma assured_bootstrap:
  assumes "\<And>mine. unsent mine \<Longrightarrow> Q () True mine"
  shows "assured ready Q (bootstrap_task env relays) on []"
proof -
  have connect: "assured ready (\<lambda>_. assured ready Q (atomic set_connected)) (atomic client_connect) on mine"
    if "unsent mine" for on mine
    unfolding client_connect_def
    by (rule assured_call [where a = "\<lambda>_. Connect"])
      (use that in \<open>auto intro!: assured_set_connected assms orderly_unsent simp: unsent_def\<close>)
  show ?thesis
    unfolding bootstrap_task_def assured_bind
  proof (rule assured_pure)
    show "assured ready Q (if connected then Finished (Returns ()) else
        bind_task (add_relays_task env relays) (\<lambda>_. bind_task (atomic client_connect) (\<lambda>_. atomic set_connected))) on' []"
      if "load_connected l = (Returns connected, l)" "coherent l" "opened l = on'" for connected l on'
      using that by (auto simp: load_connected_def coherent_def unsent_def intro: assms assured_add_relays connect)
  qed (simp_all add: load_connected_def)
qed

section \<open>The exchange\<close>

text \<open>An event that carries a given text from this client to \<open>srv\<close>.\<close>

definition carries :: "cenv \<Rightarrow> u16 \<Rightarrow> PublicKey \<Rightarrow> string \<Rightarrow> Event \<Rightarrow> bool" where
  "carries env kind srv payload q \<longleftrightarrow>
     (\<exists>acts acts' ciphertext. cl_encrypt env acts srv payload = Some ciphertext \<and>
        cl_sign env acts' (request_builder kind srv ciphertext) = Some q)"

lemma carriesI:
  "cl_encrypt env acts srv payload = Some ciphertext \<Longrightarrow>
   cl_sign env acts' (request_builder kind srv ciphertext) = Some q \<Longrightarrow> carries env kind srv payload q"
  by (auto simp: carries_def)

text \<open>Among the calls of a task there is one that sent the text, and an event of a stream of this client is an answer to
  that very event.\<close>

definition answered_own ::
  "cenv \<Rightarrow> u16 \<Rightarrow> PublicKey \<Rightarrow> string \<Rightarrow> (EventId \<Rightarrow> Event \<Rightarrow> 'a \<Rightarrow> bool) \<Rightarrow> 'a \<Rightarrow> act list \<Rightarrow> bool" where
  "answered_own env kind srv payload answers a mine \<longleftrightarrow>
     (\<exists>q acts k e. SendEvent q \<in> set mine \<and> carries env kind srv payload q \<and>
        cl_stream env acts k = Item (NEvent e) \<and> answers (ev_id q) e a)"

text \<open>What an exchange needs of the wait that ends it.\<close>

locale awaiting =
  fixes await :: "EventId \<Rightarrow> stream \<Rightarrow> 'a task"
    and answers :: "EventId \<Rightarrow> Event \<Rightarrow> 'a \<Rightarrow> bool"
  assumes heard_answer: "orderly ready mine \<Longrightarrow>
      (\<And>k e a on'. events k = Item (NEvent e) \<Longrightarrow> answers i e a \<Longrightarrow> (on \<Longrightarrow> on') \<Longrightarrow> Q a on' mine) \<Longrightarrow>
      assured ready Q (await i events) on mine"
begin

lemma assured_await:
  assumes "orderly ready mine" "SendEvent q \<in> set mine" "carries env kind srv payload q"
  shows "assured ready (\<lambda>a _. answered_own env kind srv payload answers a)
    (await (ev_id q) (cl_stream env acts)) on mine"
  by (rule heard_answer) (use assms in \<open>auto simp: answered_own_def\<close>)

lemma assured_delivery:
  assumes "unsent mine" on "ready (mine @ [TakeStream])" "carries env kind srv payload q"
  shows "assured ready (\<lambda>a _. answered_own env kind srv payload answers a)
    (bind_task (atomic (client_notifications env)) (\<lambda>events.
     bind_task (atomic (client_send_event env q)) (\<lambda>_. await (ev_id q) events))) on mine"
  unfolding assured_bind op_defs
proof (rule assured_call, goal_cases)
  case (3 events l on')
  have ordered: "orderly ready ((mine @ [TakeStream]) @ [SendEvent q])"
    by (subst orderly_append) (use assms(1,3) in \<open>auto simp: unsent_def\<close>)
  show ?case
    by (rule assured_call [where a = "\<lambda>_. SendEvent q"])
      (use 3 assms(2) in \<open>auto simp: ordered [simplified] intro!: assured_await assms(4)\<close>)
qed (use assms in \<open>auto intro: orderly_unsent simp: unsent_def\<close>)

lemma assured_exchange:
  assumes "unsent mine" on
    and ready: "\<And>pre. TakeStream \<in> set pre \<Longrightarrow> subscribed response_kind me pre \<Longrightarrow> ready pre"
  shows "assured ready (\<lambda>a _. answered_own env request_kind srv payload answers a)
    (exchange_task env request_kind response_kind me srv payload await) on mine"
  unfolding exchange_task_def client_subscribe_to_def
proof (rule assured_seq, rule assured_call, goal_cases)
  case (3 x l on')
  let ?mine = "mine @ [Subscribe (response_filter response_kind env me l)]"
  have quiet: "unsent ?mine" "orderly ready ?mine" "ready (?mine @ [TakeStream])" on'
    using assms(1,2) 3 by (auto simp: unsent_def response_filter_def intro!: ready orderly_unsent)
  have signed: "assured ready (\<lambda>a _. answered_own env request_kind srv payload answers a)
      (bind_task (atomic (sign_event env (request_builder request_kind srv ct))) (\<lambda>event.
       bind_task (atomic (client_notifications env)) (\<lambda>events.
       bind_task (atomic (client_send_event env event)) (\<lambda>_. await (ev_id event) events)))) on ?mine"
    if "cl_encrypt env acts srv payload = Some ct" on for acts ct on
    by (rule assured_seq, rule assured_pure)
      (use quiet that in \<open>auto simp: sign_event_def try_op_def simp del: assured_bind
          intro!: assured_delivery intro: carriesI split: option.splits\<close>)
  show ?case
    by (rule assured_seq, rule assured_pure)
      (use quiet signed in \<open>auto simp: signer_encrypt_def try_op_def simp del: assured_bind split: option.splits\<close>)
qed (use assms in \<open>auto intro: orderly_unsent simp: unsent_def\<close>)

end

section \<open>That they end\<close>

lemma ends_bootstrap: "ends (bootstrap_task env relays)"
proof -
  have "ends (add_relays_task env rs)" for rs
    by (induction rs) (auto intro!: ends_bind ends_atomic settles_intros simp: client_add_relay_def)
  moreover have "settles load_connected" by (simp add: settles_def load_connected_def)
  ultimately show ?thesis
    unfolding bootstrap_task_def client_connect_def by (auto intro!: ends_bind ends_atomic settles_intros)
qed

lemma ends_exchange:
  assumes "\<And>i events. ends (await i events)"
  shows "ends (exchange_task env request_kind response_kind me srv payload await)"
  unfolding exchange_task_def op_defs by (intro ends_bind ends_atomic settles_intros assms)

section \<open>The two clients\<close>

interpretation nnc_wait: awaiting "await_response_task codec env c"
  "\<lambda>i e r. response_body codec env (nnc_service c) i e = Some (Inr r)" for codec env c
  by unfold_locales (auto simp: await_response_task_def intro: assured_wait)

interpretation wallet_wait: awaiting "wallet_await_task codec env w"
  "\<lambda>i e v. wallet_body codec env (wc_wallet w) i e = Some (Inr v)" for codec env w
  by unfold_locales (auto simp: wallet_await_task_def intro: assured_wait)

text \<open>What can be started on a control client: a call, or a command whose outcome comes later.\<close>

datatype control_use = Call Request | Begin Request

definition wrap_task :: "('a \<Rightarrow> 'b) \<Rightarrow> 'a task \<Rightarrow> 'b task" where
  "wrap_task f t = bind_task t (\<lambda>a. Finished (Returns (f a)))"

primrec use_task :: "codec \<Rightarrow> cenv \<Rightarrow> NostrNodeControl \<Rightarrow> control_use \<Rightarrow> (Response + Pending) task" where
  "use_task codec env c (Call request) = wrap_task Inl (nnc_send_task codec env c request)"
| "use_task codec env c (Begin request) = wrap_task Inr (nnc_begin_task codec env c request)"

text \<open>Many of them on one client, and many wallet calls on one.\<close>

definition nnc_uses :: "codec \<Rightarrow> cenv \<Rightarrow> NostrNodeControl \<Rightarrow> control_use list \<Rightarrow> (Response + Pending) task list" where
  "nnc_uses codec env c uses = map (use_task codec env c) uses"

definition wallet_calls ::
  "codec \<Rightarrow> cenv \<Rightarrow> 'sk WalletConnect \<Rightarrow> (WalletMethod \<times> Value) list \<Rightarrow> Value task list" where
  "wallet_calls codec env w requests = map (\<lambda>(m, params). wallet_send_task codec env w m params) requests"

lemma assured_wrap [simp]: "assured ready Q (wrap_task f t) = assured ready (\<lambda>a. Q (f a)) t"
  by (simp add: wrap_task_def)

lemma ends_wrap: "ends t \<Longrightarrow> ends (wrap_task f t)"
  by (simp add: wrap_task_def ends_bind)

lemma length_calls [simp]:
  "length (nnc_uses codec env c uses) = length uses"
  "length (wallet_calls codec env w wrequests) = length wrequests"
  by (simp_all add: nnc_uses_def wallet_calls_def)

definition called_ready :: "cenv \<Rightarrow> act list \<Rightarrow> bool" where
  "called_ready env pre \<longleftrightarrow>
     TakeStream \<in> set pre \<and> (\<exists>me. cl_public_key env = Some me \<and> subscribed CONTROL_RESPONSE_KIND me pre)"

definition own_response :: "codec \<Rightarrow> cenv \<Rightarrow> NostrNodeControl \<Rightarrow> Request \<Rightarrow> Response \<Rightarrow> act list \<Rightarrow> bool" where
  "own_response codec env c request =
     answered_own env CONTROL_REQUEST_KIND (nnc_service c) (print codec (en_Request request))
       (\<lambda>i e r. response_body codec env (nnc_service c) i e = Some (Inr r))"

lemma nnc_send_assured:
  "assured (called_ready env) (\<lambda>r _. own_response codec env c request r)
     (nnc_send_task codec env c request) False []"
  unfolding nnc_send_task_def own_response_def
  by (rule assured_seq, rule assured_bootstrap, rule assured_seq, rule assured_pure)
    (auto simp: called_ready_def signer_public_key_def try_op_def orderly_unsent split: option.splits intro!: nnc_wait.assured_exchange)

text \<open>A handle belongs to its command: it names the event this task sent, which carries its command and which the service has
  acknowledged without an error, and the subscription for the outcome names that event.\<close>

definition own_handle :: "codec \<Rightarrow> cenv \<Rightarrow> NostrNodeControl \<Rightarrow> Request \<Rightarrow> Pending \<Rightarrow> act list \<Rightarrow> bool" where
  "own_handle codec env c request p mine \<longleftrightarrow>
     (\<exists>q me acts k e r. SendEvent q \<in> set mine \<and> Subscribe (outcome_filter me (ev_id q)) \<in> set mine \<and>
        carries env CONTROL_REQUEST_KIND (nnc_service c) (print codec (en_Request request)) q \<and>
        cl_stream env acts k = Item (NEvent e) \<and> response_body codec env (nnc_service c) (ev_id q) e = Some (Inr r) \<and>
        rs_error r = None \<and> pd_request_id p = ev_id q \<and> pd_service p = nnc_service c)"

definition begun_ready :: "cenv \<Rightarrow> act list \<Rightarrow> bool" where
  "begun_ready env pre \<longleftrightarrow> TakeStream \<in> set pre \<and> (\<exists>me. cl_public_key env = Some me \<and>
     subscribed CONTROL_RESPONSE_KIND me pre \<and> subscribed NOTIFICATION_KIND me pre)"

lemma acknowledged_assured:
  assumes "orderly ready mine" "SendEvent q \<in> set mine" "Subscribe (outcome_filter me (ev_id q)) \<in> set mine"
    and "carries env CONTROL_REQUEST_KIND (nnc_service c) (print codec (en_Request request)) q"
    and p: "pd_request_id p = ev_id q" "pd_service p = nnc_service c"
  shows "assured ready (\<lambda>p _. own_handle codec env c request p)
    (bind_task (await_response_task codec env c (ev_id q) (cl_stream env acts)) (\<lambda>response.
     bind_task (atomic (accepted_response response)) (\<lambda>_. Finished (Returns p)))) on mine"
proof (rule assured_seq, rule nnc_wait.heard_answer, goal_cases)
  case (2 k e r on')
  then have "own_handle codec env c request p mine" if "rs_error r = None"
    using assms(2-4) p that unfolding own_handle_def by blast
  then show ?case
    by (intro assured_seq, intro assured_pure)
      (use assms(1) in \<open>auto simp: accepted_response_def of_result_def split: option.splits\<close>)
qed (rule assms(1))

lemma delivered_assured:
  assumes "unsent mine" on "begun_ready env (mine @ [TakeStream])" "Subscribe (outcome_filter me (ev_id q)) \<in> set mine"
    and "carries env CONTROL_REQUEST_KIND (nnc_service c) (print codec (en_Request request)) q"
    and p: "\<And>outcomes. pd_request_id (p outcomes) = ev_id q" "\<And>outcomes. pd_service (p outcomes) = nnc_service c"
  shows "assured (begun_ready env) (\<lambda>p _. own_handle codec env c request p)
    (bind_task (atomic (client_notifications env)) (\<lambda>responses.
     bind_task (atomic (client_notifications env)) (\<lambda>outcomes.
     bind_task (atomic (client_send_event env q)) (\<lambda>_.
     bind_task (await_response_task codec env c (ev_id q) responses) (\<lambda>response.
     bind_task (atomic (accepted_response response)) (\<lambda>_. Finished (Returns (p outcomes)))))))) on mine"
  unfolding op_defs
proof (rule assured_seq, rule assured_call, goal_cases)
  case (3 responses l on')
  have ordered: "orderly (begun_ready env) ((mine @ [TakeStream, TakeStream]) @ [SendEvent q])"
    by (subst orderly_append) (use assms(1,3) in \<open>auto simp: unsent_def begun_ready_def\<close>)
  show ?case
  proof (rule assured_seq, rule assured_call, goal_cases)
    case (3 outcomes l on'')
    show ?case
      by (rule assured_seq, rule assured_call [where a = "\<lambda>_. SendEvent q"])
        (use 3 \<open>_ \<Longrightarrow> on'\<close> \<open>Some (cl_stream _ _) = Some responses\<close> assms(2,4,5) p ordered in
          \<open>auto intro!: acknowledged_assured simp del: assured_bind\<close>)
  qed (use assms in \<open>auto intro: orderly_unsent simp: unsent_def\<close>)
qed (use assms in \<open>auto intro: orderly_unsent simp: unsent_def\<close>)

lemma subscribed_assured:
  assumes "unsent mine" on "cl_public_key env = Some me"
    and "carries env CONTROL_REQUEST_KIND (nnc_service c) (print codec (en_Request request)) q"
    and p: "\<And>i outcomes. pd_request_id (p i outcomes) = ev_id q" "\<And>i outcomes. pd_service (p i outcomes) = nnc_service c"
  shows "assured (begun_ready env) (\<lambda>p _. own_handle codec env c request p)
    (bind_task (atomic (\<lambda>l. client_subscribe_to env (response_filter CONTROL_RESPONSE_KIND env me l) l)) (\<lambda>_.
     bind_task (atomic (client_subscribe_to env (outcome_filter me (ev_id q)))) (\<lambda>outcome_sub.
     bind_task (atomic (client_notifications env)) (\<lambda>responses.
     bind_task (atomic (client_notifications env)) (\<lambda>outcomes.
     bind_task (atomic (client_send_event env q)) (\<lambda>_.
     bind_task (await_response_task codec env c (ev_id q) responses) (\<lambda>response.
     bind_task (atomic (accepted_response response)) (\<lambda>_. Finished (Returns (p outcome_sub outcomes)))))))))) on mine"
  unfolding client_subscribe_to_def
proof (rule assured_seq, rule assured_call, goal_cases)
  case (3 i l on')
  let ?subs = "[Subscribe (response_filter CONTROL_RESPONSE_KIND env me l), Subscribe (outcome_filter me (ev_id q))]"
  have "unsent (mine @ ?subs)" "begun_ready env ((mine @ ?subs) @ [TakeStream])"
    using assms(1,3) by (auto simp: unsent_def begun_ready_def response_filter_def outcome_filter_def)
  with 3 assms(2) p show ?case
    by (intro assured_seq, intro assured_call)
      (auto intro!: delivered_assured assms(4) orderly_unsent simp del: assured_bind simp: unsent_def)
qed (use assms in \<open>auto intro: orderly_unsent simp: unsent_def\<close>)

lemma nnc_begin_assured:
  "assured (begun_ready env) (\<lambda>p _. own_handle codec env c request p) (nnc_begin_task codec env c request) False []"
  unfolding nnc_begin_task_def
proof (rule assured_seq, rule assured_bootstrap, rule assured_seq, rule assured_pure, goal_cases)
  case (3 mine me l on)
  then have key: "cl_public_key env = Some me" and on
    by (auto simp: signer_public_key_def)
  show ?case
  proof (rule assured_seq, rule assured_pure, goal_cases)
    case (3 ct l on')
    then have ct: "cl_encrypt env (lk_acts l) (nnc_service c) (print codec (en_Request request)) = Some ct" and on'
      using \<open>on\<close> by (auto simp: signer_encrypt_def)
    show ?case
    proof (rule assured_seq, rule assured_pure, goal_cases)
      case (3 q l on'')
      with ct have "carries env CONTROL_REQUEST_KIND (nnc_service c) (print codec (en_Request request)) q"
        by (auto simp: sign_event_def intro: carriesI)
      with 3 key \<open>unsent mine\<close> \<open>on'\<close> show ?case by (intro subscribed_assured) simp_all
    qed (use \<open>unsent mine\<close> in \<open>auto intro: orderly_unsent simp: sign_event_def try_op_def\<close>)
  qed (use \<open>unsent mine\<close> in \<open>auto intro: orderly_unsent simp: signer_encrypt_def try_op_def\<close>)
qed (auto intro: orderly_unsent simp: signer_public_key_def try_op_def)

lemma wallet_send_assured:
  "assured (\<lambda>pre. TakeStream \<in> set pre \<and> subscribed WALLET_RESPONSE_KIND (wc_public_key w) pre)
     (\<lambda>v _. answered_own env WALLET_REQUEST_KIND (wc_wallet w) (print codec (wallet_payload m params))
        (\<lambda>i e v. wallet_body codec env (wc_wallet w) i e = Some (Inr v)) v)
     (wallet_send_task codec env w m params) False []"
  unfolding wallet_send_task_def
  by (rule assured_seq, rule assured_bootstrap) (auto intro!: wallet_wait.assured_exchange)

text \<open>What each use of the client waits for before it hands over its event, and what it may return.\<close>

primrec use_ready :: "cenv \<Rightarrow> control_use \<Rightarrow> act list \<Rightarrow> bool" where
  "use_ready env (Call request) = called_ready env"
| "use_ready env (Begin request) = begun_ready env"

fun own_outcome :: "codec \<Rightarrow> cenv \<Rightarrow> NostrNodeControl \<Rightarrow> control_use \<Rightarrow> Response + Pending \<Rightarrow> act list \<Rightarrow> bool" where
  "own_outcome codec env c (Call request) (Inl r) mine = own_response codec env c request r mine"
| "own_outcome codec env c (Begin request) (Inr p) mine = own_handle codec env c request p mine"
| "own_outcome codec env c use x mine = False"

lemma own_outcome_cong [simp]:
  "own_outcome codec env c (Call request) (Inl r) = own_response codec env c request r"
  "own_outcome codec env c (Begin request) (Inr p) = own_handle codec env c request p"
  by (simp_all add: fun_eq_iff)

lemma use_assured: "assured (use_ready env use) (\<lambda>x _. own_outcome codec env c use x) (use_task codec env c use) False []"
  by (cases use) (simp_all add: nnc_send_assured nnc_begin_assured)

text \<open>C14: uses of one client do not get in each other's way. Of any number of control calls and commands through one
  client, interleaved in any way: each takes its streams and opens its subscriptions before it hands over its event,
  which is its last call to the relay client; the event goes out only once the client has connected, whichever task
  connected it; a response a call returns answers an event that this very call sent and that carries its own request;
  and the handle a command returns names the event that command sent, which the service has accepted.\<close>

theorem concurrent_calls:
  assumes "coherent l" "i < length uses" "p = pool_run schedule (pool_new l (nnc_uses codec env c uses))"
  shows "orderly (use_ready env (uses ! i)) (calls_of i (pl_trace p)) \<and>
    (\<forall>pre q post. pl_trace p = pre @ (i, SendEvent q) # post \<longrightarrow> Connect \<in> set (lk_acts l @ map snd pre)) \<and>
    (\<forall>x. pl_tasks p ! i = Finished (Returns x) \<longrightarrow> own_outcome codec env c (uses ! i) x (calls_of i (pl_trace p)))"
proof (rule pool_assured [OF assms(1) _ _ assms(3), where Q = "\<lambda>i. own_outcome codec env c (uses ! i)"])
  show "i < length (nnc_uses codec env c uses)" using assms(2) by simp
qed (simp add: nnc_uses_def use_assured)

lemma concurrent_wallet_calls:
  assumes "coherent l" "i < length requests" "p = pool_run schedule (pool_new l (wallet_calls codec env w requests))"
  shows "orderly (\<lambda>pre. TakeStream \<in> set pre \<and> subscribed WALLET_RESPONSE_KIND (wc_public_key w) pre)
      (calls_of i (pl_trace p)) \<and>
    (\<forall>pre q post. pl_trace p = pre @ (i, SendEvent q) # post \<longrightarrow> Connect \<in> set (lk_acts l @ map snd pre)) \<and>
    (\<forall>v. pl_tasks p ! i = Finished (Returns v) \<longrightarrow>
       answered_own env WALLET_REQUEST_KIND (wc_wallet w)
         (print codec (wallet_payload (fst (requests ! i)) (snd (requests ! i))))
         (\<lambda>i e v. wallet_body codec env (wc_wallet w) i e = Some (Inr v)) v (calls_of i (pl_trace p)))"
proof (rule pool_assured [OF assms(1) _ _ assms(3),
      where Q = "\<lambda>i. answered_own env WALLET_REQUEST_KIND (wc_wallet w)
        (print codec (wallet_payload (fst (requests ! i)) (snd (requests ! i))))
        (\<lambda>i e v. wallet_body codec env (wc_wallet w) i e = Some (Inr v))"])
  show "i < length (wallet_calls codec env w requests)" using assms(2) by simp
qed (simp add: wallet_calls_def wallet_send_assured case_prod_unfold)

lemma ends_use:
  assumes "clock_runs env (nc_timeout c)"
  shows "ends (use_task codec env c use)"
proof (cases use)
  case (Call request)
  have "ends (nnc_send_task codec env c request)"
    unfolding nnc_send_task_def await_response_task_def
    by (intro ends_bind ends_bootstrap ends_atomic ends_exchange ends_wait settles_intros assms)
  then show ?thesis by (simp add: Call ends_wrap)
next
  case (Begin request)
  have "ends (nnc_begin_task codec env c request)"
    unfolding nnc_begin_task_def op_defs await_response_task_def accepted_response_def
    by (intro ends_bind ends_bootstrap ends_atomic ends_wait settles_intros assms) simp_all
  then show ?thesis by (simp add: Begin ends_wrap)
qed

lemma ends_wallet_send: "clock_runs env (wc_timeout w) \<Longrightarrow> ends (wallet_send_task codec env w m params)"
  unfolding wallet_send_task_def wallet_await_task_def
  by (intro ends_bind ends_bootstrap ends_exchange ends_wait)

text \<open>C15: no use of a client starves another. Under any infinite schedule that gives a use of the client a turn again and again, and
  however many rounds its wait goes through in between, the call or command is over at some point and stays over, with
  a result or an error, without a panic, if the clock gets to the deadline of its wait. Nothing is asked of the other tasks:
  they may be given no turn at all, hang or fail. The same for the calls of a wallet client.\<close>

theorem concurrent_calls_end:
  assumes "\<forall>n. \<exists>m\<ge>n. sched m = i"
  shows "(clock_runs env (nc_timeout c) \<longrightarrow> i < length uses \<longrightarrow>
      (\<exists>N r. r \<noteq> Panics \<and> r \<noteq> Diverges \<and>
         (\<forall>n\<ge>N. pl_tasks (pool_run (map sched [0..<n]) (pool_new l (nnc_uses codec env c uses))) ! i = Finished r))) \<and>
    (clock_runs env (wc_timeout w) \<longrightarrow> i < length wrequests \<longrightarrow>
      (\<exists>N r. r \<noteq> Panics \<and> r \<noteq> Diverges \<and>
         (\<forall>n\<ge>N. pl_tasks (pool_run (map sched [0..<n]) (pool_new l (wallet_calls codec env w wrequests))) ! i = Finished r)))"
proof (intro conjI impI)
  assume "clock_runs env (nc_timeout c)" "i < length uses"
  then show "\<exists>N r. r \<noteq> Panics \<and> r \<noteq> Diverges \<and>
      (\<forall>n\<ge>N. pl_tasks (pool_run (map sched [0..<n]) (pool_new l (nnc_uses codec env c uses))) ! i = Finished r)"
    by (intro pool_live assms) (simp_all add: pool_new_def nnc_uses_def ends_use)
next
  assume "clock_runs env (wc_timeout w)" "i < length wrequests"
  then show "\<exists>N r. r \<noteq> Panics \<and> r \<noteq> Diverges \<and>
      (\<forall>n\<ge>N. pl_tasks (pool_run (map sched [0..<n]) (pool_new l (wallet_calls codec env w wrequests))) ! i = Finished r)"
    by (intro pool_live assms) (simp_all add: pool_new_def wallet_calls_def case_prod_unfold ends_wallet_send)
qed

text \<open>Two tasks in turn, on a stream that yields relay messages and nothing else.\<close>

theorem concurrent_calls_end_witness:
  "\<exists>N r. r \<noteq> Panics \<and> r \<noteq> Diverges \<and> (\<forall>n\<ge>N. pl_tasks (pool_run (map (\<lambda>n. n mod 2) [0..<n]) (pool_new link_new
      (nnc_uses demo_codec (demo_client_env (\<lambda>_. Item NMessage)) demo_client [Call \<lparr>rq_method = ListPeers, rq_params = JObj []\<rparr>,
        Begin \<lparr>rq_method = CloseChannel, rq_params = JObj []\<rparr>]))) ! 1 = Finished r)"
proof -
  have "\<exists>m\<ge>n. m mod 2 = 1" for n :: nat
    by (rule exI [of _ "2 * n + 1"]) simp
  then have "\<forall>n :: nat. \<exists>m\<ge>n. m mod 2 = 1" by blast
  from concurrent_calls_end [OF this, THEN conjunct1, rule_format] show ?thesis
    by (simp add: demo_client_def nnc_with_timeout_def)
qed

text \<open>Two calls of a new client, step by step in turn, both answered.\<close>

definition demo_rq :: Request where
  "demo_rq = \<lparr>rq_method = ListPeers, rq_params = JObj []\<rparr>"

definition demo_answer :: Event where
  "demo_answer = \<lparr>ev_id = 77, ev_pubkey = 1, ev_created_at = 1, ev_kind = CONTROL_RESPONSE_KIND,
     ev_tags = [tag_event 9], ev_content = ''x''\<rparr>"

definition demo_answered_codec :: codec where
  "demo_answered_codec = demo_codec\<lparr>parse := \<lambda>_. Some (en_Response (render demo_codec) (response_ok ListPeers (JObj [])))\<rparr>"

definition demo_answered_pool :: "nat list \<Rightarrow> (Response + Pending) pool" where
  "demo_answered_pool schedule =
     pool_run schedule (pool_new link_new (nnc_uses demo_answered_codec
       (demo_client_env (\<lambda>_. Item (NEvent demo_answer))) demo_client (replicate 2 (Call demo_rq))))"

lemma demo_pool_answered:
  "pl_tasks (demo_answered_pool (concat (replicate 12 [0, 1]))) ! 1 = Finished (Returns (Inl (response_ok ListPeers (JObj []))))"
proof -
  have schedule: "concat (replicate 12 [0, 1 :: nat]) = [0, 1, 0, 1, 0, 1, 0, 1, 0, 1, 0, 1, 0, 1, 0, 1, 0, 1, 0, 1, 0, 1, 0, 1]"
    by (simp add: eval_nat_numeral)
  have two: "replicate 2 x = [x, x]" for x :: control_use by (simp add: eval_nat_numeral)
  have relays: "uri_relays (nc_uri demo_client) = [''wss://r'']"
    by (simp add: demo_client_def nnc_with_timeout_def nnc_new_def)
  have env: "cl_add_relay (demo_client_env s) = (\<lambda>_ _. True)" "cl_subscribe (demo_client_env s) = (\<lambda>_ _. Some ''sub'')"
    "cl_stream (demo_client_env s) = (\<lambda>_. s)" "cl_send_event (demo_client_env s) = (\<lambda>_ _. True)"
    "cl_public_key (demo_client_env s) = Some 3" "cl_encrypt (demo_client_env s) = (\<lambda>_ _ t. Some t)"
    "cl_sign (demo_client_env s) = (\<lambda>_ eb. Some (demo_signed eb))" "ev_id (demo_signed eb) = 9" for s eb
    by (simp_all add: demo_client_env_def demo_signed_def)
  have r: "de_Response (en_Response (render demo_codec) (response_ok ListPeers (JObj []))) = Some (response_ok ListPeers (JObj []))"
    by (simp add: de_Response_def en_Response_def codec_simps response_ok_def opt_value_wf_def method_from_str_def)
  have "verdict (response_body demo_answered_codec (demo_client_env (\<lambda>_. Item (NEvent demo_answer))) (nnc_service demo_client) 9)
      timed_out (cl_instant (demo_client_env (\<lambda>_. Item (NEvent demo_answer))) acts + nc_timeout demo_client)
      (cl_timer (demo_client_env (\<lambda>_. Item (NEvent demo_answer))) acts) (\<lambda>_. Item (NEvent demo_answer)) 0 =
      Some (Inr (response_ok ListPeers (JObj [])))" for timed_out acts
    by (simp add: demo_answer_def demo_answered_codec_def verdict_def expired_def
        accepted_def response_body_def demo_client_def demo_client_env_def nnc_service_def nnc_with_timeout_def
        nnc_new_def names_request_def tag_event_def r)
  moreover have "instant_add (cl_instant_max (demo_client_env s)) (cl_instant (demo_client_env s) acts) (nc_timeout demo_client) =
      Some (cl_instant (demo_client_env s) acts + nc_timeout demo_client)" for s acts
    by (simp add: instant_add_def demo_client_env_def demo_client_def nnc_with_timeout_def)
  ultimately show ?thesis unfolding schedule demo_answered_pool_def demo_rq_def
    by (simp add: pool_run_def pool_new_def pool_step_def nnc_uses_def wrap_task_def nnc_send_task_def bootstrap_task_def atomic_def
      load_connected_def link_new_def client_add_relay_def set_connected_def signer_public_key_def
      exchange_task_def await_response_task_def wait_task_def op_defs signer_encrypt_def sign_event_def relays two env
      call_client_def try_op_def client_connect_def)
qed

theorem concurrent_calls_witness:
  "own_outcome demo_answered_codec (demo_client_env (\<lambda>_. Item (NEvent demo_answer))) demo_client (Call demo_rq)
     (Inl (response_ok ListPeers (JObj []))) (calls_of 1 (pl_trace (demo_answered_pool (concat (replicate 12 [0, 1])))))"
proof -
  have "coherent link_new" by (simp add: coherent_def link_new_def)
  from concurrent_calls [OF this _ demo_answered_pool_def, THEN conjunct2, THEN conjunct2, rule_format,
      OF _ demo_pool_answered] show ?thesis by simp
qed

text \<open>Two first calls both connect. Between the load of the flag and its store another call may load it too, so each of them adds
  the relays and connects: the flag keeps later calls from connecting again, not concurrent ones.\<close>

lemma first_calls_both_connect:
  "pl_trace (pool_run [0, 1, 0, 0, 1, 1] (pool_new link_new (nnc_uses demo_codec
      (demo_client_env stream) demo_client (replicate 2 (Call demo_rq))))) =
    [(0, AddRelay ''wss://r''), (0, Connect), (1, AddRelay ''wss://r''), (1, Connect)]"
  by (simp add: pool_run_def pool_new_def pool_step_def nnc_uses_def wrap_task_def nnc_send_task_def bootstrap_task_def atomic_def
      demo_client_def nnc_with_timeout_def nnc_new_def load_connected_def link_new_def client_add_relay_def
      call_client_def try_op_def client_connect_def demo_client_env_def eval_nat_numeral)

end
