(* ===== verification/Observed.thy ===== *)
theory Observed
  imports Pipeline
begin

text \<open>
  What the node is asked, seen from the node. \<open>watch\<close> puts a recorder around any service: every call of \<open>prepare\<close> and of a
  typed method is noted, with its caller and what was read and answered, and passed on. Since the services are the parameters of
  the pipeline, what is recorded is what the pipeline itself does on its way, not what its guards say it should do. The bound on
  the rate, the agreement of validation with dispatch and the refusal over quota are stated on the record.
\<close>

section \<open>A recorder around a service\<close>

datatype ask =
    Quote string Value Caller
  | Invoke string Value Caller "(Value, NncError) result"

definition watched_prepare ::
  "('n \<Rightarrow> string \<Rightarrow> Value \<Rightarrow> Caller \<Rightarrow> ('s Prepared, NncError) result \<times> 'n) \<Rightarrow>
     'n \<times> ask list \<Rightarrow> string \<Rightarrow> Value \<Rightarrow> Caller \<Rightarrow> ('s Prepared, NncError) result \<times> 'n \<times> ask list" where
  "watched_prepare f s name params caller =
     (case f (fst s) name params caller of (r, n') \<Rightarrow> (r, n', snd s @ [Quote name params caller]))"

text \<open>A typed method is noted with the request it was given and the answer it gave, both as JSON.\<close>

definition answer_value :: "('r \<Rightarrow> Value) \<Rightarrow> ('r, NncError) result \<Rightarrow> (Value, NncError) result" where
  "answer_value en r = (case r of Inl e \<Rightarrow> Inl e | Inr x \<Rightarrow> Inr (to_value en x))"

definition watched ::
  "string \<Rightarrow> ('q \<Rightarrow> Value) \<Rightarrow> ('r \<Rightarrow> Value) \<Rightarrow> ('n, 'q, 'r) method_fn \<Rightarrow> ('n \<times> ask list, 'q, 'r) method_fn" where
  "watched name en_rq en f s rq caller =
     (case f (fst s) rq caller of
        (r, n') \<Rightarrow> (r, n', snd s @ [Invoke name (en_rq rq) caller (answer_value en r)]))"

definition watch_control :: "('n, 's) ControlService \<Rightarrow> ('n \<times> ask list, 's) ControlService" where
  "watch_control svc = \<lparr>
     cs_methods = cs_methods svc,
     cs_list_channels = watched ''list_channels'' en_ListChannelsRequest en_ListChannelsResponse (cs_list_channels svc),
     cs_open_channel = watched ''open_channel'' en_OpenChannelRequest en_OpenChannelResponse (cs_open_channel svc),
     cs_close_channel = watched ''close_channel'' en_CloseChannelRequest en_CloseChannelResponse (cs_close_channel svc),
     cs_list_peers = watched ''list_peers'' en_ListPeersRequest en_ListPeersResponse (cs_list_peers svc),
     cs_connect_peer = watched ''connect_peer'' en_ConnectPeerRequest en_ConnectPeerResponse (cs_connect_peer svc),
     cs_disconnect_peer = watched ''disconnect_peer'' en_DisconnectPeerRequest en_DisconnectPeerResponse (cs_disconnect_peer svc),
     cs_get_channel_fees = watched ''get_channel_fees'' en_GetChannelFeesRequest en_GetChannelFeesResponse (cs_get_channel_fees svc),
     cs_set_channel_fees = watched ''set_channel_fees'' en_SetChannelFeesRequest en_SetChannelFeesResponse (cs_set_channel_fees svc),
     cs_get_forwarding_history = watched ''get_forwarding_history'' en_GetForwardingHistoryRequest en_GetForwardingHistoryResponse (cs_get_forwarding_history svc),
     cs_get_pending_htlcs = watched ''get_pending_htlcs'' en_GetPendingHtlcsRequest en_GetPendingHtlcsResponse (cs_get_pending_htlcs svc),
     cs_query_routes = watched ''query_routes'' en_QueryRoutesRequest en_QueryRoutesResponse (cs_query_routes svc),
     cs_list_network_nodes = watched ''list_network_nodes'' en_ListNetworkNodesRequest en_ListNetworkNodesResponse (cs_list_network_nodes svc),
     cs_get_network_stats = watched ''get_network_stats'' en_GetNetworkStatsRequest en_GetNetworkStatsResponse (cs_get_network_stats svc),
     cs_get_network_node = watched ''get_network_node'' en_GetNetworkNodeRequest en_NetworkNode (cs_get_network_node svc),
     cs_get_network_channel = watched ''get_network_channel'' en_GetNetworkChannelRequest en_GetNetworkChannelResponse (cs_get_network_channel svc),
     cs_sign_message = watched ''sign_message'' en_SignMessageRequest en_SignMessageResponse (cs_sign_message svc),
     cs_prepare = watched_prepare (cs_prepare svc)\<rparr>"

definition watch_wallet :: "('n, 's) WalletService \<Rightarrow> ('n \<times> ask list, 's) WalletService" where
  "watch_wallet svc = \<lparr>
     ws_methods = ws_methods svc,
     ws_pay_invoice = watched ''pay_invoice'' en_PayInvoiceRequest en_PayInvoiceResponse (ws_pay_invoice svc),
     ws_make_invoice = watched ''make_invoice'' en_MakeInvoiceRequest en_Transaction (ws_make_invoice svc),
     ws_lookup_invoice = watched ''lookup_invoice'' en_LookupInvoiceRequest en_Transaction (ws_lookup_invoice svc),
     ws_get_balance = watched ''get_balance'' en_GetBalanceRequest en_GetBalanceResponse (ws_get_balance svc),
     ws_get_info = watched ''get_info'' en_GetInfoRequest en_GetInfoResponse (ws_get_info svc),
     ws_pay_onchain = watched ''pay_onchain'' en_PayOnchainRequest en_PayOnchainResponse (ws_pay_onchain svc),
     ws_make_hold_invoice = watched ''make_hold_invoice'' en_MakeHoldInvoiceRequest en_MakeHoldInvoiceResponse (ws_make_hold_invoice svc),
     ws_settle_hold_invoice = watched ''settle_hold_invoice'' en_SettleHoldInvoiceRequest en_SettleHoldInvoiceResponse (ws_settle_hold_invoice svc),
     ws_cancel_hold_invoice = watched ''cancel_hold_invoice'' en_CancelHoldInvoiceRequest en_CancelHoldInvoiceResponse (ws_cancel_hold_invoice svc),
     ws_quote_payment = watched ''quote_payment'' en_QuotePaymentRequest en_QuotePaymentResponse (ws_quote_payment svc),
     ws_pay_keysend = watched ''pay_keysend'' en_PayKeysendRequest en_PayKeysendResponse (ws_pay_keysend svc),
     ws_list_transactions = watched ''list_transactions'' en_ListTransactionsRequest en_ListTransactionsResponse (ws_list_transactions svc),
     ws_make_new_address = watched ''make_new_address'' en_MakeNewAddressRequest en_MakeNewAddressResponse (ws_make_new_address svc),
     ws_lookup_address = watched ''lookup_address'' en_LookupAddressRequest en_LookupAddressResponse (ws_lookup_address svc),
     ws_list_addresses = watched ''list_addresses'' en_ListAddressesRequest en_ListAddressesResponse (ws_list_addresses svc),
     ws_estimate_onchain_fees = watched ''estimate_onchain_fees'' en_EstimateOnchainFeesRequest en_EstimateOnchainFeesResponse (ws_estimate_onchain_fees svc),
     ws_list_invoices = watched ''list_invoices'' en_ListInvoicesRequest en_ListInvoicesResponse (ws_list_invoices svc),
     ws_pay = watched ''pay'' en_PayRequest en_PayResponse (ws_pay svc),
     ws_receive = watched ''receive'' en_ReceiveRequest en_ReceiveResponse (ws_receive svc),
     ws_make_offer = watched ''make_offer'' en_MakeOfferRequest en_MakeOfferResponse (ws_make_offer svc),
     ws_lookup_payment = watched ''lookup_payment'' en_LookupPaymentRequest en_LookupPaymentResponse (ws_lookup_payment svc),
     ws_pay_offer = watched ''pay_offer'' en_PayOfferRequest en_PayOfferResponse (ws_pay_offer svc),
     ws_list_offers = watched ''list_offers'' en_ListOffersRequest en_ListOffersResponse (ws_list_offers svc),
     ws_disable_offer = watched ''disable_offer'' en_DisableOfferRequest en_DisableOfferResponse (ws_disable_offer svc),
     ws_notifications = ws_notifications svc,
     ws_prepare = watched_prepare (ws_prepare svc)\<rparr>"

fun watch :: "('n, 's) Handler \<Rightarrow> ('n \<times> ask list, 's) Handler" where
  "watch (HWallet s) = HWallet (watch_wallet s)"
| "watch (HControl s) = HControl (watch_control s)"

definition watch_op :: "('n, 's) op \<Rightarrow> ('n \<times> ask list, 's) op" where
  "watch_op op = \<lparr>op_handler = watch (op_handler op), op_grants = op_grants op, op_controller = op_controller op,
     op_request_id = op_request_id op, op_method = op_method op, op_params = op_params op, op_now = op_now op\<rparr>"

text \<open>How often one controller had the node quote, or run, one method.\<close>

fun quote_for :: "PublicKey \<Rightarrow> string \<Rightarrow> ask \<Rightarrow> bool" where
  "quote_for c name (Quote name' _ caller) \<longleftrightarrow> name' = name \<and> caller_controller caller = c"
| "quote_for c name (Invoke _ _ _ _) \<longleftrightarrow> False"

fun invoke_for :: "PublicKey \<Rightarrow> string \<Rightarrow> ask \<Rightarrow> bool" where
  "invoke_for c name (Quote _ _ _) \<longleftrightarrow> False"
| "invoke_for c name (Invoke name' _ caller _) \<longleftrightarrow> name' = name \<and> caller_controller caller = c"

section \<open>What the parameters of a method say\<close>

text \<open>The parameters as the request type of the method reads them, written out again.\<close>

definition read_control :: "Method \<Rightarrow> Value \<Rightarrow> Value option" where
  "read_control method params =
     (case method of
        ListChannels \<Rightarrow> map_option en_ListChannelsRequest (de_ListChannelsRequest params)
      | OpenChannel \<Rightarrow> map_option en_OpenChannelRequest (de_OpenChannelRequest params)
      | CloseChannel \<Rightarrow> map_option en_CloseChannelRequest (de_CloseChannelRequest params)
      | ListPeers \<Rightarrow> map_option en_ListPeersRequest (de_ListPeersRequest params)
      | ConnectPeer \<Rightarrow> map_option en_ConnectPeerRequest (de_ConnectPeerRequest params)
      | DisconnectPeer \<Rightarrow> map_option en_DisconnectPeerRequest (de_DisconnectPeerRequest params)
      | GetChannelFees \<Rightarrow> map_option en_GetChannelFeesRequest (de_GetChannelFeesRequest params)
      | SetChannelFees \<Rightarrow> map_option en_SetChannelFeesRequest (de_SetChannelFeesRequest params)
      | GetForwardingHistory \<Rightarrow> map_option en_GetForwardingHistoryRequest (de_GetForwardingHistoryRequest params)
      | GetPendingHtlcs \<Rightarrow> map_option en_GetPendingHtlcsRequest (de_GetPendingHtlcsRequest params)
      | QueryRoutes \<Rightarrow> map_option en_QueryRoutesRequest (de_QueryRoutesRequest params)
      | ListNetworkNodes \<Rightarrow> map_option en_ListNetworkNodesRequest (de_ListNetworkNodesRequest params)
      | GetNetworkStats \<Rightarrow> map_option en_GetNetworkStatsRequest (de_GetNetworkStatsRequest params)
      | GetNetworkNode \<Rightarrow> map_option en_GetNetworkNodeRequest (de_GetNetworkNodeRequest params)
      | GetNetworkChannel \<Rightarrow> map_option en_GetNetworkChannelRequest (de_GetNetworkChannelRequest params)
      | SignMessage \<Rightarrow> map_option en_SignMessageRequest (de_SignMessageRequest params)
      | UnknownMethod _ \<Rightarrow> None)"

definition read_wallet :: "WalletMethod \<Rightarrow> Value \<Rightarrow> Value option" where
  "read_wallet method params =
     (case method of
        PayInvoice \<Rightarrow> map_option en_PayInvoiceRequest (de_PayInvoiceRequest params)
      | MakeInvoice \<Rightarrow> map_option en_MakeInvoiceRequest (de_MakeInvoiceRequest params)
      | LookupInvoice \<Rightarrow> map_option en_LookupInvoiceRequest (de_LookupInvoiceRequest params)
      | GetBalance \<Rightarrow> map_option en_GetBalanceRequest (de_GetBalanceRequest params)
      | GetInfo \<Rightarrow> map_option en_GetInfoRequest (de_GetInfoRequest params)
      | PayOnchain \<Rightarrow> map_option en_PayOnchainRequest (de_PayOnchainRequest params)
      | MakeHoldInvoice \<Rightarrow> map_option en_MakeHoldInvoiceRequest (de_MakeHoldInvoiceRequest params)
      | SettleHoldInvoice \<Rightarrow> map_option en_SettleHoldInvoiceRequest (de_SettleHoldInvoiceRequest params)
      | CancelHoldInvoice \<Rightarrow> map_option en_CancelHoldInvoiceRequest (de_CancelHoldInvoiceRequest params)
      | QuotePayment \<Rightarrow> map_option en_QuotePaymentRequest (de_QuotePaymentRequest params)
      | PayKeysend \<Rightarrow> map_option en_PayKeysendRequest (de_PayKeysendRequest params)
      | ListTransactions \<Rightarrow> map_option en_ListTransactionsRequest (de_ListTransactionsRequest params)
      | MakeNewAddress \<Rightarrow> map_option en_MakeNewAddressRequest (de_MakeNewAddressRequest params)
      | LookupAddress \<Rightarrow> map_option en_LookupAddressRequest (de_LookupAddressRequest params)
      | ListAddresses \<Rightarrow> map_option en_ListAddressesRequest (de_ListAddressesRequest params)
      | EstimateOnchainFees \<Rightarrow> map_option en_EstimateOnchainFeesRequest (de_EstimateOnchainFeesRequest params)
      | ListInvoices \<Rightarrow> map_option en_ListInvoicesRequest (de_ListInvoicesRequest params)
      | Pay \<Rightarrow> map_option en_PayRequest (de_PayRequest params)
      | Receive \<Rightarrow> map_option en_ReceiveRequest (de_ReceiveRequest params)
      | MakeOffer \<Rightarrow> map_option en_MakeOfferRequest (de_MakeOfferRequest params)
      | LookupPayment \<Rightarrow> map_option en_LookupPaymentRequest (de_LookupPaymentRequest params)
      | PayOffer \<Rightarrow> map_option en_PayOfferRequest (de_PayOfferRequest params)
      | ListOffers \<Rightarrow> map_option en_ListOffersRequest (de_ListOffersRequest params)
      | DisableOffer \<Rightarrow> map_option en_DisableOfferRequest (de_DisableOfferRequest params)
      | UnknownWalletMethod _ \<Rightarrow> None)"

fun read_params :: "('n, 's) Handler \<Rightarrow> Method \<Rightarrow> Value \<Rightarrow> Value option" where
  "read_params (HWallet _) m params = read_wallet (wallet_method_from_str (method_as_str m)) params"
| "read_params (HControl _) m params = read_control m params"

section \<open>What is recorded\<close>

lemma arm_recorded:
  assumes "map_option en_rq (de params) = Some v"
  shows "\<exists>answer n'. dispatch_arm de f en params caller n = (answer, n') \<and>
    dispatch_arm de (watched name en_rq en f) en params caller (n, asks) =
      (answer, n', asks @ [Invoke name v caller answer])"
proof -
  from assms obtain rq where "de params = Some rq" "v = en_rq rq" by blast
  then show ?thesis
    by (cases "f n rq caller") (auto simp: dispatch_arm_def watched_def answer_value_def split: sum.split)
qed

lemma dispatch_control_recorded:
  "read_control m params = Some v \<Longrightarrow> \<exists>answer n'. dispatch_control svc m params caller n = (answer, n') \<and>
     dispatch_control (watch_control svc) m params caller (n, asks) =
       (answer, n', asks @ [Invoke (method_as_str m) v caller answer])"
  by (cases m) (simp_all add: read_control_def dispatch_control_def watch_control_def arm_recorded del: map_option_eq_Some)

lemma dispatch_wallet_recorded:
  "read_wallet m params = Some v \<Longrightarrow> \<exists>answer n'. dispatch_wallet svc m params caller n = (answer, n') \<and>
     dispatch_wallet (watch_wallet svc) m params caller (n, asks) =
       (answer, n', asks @ [Invoke (wallet_method_as_str m) v caller answer])"
  by (cases m) (simp_all add: read_wallet_def dispatch_wallet_def watch_wallet_def arm_recorded del: map_option_eq_Some)

lemma validate_reads: "is_ok (validate h m params) \<longleftrightarrow> read_params h m params \<noteq> None"
proof -
  have "is_ok (validate_control m params) \<longleftrightarrow> read_control m params \<noteq> None"
    by (cases m) (simp_all add: validate_control_def read_control_def check_params_def split: option.split)
  moreover have "is_ok (validate_wallet wm params) \<longleftrightarrow> read_wallet wm params \<noteq> None" for wm
    by (cases wm) (simp_all add: validate_wallet_def read_wallet_def check_params_def split: option.split)
  ultimately show ?thesis by (cases h) (simp_all add: validate_def)
qed

lemma execute_recorded:
  assumes "read_params h m params = Some v"
  shows "\<exists>answer n'. execute h m params caller n = (answer, n') \<and>
    execute (watch h) m params caller (n, asks) = (answer, n', asks @ [Invoke (method_as_str m) v caller answer])"
  using assms dispatch_control_recorded [of m params v] dispatch_wallet_recorded [of "wallet_method_from_str (method_as_str m)" params v]
  by (cases h) (simp_all add: execute_def wallet_method.as_str_from_str)

lemma watch_simps [simp]:
  "handler_protocol (watch h) = handler_protocol h" "handler_methods (watch h) = handler_methods h"
  by (cases h; simp add: watch_wallet_def watch_control_def)+

lemma watch_steps [simp]:
  "implements (watch h) name = implements h name"
  "authorize (watch h) g c name = authorize h g c name"
  "validate (watch h) m params = validate h m params"
  unfolding implements_def authorize_def validate_def watch_simps by (rule refl)+

lemma prepare_recorded:
  "prepare h name params caller n = (r, n') \<Longrightarrow>
     prepare (watch h) name params caller (n, asks) = (r, n', asks @ [Quote name params caller])"
  by (cases h) (simp_all add: prepare_def watch_wallet_def watch_control_def watched_prepare_def)

text \<open>One request: the answer, the tables and the node are what they are without the recorder, and what is recorded is nothing,
  a quote, or a quote followed by one call of the method. \<open>reaches_node\<close> is exactly the condition for anything to be recorded.\<close>

lemma handle_recorded:
  fixes op :: "('n, 's) op" and n :: 'n
  defines "name \<equiv> method_as_str (op_method op)"
    and "caller \<equiv> \<lparr>caller_controller = op_controller op, caller_request_id = op_request_id op\<rparr>"
  shows "\<exists>new. handle_op (watch_op op) (u, n, asks) =
      (fst (handle_op op (u, n)), fst (snd (handle_op op (u, n))), snd (snd (handle_op op (u, n))), asks @ new) \<and>
    (if reaches_node op u
     then new = [Quote name (op_params op) caller] \<or>
       (\<exists>v answer. new = [Quote name (op_params op) caller, Invoke name v caller answer])
     else new = [])"
proof -
  let ?h = "op_handler op"
  show ?thesis
  proof (cases rule: handle_cases [of ?h "op_method op" "op_grants op" "op_controller op" "op_request_id op"
        "op_params op" "op_now op" u n])
    case (ran profile rule u1 p n1 u2 r n2)
    then obtain v where "read_params ?h (op_method op) (op_params op) = Some v"
      using validate_reads [of ?h "op_method op" "op_params op"] by auto
    from execute_recorded [OF this, of caller n1 "asks @ [Quote name (op_params op) caller]"] ran show ?thesis
      by (auto simp: handle_op_def watch_op_def handle_def [of "watch ?h"] Let_def prepare_recorded reaches_node_def
          name_def caller_def is_ok_def split: sum.split)
  qed (simp_all add: handle_op_def watch_op_def handle_def [of "watch ?h"] Let_def prepare_recorded reaches_node_def
      name_def caller_def)
qed

text \<open>A run: the recorder changes nothing, and one controller's quotes of one method are the requests that reached the node.\<close>

lemma run_recorded:
  "\<exists>new. fold serve (map watch_op ops) (u, n, asks) =
     (fst (fold serve ops (u, n)), snd (fold serve ops (u, n)), asks @ new) \<and>
     length (filter (quote_for c name) new) = run_total serve (reached c name) ops (u, n) \<and>
     length (filter (invoke_for c name) new) \<le> run_total serve (reached c name) ops (u, n)"
proof (induction ops arbitrary: u n asks)
  case (Cons op ops)
  from handle_recorded [of op u n asks] obtain one
    where one: "handle_op (watch_op op) (u, n, asks) =
        (fst (handle_op op (u, n)), fst (snd (handle_op op (u, n))), snd (snd (handle_op op (u, n))), asks @ one)"
      and counts: "length (filter (quote_for c name) one) = reached c name op (u, n)"
        "length (filter (invoke_for c name) one) \<le> reached c name op (u, n)"
    by (auto simp: reached_def split: if_splits)
  from one have step: "serve (watch_op op) (u, n, asks) = (fst (serve op (u, n)), snd (serve op (u, n)), asks @ one)"
    by (simp add: serve_def)
  from Cons.IH [of "fst (serve op (u, n))" "snd (serve op (u, n))" "asks @ one"] obtain new
    where "fold serve (map watch_op ops) (fst (serve op (u, n)), snd (serve op (u, n)), asks @ one) =
        (fst (fold serve ops (serve op (u, n))), snd (fold serve ops (serve op (u, n))), (asks @ one) @ new)"
      and "length (filter (quote_for c name) new) = run_total serve (reached c name) ops (serve op (u, n))"
      and "length (filter (invoke_for c name) new) \<le> run_total serve (reached c name) ops (serve op (u, n))"
    by auto
  with step counts show ?case
    by (intro exI [of _ "one @ new"]) simp
qed simp

section \<open>Properties\<close>

text \<open>C11: effort. Put a recorder around the node: a run of requests of both protocols and of all controllers gives the same tables
  and leaves the node in the same state, and however often one controller asks for a method, the node is made to quote it, and to
  run it, no more often than the rate rule's ceiling and the refill of the run's duration allow, whether or not the requests
  succeed. The run starts before the method has a bucket, the grant keeps that rule through it, and the clock does not go back.\<close>

theorem rate_bounds_requests:
  assumes "list_all (under_rate c name rule) ops" "fmlookup (u_rate u) (to_hex c, name) = None"
    and "sorted (map (\<lambda>op. unat (op_now op)) ops)" "ops \<noteq> []"
  shows "\<exists>asks. fold serve (map watch_op ops) (u, n, []) =
      (fst (fold serve ops (u, n)), snd (fold serve ops (u, n)), asks) \<and>
    length (filter (quote_for c name) asks) \<le> unat (max_capacity rule) +
      unat (amount rule) * (unat (op_now (last ops)) - unat (op_now (hd ops))) div unat (per_secs rule) \<and>
    length (filter (invoke_for c name) asks) \<le> unat (max_capacity rule) +
      unat (amount rule) * (unat (op_now (last ops)) - unat (op_now (hd ops))) div unat (per_secs rule)"
proof -
  have "run_total serve (reached c name) ops (u, n) \<le> unat (max_capacity rule) +
      unat (amount rule) * (unat (op_now (last ops)) - unat (op_now (hd ops))) div unat (per_secs rule)"
    using rate_meter.run_bound [of c name rule ops "(u, n)"] assms by (simp add: refill_def)
  moreover obtain new where "fold serve (map watch_op ops) (u, n, []) =
      (fst (fold serve ops (u, n)), snd (fold serve ops (u, n)), new)"
    and "length (filter (quote_for c name) new) = run_total serve (reached c name) ops (u, n)"
    and "length (filter (invoke_for c name) new) \<le> run_total serve (reached c name) ops (u, n)"
    using run_recorded [of ops u n "[]" c name] by auto
  ultimately show ?thesis by auto
qed

theorem rate_bounds_requests_witness:
  "length (filter (invoke_for 7 ''get_balance'')
     (snd (snd (fold serve (map watch_op [demo_op 100, demo_op 101, demo_op 102]) (usage_new, 0, []))))) \<le> 2"
proof -
  let ?ops = "[demo_op 100, demo_op 101, demo_op 102]"
  have "list_all (under_rate 7 ''get_balance'' (demo_rule 2)) ?ops" by (simp add: demo_under)
  moreover have "fmlookup (u_rate usage_new) (to_hex 7, ''get_balance'') = None" by (simp add: usage_new_def)
  moreover have "sorted (map (\<lambda>op. unat (op_now op)) ?ops)" by (simp add: demo_op_def)
  ultimately show ?thesis
    using rate_bounds_requests [of 7 "''get_balance''" "demo_rule 2" ?ops usage_new 0]
    by (auto simp: demo_rule_def)
qed

text \<open>C28: validation is exactly the reading dispatch does later. Parameters that step 4 refuses, dispatch would refuse with the same
  error, touching nothing. Parameters that step 4 accepts are read by the request type of the method, and dispatch calls that
  method of the service once and no other, on what was read and for that caller, and answers what it answers. So no request
  fails for its parameters after it has been charged.\<close>

theorem validate_agrees_with_dispatch:
  "(validate h m params = Inl e \<longrightarrow> execute h m params caller n = (Inl e, n)) \<and>
   (is_ok (validate h m params) \<longrightarrow>
     (\<exists>v answer n'. read_params h m params = Some v \<and> execute h m params caller n = (answer, n') \<and>
        execute (watch h) m params caller (n, asks) =
          (answer, n', asks @ [Invoke (method_as_str m) v caller answer])))"
proof (intro conjI impI)
  show "execute h m params caller n = (Inl e, n)" if "validate h m params = Inl e"
    using that by (rule execute_invalid)
next
  assume "is_ok (validate h m params)"
  then obtain v where "read_params h m params = Some v"
    using validate_reads [of h m params] by auto
  with execute_recorded [OF this, of caller n asks]
  show "\<exists>v answer n'. read_params h m params = Some v \<and> execute h m params caller n = (answer, n') \<and>
      execute (watch h) m params caller (n, asks) = (answer, n', asks @ [Invoke (method_as_str m) v caller answer])"
    by blast
qed

theorem validate_agrees_with_dispatch_witness:
  "\<exists>v answer n'. read_params (HWallet demo_wallet) (UnknownMethod ''get_balance'') (JObj []) = Some v \<and>
     execute (watch (HWallet demo_wallet)) (UnknownMethod ''get_balance'') (JObj [])
       \<lparr>caller_controller = 7, caller_request_id = None\<rparr> (0, []) =
     (answer, n', [Invoke ''get_balance'' v \<lparr>caller_controller = 7, caller_request_id = None\<rparr> answer])"
  using validate_agrees_with_dispatch [of "HWallet demo_wallet" "UnknownMethod ''get_balance''" "JObj []" "not_implemented []"
      "\<lparr>caller_controller = 7, caller_request_id = None\<rparr>" 0 "[]"]
  by (auto simp: demo_steps)

text \<open>C24: a request whose quoted cost is more than the quota has left is answered \<open>QUOTA_EXCEEDED\<close> and never executed: the node was
  asked for the quote and for nothing else, and is left as its own \<open>prepare\<close> left it. Its rate is charged all the same, its
  quota is not.\<close>

theorem over_quota_not_executed:
  assumes "implements h (method_as_str m)"
    and "authorize h g c (method_as_str m) = Inr (profile, Some rule)"
    and "validate h m params = Inr ()"
    and "1 \<le> rate_left u (c, method_as_str m) rule now"
    and "prepare h (method_as_str m) params \<lparr>caller_controller = c, caller_request_id = rid\<rparr> n = (Inr p, n1)"
    and "quota profile = Some q" "quota_left u c q now < cost_sats p"
  shows "\<exists>u'. handle h g c rid m params now u n = (Inl (quota_exceeded (cost_sats p)), u', n1) \<and>
    handle (watch h) g c rid m params now u (n, asks) = (Inl (quota_exceeded (cost_sats p)), u', n1,
      asks @ [Quote (method_as_str m) params \<lparr>caller_controller = c, caller_request_id = rid\<rparr>]) \<and>
    rate_left u' (c, method_as_str m) rule now = rate_left u (c, method_as_str m) rule now - 1 \<and>
    quota_left u' c q now = quota_left u c q now"
proof -
  from handle_over_quota [OF assms] obtain u' where
      u': "handle h g c rid m params now u n = (Inl (quota_exceeded (cost_sats p)), u', n1)"
        "rate_left u' (c, method_as_str m) rule now = rate_left u (c, method_as_str m) rule now - 1"
        "quota_left u' c q now = quota_left u c q now"
    by blast
  from handle_over_quota [of "watch h" m g c profile rule params u now rid "(n, asks)" p
      "(n1, asks @ [Quote (method_as_str m) params \<lparr>caller_controller = c, caller_request_id = rid\<rparr>])" q]
  obtain u'' where u'': "handle (watch h) g c rid m params now u (n, asks) = (Inl (quota_exceeded (cost_sats p)), u'', n1,
      asks @ [Quote (method_as_str m) params \<lparr>caller_controller = c, caller_request_id = rid\<rparr>])"
    using assms by (auto simp: prepare_recorded)
  have "u'' = u'"
    using handle_recorded [of "\<lparr>op_handler = h, op_grants = g, op_controller = c, op_request_id = rid, op_method = m,
        op_params = params, op_now = now\<rparr>" u n asks] u'(1) u''
    by (auto simp: handle_op_def watch_op_def)
  with u' u'' show ?thesis by blast
qed

theorem over_quota_not_executed_witness:
  "\<exists>u'. handle (watch (HWallet demo_wallet)) demo_grants 7 None (UnknownMethod ''get_balance'') (JObj []) 100
       \<lparr>u_rate = fmempty, u_quota = fmupd (to_hex 7) \<lparr>balance = 3, since = 100\<rparr> fmempty\<rparr> (0, []) =
     (Inl (quota_exceeded 4), u', 0,
      [Quote ''get_balance'' (JObj []) \<lparr>caller_controller = 7, caller_request_id = None\<rparr>])"
proof -
  let ?u = "\<lparr>u_rate = fmempty, u_quota = fmupd (to_hex 7) \<lparr>balance = 3, since = 100\<rparr> fmempty\<rparr>"
  have "rate_left ?u (7, ''get_balance'') (demo_rule 2) 100 = 2"
    by (simp add: left_held held_or_full_def balance_at_full demo_rule_def rule_is_valid_def)
  moreover have "quota_left ?u 7 (demo_rule 10) 100 = 3"
    by (simp add: left_held balance_at_def demo_rule_def rule_is_valid_def saturating_mul_def
        saturating_add_def saturating_sub_def min_def)
  ultimately show ?thesis
    using over_quota_not_executed [of "HWallet demo_wallet" "UnknownMethod ''get_balance''" demo_grants 7
        demo_profile "demo_rule 2" "JObj []" ?u 100 None 0 "prepared_new 4 ()" 0 "demo_rule 10" "[]"]
    by (auto simp: demo_steps demo_authorize prepared_new_def demo_profile_def)
qed

end
