(* ===== verification/Spec2Isabelle.thy ===== *)
theory Spec2Isabelle
  imports Notices Texts Monitor Wire Conformance Vectors Names ClientParts Concurrent Observed
begin

text \<open>
  A verification development for \<^verbatim>\<open>nostr-ln\<close>: a crate with which a Lightning node serves NIP-47 (wallet) and
  NIP-XX (node control) requests over Nostr relays, under grants its owner publishes.

  \<^bold>\<open>The program.\<close> A node writes handlers (\<^verbatim>\<open>src/service/handler.rs\<close>); the service runs the protocol around
  them (\<^verbatim>\<open>src/service/transport.rs\<close>). Events arrive from relays: grants (kind 30198) go to the grant store
  (\<^verbatim>\<open>src/grant.rs\<close>, whose content is a usage profile, \<^verbatim>\<open>src/profile.rs\<close>), subscriptions (kind 30199) to the
  subscription registry (\<^verbatim>\<open>src/subscription.rs\<close>), requests (kinds 23194 and 23198) through the pipeline
  (\<^verbatim>\<open>src/service/pipeline.rs\<close>): resolve, authorize, validate, rate, prepare, quota, execute, commit. Rates and
  quotas are token buckets (\<^verbatim>\<open>src/limit.rs\<close>) kept per controller (\<^verbatim>\<open>src/service/state.rs\<close>). Method names reach
  typed handlers through dispatch (\<^verbatim>\<open>src/service/dispatch.rs\<close>), whose messages are the structs of
  \<^verbatim>\<open>src/nnc\<close> and \<^verbatim>\<open>src/nwc\<close>. Notifications go out by the notifier, which reads a mirror of grants and
  subscriptions. Clients find a service by a connection URI (\<^verbatim>\<open>src/nnc/uri.rs\<close>) and talk to it through
  \<^verbatim>\<open>src/nnc/client\<close> and \<^verbatim>\<open>src/nwc/client\<close>: a request is published, its response awaited under a deadline, and the
  outcome of an asynchronous command awaited through a handle.

  \<^bold>\<open>The theories\<close>, in the order they build on each other:

  \<^item> \<open>Prelude\<close>: machine integers with saturating operations, results as sums, hash maps as finite maps with
    an arbitrary iteration order, string slices, and the locale \<open>input_store\<close> of stores driven by inputs.
  \<^item> \<open>Limit\<close>: rules and buckets at their widths. The balance is exact over the naturals, a withdrawal takes
    what it says, and the locale \<open>token_bucket\<close> bounds every sequence of withdrawals.
  \<^item> \<open>Nostr\<close>, \<open>Json\<close>: what the crate uses of its vendored base: hex keys, tags, events, the event builder;
    JSON values and the behaviour of serde's derived codecs, with their round-trip laws (\<open>codec_simps\<close>).
  \<^item> \<open>Profile\<close>, \<open>Grant\<close>, \<open>Subscription\<close>: one definition per function of the three files. The grant store
    refines its history: what is in force is the newest admitted event. Delivery is the intersection of
    subscriptions and grants.
  \<^item> \<open>Usage\<close>, \<open>Metering\<close>: the live buckets; the locale \<open>limiter\<close> is the contract of checks and charges,
    interpreted for rates and quotas, and the locale \<open>metered\<close> bounds what a run of any system can take
    from one bucket.
  \<^item> \<open>NncWire\<close>, \<open>NwcWire\<close>, \<open>Names\<close>, \<open>NncMethods\<close>, \<open>NwcMethods\<close>, \<open>Messages\<close>: names (locale \<open>wire_name\<close>) and their
    JSON (\<open>name_codec\<close>, which extends it), error codes, envelopes, and a record with its two codecs for every struct of both protocols; all are read back as
    they were written.
  \<^item> \<open>Handler\<close>, \<open>Pipeline\<close>: service traits as records of state-passing functions over a node state of any
    type, their defaults, the macro that lists methods, both dispatchers, and the pipeline with every
    path. What runs was permitted; spending is bounded over every interleaving (\<open>metered\<close>, interpreted twice on the
    pipeline itself, for quotas and rates); allowances are private.
  \<^item> \<open>Observed\<close>: a recorder around any service, which notes every call the pipeline makes of it. On the record: how often
    a controller can make the node quote and run a method, that dispatch calls the method validation read the parameters
    for and no other, and that a request over its quota is quoted and not run.
  \<^item> \<open>Transport\<close>: the service as a state machine (\<open>start\<close>, \<open>loop_step\<close>, \<open>reachable\<close>) over the inputs of its
    \<open>select!\<close> loop, with its invariant; requests, replies, refresh, mirror and delivery.
  \<^item> \<open>Monitor\<close>: the abstract specification of the service, a reference monitor over the received events, and the
    refinement: every step of the service is the monitor's, with the same answers.
  \<^item> \<open>Uri\<close>: connection URIs and percent coding, with panics as values.
  \<^item> \<open>Await\<close>: the loop in which a client waits for an event under a deadline, over any stream and timer. The
    locale \<open>reply_wait\<close> is the contract of what a wait takes, \<open>authored_wait\<close> extends it by whose events count.
  \<^item> \<open>Outcomes\<close>, \<open>Link\<close>: notification payloads and typed envelopes; the calls both clients make to the relay
    client and the signer, recorded in order, and how a call ends (returns, fails, panics, diverges).
  \<^item> \<open>NncClient\<close>, \<open>NwcClient\<close>: one definition per function of the two clients, with the methods, the handle
    \<open>Pending\<close>, subscriptions and notification streams. The two response waits are \<open>authored_wait\<close>s, the wait
    for an outcome only a \<open>reply_wait\<close>.
  \<^item> \<open>Calls\<close>: what holds of a client whatever it talks to: it listens before it sends, every call ends, only
    the service's events decide a response; what a call leaves behind.
  \<^item> \<open>ClientParts\<close>: what the clients have of their own although the crate has it elsewhere (event kinds, a percent decoder),
    and that it agrees; the small operations of a handle.
  \<^item> \<open>Tasks\<close>, \<open>Concurrent\<close>: any number of tasks on one client. A task is the tree of its atomic steps, a pool runs tasks under
    any schedule, and assertions are of the rely and guarantee kind; the locale \<open>awaiting\<close> is what an exchange
    needs of the wait that ends it. Calls and commands that interleave in any way keep what each promises alone, take only
    answers to what they sent themselves, and end under every schedule that keeps coming back to them. A wait is a loop of
    rounds, one step for each item of its stream; no bound on their number is assumed.
  \<^item> \<open>Session\<close>, \<open>Notices\<close>: a client and a service together. A call returns what the pipeline answered; a
    subscription published by a client takes effect in the service; a notification reaches the reader its
    cause names, and passes the filter that reader opened.
  \<^item> \<open>Texts\<close>: what the errors of the crate say, and what a client without a grant reads.
  \<^item> \<open>JsonText\<close>, \<open>JsonPretty\<close>: the vendored \<^verbatim>\<open>serde_json\<close> as text, the compact and the indented writer and the reader with its
    limit on nesting; what is written is read back exactly as deep as that limit allows.
  \<^item> \<open>Wire\<close>: client and service, for control calls and wallet calls, over that text in place of the parameter \<open>codec\<close>.
  \<^item> \<open>Conformance\<close>: the published examples of both specifications (\<^verbatim>\<open>vectors/nnc.json\<close>, \<^verbatim>\<open>vectors/nwc.json\<close>) as trees, and
    a lemma, by evaluation, that the crate reads every one of them.
  \<^item> \<open>Vectors\<close>: the two programs that make those files from the documents (\<^verbatim>\<open>examples/generate_nnc_vectors.rs\<close>,
    \<^verbatim>\<open>examples/generate_nwc_vectors.rs\<close>): sections, labelled blocks, jsonc repairs, output. A value a document shows is
    read as itself under conditions on its strings, and what happens beyond them is shown on examples.
  \<^item> This theory: what holds of the service as a whole.

  \<^bold>\<open>Parameters.\<close> NIP-44, the signer, the relay client's successes, the clock, JSON text in both directions and
  the wording of library errors are arguments of the definitions that use them (\<open>env\<close> and \<open>codec\<close> in
  \<open>Transport\<close>, \<open>cenv\<close> in \<open>Link\<close>); \<open>Wire\<close> puts the modelled JSON text in their place, where only the text of
  floating point numbers is still an argument; there a typed read is reading the tree and then decoding it, while the program
  skips unknown fields unread, past the limit on nesting too, and so accepts some texts the model refuses; no property assumes more of them than its statement says. A node is any state type with any
  functions on it. Functions that take \<open>&mut self\<close> return the state afterwards; an async function is the
  function it computes between two inputs of the loop, which is how the single task that runs \<open>Service::run\<close>
  executes it: it awaits each event's handling before it takes the next. The answers of the relay client to a client
  are functions of the calls made so far, its streams any sequence of items. The service's recursions are
  structural; its run loop, which may go on forever, is a step function with reachability. The loops of the
  clients are \<open>partial_function (option)\<close>, where not returning is a value, so no fuel is needed, and that
  they return is proved from the clock reaching the deadline (\<open>calls_end\<close>), among other tasks also from a schedule that is fair
  to the call (\<open>concurrent_calls_end\<close>). Steps of concurrent tasks are sequentially
  consistent; the flag they share is a relaxed atomic in the code, but what it guards goes through the relay client, which
  synchronises on its own.

  \<^bold>\<open>Not modelled\<close>: signatures (verified by the relay client before an event reaches the crate), log
  messages, notifications a handler sends while it runs (they read the mirror and change no
  state modelled here), streams of notifications and waits for outcomes among the concurrent tasks (each works on a stream
  of its own, so they are modelled alone; a task whose future is dropped is one that gets no further step), tests beyond
  the examples they check, the text of floating point numbers, and the vendored crates beyond what the theories name.
\<close>

section \<open>The service as a whole\<close>

text \<open>C1: nothing makes the node act but a request its owner provided for. Whatever a run receives, if a
  step changes the node's state, that step took a wallet or control request that decrypts and parses, and
  among the events received before it is a grant, signed by a configured owner and addressed to this node,
  naming the requester or \<open>OTHERS\<close>, whose map for that very protocol permits the requested method.\<close>

theorem node_acts_only_on_grants:
  assumes "reachable codec sv me n hist s" "loop_step codec env sv i s = Some s'" "st_node s' \<noteq> st_node s"
  shows "\<exists>event request g. i = INotification (Some (NEvent event)) \<and>
    ev_kind event \<in> {WALLET_REQUEST_KIND, CONTROL_REQUEST_KIND} \<and>
    request_of codec env event = Some request \<and> g \<in> set hist \<and> ev_pubkey g \<in> set (sv_owners sv) \<and>
    (admitted me (sv_owners sv) (to_hex (ev_pubkey event)) g \<or> admitted me (sv_owners sv) OTHERS g) \<and>
    permits ((if ev_kind event = WALLET_REQUEST_KIND then methods else control)
      (vg_profile (verified_of (parse codec) g))) (method_as_str (rq_method request))"
  using assms by (rule act_has_grant)

theorem node_acts_only_on_grants_witness:
  "\<exists>g \<in> set demo_stored. ev_pubkey g \<in> set (sv_owners (demo_service [2]))"
  using node_acts_only_on_grants [OF demo_reachable, of demo_env "[2]"
      "INotification (Some (NEvent demo_request))" "on_event demo_codec demo_env (demo_service [2]) demo_request
        (demo_state [2])"]
  by (auto simp: demo_acts demo_node)

text \<open>C18: a service configured without owners never does anything: in every state it can reach the node is
  as it was when the service started, and every request is refused.\<close>

theorem no_owners_node_untouched:
  fixes sv :: "('n, 's) Service"
  assumes "reachable codec sv me n hist s" "sv_owners sv = []"
  shows "st_node s = n \<and> (\<forall>(h :: ('n, 's) Handler) event request env.
    \<not> is_ok (fst (handle_op (op_of env h event request s) (st_usage s, st_node s))))"
proof -
  have "resolve (st_grants s) pk = Inl Unauthorized" if "reachable codec sv me n hist s" for hist s pk
    using resolve_source [of "parse codec" hist me "[]" pk] assms(2)
    by (cases "resolve (st_grants s) pk")
      (auto simp: reachable_grants [OF that] admitted_def resolve_get_raw split: option.splits)
  then have refused: "\<not> is_ok (fst (handle_op (op_of env h event request s) (st_usage s, st_node s)))"
    if "reachable codec sv me n hist s" for env event request hist s and h :: "('n, 's) Handler"
    using that traces_are_permitted [of "op_of env h event request s" "st_usage s" "st_node s"]
    by (auto simp: op_of_def)
  from assms(1) have "st_node s = n"
  proof (induction rule: reachable.induct)
    case (start env found up out s)
    from start_ok [OF start] show ?case by simp
  next
    case (step hist s env i s')
    then show ?case
      using act_has_grant [OF step.hyps(1,2)] assms(2) by (auto simp: admitted_def)
  qed
  with refused [OF assms(1)] show ?thesis by blast
qed

theorem no_owners_node_untouched_witness:
  "st_node (demo_state []) = 0"
  using no_owners_node_untouched [OF demo_reachable, of "[]"]
  by (simp add: demo_service_def service_new_def service_wallet_def)

text \<open>C26: the notifier never works from a stale copy. In every reachable state the mirror equals the grants and
  subscriptions requests are served from, and the grants are exactly what the whole history of received
  events makes them.\<close>

theorem mirror_is_current:
  assumes "reachable codec sv me n hist s"
  shows "d_grants (st_delivery s) = st_grants s \<and> d_subs (st_delivery s) = st_subs s \<and>
    st_grants s = apply_grants (parse codec) hist (grants_new me (sv_owners sv))"
  using reachable_ok [OF assms] by (auto simp: mirrored_def registries_ok_def)

theorem mirror_is_current_witness:
  "d_grants (st_delivery (demo_state [2])) = st_grants (demo_state [2])"
  using mirror_is_current [OF demo_reachable, of "[2]"] by simp

text \<open>C12: delivery by every route that applies, once. In a reachable state a notification goes to each
  controller entitled to it now, and to the caller of the command it results from whether or not it is
  subscribed; nobody gets it twice; each event names its cause, by an \<open>e\<close> tag for the caller's request, an
  \<open>a\<close> tag for the recipient's own subscription, both for a caller that is subscribed; and the count returned
  is the number of events the relays accepted.\<close>

theorem deliver_exactly_once:
  assumes "reachable codec sv me n hist s" "key_order (sub_order env)" "get_public_key env = Some me"
    and "\<And>to. nip44_encrypt env to (print codec (dl_json ntf)) = Some (cipher to)"
  shows "\<exists>rs. distinct (map fst rs) \<and>
    (\<forall>pk cause. (pk, cause) \<in> set rs \<longleftrightarrow>
       (if map_option fst caller = Some pk
        then cause = (if should_receive (st_subs s) pk (dl_type ntf) (st_grants s)
          then Both (snd (the caller)) else Command (snd (the caller)))
        else should_receive (st_subs s) pk (dl_type ntf) (st_grants s) \<and> cause = Subscription)) \<and>
    deliver codec env (st_delivery s) ntf caller =
      (map (\<lambda>(to, cause). \<lparr>eb_kind = dl_kind ntf, eb_content = cipher to,
         eb_tags = tag_public_key to # cause_tags me to cause\<rparr>) rs,
       length (filter (\<lambda>(to, cause). send_event_builder env \<lparr>eb_kind = dl_kind ntf, eb_content = cipher to,
         eb_tags = tag_public_key to # cause_tags me to cause\<rparr>) rs))"
proof -
  let ?d = "\<lparr>d_grants = st_grants s, d_subs = st_subs s\<rparr>"
  let ?rs = "delivery_list env ?d (dl_type ntf) caller"
  from reachable_ok [OF assms(1)] have d: "st_delivery s = ?d" and wf: "subs_wf (st_subs s)"
    by (auto simp: mirrored_def registries_ok_def)
  note exact = delivery_list_exact [of env ?d, OF assms(2), simplified, OF wf]
  show ?thesis
  proof (intro exI [of _ ?rs] conjI allI)
    show "distinct (map fst ?rs)" by (rule exact(1))
    show "(pk, cause) \<in> set ?rs \<longleftrightarrow>
       (if map_option fst caller = Some pk
        then cause = (if should_receive (st_subs s) pk (dl_type ntf) (st_grants s)
          then Both (snd (the caller)) else Command (snd (the caller)))
        else should_receive (st_subs s) pk (dl_type ntf) (st_grants s) \<and> cause = Subscription)" for pk cause
      by (cases caller) (auto simp: exact(2))
  qed (simp add: deliver_def d notify_all_sends [OF assms(3,4)] comp_def split_def)
qed

theorem deliver_exactly_once_witness:
  "\<exists>rs. distinct (map fst rs) \<and>
    fst (deliver demo_codec demo_env (st_delivery (demo_state [2]))
      \<lparr>dl_kind = NOTIFICATION_KIND, dl_type = ''channel_opened'', dl_json = JNull\<rparr> (Some (3, 9))) =
    map (\<lambda>(to, cause). \<lparr>eb_kind = NOTIFICATION_KIND, eb_content = ''text'',
      eb_tags = tag_public_key to # cause_tags 1 to cause\<rparr>) rs"
  using deliver_exactly_once [OF demo_reachable [of "[2]"], where env = demo_env
      and ntf = "\<lparr>dl_kind = NOTIFICATION_KIND, dl_type = ''channel_opened'', dl_json = JNull\<rparr>"
      and cipher = "\<lambda>_. ''text''" and caller = "Some (3, 9)"]
  by (auto simp: demo_env_def demo_codec_def key_order_sorted_keys)

text \<open>C9: revoking ends both routes at once. When a grant event that is admitted for a controller, not older
  than the one in force and empty or unreadable, is received, then in the very next state every request of
  that controller on either protocol is refused without touching the node, and no notification of any type
  is addressed to it as a subscriber.\<close>

theorem revocation_ends_both_routes:
  fixes sv :: "('n, 's) Service"
  assumes "reachable codec sv me n hist s" "admitted me (sv_owners sv) (to_hex pk) e"
    and "\<not> older_than e (get_raw (st_grants s) (to_hex pk))"
    and "profile_is_empty (vg_profile (verified_of (parse codec) e))"
    and "loop_step codec env sv (INotification (Some (NEvent e))) s = Some s'"
  shows "(\<forall>(h :: ('n, 's) Handler) name. \<not> is_ok (authorize h (st_grants s') pk name)) \<and>
    (\<forall>ty. \<not> should_receive (d_subs (st_delivery s')) pk ty (d_grants (st_delivery s')))"
proof -
  have kind: "ev_kind e = GRANT_KIND" using assms(2) by (simp add: admitted_def)
  note g = reachable_grants [OF assms(1)]
  have "get_raw (snd (apply_grant (parse codec) e (st_grants s))) (to_hex pk) = Some (verified_of (parse codec) e)"
    using assms(2,3) get_raw_apply [of "st_grants s" me] by (simp add: g apply_grants_frame)
  moreover have s': "s' = mirror (s\<lparr>st_grants := snd (apply_grant (parse codec) e (st_grants s))\<rparr>)"
    using assms(5) kind by (simp add: on_event_def)
  ultimately have resolved: "resolve (st_grants s') pk = Inr (verified_of (parse codec) e)"
    by (simp add: resolve_get_raw)
  moreover have "d_grants (st_delivery s') = st_grants s'"
    by (simp add: s' mirror_def)
  moreover have "\<not> is_ok (authorize h (st_grants s') pk name)" for h :: "('n, 's) Handler" and name
  proof
    assume "is_ok (authorize h (st_grants s') pk name)"
    then obtain profile rule where "authorize h (st_grants s') pk name = Inr (profile, rule)"
      by (auto simp: is_ok_iff)
    from authorized_profile [OF this] resolved empty_permits_nothing [OF assms(4)] show False
      by (cases "handler_protocol h") auto
  qed
  ultimately show ?thesis
    using empty_permits_nothing [OF assms(4)] by (simp add: should_receive_iff allows_notification_iff)
qed

theorem revocation_ends_both_routes_witness:
  "\<not> should_receive
     (d_subs (st_delivery (on_event demo_codec demo_env (demo_service [2])
       (grant_event 1 2 (to_hex 3) 20 ''none'') (demo_state [2])))) 3 ''payment_sent''
     (d_grants (st_delivery (on_event demo_codec demo_env (demo_service [2])
       (grant_event 1 2 (to_hex 3) 20 ''none'') (demo_state [2]))))"
proof -
  have owners: "sv_owners (demo_service [2]) = [2]"
    by (simp add: demo_service_def service_new_def service_wallet_def)
  have "\<not> older_than (grant_event 1 2 (to_hex 3) 20 ''none'') (get_raw (st_grants (demo_state [2])) (to_hex 3))"
    by (simp add: reachable_grants [OF demo_reachable] apply_grants_newest demo_stored_def owners newest_def
        older_than_def verified_of_def grant_event_def admitted_grant_event [unfolded grant_event_def])
  then show ?thesis
    using revocation_ends_both_routes [OF demo_reachable [of "[2]"], of 3 "grant_event 1 2 (to_hex 3) 20 ''none''"
        demo_env]
    by (simp add: owners verified_of_def profile_of_def profile_is_empty_def default_profile_def
        demo_codec_def grant_event_def admitted_grant_event [unfolded grant_event_def])
qed

text \<open>A requester reads the answer it was given. Whatever \<open>answer\<close> decides, \<open>reply\<close> hands over one event of
  the response kind of the request's protocol, tagged with the requester and the request; a client that can
  decrypt it and reads JSON as it was written recovers the method, the result and the error's code and text
  exactly.\<close>

lemma answer_reaches_requester:
  assumes "answer codec env sv event kind s = (response, s')"
    and "\<forall>e. rs_error response = Some e \<longrightarrow> plain_code (err_code e)"
    and "nip44_encrypt env (ev_pubkey event) (print codec (en_Response (render codec) response)) = Some c"
    and "client_decrypt c = Some (print codec (en_Response (render codec) response))"
    and "parse codec (print codec (en_Response (render codec) response)) =
      Some (en_Response (render codec) response)"
  shows "\<exists>eb. fst (reply codec env event kind response) = [eb] \<and>
    eb_kind eb = (if kind = WALLET_REQUEST_KIND then WALLET_RESPONSE_KIND else CONTROL_RESPONSE_KIND) \<and>
    eb_tags eb = [tag_public_key (ev_pubkey event), tag_event (ev_id event)] \<and>
    Option.bind (client_decrypt (eb_content eb)) (\<lambda>t. Option.bind (parse codec t) de_Response) =
      Some (rendered (render codec) response)"
  using assms(3-5) answer_reads_back [OF assms(1,2)] by (simp add: reply_def send_def)

text \<open>A restart can lose a live subscription. Stored events are applied oldest first, grants and
  subscriptions together, so a subscription older than the grant that entitles it, which is what any later
  edit of the grant leaves behind, is judged while no grant is known yet and dropped: the grant ends up in
  force and the subscription does not, though judged against the grant it is good.\<close>

lemma refresh_loses_subscription:
  assumes "st_grants s = grants_new me owners" "ev_kind g = GRANT_KIND" "ev_kind sub = SUBSCRIPTION_KIND"
    and "ev_created_at sub < ev_created_at g"
    and "fst (apply_sub (nip44_decrypt env) (parse codec) sub
      (snd (apply_grant (parse codec) g (grants_new me owners))) (st_subs s)) = Inr k"
  shows "st_grants (refresh codec env (Some [g, sub]) s) = snd (apply_grant (parse codec) g (grants_new me owners)) \<and>
    st_subs (refresh codec env (Some [g, sub]) s) = st_subs s"
proof -
  have "sort_key ev_created_at [g, sub] = [sub, g]"
    using assms(4) by (simp add: not_le)
  moreover have "snd (apply_sub d p sub (grants_new me owners) (st_subs s)) = st_subs s" for d p
    by (simp add: apply_sub_def resolve_def grants_new_def split: option.split)
  ultimately show ?thesis
    using assms(1-3) by (simp add: refresh_def apply_stored_def kind_defs)
qed

text \<open>C35: what a service advertises is what it serves. The words of a wallet's info event, separated by spaces, are exactly the
  names of the functions of the impl block the macro was given, all but the four that are not methods, and none
  for a block without any. The pipeline answers every name that is not advertised \<open>NOT_IMPLEMENTED\<close>, one of those four
  that is written in the block included, and leaves everything as it was. A name that is advertised it judges by
  the grants; permitted, with well-formed parameters and a call left, it goes to the node. Without a wallet no wallet
  info event is sent. The functions' names are Rust identifiers, so not empty and without a space.\<close>

theorem advertised_is_served:
  fixes w :: "('n, 's) WalletService"
  assumes "service items = Some (items', names)" "ws_methods w = names"
    and "\<forall>name. ImplFn name \<in> set items \<longrightarrow> name \<noteq> [] \<and> CHR '' '' \<notin> set name"
  defines "advertised \<equiv> set (filter (\<lambda>word. word \<noteq> []) (split_on CHR '' '' (eb_content (wallet_info w))))"
  shows "advertised = {name. ImplFn name \<in> set items \<and> name \<notin> {''prepare'', ''methods'', ''call'', ''notifications''}} \<and>
    (method_as_str m \<notin> advertised \<longrightarrow>
      handle (HWallet w) g c rid m params now u n = (Inl (not_implemented (method_as_str m)), u, n)) \<and>
    (method_as_str m \<in> advertised \<longrightarrow>
      (case authorize (HWallet w) g c (method_as_str m) of
         Inl d \<Rightarrow> handle (HWallet w) g c rid m params now u n = (Inl (deny d), u, n)
       | Inr (profile, rule) \<Rightarrow>
           is_ok (validate (HWallet w) m params) \<longrightarrow> fst (rate_step u c (method_as_str m) rule now) \<longrightarrow>
           (\<exists>asks. snd (snd (snd (handle (watch (HWallet w)) g c rid m params now u (n, [])))) =
              Quote (method_as_str m) params \<lparr>caller_controller = c, caller_request_id = rid\<rparr> # asks))) \<and>
    (sv_wallet sv = None \<longrightarrow> WALLET_INFO_KIND \<notin> eb_kind ` set (fst (publish_info env sv)))"
proof (intro conjI impI)
  have names: "set names = {name. ImplFn name \<in> set items \<and> name \<notin> set NOT_A_METHOD}"
    using assms(1)
    by (force simp: service_def service_names_def List.map_filter_def split: if_splits ImplItem.splits)
  then have "list_all (\<lambda>x. CHR '' '' \<notin> set x) names" "[] \<notin> set names"
    using assms(3) by (auto simp: list_all_iff)
  then have words: "advertised = set names"
    using assms(2) by (cases "names = []") (auto simp: advertised_def wallet_info_def split_on_join)
  with names show "advertised = {name. ImplFn name \<in> set items \<and>
      name \<notin> {''prepare'', ''methods'', ''call'', ''notifications''}}"
    by (simp add: NOT_A_METHOD_def)
  have implements: "implements (HWallet w) name \<longleftrightarrow> name \<in> advertised" for name
    using assms(2) by (simp add: words implements_def)
  then show "handle (HWallet w) g c rid m params now u n = (Inl (not_implemented (method_as_str m)), u, n)"
    if "method_as_str m \<notin> advertised"
    using that by (simp add: handle_def Let_def)
  show "case authorize (HWallet w) g c (method_as_str m) of
         Inl d \<Rightarrow> handle (HWallet w) g c rid m params now u n = (Inl (deny d), u, n)
       | Inr (profile, rule) \<Rightarrow>
           is_ok (validate (HWallet w) m params) \<longrightarrow> fst (rate_step u c (method_as_str m) rule now) \<longrightarrow>
           (\<exists>asks. snd (snd (snd (handle (watch (HWallet w)) g c rid m params now u (n, [])))) =
              Quote (method_as_str m) params \<lparr>caller_controller = c, caller_request_id = rid\<rparr> # asks)"
    if "method_as_str m \<in> advertised"
    using that implements [of "method_as_str m"]
      handle_recorded [of "\<lparr>op_handler = HWallet w, op_grants = g, op_controller = c, op_request_id = rid, op_method = m,
        op_params = params, op_now = now\<rparr>" u n "[]"]
    by (auto simp: reaches_node_def handle_op_def watch_op_def handle_def [of "HWallet w"] Let_def split: sum.split)
  show "WALLET_INFO_KIND \<notin> eb_kind ` set (fst (publish_info env sv))" if "sv_wallet sv = None"
    using that by (simp add: publish_info_def and_then_def send_def control_info_def kind_defs split: option.split)
qed

text \<open>A block with \<open>prepare\<close> and one method, and the empty block.\<close>

theorem advertised_is_served_witness:
  "set (filter (\<lambda>word. word \<noteq> []) (split_on CHR '' '' (eb_content (wallet_info demo_wallet)))) = {''get_balance''} \<and>
   handle (HWallet demo_wallet) demo_grants 7 None (UnknownMethod ''prepare'') (JObj []) 100 usage_new 0 =
     (Inl (not_implemented ''prepare''), usage_new, 0) \<and>
   handle (HWallet (wallet_defaults [] :: (nat, unit) WalletService)) demo_grants 7 None (UnknownMethod ''get_balance'') (JObj [])
     100 usage_new 0 = (Inl (not_implemented ''get_balance''), usage_new, 0)"
proof -
  note defs = service_def service_names_def List.map_filter_def NOT_A_METHOD_def
  have one: "service [ImplFn ''prepare'', ImplFn ''get_balance''] =
      Some ([ImplFn ''prepare'', ImplFn ''get_balance'', ImplFn ''methods''], [''get_balance''])"
    by (simp add: defs)
  have none: "service [] = Some ([ImplFn ''methods''], [])" by (simp add: defs)
  have methods: "ws_methods demo_wallet = [''get_balance'']" "ws_methods (wallet_defaults [] :: (nat, unit) WalletService) = []"
    by (simp_all add: demo_wallet_def wallet_defaults_def)
  have names: "\<forall>name. ImplFn name \<in> set [ImplFn ''prepare'', ImplFn ''get_balance''] \<longrightarrow> name \<noteq> [] \<and> CHR '' '' \<notin> set name"
    by auto
  note served = advertised_is_served [OF one methods(1) names]
  have advertised: "set (filter (\<lambda>word. word \<noteq> []) (split_on CHR '' '' (eb_content (wallet_info demo_wallet)))) = {''get_balance''}"
    using served [THEN conjunct1] by auto
  moreover have "method_as_str (UnknownMethod ''prepare'') \<notin>
      set (filter (\<lambda>word. word \<noteq> []) (split_on CHR '' '' (eb_content (wallet_info demo_wallet))))"
    unfolding advertised by simp
  then have "handle (HWallet demo_wallet) demo_grants 7 None (UnknownMethod ''prepare'') (JObj []) 100 usage_new 0 =
      (Inl (not_implemented (method_as_str (UnknownMethod ''prepare''))), usage_new, 0)"
    by (rule served [THEN conjunct2, THEN conjunct1, THEN mp])
  moreover have "handle (HWallet (wallet_defaults [] :: (nat, unit) WalletService)) demo_grants 7 None
      (UnknownMethod ''get_balance'') (JObj []) 100 usage_new 0 =
      (Inl (not_implemented (method_as_str (UnknownMethod ''get_balance''))), usage_new, 0)"
    by (rule advertised_is_served [OF none methods(2), THEN conjunct2, THEN conjunct1, rule_format])
      (simp_all add: wallet_info_def methods(2))
  ultimately show ?thesis by simp
qed

text \<open>C21: a response is one thing. Whatever event is answered, by whichever path, the response carries exactly one
  of a result and an error, its result is a well-formed JSON value other than \<open>null\<close>, and it names the method
  of the request, or no method when there was no request to read.\<close>

theorem response_well_formed:
  "(let response = fst (answer codec env sv event kind s)
    in (rs_result response = None) \<noteq> (rs_error response = None) \<and> opt_value_wf (rs_result response) \<and>
       rs_result_type response =
         (case request_of codec env event of None \<Rightarrow> UnknownMethod [] | Some r \<Rightarrow> rq_method r))"
proof -
  obtain response s' where a: "answer codec env sv event kind s = (response, s')" by fastforce
  have "(rs_result response = None) \<noteq> (rs_error response = None) \<and>
      rs_result_type response = (case request_of codec env event of None \<Rightarrow> UnknownMethod [] | Some r \<Rightarrow> rq_method r)"
    using a by (cases rule: answer_cases [of codec env sv event kind s])
      (auto simp: response_err_def response_ok_def split: sum.splits)
  with answer_result_wf [OF a] a show ?thesis by (simp add: Let_def)
qed

end
